(* ===== verification/Go_Prelude.thy ===== *)
theory Go_Prelude
  imports Main "HOL-Library.Word" "HOL-Library.Multiset"
begin

text \<open>
  The shared vocabulary of the development: the outcome of running a piece of Go code
  (a value, a panic, or blocking for ever on a mutex the goroutine already holds), the
  wrap-around of \<^verbatim>\<open>int64\<close>, Go's truncating remainder, time and durations as integer
  nanoseconds, and decimal printing. The lemma collections at the top gather what the
  component theories hand to \<open>simp\<close>.
\<close>

named_theorems outcome_simps "unfolding rules of the outcome monad"
named_theorems go_defs "small helper definitions the simplifier may unfold"

section \<open>Outcomes\<close>

text \<open>
  \<open>Ret\<close> is a normal return (an \<^verbatim>\<open>error\<close> result of Go is part of the returned value),
  \<open>Panic\<close> a run-time panic that unwinds the goroutine and \<open>Block\<close> a goroutine that waits
  for a mutex which only itself could release.
\<close>

datatype 'a outcome = Ret 'a | Panic string | Block

fun bind_outcome :: "'a outcome \<Rightarrow> ('a \<Rightarrow> 'b outcome) \<Rightarrow> 'b outcome" where
  "bind_outcome (Ret x) f = f x"
| "bind_outcome (Panic m) f = Panic m"
| "bind_outcome Block f = Block"

lemma bind_outcome_Ret_iff [outcome_simps]:
  "bind_outcome m f = Ret y \<longleftrightarrow> (\<exists>x. m = Ret x \<and> f x = Ret y)"
  by (cases m) auto

lemma bind_outcome_assoc:
  "bind_outcome (bind_outcome m f) g = bind_outcome m (\<lambda>x. bind_outcome (f x) g)"
  by (cases m) auto

lemma bind_outcome_Ret_right [simp]: "bind_outcome m Ret = m"
  by (cases m) auto

definition returns :: "'a outcome \<Rightarrow> bool" where
  "returns m = (case m of Ret _ \<Rightarrow> True | _ \<Rightarrow> False)"

lemma returns_simps [simp]:
  "returns (Ret x)" "\<not> returns (Panic m)" "\<not> returns Block"
  by (simp_all add: returns_def)

lemma returns_iff: "returns m \<longleftrightarrow> (\<exists>x. m = Ret x)"
  by (cases m) auto

text \<open>A Go function that may fail returns a value or an error.\<close>

type_synonym ('e, 'a) result = "'e + 'a"

definition is_ok :: "('e, 'a) result \<Rightarrow> bool" where
  "is_ok r = (case r of Inr _ \<Rightarrow> True | Inl _ \<Rightarrow> False)"

lemma is_ok_simps [simp]: "is_ok (Inr x)" "\<not> is_ok (Inl e)"
  by (simp_all add: is_ok_def)

lemma case_result_Inr_iff [outcome_simps]:
  "(case r of Inl e \<Rightarrow> Inl (f e) | Inr x \<Rightarrow> Inr (g x)) = Inr y \<longleftrightarrow> (\<exists>x. r = Inr x \<and> g x = y)"
  by (cases r) auto

section \<open>Machine integers\<close>

text \<open>
  An \<^verbatim>\<open>int64\<close> (and \<^verbatim>\<open>int\<close>, \<^verbatim>\<open>time.Duration\<close> on a 64-bit target) is an integer kept in
  range by \<open>wrap64\<close>; \<open>go_rem\<close> is Go's \<^verbatim>\<open>%\<close>, whose sign follows the dividend.
\<close>

definition max_int64 :: int where "max_int64 = 2 ^ 63 - 1"

definition wrap64 :: "int \<Rightarrow> int" where
  "wrap64 x = (x + 2 ^ 63) mod 2 ^ 64 - 2 ^ 63"

definition in_int64 :: "int \<Rightarrow> bool" where
  "in_int64 x \<longleftrightarrow> - (2 ^ 63) \<le> x \<and> x \<le> max_int64"

lemma wrap64_id: "in_int64 x \<Longrightarrow> wrap64 x = x"
  by (simp add: wrap64_def in_int64_def max_int64_def)

lemma wrap64_range: "in_int64 (wrap64 x)"
proof -
  have "0 \<le> (x + 2 ^ 63) mod (2 ^ 64 :: int)" "(x + 2 ^ 63) mod (2 ^ 64 :: int) < 2 ^ 64"
    by simp_all
  then show ?thesis
    by (simp add: wrap64_def in_int64_def max_int64_def)
qed

lemma wrap64_max: "wrap64 (max_int64 + 1) = - (2 ^ 63)"
  by (simp add: wrap64_def max_int64_def)

definition go_rem :: "int \<Rightarrow> int \<Rightarrow> int" where
  "go_rem a b = sgn a * (\<bar>a\<bar> mod \<bar>b\<bar>)"

lemma go_rem_nonneg: "0 \<le> a \<Longrightarrow> 0 < b \<Longrightarrow> go_rem a b = a mod b"
  by (cases "a = 0") (simp_all add: go_rem_def)

definition go_quot :: "int \<Rightarrow> int \<Rightarrow> int" where
  "go_quot a b = sgn a * sgn b * (\<bar>a\<bar> div \<bar>b\<bar>)"

lemma go_quot_nonneg: "0 \<le> a \<Longrightarrow> 0 < b \<Longrightarrow> go_quot a b = a div b"
  by (cases "a = 0") (simp_all add: go_quot_def)

text \<open>Left shift of an \<^verbatim>\<open>int64\<close>: the bits pushed out are lost, a shift of 64 or more is 0.\<close>

definition go_shl :: "int \<Rightarrow> nat \<Rightarrow> int" where
  "go_shl x n = (if 64 \<le> n then 0 else wrap64 (x * 2 ^ n))"

lemma go_shl_small: "n \<le> 62 \<Longrightarrow> go_shl 1 n = 2 ^ n"
proof -
  assume n: "n \<le> 62"
  then have "(2::int) ^ n \<le> 2 ^ 62" by (intro power_increasing) simp_all
  then have up: "(2::int) ^ n \<le> 4611686018427387904" by simp
  have "- (9223372036854775808::int) \<le> 2 ^ n"
    by (rule order_trans [of _ 0]) simp_all
  with up have "in_int64 ((2::int) ^ n)"
    by (simp add: in_int64_def max_int64_def)
  then show ?thesis using n by (simp add: go_shl_def wrap64_id)
qed

section \<open>Time\<close>

text \<open>Instants are nanoseconds since the Unix epoch, durations are nanoseconds.\<close>

type_synonym instant = int
type_synonym duration = int

abbreviation millisecond :: duration where "millisecond \<equiv> 1000000"
abbreviation second :: duration where "second \<equiv> 1000000000"
abbreviation minute :: duration where "minute \<equiv> 60000000000"
abbreviation hour :: duration where "hour \<equiv> 3600000000000"

text \<open>\<^verbatim>\<open>time.Time.Unix\<close> and the zero \<^verbatim>\<open>time.Time\<close> (January 1, year 1).\<close>

definition unix_of :: "instant \<Rightarrow> int" where
  "unix_of t = t div second"

definition zero_time :: instant where
  "zero_time = - 62135596800 * second"

section \<open>Decimal printing\<close>

fun dec_digits :: "nat \<Rightarrow> string" where
  "dec_digits n = (if n < 10 then [char_of (n + 48)]
                   else dec_digits (n div 10) @ [char_of (n mod 10 + 48)])"

declare dec_digits.simps [simp del]

definition itoa :: "int \<Rightarrow> string" where
  "itoa i = (if i < 0 then CHR ''-'' # dec_digits (nat (- i)) else dec_digits (nat i))"

section \<open>Lists\<close>

lemma list_update_same_conv_map:
  "i < length xs \<Longrightarrow> map f (xs[i := y]) = (map f xs)[i := f y]"
  by (simp add: map_update)

lemma distinct_nth_inj:
  "distinct (map f xs) \<Longrightarrow> i < length xs \<Longrightarrow> j < length xs \<Longrightarrow> f (xs ! i) = f (xs ! j) \<Longrightarrow> i = j"
  by (metis length_map nth_eq_iff_index_eq nth_map)

text \<open>The positions of a list that satisfy a predicate, in order.\<close>

definition positions :: "('a \<Rightarrow> bool) \<Rightarrow> 'a list \<Rightarrow> nat list" where
  "positions p xs = [i \<leftarrow> [0..<length xs]. p (xs ! i)]"

lemma positions_set: "set (positions p xs) = {i. i < length xs \<and> p (xs ! i)}"
  by (auto simp: positions_def)

lemma positions_mem [simp]: "i \<in> set (positions p xs) \<longleftrightarrow> i < length xs \<and> p (xs ! i)"
  by (simp add: positions_set)

lemma positions_distinct [simp]: "distinct (positions p xs)"
  by (simp add: positions_def)

lemma positions_sorted: "sorted (positions p xs)"
  by (simp add: positions_def sorted_filter [of id, simplified])

lemma positions_Nil_iff: "positions p xs = [] \<longleftrightarrow> (\<forall>x\<in>set xs. \<not> p x)"
proof -
  have "positions p xs = [] \<longleftrightarrow> (\<forall>i<length xs. \<not> p (xs ! i))"
    by (auto simp: positions_def filter_empty_conv)
  then show ?thesis unfolding all_set_conv_all_nth by simp
qed

lemma positions_map: "map ((!) xs) (positions p xs) = filter p xs"
proof -
  have "map ((!) xs) (filter (p \<circ> (!) xs) [0..<length xs]) = filter p (map ((!) xs) [0..<length xs])"
    by (simp add: filter_map)
  then show ?thesis by (simp add: positions_def comp_def map_nth)
qed

lemma filter_upt_eq: "t < n \<Longrightarrow> filter (\<lambda>k. k = t) [0..<n] = [t]"
  by (induction n) (auto simp: less_Suc_eq filter_empty_conv)

text \<open>The first position that satisfies a predicate: the shape of a search loop with \<^verbatim>\<open>break\<close>.\<close>

fun find_index :: "('a \<Rightarrow> bool) \<Rightarrow> 'a list \<Rightarrow> nat option" where
  "find_index p [] = None"
| "find_index p (x # xs) = (if p x then Some 0 else map_option Suc (find_index p xs))"

lemma find_index_None [simp]: "find_index p xs = None \<longleftrightarrow> (\<forall>x\<in>set xs. \<not> p x)"
  by (induction xs) auto

lemma find_index_Some:
  "find_index p xs = Some i \<longleftrightarrow> i < length xs \<and> p (xs ! i) \<and> (\<forall>j<i. \<not> p (xs ! j))"
proof (induction xs arbitrary: i)
  case Nil
  then show ?case by simp
next
  case (Cons x xs)
  then show ?case by (cases i) (auto simp: less_Suc_eq_0_disj)
qed

lemma find_index_SomeD:
  "find_index p xs = Some i \<Longrightarrow> i < length xs \<and> p (xs ! i)"
  by (simp add: find_index_Some)

end
