(* ===== verification/Go_Strings.thy ===== *)
theory Go_Strings
  imports Go_Prelude "HOL-Library.Sublist"
begin

text \<open>
  The functions of Go's \<^verbatim>\<open>strings\<close> package the repository calls, on byte strings
  (\<open>char list\<close>). Case folding and white space are those of ASCII: the bytes of a
  multi-byte rune are left as they are.
\<close>

section \<open>Prefixes, search and case\<close>

fun hasPrefix :: "'a list \<Rightarrow> 'a list \<Rightarrow> bool" where
  "hasPrefix s [] = True"
| "hasPrefix [] (p # ps) = False"
| "hasPrefix (c # s) (p # ps) = (c = p \<and> hasPrefix s ps)"

definition hasSuffix :: "'a list \<Rightarrow> 'a list \<Rightarrow> bool" where
  "hasSuffix s p = hasPrefix (rev s) (rev p)"

definition trimPrefix :: "'a list \<Rightarrow> 'a list \<Rightarrow> 'a list" where
  "trimPrefix s p = (if hasPrefix s p then drop (length p) s else s)"

definition trimSuffix :: "'a list \<Rightarrow> 'a list \<Rightarrow> 'a list" where
  "trimSuffix s p = (if hasSuffix s p then take (length s - length p) s else s)"

text \<open>\<^verbatim>\<open>strings.CutPrefix\<close>: the remainder when the prefix is there.\<close>

definition cutPrefix :: "'a list \<Rightarrow> 'a list \<Rightarrow> 'a list option" where
  "cutPrefix s p = (if hasPrefix s p then Some (drop (length p) s) else None)"

text \<open>\<^verbatim>\<open>strings.Index\<close>, \<open>None\<close> for -1.\<close>

fun strIndex :: "'a list \<Rightarrow> 'a list \<Rightarrow> nat option" where
  "strIndex [] sub = (if sub = [] then Some 0 else None)"
| "strIndex (c # s) sub =
     (if hasPrefix (c # s) sub then Some 0 else map_option Suc (strIndex s sub))"

definition strContains :: "'a list \<Rightarrow> 'a list \<Rightarrow> bool" where
  "strContains s sub = (strIndex s sub \<noteq> None)"

definition is_upper :: "char \<Rightarrow> bool" where
  "is_upper c = (65 \<le> (of_char c :: nat) \<and> (of_char c :: nat) \<le> 90)"

definition is_lower :: "char \<Rightarrow> bool" where
  "is_lower c = (97 \<le> (of_char c :: nat) \<and> (of_char c :: nat) \<le> 122)"

definition is_digit :: "char \<Rightarrow> bool" where
  "is_digit c = (48 \<le> (of_char c :: int) \<and> (of_char c :: int) \<le> 57)"

definition char_lower :: "char \<Rightarrow> char" where
  "char_lower c = (if is_upper c then char_of ((of_char c :: nat) + 32) else c)"

definition char_upper :: "char \<Rightarrow> char" where
  "char_upper c = (if is_lower c then char_of ((of_char c :: nat) - 32) else c)"

definition toLower :: "string \<Rightarrow> string" where
  "toLower s = map char_lower s"

definition toUpper :: "string \<Rightarrow> string" where
  "toUpper s = map char_upper s"

definition is_space :: "char \<Rightarrow> bool" where
  "is_space c = ((of_char c :: nat) \<in> {9, 10, 11, 12, 13, 32})"

definition trimSpace :: "string \<Rightarrow> string" where
  "trimSpace s = rev (dropWhile is_space (rev (dropWhile is_space s)))"

section \<open>Splitting and joining\<close>

text \<open>
  \<^verbatim>\<open>strings.Split\<close> with a non-empty separator: the pieces between the non-overlapping
  occurrences found from the left. The repository never splits on the empty string; there
  the model cuts the string into its bytes.
\<close>

function strSplit :: "'a list \<Rightarrow> 'a list \<Rightarrow> 'a list list" where
  "strSplit s sep =
     (if sep = [] then map (\<lambda>c. [c]) s
      else case strIndex s sep of
        None \<Rightarrow> [s]
      | Some i \<Rightarrow> take i s # strSplit (drop (i + length sep) s) sep)"
  by pat_completeness auto
termination
proof (relation "measure (length \<circ> fst)", goal_cases)
  case 1
  show ?case by simp
next
  case (2 s sep i)
  then have "s \<noteq> []" by (cases s) auto
  with 2 show ?case by (cases sep) auto
qed

declare strSplit.simps [simp del]

fun strJoin :: "'a list list \<Rightarrow> 'a list \<Rightarrow> 'a list" where
  "strJoin [] sep = []"
| "strJoin [x] sep = x"
| "strJoin (x # y # xs) sep = x @ sep @ strJoin (y # xs) sep"

text \<open>\<^verbatim>\<open>strings.Cut\<close>: the parts around the first occurrence.\<close>

definition strCut :: "'a list \<Rightarrow> 'a list \<Rightarrow> ('a list \<times> 'a list) option" where
  "strCut s sep = (case strIndex s sep of None \<Rightarrow> None
     | Some i \<Rightarrow> Some (take i s, drop (i + length sep) s))"

text \<open>\<^verbatim>\<open>strings.ReplaceAll\<close> of one byte by another.\<close>

definition replaceChar :: "'a \<Rightarrow> 'a \<Rightarrow> 'a list \<Rightarrow> 'a list" where
  "replaceChar a b s = map (\<lambda>c. if c = a then b else c) s"

section \<open>Facts\<close>

lemma hasPrefix_iff_take: "hasPrefix s p \<longleftrightarrow> take (length p) s = p"
  by (induction s p rule: hasPrefix.induct) auto

lemma hasPrefix_append [simp]: "hasPrefix (p @ s) p"
  by (induction p) auto

lemma hasPrefix_iff: "hasPrefix s p \<longleftrightarrow> (\<exists>t. s = p @ t)"
  by (metis append_take_drop_id hasPrefix_append hasPrefix_iff_take)

lemma trimPrefix_append [simp]: "trimPrefix (p @ s) p = s"
  by (simp add: trimPrefix_def)

lemma cutPrefix_append [simp]: "cutPrefix (p @ s) p = Some s"
  by (simp add: cutPrefix_def)

lemma cutPrefix_Some: "cutPrefix s p = Some t \<longleftrightarrow> s = p @ t"
  by (auto simp: cutPrefix_def hasPrefix_iff)

lemma strIndex_Some:
  "strIndex s sub = Some i \<longleftrightarrow>
     i \<le> length s \<and> hasPrefix (drop i s) sub \<and> (\<forall>j<i. \<not> hasPrefix (drop j s) sub)"
proof (induction s arbitrary: i)
  case Nil
  then show ?case by (cases sub) auto
next
  case (Cons c s)
  then show ?case by (cases i) (auto simp: less_Suc_eq_0_disj)
qed

lemma strIndex_None:
  "strIndex s sub = None \<longleftrightarrow> (\<forall>j\<le>length s. \<not> hasPrefix (drop j s) sub)"
proof (induction s)
  case Nil
  then show ?case by (cases sub) auto
next
  case (Cons c s)
  have "(\<forall>j\<le>length (c # s). \<not> hasPrefix (drop j (c # s)) sub) \<longleftrightarrow>
    \<not> hasPrefix (c # s) sub \<and> (\<forall>j\<le>length s. \<not> hasPrefix (drop j s) sub)"
    by (metis (no_types, lifting) Suc_le_mono drop0 drop_Suc_Cons length_Cons not0_implies_Suc zero_le)
  with Cons show ?case by auto
qed

lemma strIndex_SomeE:
  assumes "strIndex s sub = Some i"
  shows "s = take i s @ sub @ drop (i + length sub) s"
proof -
  from assms have "hasPrefix (drop i s) sub" by (simp add: strIndex_Some)
  then have "drop i s = sub @ drop (length sub) (drop i s)"
    by (metis append_take_drop_id hasPrefix_iff_take)
  then show ?thesis by (metis add.commute append_take_drop_id drop_drop)
qed

text \<open>Substring search in the library's terms.\<close>

lemma strContains_sublist: "strContains s sub \<longleftrightarrow> sublist sub s"
proof
  assume "strContains s sub"
  then obtain i where "strIndex s sub = Some i" by (auto simp: strContains_def)
  then show "sublist sub s" using strIndex_SomeE by (metis sublist_appendI)
next
  assume "sublist sub s"
  then obtain a b where s: "s = a @ sub @ b" by (auto simp: sublist_def)
  then have "hasPrefix (drop (length a) s) sub" by simp
  moreover have "length a \<le> length s" using s by simp
  ultimately have "strIndex s sub \<noteq> None" unfolding strIndex_None by blast
  then show "strContains s sub" by (simp add: strContains_def)
qed

lemma strSplit_None: "sep \<noteq> [] \<Longrightarrow> strIndex s sep = None \<Longrightarrow> strSplit s sep = [s]"
  by (subst strSplit.simps) simp

lemma strSplit_Some:
  "sep \<noteq> [] \<Longrightarrow> strIndex s sep = Some i \<Longrightarrow>
     strSplit s sep = take i s # strSplit (drop (i + length sep) s) sep"
  by (subst strSplit.simps) simp

lemma strSplit_not_Nil: "sep \<noteq> [] \<Longrightarrow> strSplit s sep \<noteq> []"
  by (subst strSplit.simps) (simp split: option.split)

lemma strJoin_Cons: "xs \<noteq> [] \<Longrightarrow> strJoin (x # xs) sep = x @ sep @ strJoin xs sep"
  by (cases xs) auto

lemma strJoin_strSplit: "sep \<noteq> [] \<Longrightarrow> strJoin (strSplit s sep) sep = s"
proof (induction s sep rule: strSplit.induct)
  case (1 s sep)
  show ?case
  proof (cases "strIndex s sep")
    case None
    with 1 show ?thesis by (simp add: strSplit_None)
  next
    case (Some i)
    with 1 have "strJoin (strSplit (drop (i + length sep) s) sep) sep = drop (i + length sep) s"
      by simp
    with 1(2) Some show ?thesis
      by (simp add: strSplit_Some strJoin_Cons strSplit_not_Nil strIndex_SomeE [symmetric])
  qed
qed

text \<open>
  A piece that does not contain the separator, even across the seam, is found again.
  \<open>cuts_at x sep\<close>: in \<open>x @ sep @ r\<close> the first occurrence of \<open>sep\<close> is the written one.
\<close>

definition cuts_at :: "'a list \<Rightarrow> 'a list \<Rightarrow> bool" where
  "cuts_at x sep \<longleftrightarrow> (\<forall>j<length x. \<not> hasPrefix (drop j x @ sep) sep)"

lemma strIndex_cuts_at:
  assumes "cuts_at x sep"
  shows "strIndex (x @ sep @ r) sep = Some (length x)"
proof -
  have "\<not> hasPrefix (drop j (x @ sep @ r)) sep" if j: "j < length x" for j
  proof -
    from assms j have "\<not> hasPrefix (drop j x @ sep) sep" by (simp add: cuts_at_def)
    then have "take (length sep) (drop j x @ sep) \<noteq> sep" by (simp add: hasPrefix_iff_take)
    moreover have "take (length sep) (drop j x @ sep @ r) = take (length sep) (drop j x @ sep)"
      by simp
    ultimately show ?thesis using j by (simp add: hasPrefix_iff_take)
  qed
  then show ?thesis by (simp add: strIndex_Some)
qed

lemma strSplit_cuts_at:
  "cuts_at x sep \<Longrightarrow> sep \<noteq> [] \<Longrightarrow> strSplit (x @ sep @ r) sep = x # strSplit r sep"
  by (simp add: strSplit_Some strIndex_cuts_at)

lemma strSplit_strJoin:
  assumes "sep \<noteq> []" and "xs \<noteq> []"
    and "\<forall>x\<in>set xs. cuts_at x sep" and "strIndex (last xs) sep = None"
  shows "strSplit (strJoin xs sep) sep = xs"
  using assms
proof (induction xs)
  case Nil
  then show ?case by simp
next
  case (Cons x xs)
  show ?case
  proof (cases "xs = []")
    case True
    with Cons.prems show ?thesis by (simp add: strSplit_None)
  next
    case False
    with Cons have IH: "strSplit (strJoin xs sep) sep = xs" by simp
    have "strIndex (strJoin (x # xs) sep) sep = Some (length x)"
      using Cons.prems False by (simp add: strJoin_Cons strIndex_cuts_at)
    then show ?thesis
      using Cons.prems(1) False IH by (simp add: strSplit_Some strJoin_Cons)
  qed
qed

lemma cuts_at_single: "c \<notin> set x \<Longrightarrow> cuts_at x [c]"
  unfolding cuts_at_def
  by (metis append_Cons append_is_Nil_conv drop_eq_Nil hasPrefix.simps(3) in_set_dropD leD
      list.set_intros(1) neq_Nil_conv)

lemma strIndex_single_None: "strIndex s [c] = None \<longleftrightarrow> c \<notin> set s"
  by (induction s) auto

lemma strIndex_single_Some:
  "c \<notin> set x \<Longrightarrow> strIndex (x @ c # r) [c] = Some (length x)"
  by (induction x) auto

lemma strSplit_single_head:
  "c \<notin> set x \<Longrightarrow> strSplit (x @ c # r) [c] = x # strSplit r [c]"
  by (subst strSplit.simps) (simp add: strIndex_single_Some)

lemma strSplit_single_None: "c \<notin> set x \<Longrightarrow> strSplit x [c] = [x]"
  by (simp add: strSplit_None strIndex_single_None)

lemma toLower_Nil [simp]: "toLower [] = []" and toUpper_Nil [simp]: "toUpper [] = []"
  by (simp_all add: toLower_def toUpper_def)

lemma length_toLower [simp]: "length (toLower s) = length s"
  by (simp add: toLower_def)

lemma trimSpace_Nil [simp]: "trimSpace [] = []"
  by (simp add: trimSpace_def)

lemma trimSpace_hd:
  assumes "trimSpace s \<noteq> []"
  shows "\<not> is_space (hd (trimSpace s))"
proof -
  let ?t = "dropWhile is_space s"
  let ?u = "dropWhile is_space (rev ?t)"
  have u: "trimSpace s = rev ?u" by (simp add: trimSpace_def)
  obtain v where v: "rev ?t = v @ ?u" by (metis takeWhile_dropWhile_id)
  then have t: "?t = rev ?u @ rev v" by (metis rev_append rev_rev_ident)
  from assms u have ne: "rev ?u \<noteq> []" by simp
  with t have "hd ?t = hd (rev ?u)" and "?t \<noteq> []" by (metis hd_append2, metis append_is_Nil_conv)
  then show ?thesis using u hd_dropWhile by metis
qed

lemma trimSpace_id:
  assumes "s \<noteq> []" "\<not> is_space (hd s)" "\<not> is_space (last s)"
  shows "trimSpace s = s"
proof -
  from assms have "dropWhile is_space s = s" by (cases s) auto
  moreover have "dropWhile is_space (rev s) = rev s"
    using assms(1,3) by (cases s rule: rev_cases) auto
  ultimately show ?thesis by (simp add: trimSpace_def)
qed

lemma trimSpace_no_space: "\<forall>c\<in>set s. \<not> is_space c \<Longrightarrow> trimSpace s = s"
  by (cases "s = []") (auto intro: trimSpace_id)

end
