(* ===== verification/Go_Std.thy ===== *)
theory Go_Std
  imports Go_Strings
begin

text \<open>
  The process environment and the parsers of the standard library through which it is read:
  \<^verbatim>\<open>strconv.Atoi\<close>, \<^verbatim>\<open>strconv.ParseBool\<close> and \<^verbatim>\<open>time.ParseDuration\<close>, each returning \<open>None\<close>
  where Go returns an error.
\<close>

section \<open>The environment\<close>

type_synonym environ = "string \<Rightarrow> string option"

text \<open>\<^verbatim>\<open>os.Getenv\<close>: an unset variable reads as the empty string.\<close>

definition getenv :: "environ \<Rightarrow> string \<Rightarrow> string" where
  "getenv e k = (case e k of None \<Rightarrow> [] | Some v \<Rightarrow> v)"

text \<open>The value of a variable, or of the next expression when it is empty.\<close>

definition orElse :: "string \<Rightarrow> string \<Rightarrow> string" where
  "orElse s t = (if s = [] then t else s)"

lemma orElse_simps [simp]: "orElse [] t = t" "orElse (c # s) t = c # s"
  by (simp_all add: orElse_def)

lemma orElse_Nil_iff: "orElse s t = [] \<longleftrightarrow> s = [] \<and> t = []"
  by (simp add: orElse_def)

section \<open>Integers and booleans\<close>

definition digit_val :: "char \<Rightarrow> int" where
  "digit_val c = of_char c - 48"

definition digits_val :: "string \<Rightarrow> int" where
  "digits_val s = foldl (\<lambda>n c. n * 10 + digit_val c) 0 s"

text \<open>\<^verbatim>\<open>strconv.Atoi\<close> and \<^verbatim>\<open>strconv.ParseInt(s, 10, 64)\<close>: an optional sign, digits, in range.\<close>

definition atoi :: "string \<Rightarrow> int option" where
  "atoi s =
     (let neg = hasPrefix s ''-'';
          ds = (if hasPrefix s ''-'' \<or> hasPrefix s ''+'' then drop 1 s else s)
      in if ds = [] \<or> \<not> list_all is_digit ds then None
         else let n = (if neg then - digits_val ds else digits_val ds)
              in if in_int64 n then Some n else None)"

lemma atoi_Nil [simp]: "atoi [] = None"
  by (simp add: atoi_def)

lemma atoi_range: "atoi s = Some n \<Longrightarrow> in_int64 n"
  by (auto simp: atoi_def Let_def split: if_splits)

definition parseBool :: "string \<Rightarrow> bool option" where
  "parseBool s =
     (if s \<in> {''1'', ''t'', ''T'', ''TRUE'', ''true'', ''True''} then Some True
      else if s \<in> {''0'', ''f'', ''F'', ''FALSE'', ''false'', ''False''} then Some False
      else None)"

text \<open>
  The guarded reads the configuration loaders share: the current value stays unless the
  variable is set, parses and passes the check.
\<close>

definition intVar :: "environ \<Rightarrow> string \<Rightarrow> (int \<Rightarrow> bool) \<Rightarrow> int \<Rightarrow> int" where
  "intVar e key ok cur =
     (let s = getenv e key
      in if s \<noteq> [] then (case atoi s of Some v \<Rightarrow> if ok v then v else cur | None \<Rightarrow> cur) else cur)"

lemma intVar_cases: "intVar e key ok cur = cur \<or> ok (intVar e key ok cur)"
  by (auto simp: intVar_def Let_def split: option.splits)

lemma intVar_unset: "getenv e key = [] \<Longrightarrow> intVar e key ok cur = cur"
  by (simp add: intVar_def)

section \<open>Durations\<close>

definition two63 :: int where "two63 = 9223372036854775808"

text \<open>The unit table; a micro sign is two bytes, in either of its code points.\<close>

definition unit_ns :: "string \<Rightarrow> int option" where
  "unit_ns u =
     (if u = ''ns'' then Some 1
      else if u = ''us'' \<or> u = [char_of (0xC2::nat), char_of (0xB5::nat), CHR ''s'']
              \<or> u = [char_of (0xCE::nat), char_of (0xBC::nat), CHR ''s''] then Some 1000
      else if u = ''ms'' then Some 1000000
      else if u = ''s'' then Some 1000000000
      else if u = ''m'' then Some 60000000000
      else if u = ''h'' then Some 3600000000000
      else None)"

text \<open>
  The leading digits: \<open>None\<close> when they exceed \<^verbatim>\<open>1<<63\<close>. Digits only grow a number, so the
  overflow of a prefix is the overflow of the whole.
\<close>

definition leadingInt :: "string \<Rightarrow> (int \<times> string) option" where
  "leadingInt s =
     (let v = digits_val (takeWhile is_digit s)
      in if two63 < v then None else Some (v, dropWhile is_digit s))"

text \<open>The digits of a fraction, as numerator and scale; those past the overflow are ignored.\<close>

fun fraction_digits :: "string \<Rightarrow> int \<Rightarrow> int \<Rightarrow> bool \<Rightarrow> int \<times> int" where
  "fraction_digits [] x scale over = (x, scale)"
| "fraction_digits (c # s) x scale over =
     (if over then fraction_digits s x scale True
      else if (two63 - 1) div 10 < x then fraction_digits s x scale True
      else let y = x * 10 + digit_val c
           in if two63 < y then fraction_digits s x scale True
              else fraction_digits s y (scale * 10) False)"

definition is_unit_char :: "char \<Rightarrow> bool" where
  "is_unit_char c = (c \<noteq> CHR ''.'' \<and> \<not> is_digit c)"

text \<open>
  One number with its unit: integer part, optional fraction, unit. The product of the
  fraction with the unit is computed exactly (Go rounds it in \<^verbatim>\<open>float64\<close>).
\<close>

definition parse_component :: "string \<Rightarrow> (int \<times> string) option" where
  "parse_component s =
     (case s of [] \<Rightarrow> None | c # _ \<Rightarrow>
      if \<not> (c = CHR ''.'' \<or> is_digit c) then None
      else case leadingInt s of None \<Rightarrow> None | Some (v, s1) \<Rightarrow>
        let pre = (takeWhile is_digit s \<noteq> []);
            dot = hasPrefix s1 ''.'';
            s2 = (if dot then drop 1 s1 else s1);
            fd = (if dot then takeWhile is_digit s2 else []);
            s3 = (if dot then dropWhile is_digit s2 else s2);
            (f, scale) = fraction_digits fd 0 1 False;
            u = takeWhile is_unit_char s3
        in if \<not> pre \<and> fd = [] then None
           else if u = [] then None
           else case unit_ns u of None \<Rightarrow> None | Some un \<Rightarrow>
             if two63 div un < v then None
             else let w = v * un + (if 0 < f then f * un div scale else 0)
                  in if two63 < w then None else Some (w, dropWhile is_unit_char s3))"

lemma parse_component_shorter:
  assumes "parse_component s = Some (w, r)"
  shows "length r < length s"
proof -
  have drops: "length (dropWhile p xs) \<le> length xs" for p and xs :: string
    by (simp add: length_dropWhile_le)
  define s1 where "s1 = dropWhile is_digit s"
  define s2 where "s2 = (if hasPrefix s1 ''.'' then drop 1 s1 else s1)"
  define s3 where "s3 = (if hasPrefix s1 ''.'' then dropWhile is_digit s2 else s2)"
  from assms have u: "takeWhile is_unit_char s3 \<noteq> []" and r: "r = dropWhile is_unit_char s3"
    by (auto simp: parse_component_def leadingInt_def Let_def s1_def s2_def s3_def
        split: list.splits if_splits option.splits prod.splits)
  have "length s3 \<le> length s2" by (simp add: s3_def drops)
  also have "\<dots> \<le> length s1" by (simp add: s2_def)
  also have "\<dots> \<le> length s" by (simp add: s1_def drops)
  finally have "length s3 \<le> length s" .
  moreover have "length s3 = length (takeWhile is_unit_char s3) + length r"
    using r by (metis length_append takeWhile_dropWhile_id)
  ultimately show ?thesis using u by (cases "takeWhile is_unit_char s3") auto
qed

function parse_components :: "string \<Rightarrow> int \<Rightarrow> int option" where
  "parse_components s d =
     (if s = [] then Some d
      else case parse_component s of None \<Rightarrow> None
        | Some (w, r) \<Rightarrow> if two63 < d + w then None else parse_components r (d + w))"
  by pat_completeness auto
termination
  by (relation "measure (length \<circ> fst)") (auto dest: parse_component_shorter)

declare parse_components.simps [simp del]

definition parseDuration :: "string \<Rightarrow> duration option" where
  "parseDuration s =
     (let neg = hasPrefix s ''-'';
          r = (if hasPrefix s ''-'' \<or> hasPrefix s ''+'' then drop 1 s else s)
      in if r = ''0'' then Some 0
         else if r = [] then None
         else case parse_components r 0 of None \<Rightarrow> None
           | Some d \<Rightarrow> if neg then Some (- d)
                       else if two63 - 1 < d then None else Some d)"

lemma parseDuration_Nil [simp]: "parseDuration [] = None"
  by (simp add: parseDuration_def)

lemma digit_val_nonneg: "is_digit c \<Longrightarrow> 0 \<le> digit_val c"
  by (simp add: is_digit_def digit_val_def)

lemma foldl_digits_nonneg:
  "list_all is_digit s \<Longrightarrow> 0 \<le> n \<Longrightarrow> 0 \<le> foldl (\<lambda>n c. n * 10 + digit_val c) n s"
  by (induction s arbitrary: n) (auto simp: digit_val_nonneg)

lemma digits_val_nonneg: "list_all is_digit s \<Longrightarrow> 0 \<le> digits_val s"
  by (simp add: digits_val_def foldl_digits_nonneg)

lemma fraction_digits_nonneg:
  "list_all is_digit s \<Longrightarrow> 0 \<le> x \<Longrightarrow> 0 < sc \<Longrightarrow>
     0 \<le> fst (fraction_digits s x sc b) \<and> 0 < snd (fraction_digits s x sc b)"
  by (induction s x sc b rule: fraction_digits.induct)
    (auto simp: digit_val_nonneg Let_def)

lemma unit_ns_pos: "unit_ns u = Some n \<Longrightarrow> 0 < n"
  by (auto simp: unit_ns_def split: if_splits)

lemma list_all_takeWhile: "list_all p (takeWhile p xs)"
  by (induction xs) auto

lemma parse_component_nonneg:
  assumes "parse_component s = Some (w, r)"
  shows "0 \<le> w"
proof -
  have "0 \<le> digits_val (takeWhile is_digit s)"
    by (rule digits_val_nonneg) (rule list_all_takeWhile)
  moreover have "0 \<le> fst (fraction_digits (takeWhile is_digit t) 0 1 False)"
      "0 < snd (fraction_digits (takeWhile is_digit t) 0 1 False)" for t
    using fraction_digits_nonneg [OF list_all_takeWhile, of 0 1] by auto
  ultimately show ?thesis
    using assms
    by (auto simp: parse_component_def leadingInt_def Let_def split_beta
        split: list.splits if_splits option.splits
        intro!: add_nonneg_nonneg mult_nonneg_nonneg pos_imp_zdiv_nonneg_iff [THEN iffD2]
        dest!: unit_ns_pos)
qed

lemma parse_components_bound:
  "parse_components s d = Some n \<Longrightarrow> 0 \<le> d \<Longrightarrow> d \<le> two63 \<Longrightarrow> 0 \<le> n \<and> n \<le> two63"
proof (induction s d rule: parse_components.induct)
  case (1 s d)
  show ?case
  proof (cases "s = []")
    case True
    with 1 show ?thesis by (simp add: parse_components.simps)
  next
    case False
    with "1.prems"(1) obtain w r where c: "parse_component s = Some (w, r)"
      and le: "\<not> two63 < d + w" and r: "parse_components r (d + w) = Some n"
      by (subst (asm) parse_components.simps) (auto split: option.splits if_splits)
    from c have "0 \<le> w" by (rule parse_component_nonneg)
    with "1.IH" [OF False c refl le r] "1.prems" le show ?thesis by simp
  qed
qed

lemma parseDuration_range:
  assumes "parseDuration s = Some d"
  shows "in_int64 d"
proof -
  have "in_int64 (- n)" if "0 \<le> n \<and> n \<le> two63" for n
    using that by (simp add: in_int64_def max_int64_def two63_def)
  moreover have "in_int64 n" if "0 \<le> n \<and> n \<le> two63" "\<not> two63 - 1 < n" for n
    using that by (simp add: in_int64_def max_int64_def two63_def)
  moreover have "in_int64 0" by (simp add: in_int64_def max_int64_def)
  moreover have "(0::int) \<le> two63" by (simp add: two63_def)
  ultimately show ?thesis
    using assms parse_components_bound [of _ 0]
    by (auto simp: parseDuration_def Let_def split: if_splits option.splits)
qed

definition durationVar :: "environ \<Rightarrow> string \<Rightarrow> duration \<Rightarrow> duration" where
  "durationVar e key cur =
     (let s = getenv e key
      in if s \<noteq> [] then (case parseDuration s of Some d \<Rightarrow> d | None \<Rightarrow> cur) else cur)"

lemma durationVar_unset: "getenv e key = [] \<Longrightarrow> durationVar e key cur = cur"
  by (simp add: durationVar_def)

lemma parseDuration_examples:
  "parseDuration ''30s'' = Some (30 * second)"
  "parseDuration ''30'' = None"
  by code_simp+

section \<open>Printing of integers\<close>

lemma digit_char:
  "k < 10 \<Longrightarrow> is_digit (char_of (k + 48)) \<and> digit_val (char_of (k + 48)) = int k"
proof -
  have "\<forall>k\<in>set [0..<10]. is_digit (char_of (k + 48 :: nat)) \<and> digit_val (char_of (k + 48 :: nat)) = int k"
    by code_simp
  then show "k < 10 \<Longrightarrow> is_digit (char_of (k + 48)) \<and> digit_val (char_of (k + 48)) = int k" by simp
qed

lemma dec_digits_val: "digits_val (dec_digits n) = int n"
proof (induction n rule: dec_digits.induct)
  case (1 n)
  show ?case
  proof (cases "n < 10")
    case True
    then show ?thesis by (subst dec_digits.simps) (simp add: digits_val_def digit_char)
  next
    case False
    have "digits_val (dec_digits n) = int (n div 10) * 10 + int (n mod 10)"
      using False 1 digit_char [of "n mod 10"]
      by (subst dec_digits.simps) (simp add: digits_val_def)
    also have "\<dots> = int (n div 10 * 10 + n mod 10)" by (simp only: of_nat_add of_nat_mult of_nat_numeral)
    finally show ?thesis by (simp only: div_mult_mod_eq)
  qed
qed

lemma dec_digits_digits: "dec_digits n \<noteq> [] \<and> list_all is_digit (dec_digits n)"
proof (induction n rule: dec_digits.induct)
  case (1 n)
  show ?case
  proof (cases "n < 10")
    case True
    then show ?thesis by (subst (1 2) dec_digits.simps) (simp add: digit_char)
  next
    case False
    with 1 digit_char [of "n mod 10"] show ?thesis by (subst (1 2) dec_digits.simps) simp
  qed
qed

lemma not_digit_minus: "\<not> is_digit (CHR ''-'')"
  by (simp add: is_digit_def)

lemma dec_digits_inj: "dec_digits n = dec_digits m \<Longrightarrow> n = m"
  by (metis dec_digits_val of_nat_eq_iff)

lemma dec_digits_no_minus: "dec_digits n \<noteq> CHR ''-'' # t"
  using dec_digits_digits [of n] not_digit_minus by (metis list.pred_inject(2))

lemma itoa_inj: "itoa a = itoa b \<Longrightarrow> a = b"
proof -
  assume e: "itoa a = itoa b"
  consider "a < 0" "b < 0" | "a < 0" "0 \<le> b" | "0 \<le> a" "b < 0" | "0 \<le> a" "0 \<le> b" by linarith
  then show ?thesis
  proof cases
    case 1
    with e have "dec_digits (nat (- a)) = dec_digits (nat (- b))" by (simp add: itoa_def)
    from dec_digits_inj [OF this] 1 show ?thesis by simp
  next
    case 2
    with e show ?thesis using dec_digits_no_minus [of "nat b"] by (simp add: itoa_def) (metis)
  next
    case 3
    with e show ?thesis using dec_digits_no_minus [of "nat a"] by (simp add: itoa_def)
  next
    case 4
    with e have "dec_digits (nat a) = dec_digits (nat b)" by (simp add: itoa_def)
    from dec_digits_inj [OF this] 4 show ?thesis by simp
  qed
qed

lemma atoi_itoa: "0 \<le> n \<Longrightarrow> n \<le> max_int64 \<Longrightarrow> atoi (itoa n) = Some n"
proof -
  assume n: "0 \<le> n" "n \<le> max_int64"
  have "\<not> hasPrefix (dec_digits (nat n)) ''-''" "\<not> hasPrefix (dec_digits (nat n)) ''+''"
    using dec_digits_digits [of "nat n"] by (cases "dec_digits (nat n)"; auto simp: is_digit_def)+
  then show ?thesis
    using n dec_digits_digits [of "nat n"] dec_digits_val [of "nat n"]
    by (simp add: atoi_def itoa_def in_int64_def max_int64_def)
qed

end
