(* ===== verification/Env_Reader.thy ===== *)
theory Env_Reader
  imports Go_Std
begin

text \<open>
  The \<^verbatim>\<open>env\<close> package: typed readers with a default. An unset or empty variable, or one
  that does not parse, yields the default.
\<close>

definition env_String :: "environ \<Rightarrow> string \<Rightarrow> string \<Rightarrow> string" where
  "env_String e key def = (let value = getenv e key in if value \<noteq> [] then value else def)"

definition env_Int :: "environ \<Rightarrow> string \<Rightarrow> int \<Rightarrow> int" where
  "env_Int e key def =
     (let value = getenv e key
      in if value \<noteq> [] then (case atoi value of Some n \<Rightarrow> n | None \<Rightarrow> def) else def)"

definition env_Int64 :: "environ \<Rightarrow> string \<Rightarrow> int \<Rightarrow> int" where
  "env_Int64 e key def =
     (let value = getenv e key
      in if value \<noteq> [] then (case atoi value of Some n \<Rightarrow> n | None \<Rightarrow> def) else def)"

definition env_Bool :: "environ \<Rightarrow> string \<Rightarrow> bool \<Rightarrow> bool" where
  "env_Bool e key def =
     (let value = getenv e key
      in if value \<noteq> [] then (case parseBool value of Some b \<Rightarrow> b | None \<Rightarrow> def) else def)"

definition env_Duration :: "environ \<Rightarrow> string \<Rightarrow> duration \<Rightarrow> duration" where
  "env_Duration e key def =
     (let value = getenv e key
      in if value \<noteq> [] then (case parseDuration value of Some d \<Rightarrow> d | None \<Rightarrow> def) else def)"

definition env_Slice :: "environ \<Rightarrow> string \<Rightarrow> string list \<Rightarrow> string list" where
  "env_Slice e key def =
     (let value = getenv e key
      in if value \<noteq> []
         then filter (\<lambda>t. t \<noteq> []) (map trimSpace (strSplit value '',''))
         else def)"

text \<open>Every reader stays inside the machine range when its default does.\<close>

lemma env_Int_range: "in_int64 def \<Longrightarrow> in_int64 (env_Int e key def)"
  by (auto simp: env_Int_def Let_def split: option.splits dest: atoi_range)

lemma env_Duration_range: "in_int64 def \<Longrightarrow> in_int64 (env_Duration e key def)"
  by (auto simp: env_Duration_def Let_def split: option.splits dest: parseDuration_range)

lemma env_Slice_items:
  assumes "getenv e key \<noteq> []" and "t \<in> set (env_Slice e key def)"
  shows "t \<noteq> [] \<and> \<not> is_space (hd t)"
proof -
  from assms obtain p where "t = trimSpace p" "t \<noteq> []"
    by (auto simp: env_Slice_def Let_def)
  then show ?thesis using trimSpace_hd by blast
qed

end
