(* ===== verification/Pg_Config.thy ===== *)
theory Pg_Config
  imports Go_Std
begin

text \<open>
  Configuration of the Postgres cluster manager (\<^verbatim>\<open>pgcluster/config.go\<close>): loading from the
  environment, defaults, validation, and the masking of credentials for display. A loader
  method \<^verbatim>\<open>func (c *ClusterConfig) loadX()\<close> is a function from the environment and the
  configuration to the updated configuration.
\<close>

section \<open>The configuration\<close>

datatype WriterDetectionStrategy = StrategyDNS | StrategyQuery | StrategyConfig | StrategyProbe

record pg_config =
  pc_WriterURL :: string
  pc_ReaderURLs :: "string list"
  pc_WriterDetectionStrategy :: WriterDetectionStrategy
  pc_WriterDetectionQuery :: string
  pc_WriterDNSName :: string
  pc_MaxOpenConns :: int
  pc_MaxIdleConns :: int
  pc_ConnMaxLifetime :: duration
  pc_ConnMaxIdleTime :: duration
  pc_HealthCheckInterval :: duration
  pc_RetryAttempts :: int
  pc_RetryBackoffBase :: duration
  pc_RetryBackoffMax :: duration
  pc_CircuitBreakerThreshold :: int
  pc_CircuitBreakerTimeout :: duration
  pc_ReadBalanceStrategy :: string
  pc_ServiceName :: string
  pc_DriverName :: string

text \<open>The zero value of the struct; \<^verbatim>\<open>iota\<close> makes \<^verbatim>\<open>StrategyDNS\<close> the zero strategy.\<close>

definition pg_zero_config :: pg_config where
  "pg_zero_config = \<lparr>pc_WriterURL = [], pc_ReaderURLs = [],
     pc_WriterDetectionStrategy = StrategyDNS, pc_WriterDetectionQuery = [], pc_WriterDNSName = [],
     pc_MaxOpenConns = 0, pc_MaxIdleConns = 0, pc_ConnMaxLifetime = 0, pc_ConnMaxIdleTime = 0,
     pc_HealthCheckInterval = 0, pc_RetryAttempts = 0, pc_RetryBackoffBase = 0,
     pc_RetryBackoffMax = 0, pc_CircuitBreakerThreshold = 0, pc_CircuitBreakerTimeout = 0,
     pc_ReadBalanceStrategy = [], pc_ServiceName = [], pc_DriverName = []\<rparr>"

section \<open>Connection URLs\<close>

text \<open>One component of a URL: the suffixed variable, the plain one, then the default.\<close>

definition db_part :: "environ \<Rightarrow> string \<Rightarrow> string \<Rightarrow> string \<Rightarrow> string" where
  "db_part e name sfx def = orElse (getenv e (name @ sfx)) (orElse (getenv e name) def)"

definition pg_buildURLFromComponents :: "environ \<Rightarrow> string \<Rightarrow> string" where
  "pg_buildURLFromComponents e sfx =
     (let host = db_part e ''DB_HOST'' sfx (if sfx = [] then ''localhost'' else [])
      in if host = [] then []
         else let port = db_part e ''DB_PORT'' sfx ''5432'';
                  user = db_part e ''DB_USER'' sfx ''postgres'';
                  password = db_part e ''DB_PASSWORD'' sfx ''dev_password'';
                  dbname = db_part e ''DB_NAME'' sfx ''postgres'';
                  sslmode = db_part e ''DB_SSL_MODE'' sfx ''disable''
              in ''postgres://'' @ user @ '':'' @ password @ ''@'' @ host @ '':'' @ port @ ''/''
                 @ dbname @ ''?sslmode='' @ sslmode)"

definition pg_loadConnectionURLs :: "environ \<Rightarrow> pg_config \<Rightarrow> (string, pg_config) result" where
  "pg_loadConnectionURLs e c =
     (let writer0 = orElse (getenv e ''DATABASE_WRITER_URL'') (getenv e ''DATABASE_URL'');
          readerURLs = getenv e ''DATABASE_READER_URLS'';
          readers0 = (if readerURLs \<noteq> [] then map trimSpace (strSplit readerURLs '','')
                      else pc_ReaderURLs c);
          readers1 = readers0 @ filter (\<lambda>u. u \<noteq> [])
             (map (\<lambda>i. getenv e (''DATABASE_READER_'' @ itoa i @ ''_URL'')) [1..10]);
          writer1 = (if writer0 = [] then pg_buildURLFromComponents e [] else writer0);
          readers2 = (if readers1 = []
             then filter (\<lambda>u. u \<noteq> [])
                    (map (\<lambda>i. pg_buildURLFromComponents e (''_'' @ itoa i)) [1..5])
             else readers1)
      in if writer1 = [] then Inl ''no database writer URL configured''
         else Inr (c\<lparr>pc_WriterURL := writer1, pc_ReaderURLs := readers2\<rparr>))"

section \<open>Settings\<close>

definition pg_loadWriterDetectionSettings :: "environ \<Rightarrow> pg_config \<Rightarrow> pg_config" where
  "pg_loadWriterDetectionSettings e c =
     (let strategy = toLower (getenv e ''DB_WRITER_DETECTION_STRATEGY'')
      in if strategy = ''dns'' then
           c\<lparr>pc_WriterDetectionStrategy := StrategyDNS,
             pc_WriterDNSName := getenv e ''DB_WRITER_DNS_NAME''\<rparr>
         else if strategy = ''query'' then
           c\<lparr>pc_WriterDetectionStrategy := StrategyQuery,
             pc_WriterDetectionQuery := getenv e ''DB_WRITER_DETECTION_QUERY''\<rparr>
         else if strategy = ''probe'' then c\<lparr>pc_WriterDetectionStrategy := StrategyProbe\<rparr>
         else if strategy = ''config'' \<or> strategy = [] then
           c\<lparr>pc_WriterDetectionStrategy := StrategyConfig\<rparr>
         else c\<lparr>pc_WriterDetectionStrategy := StrategyConfig\<rparr>)"

definition pg_loadConnectionPoolSettings :: "environ \<Rightarrow> pg_config \<Rightarrow> pg_config" where
  "pg_loadConnectionPoolSettings e c =
     c\<lparr>pc_MaxOpenConns := intVar e ''DB_MAX_OPEN_CONNS'' (\<lambda>v. 0 < v) (pc_MaxOpenConns c),
       pc_MaxIdleConns := intVar e ''DB_MAX_IDLE_CONNS'' (\<lambda>v. 0 < v) (pc_MaxIdleConns c),
       pc_ConnMaxLifetime := durationVar e ''DB_CONN_MAX_LIFETIME'' (pc_ConnMaxLifetime c),
       pc_ConnMaxIdleTime := durationVar e ''DB_CONN_MAX_IDLE_TIME'' (pc_ConnMaxIdleTime c)\<rparr>"

definition pg_loadHealthSettings :: "environ \<Rightarrow> pg_config \<Rightarrow> pg_config" where
  "pg_loadHealthSettings e c =
     c\<lparr>pc_HealthCheckInterval := durationVar e ''DB_HEALTH_CHECK_INTERVAL'' (pc_HealthCheckInterval c),
       pc_RetryAttempts := intVar e ''DB_RETRY_ATTEMPTS'' (\<lambda>v. 0 < v) (pc_RetryAttempts c),
       pc_RetryBackoffBase := durationVar e ''DB_RETRY_BACKOFF_BASE'' (pc_RetryBackoffBase c),
       pc_RetryBackoffMax := durationVar e ''DB_RETRY_BACKOFF_MAX'' (pc_RetryBackoffMax c)\<rparr>"

definition pg_loadCircuitBreakerSettings :: "environ \<Rightarrow> pg_config \<Rightarrow> pg_config" where
  "pg_loadCircuitBreakerSettings e c =
     c\<lparr>pc_CircuitBreakerThreshold :=
         intVar e ''DB_CIRCUIT_BREAKER_THRESHOLD'' (\<lambda>v. 0 < v) (pc_CircuitBreakerThreshold c),
       pc_CircuitBreakerTimeout :=
         durationVar e ''DB_CIRCUIT_BREAKER_TIMEOUT'' (pc_CircuitBreakerTimeout c)\<rparr>"

definition pg_validStrategies :: "string list" where
  "pg_validStrategies = [''round_robin'', ''random'', ''priority'', ''least_connections'']"

definition pg_loadReadBalancingSettings :: "environ \<Rightarrow> pg_config \<Rightarrow> pg_config" where
  "pg_loadReadBalancingSettings e c =
     (let strategy = getenv e ''DB_READ_BALANCE_STRATEGY''
      in if strategy \<in> set pg_validStrategies then c\<lparr>pc_ReadBalanceStrategy := strategy\<rparr>
         else c\<lparr>pc_ReadBalanceStrategy := ''round_robin''\<rparr>)"

definition dflt :: "int \<Rightarrow> int \<Rightarrow> int" where
  "dflt x d = (if x = 0 then d else x)"

definition pg_setDefaults :: "pg_config \<Rightarrow> pg_config" where
  "pg_setDefaults c =
     c\<lparr>pc_MaxOpenConns := dflt (pc_MaxOpenConns c) 25,
       pc_MaxIdleConns := dflt (pc_MaxIdleConns c) 10,
       pc_ConnMaxLifetime := dflt (pc_ConnMaxLifetime c) (5 * minute),
       pc_ConnMaxIdleTime := dflt (pc_ConnMaxIdleTime c) (30 * second),
       pc_HealthCheckInterval := dflt (pc_HealthCheckInterval c) (30 * second),
       pc_RetryAttempts := dflt (pc_RetryAttempts c) 3,
       pc_RetryBackoffBase := dflt (pc_RetryBackoffBase c) (1 * second),
       pc_RetryBackoffMax := dflt (pc_RetryBackoffMax c) (30 * second),
       pc_CircuitBreakerThreshold := dflt (pc_CircuitBreakerThreshold c) 5,
       pc_CircuitBreakerTimeout := dflt (pc_CircuitBreakerTimeout c) (60 * second),
       pc_ReadBalanceStrategy := orElse (pc_ReadBalanceStrategy c) ''round_robin'',
       pc_DriverName := orElse (pc_DriverName c) ''pgx''\<rparr>"

definition pg_Validate :: "pg_config \<Rightarrow> string option" where
  "pg_Validate c =
     (if pc_WriterURL c = [] then Some ''writer URL is required''
      else if pc_ServiceName c = [] then Some ''service name is required''
      else if pc_MaxOpenConns c \<le> 0 then Some ''max open connections must be positive''
      else if pc_MaxIdleConns c < 0 \<or> pc_MaxIdleConns c > pc_MaxOpenConns c
        then Some ''max idle connections must be between 0 and max open connections''
      else if pc_HealthCheckInterval c \<le> 0 then Some ''health check interval must be positive''
      else if pc_RetryAttempts c \<le> 0 then Some ''retry attempts must be positive''
      else if pc_ReadBalanceStrategy c \<notin> set pg_validStrategies
        then Some (''invalid read balance strategy: '' @ pc_ReadBalanceStrategy c)
      else None)"

text \<open>The error of \<^verbatim>\<open>Validate\<close> is returned next to the configuration; callers stop at it.\<close>

definition pg_LoadConfigFromEnv :: "environ \<Rightarrow> string \<Rightarrow> (string, pg_config) result" where
  "pg_LoadConfigFromEnv e serviceName =
     (case pg_loadConnectionURLs e (pg_zero_config\<lparr>pc_ServiceName := serviceName\<rparr>) of
        Inl err \<Rightarrow> Inl err
      | Inr c0 \<Rightarrow>
          let c = pg_setDefaults (pg_loadReadBalancingSettings e (pg_loadCircuitBreakerSettings e
                    (pg_loadHealthSettings e (pg_loadConnectionPoolSettings e
                      (pg_loadWriterDetectionSettings e c0)))))
          in case pg_Validate c of Some err \<Rightarrow> Inl err | None \<Rightarrow> Inr c)"

section \<open>Masking credentials\<close>

definition pg_maskURL :: "string \<Rightarrow> string" where
  "pg_maskURL url =
     (if strContains url ''://'' \<and> strContains url ''@'' then
        let parts = strSplit url ''@''
        in if 2 \<le> length parts then
             let schemeParts = strSplit (parts ! 0) ''://''
             in if 2 \<le> length schemeParts then
                  let credsParts = strSplit (schemeParts ! 1) '':''
                  in if 2 \<le> length credsParts
                     then schemeParts ! 0 @ ''://'' @ credsParts ! 0 @ '':***@''
                          @ strJoin (tl parts) ''@''
                     else url
                else url
           else url
      else url)"

definition pg_config_String :: "(duration \<Rightarrow> string) \<Rightarrow> pg_config \<Rightarrow> string" where
  "pg_config_String showDuration c =
     ''ClusterConfig{WriterURL: '' @ pg_maskURL (pc_WriterURL c)
     @ '', Readers: '' @ itoa (int (length (pc_ReaderURLs c)))
     @ '', Strategy: '' @ pc_ReadBalanceStrategy c
     @ '', MaxConns: '' @ itoa (pc_MaxOpenConns c)
     @ '', HealthCheck: '' @ showDuration (pc_HealthCheckInterval c) @ ''}''"

section \<open>Facts\<close>

lemma dflt_nonzero: "d \<noteq> 0 \<Longrightarrow> dflt x d \<noteq> 0"
  by (simp add: dflt_def)

lemma pg_setDefaults_idem: "pg_setDefaults (pg_setDefaults c) = pg_setDefaults c"
  by (simp add: pg_setDefaults_def dflt_def orElse_def)

lemma pg_build_localhost: "pg_buildURLFromComponents e [] \<noteq> []"
  by (simp add: pg_buildURLFromComponents_def db_part_def Let_def orElse_Nil_iff)

lemma pg_loadConnectionURLs_ok:
  "\<exists>w r. w \<noteq> [] \<and> pg_loadConnectionURLs e c = Inr (c\<lparr>pc_WriterURL := w, pc_ReaderURLs := r\<rparr>)"
proof -
  have ne: "((if orElse a b = [] then pg_buildURLFromComponents e [] else orElse a b) = []) = False"
    for a b
    by (simp add: pg_build_localhost)
  show ?thesis
    unfolding pg_loadConnectionURLs_def Let_def ne if_False
    by (intro exI conjI, rule ne [THEN iffD1, THEN FalseE, THEN notI], assumption, rule refl)
qed

lemma pg_Validate_None:
  "pg_Validate c = None \<longleftrightarrow>
     pc_WriterURL c \<noteq> [] \<and> pc_ServiceName c \<noteq> [] \<and> 0 < pc_MaxOpenConns c \<and>
     0 \<le> pc_MaxIdleConns c \<and> pc_MaxIdleConns c \<le> pc_MaxOpenConns c \<and>
     0 < pc_HealthCheckInterval c \<and> 0 < pc_RetryAttempts c \<and>
     pc_ReadBalanceStrategy c \<in> set pg_validStrategies"
  by (auto simp: pg_Validate_def not_le not_less)

lemma dflt_intVar_pos: "0 < d \<Longrightarrow> 0 < dflt (intVar e k (\<lambda>v. 0 < v) 0) d"
  using intVar_cases [of e k "\<lambda>v. 0 < v" 0] by (auto simp: dflt_def)

lemma pg_detection_shape:
  "\<exists>s q n. pg_loadWriterDetectionSettings e c
     = c\<lparr>pc_WriterDetectionStrategy := s, pc_WriterDetectionQuery := q, pc_WriterDNSName := n\<rparr>"
proof -
  have "\<exists>s' q' n'. c\<lparr>pc_WriterDetectionStrategy := s, pc_WriterDNSName := n\<rparr>
      = c\<lparr>pc_WriterDetectionStrategy := s', pc_WriterDetectionQuery := q', pc_WriterDNSName := n'\<rparr>"
    "\<exists>s' q' n'. c\<lparr>pc_WriterDetectionStrategy := s, pc_WriterDetectionQuery := q\<rparr>
      = c\<lparr>pc_WriterDetectionStrategy := s', pc_WriterDetectionQuery := q', pc_WriterDNSName := n'\<rparr>"
    "\<exists>s' q' n'. c\<lparr>pc_WriterDetectionStrategy := s\<rparr>
      = c\<lparr>pc_WriterDetectionStrategy := s', pc_WriterDetectionQuery := q', pc_WriterDNSName := n'\<rparr>"
    for s q n
    by (rule exI [of _ s], rule exI [of _ "pc_WriterDetectionQuery c"], rule exI [of _ n], simp,
        rule exI [of _ s], rule exI [of _ q], rule exI [of _ "pc_WriterDNSName c"], simp,
        rule exI [of _ s], rule exI [of _ "pc_WriterDetectionQuery c"],
        rule exI [of _ "pc_WriterDNSName c"], simp)
  then show ?thesis
    unfolding pg_loadWriterDetectionSettings_def Let_def by (simp only: split: if_split) blast
qed

lemma pg_strategy_valid:
  "pc_ReadBalanceStrategy (pg_setDefaults (pg_loadReadBalancingSettings e c)) \<in> set pg_validStrategies"
  by (auto simp: pg_setDefaults_def pg_loadReadBalancingSettings_def Let_def orElse_def
      pg_validStrategies_def)

text \<open>In \<^verbatim>\<open>user:password\<close> the first piece before a \<^verbatim>\<open>://\<close> still starts with \<^verbatim>\<open>user:\<close>.\<close>

lemma pg_creds_head:
  assumes "CHR '':'' \<notin> set user" and "\<not> hasPrefix pw ''//''"
  shows "\<exists>p1 ps. strSplit (user @ '':'' @ pw) ''://'' = (user @ CHR '':'' # p1) # ps"
proof (cases "strIndex (user @ '':'' @ pw) ''://''")
  case None
  then show ?thesis by (simp add: strSplit_None)
next
  case (Some i)
  have p: "hasPrefix (drop i (user @ '':'' @ pw)) ''://''" using Some by (simp add: strIndex_Some)
  have "length user < i"
  proof (rule ccontr)
    assume "\<not> length user < i"
    then consider "i < length user" | "i = length user" by linarith
    then show False
    proof cases
      case 1
      then obtain c t where t: "drop i user = c # t" by (metis Cons_nth_drop_Suc)
      then have "c \<in> set user" by (metis in_set_dropD list.set_intros(1))
      with assms(1) p 1 t show False by auto
    next
      case 2
      with p assms(2) show False by simp
    qed
  qed
  then have "take i (user @ '':'' @ pw) = user @ CHR '':'' # take (i - length user - 1) pw"
    by (simp add: take_Cons')
  with Some show ?thesis by (simp add: strSplit_Some)
qed

end
