(* ===== verification/Step_Systems.thy ===== *)
theory Step_Systems
  imports Main
begin

text \<open>
  What the components that run as goroutines have in common. Each is a step relation, in its own theory; here are the
  three arguments made about one, as locales: a property every step keeps, a part of the state no step changes while the
  property holds, and work that every step lessens. They are interpreted where the relations are defined.
\<close>

section \<open>Kept properties\<close>

locale preserved =
  fixes step :: "'s \<Rightarrow> 's \<Rightarrow> bool"
    and good :: "'s \<Rightarrow> bool"
  assumes good_step: "step s t \<Longrightarrow> good s \<Longrightarrow> good t"
begin

lemma good_steps: "step\<^sup>*\<^sup>* s t \<Longrightarrow> good s \<Longrightarrow> good t"
  by (induction rule: rtranclp_induct) (auto intro: good_step)

lemma good_relpow: "(step ^^ k) s t \<Longrightarrow> good s \<Longrightarrow> good t"
  using good_steps relpowp_imp_rtranclp [of k step] by blast

end

section \<open>What does not change\<close>

locale frozen = preserved +
  fixes view :: "'s \<Rightarrow> 'v"
  assumes view_step: "step s t \<Longrightarrow> good s \<Longrightarrow> view t = view s"
begin

lemma view_steps: "step\<^sup>*\<^sup>* s t \<Longrightarrow> good s \<Longrightarrow> view t = view s"
proof (induction rule: rtranclp_induct)
  case (step t u)
  have "good t" using good_steps step(1,4) by blast
  then show ?case using view_step [OF step(2)] step(3,4) by simp
qed simp

end

section \<open>Work that ends\<close>

locale draining = preserved +
  fixes load :: "'s \<Rightarrow> nat"
  assumes load_step: "step s t \<Longrightarrow> good s \<Longrightarrow> load t < load s"
begin

lemma load_relpow: "(step ^^ k) s t \<Longrightarrow> good s \<Longrightarrow> k + load t \<le> load s"
proof (induction k arbitrary: t)
  case (Suc k)
  then obtain u where u: "(step ^^ k) s u" "step u t" by (auto elim: relpowp_Suc_E)
  have "load t < load u" using load_step [OF u(2)] good_relpow [OF u(1) Suc.prems(2)] by simp
  then show ?case using Suc.IH [OF u(1) Suc.prems(2)] by simp
qed simp

lemma comes_to_rest: "good s \<Longrightarrow> \<exists>t. step\<^sup>*\<^sup>* s t \<and> good t \<and> (\<nexists>u. step t u)"
proof (induction "load s" arbitrary: s rule: less_induct)
  case less
  show ?case
  proof (cases "\<exists>u. step s u")
    case True
    then obtain u where u: "step s u" by blast
    from less(1) [OF load_step [OF u less(2)] good_step [OF u less(2)]]
    show ?thesis using u by (meson converse_rtranclp_into_rtranclp)
  next
    case False
    then show ?thesis using less(2) by blast
  qed
qed

text \<open>No run is infinite, so every run comes to rest, not only one.\<close>

lemma no_endless_run: "good (f 0) \<Longrightarrow> \<exists>i. \<not> step (f i) (f (Suc i))"
proof (rule ccontr)
  assume g: "good (f 0)" and "\<nexists>i. \<not> step (f i) (f (Suc i))"
  then have "(step ^^ k) (f 0) (f k)" for k by (induction k) auto
  from load_relpow [OF this g] have "Suc (load (f 0)) + load (f (Suc (load (f 0)))) \<le> load (f 0)" by blast
  then show False by simp
qed

end

end
