(* ===== verification/Contracts.thy ===== *)
theory Contracts
  imports Go_Std Step_Systems
begin

text \<open>
  The interfaces several components share, as locales: a pool whose members are picked in
  turn, and a circuit breaker. Each is interpreted on the components that implement it, in
  their own theories.
\<close>

section \<open>Round robin\<close>

text \<open>
  The counter step of every balancer of the repository:
  \<^verbatim>\<open>index := atomic.AddInt64(&counter, 1) % int64(len(nodes))\<close>, an index expression that
  panics when the wrapped counter makes the remainder negative, or when the list is empty
  (integer division by zero).
\<close>

definition rr_next :: "int \<Rightarrow> nat \<Rightarrow> nat outcome \<times> int" where
  "rr_next counter n =
     (let counter' = wrap64 (counter + 1); index = go_rem counter' (int n)
      in (if n = 0 then Panic ''integer divide by zero''
          else if index < 0 then Panic ''index out of range''
          else Ret (nat index), counter'))"

lemma rr_next_ok:
  "0 \<le> counter \<Longrightarrow> counter < max_int64 \<Longrightarrow> 0 < n \<Longrightarrow>
     rr_next counter n = (Ret (nat ((counter + 1) mod int n)), counter + 1)"
proof -
  assume a: "0 \<le> counter" "counter < max_int64" "0 < n"
  then have "wrap64 (counter + 1) = counter + 1"
    by (intro wrap64_id) (simp add: in_int64_def max_int64_def)
  moreover have "0 \<le> (counter + 1) mod int n" using a by simp
  ultimately show ?thesis using a by (simp add: rr_next_def Let_def go_rem_nonneg not_less)
qed

lemma rr_next_in_range:
  assumes "fst (rr_next counter n) = Ret i"
  shows "i < n"
proof -
  have "go_rem c (int n) < int n" if n: "0 < n" for c
  proof -
    have m: "\<bar>c\<bar> mod int n < int n" "0 \<le> \<bar>c\<bar> mod int n" using n by simp_all
    then have "- (\<bar>c\<bar> mod int n) < int n" "(0::int) < int n" using n by linarith+
    with m show ?thesis by (cases "0::int" c rule: linorder_cases) (simp_all add: go_rem_def)
  qed
  with assms show ?thesis
    by (auto simp: rr_next_def Let_def nat_less_iff split: if_splits)
qed

text \<open>\<open>take_turns sel s k\<close>: the picks of \<open>k\<close> calls in a row that all return.\<close>

fun take_turns :: "('s \<Rightarrow> 'a outcome \<times> 's) \<Rightarrow> 's \<Rightarrow> nat \<Rightarrow> 'a list option" where
  "take_turns sel s 0 = Some []"
| "take_turns sel s (Suc k) =
     (case sel s of (Ret x, s') \<Rightarrow> map_option ((#) x) (take_turns sel s' k) | _ \<Rightarrow> None)"

text \<open>\<open>n\<close> residues in a row are all the residues.\<close>

lemma rotation_mset:
  "xs \<noteq> [] \<Longrightarrow> 0 \<le> c \<Longrightarrow>
     mset (map (\<lambda>j. xs ! nat ((c + int j) mod int (length xs))) [0..<length xs]) = mset xs"
proof -
  assume ne: "xs \<noteq> []" and c: "0 \<le> c"
  define n where "n = length xs"
  have n: "0 < n" using ne by (simp add: n_def)
  have "nat ((c + int j) mod int n) = (nat c + j) mod n" for j
    using c n by (simp add: nat_mod_distrib nat_add_distrib)
  then have "map (\<lambda>j. xs ! nat ((c + int j) mod int n)) [0..<n]
      = map (\<lambda>j. xs ! ((nat c + j) mod n)) [0..<n]"
    by simp
  also have "\<dots> = rotate (nat c) xs"
    using n by (intro nth_equalityI) (auto simp: n_def nth_rotate)
  finally have "map (\<lambda>j. xs ! nat ((c + int j) mod int (length xs))) [0..<length xs] =
      rotate (nat c) xs"
    by (simp only: n_def)
  moreover have "mset (rotate k xs) = mset xs" for k
    by (simp only: rotate_drop_take mset_append union_commute [of "mset (drop _ _)"])
      (simp only: append_take_drop_id flip: mset_append)
  ultimately show ?thesis by simp
qed

locale balanced_pool =
  fixes sel :: "'s \<Rightarrow> 'a outcome \<times> 's"
    and members :: "'s \<Rightarrow> 'a list"
    and counter :: "'s \<Rightarrow> int"
    and ready :: "'s \<Rightarrow> bool"
  assumes members_ne: "ready s \<Longrightarrow> members s \<noteq> []"
    and counter_nonneg: "ready s \<Longrightarrow> 0 \<le> counter s"
    and sel_next: "ready s \<Longrightarrow> counter s < max_int64 \<Longrightarrow>
      \<exists>s'. sel s = (Ret (members s ! nat ((counter s + 1) mod int (length (members s)))), s')
        \<and> ready s' \<and> counter s' = counter s + 1 \<and> members s' = members s"
begin

lemma take_turns_sel:
  "ready s \<Longrightarrow> counter s + int k \<le> max_int64 \<Longrightarrow>
     take_turns sel s k =
       Some (map (\<lambda>j. members s ! nat ((counter s + 1 + int j) mod int (length (members s)))) [0..<k])"
proof (induction k arbitrary: s)
  case 0
  then show ?case by simp
next
  case (Suc k)
  then have "counter s < max_int64" by simp
  with Suc.prems(1) obtain s' where s': "sel s =
      (Ret (members s ! nat ((counter s + 1) mod int (length (members s)))), s')"
    "ready s'" "counter s' = counter s + 1" "members s' = members s"
    using sel_next by blast
  have "take_turns sel s' k = Some (map (\<lambda>j. members s !
      nat ((counter s + 1 + int (Suc j)) mod int (length (members s)))) [0..<k])"
    using Suc.IH [OF s'(2)] Suc.prems(2) s' by (simp add: ac_simps)
  then show ?case using s'(1) by (simp add: upt_conv_Cons map_Suc_upt [symmetric] del: upt_Suc)
qed

lemma one_round:
  assumes "ready s" and "counter s + int (length (members s)) \<le> max_int64"
  shows "\<exists>picks. take_turns sel s (length (members s)) = Some picks \<and> mset picks = mset (members s)"
  using take_turns_sel [OF assms] rotation_mset [OF members_ne, of s "counter s + 1"]
    counter_nonneg [OF assms(1)] assms(1)
  by simp

end

section \<open>Circuit breakers\<close>

text \<open>
  What a caller of a breaker relies on: closed it admits, open it refuses and changes nothing
  until the cool-down has passed, and then it admits again and is no longer open.
\<close>

fun admissions :: "(instant \<Rightarrow> 's \<Rightarrow> bool \<times> 's) \<Rightarrow> 's \<Rightarrow> instant list \<Rightarrow> bool list \<times> 's" where
  "admissions admit s [] = ([], s)"
| "admissions admit s (t # ts) =
     (let (b, s1) = admit t s; (bs, s2) = admissions admit s1 ts in (b # bs, s2))"

locale circuit_breaker =
  fixes admit :: "instant \<Rightarrow> 's \<Rightarrow> bool \<times> 's"
    and is_open :: "'s \<Rightarrow> bool"
    and opened_at :: "'s \<Rightarrow> instant"
    and cooldown :: "'s \<Rightarrow> duration"
  assumes admit_closed: "\<not> is_open s \<Longrightarrow> admit t s = (True, s)"
    and admit_early: "is_open s \<Longrightarrow> t - opened_at s \<le> cooldown s \<Longrightarrow> admit t s = (False, s)"
    and admit_late: "is_open s \<Longrightarrow> cooldown s < t - opened_at s \<Longrightarrow>
      fst (admit t s) \<and> \<not> is_open (snd (admit t s))"
begin

lemma refuses_all_early:
  "is_open s \<Longrightarrow> \<forall>t\<in>set ts. t - opened_at s \<le> cooldown s \<Longrightarrow>
     admissions admit s ts = (replicate (length ts) False, s)"
  by (induction ts) (simp_all add: admit_early)

lemma admits_after:
  "is_open s \<Longrightarrow> \<forall>t\<in>set ts. t - opened_at s \<le> cooldown s \<Longrightarrow>
     cooldown s < t' - opened_at s \<Longrightarrow>
     fst (admissions admit s (ts @ [t'])) = replicate (length ts) False @ [True]"
proof (induction ts)
  case Nil
  then show ?case using admit_late by (simp add: split_beta)
next
  case (Cons t ts)
  then show ?case by (simp add: admit_early split_beta)
qed

end

section \<open>States of a broker or cache node\<close>

text \<open>
  \<^verbatim>\<open>type NodeState int\<close> of \<^verbatim>\<open>amqpcluster\<close> and \<^verbatim>\<open>rediscluster\<close>, ordered as the \<^verbatim>\<open>iota\<close> constants
  are: from healthy to failed.
\<close>

datatype NodeState = NodeHealthy | NodeDegraded | NodeFailed

fun severity :: "NodeState \<Rightarrow> nat" where
  "severity NodeHealthy = 0"
| "severity NodeDegraded = 1"
| "severity NodeFailed = 2"

lemma severity_inj: "severity a = severity b \<longleftrightarrow> a = b"
  by (cases a; cases b) simp_all

instantiation NodeState :: linorder
begin

definition less_eq_NodeState :: "NodeState \<Rightarrow> NodeState \<Rightarrow> bool" where
  "less_eq_NodeState a b \<longleftrightarrow> severity a \<le> severity b"

definition less_NodeState :: "NodeState \<Rightarrow> NodeState \<Rightarrow> bool" where
  "less_NodeState a b \<longleftrightarrow> severity a < severity b"

instance
  by standard (auto simp: less_eq_NodeState_def less_NodeState_def severity_inj)

end

lemma NodeHealthy_least [simp]: "NodeHealthy \<le> s"
  by (simp add: less_eq_NodeState_def)

section \<open>Choosing by hash\<close>

text \<open>\<^verbatim>\<open>hash/fnv\<close> 32-bit FNV-1a.\<close>

definition fnv32a :: "string \<Rightarrow> 32 word" where
  "fnv32a s = foldl (\<lambda>h c. (xor h (word_of_int (of_char c))) * 16777619) 2166136261 s"

text \<open>
  \<^verbatim>\<open>selectNode\<close> and \<^verbatim>\<open>selectNodeForPublish\<close>: a position in the list of \<open>n\<close> healthy nodes, \<open>n\<close>
  positive, and the round-robin counter afterwards; \<open>r\<close> is what \<^verbatim>\<open>rand\<close> returns, modulo \<open>n\<close>.
\<close>

definition balance :: "string \<Rightarrow> nat \<Rightarrow> string \<Rightarrow> nat \<Rightarrow> int \<Rightarrow> nat outcome \<times> int" where
  "balance strategy r key n counter =
     (if strategy = ''random'' then (Ret (r mod n), counter)
      else if strategy = ''hash'' \<and> key \<noteq> [] then (Ret (unat (fnv32a key mod word_of_nat n)), counter)
      else rr_next counter n)"

lemma balance_in_range:
  assumes "0 < n" and "n < 2 ^ 32" and "fst (balance strategy r key n counter) = Ret i"
  shows "i < n"
proof -
  have "unat (h mod word_of_nat n) < n" for h :: "32 word"
    using assms(1,2) by (simp add: unat_mod unat_of_nat)
  with assms show ?thesis
    using rr_next_in_range [of counter n i] by (auto simp: balance_def split: if_splits)
qed

section \<open>Exponential backoff\<close>

text \<open>
  \<^verbatim>\<open>calculateBackoff\<close> of \<^verbatim>\<open>pgcluster\<close> and \<^verbatim>\<open>rediscluster\<close>: \<^verbatim>\<open>rand.Int63n\<close> panics for a bound that
  is not positive, and \<open>r mod q\<close> ranges over what it returns otherwise.
\<close>

definition exp_backoff :: "duration \<Rightarrow> duration \<Rightarrow> nat \<Rightarrow> nat \<Rightarrow> duration outcome" where
  "exp_backoff base bmax r attempt =
     (let b0 = wrap64 (go_shl 1 attempt * base);
          backoff = (if b0 > bmax then bmax else b0);
          q = go_quot backoff 4
      in if q \<le> 0 then Panic ''invalid argument to Int63n''
         else Ret (wrap64 (backoff + int r mod q)))"

lemma exp_backoff_eq:
  fixes base bmax :: int and attempt r :: nat
  defines "b \<equiv> min (2 ^ attempt * base) bmax"
  assumes "attempt \<le> 62" and "0 < base" and "2 ^ attempt * base \<le> max_int64" and "0 < bmax"
    and "bmax \<le> 2 ^ 62"
  shows "exp_backoff base bmax r attempt =
     (if b < 4 then Panic ''invalid argument to Int63n'' else Ret (b + int r mod (b div 4)))
    \<and> (4 \<le> b \<longrightarrow> b \<le> b + int r mod (b div 4) \<and> b + int r mod (b div 4) < b + b div 4)"
proof -
  let ?x = "2 ^ attempt * base"
  have x: "0 < ?x" using assms(3) by simp
  then have "wrap64 ?x = ?x" using assms(4) by (intro wrap64_id) (simp add: in_int64_def)
  then have b0: "(if wrap64 (go_shl 1 attempt * base) > bmax then bmax
      else wrap64 (go_shl 1 attempt * base)) = b"
    by (simp add: go_shl_small [OF assms(2)] b_def)
  have b: "0 < b" "b \<le> 2 ^ 62" using x assms(5,6) by (auto simp: b_def)
  have q: "go_quot b 4 = b div 4" using b by (simp add: go_quot_nonneg)
  have m: "0 \<le> int r mod (b div 4)" "int r mod (b div 4) < b div 4" if "4 \<le> b"
    using that by (simp_all add: pos_imp_zdiv_pos_iff)
  have "wrap64 (b + int r mod (b div 4)) = b + int r mod (b div 4)" if "4 \<le> b"
    using m [OF that] b by (intro wrap64_id) (simp add: in_int64_def max_int64_def)
  then show ?thesis
    using m b unfolding exp_backoff_def b0 Let_def q by (auto simp: pos_imp_zdiv_pos_iff)
qed

end
