(* ===== verification/Pg_Cluster.thy ===== *)
theory Pg_Cluster
  imports Pg_Config Contracts
begin

text \<open>
  The Postgres cluster manager (\<^verbatim>\<open>pgcluster/manager.go\<close>, \<^verbatim>\<open>health.go\<close>,
  \<^verbatim>\<open>writer_detection.go\<close>): the nodes, connecting, the choice of a pool for a read or a
  write, the circuit breaker, health checks and writer detection. A node pointer is the
  node's position in the list, a \<^verbatim>\<open>*sql.DB\<close> is a pool handle, and the results of dialling,
  pinging, querying, the clock and the random source are arguments. \<open>nd_locked\<close> is the node's
  mutex seen by everybody else: it is set while a goroutine that will never return holds it.
\<close>

section \<open>Nodes and the manager\<close>

datatype NodeRole = RoleWriter | RoleReader | RoleUnknown

datatype NodeHealth = HealthHealthy | HealthDegraded | HealthFailed

definition role_String :: "NodeRole \<Rightarrow> string" where
  "role_String r = (case r of RoleWriter \<Rightarrow> ''writer'' | RoleReader \<Rightarrow> ''reader'' | _ \<Rightarrow> ''unknown'')"

definition health_String :: "NodeHealth \<Rightarrow> string" where
  "health_String h = (case h of HealthHealthy \<Rightarrow> ''healthy'' | HealthDegraded \<Rightarrow> ''degraded''
     | _ \<Rightarrow> ''failed'')"

record pg_node =
  nd_URL :: string
  nd_Name :: string
  nd_Role :: NodeRole
  nd_Health :: NodeHealth
  nd_Priority :: int
  nd_sqlDB :: "nat option"
  nd_lastCheck :: instant
  nd_lastError :: "string option"
  nd_readCount :: int
  nd_writeCount :: int
  nd_errorCount :: int
  nd_responseTime :: duration
  nd_locked :: bool

record pg_cluster =
  cm_config :: pg_config
  cm_nodes :: "pg_node list"
  cm_readIndex :: int
  cm_circuitOpen :: bool
  cm_circuitOpenTime :: instant

definition pg_new_node :: "string \<Rightarrow> string \<Rightarrow> NodeRole \<Rightarrow> int \<Rightarrow> pg_node" where
  "pg_new_node url name role prio = \<lparr>nd_URL = url, nd_Name = name, nd_Role = role,
     nd_Health = HealthHealthy, nd_Priority = prio, nd_sqlDB = None, nd_lastCheck = zero_time,
     nd_lastError = None, nd_readCount = 0, nd_writeCount = 0, nd_errorCount = 0,
     nd_responseTime = 0, nd_locked = False\<rparr>"

definition pg_set_node :: "nat \<Rightarrow> (pg_node \<Rightarrow> pg_node) \<Rightarrow> pg_cluster \<Rightarrow> pg_cluster" where
  "pg_set_node i f c = c\<lparr>cm_nodes := (cm_nodes c)[i := f (cm_nodes c ! i)]\<rparr>"

section \<open>Connecting\<close>

definition pg_calculateBackoff :: "pg_config \<Rightarrow> nat \<Rightarrow> nat \<Rightarrow> duration outcome" where
  "pg_calculateBackoff cfg r attempt =
     exp_backoff (pc_RetryBackoffBase cfg) (pc_RetryBackoffMax cfg) r attempt"

text \<open>What one call of \<^verbatim>\<open>connectToNode\<close> sees: each \<^verbatim>\<open>sql.Open\<close>, the ping, the jitter, the clock.\<close>

record pg_dial =
  dl_open :: "nat \<Rightarrow> (string, nat) result"
  dl_ping :: "string option"
  dl_rand :: "nat \<Rightarrow> nat"
  dl_now :: instant

text \<open>
  The retry loop, \<open>k\<close> attempts before its end: the last \<^verbatim>\<open>(sqlDB, err)\<close> pair (\<open>None\<close> when the
  body never ran) and the sleeps.
\<close>

fun pg_open_loop :: "pg_config \<Rightarrow> pg_dial \<Rightarrow> (string, nat) result option \<Rightarrow> nat \<Rightarrow> nat \<Rightarrow>
    (string, nat) result option outcome \<times> duration list" where
  "pg_open_loop cfg d acc attempt 0 = (Ret acc, [])"
| "pg_open_loop cfg d acc attempt (Suc k) =
     (case dl_open d attempt of
        Inr db \<Rightarrow> (Ret (Some (Inr db)), [])
      | Inl err \<Rightarrow>
          if 0 < k then
            (case pg_calculateBackoff cfg (dl_rand d attempt) attempt of
               Ret backoff \<Rightarrow>
                 (let (r, sleeps) = pg_open_loop cfg d (Some (Inl err)) (Suc attempt) k
                  in (r, backoff # sleeps))
             | Panic m \<Rightarrow> (Panic m, [])
             | Block \<Rightarrow> (Block, []))
          else (Ret (Some (Inl err)), []))"

text \<open>
  \<^verbatim>\<open>connectToNode\<close> locks the node for its whole run; with no attempt at all the pool is nil and
  configuring it panics.
\<close>

definition pg_connectToNode :: "pg_config \<Rightarrow> pg_dial \<Rightarrow> pg_node \<Rightarrow> string option outcome \<times> pg_node" where
  "pg_connectToNode cfg d node =
     (if nd_locked node then (Block, node)
      else case fst (pg_open_loop cfg d None 0 (nat (pc_RetryAttempts cfg))) of
          Panic m \<Rightarrow> (Panic m, node)
        | Block \<Rightarrow> (Block, node)
        | Ret None \<Rightarrow> (Panic ''nil pointer dereference'', node)
        | Ret (Some (Inl err)) \<Rightarrow>
            (Ret (Some (''failed to connect to '' @ nd_Name node @ '' after ''
                @ itoa (pc_RetryAttempts cfg) @ '' attempts: '' @ err)),
             node\<lparr>nd_Health := HealthFailed, nd_lastError := Some err, nd_lastCheck := dl_now d,
                  nd_errorCount := wrap64 (nd_errorCount node + 1)\<rparr>)
        | Ret (Some (Inr db)) \<Rightarrow>
            (case dl_ping d of
               Some err \<Rightarrow> (Ret (Some (''failed to ping '' @ nd_Name node @ '': '' @ err)),
                 node\<lparr>nd_Health := HealthFailed, nd_lastError := Some err\<rparr>)
             | None \<Rightarrow> (Ret None,
                 node\<lparr>nd_sqlDB := Some db, nd_Health := HealthHealthy, nd_lastError := None,
                      nd_lastCheck := dl_now d\<rparr>)))"

text \<open>The nodes \<^verbatim>\<open>initializeNodes\<close> creates, in order, before they are dialled.\<close>

definition pg_planned_nodes :: "pg_config \<Rightarrow> pg_node list" where
  "pg_planned_nodes cfg =
     (if pc_WriterURL cfg \<noteq> []
      then [pg_new_node (pc_WriterURL cfg) ''writer-primary'' RoleWriter 0] else [])
     @ map (\<lambda>(i, url). pg_new_node url (''reader-'' @ itoa (int i + 1)) RoleReader (int i + 1))
         (enumerate 0 (pc_ReaderURLs cfg))"

fun pg_connect_all :: "pg_config \<Rightarrow> pg_dial list \<Rightarrow> pg_node list \<Rightarrow>
    (string list \<times> pg_node list) outcome" where
  "pg_connect_all cfg (d # ds) (n # ns) =
     (case pg_connectToNode cfg d n of
        (Ret err, n') \<Rightarrow>
          bind_outcome (pg_connect_all cfg ds ns) (\<lambda>(errs, ns').
            Ret ((case err of None \<Rightarrow> errs | Some m \<Rightarrow> m # errs), n' # ns'))
      | (Panic m, _) \<Rightarrow> Panic m
      | (Block, _) \<Rightarrow> Block)"
| "pg_connect_all cfg _ _ = Ret ([], [])"

text \<open>The loops over the nodes take each mutex in turn and stop at the first hit.\<close>

fun pg_hasHealthyNodes :: "pg_node list \<Rightarrow> bool outcome" where
  "pg_hasHealthyNodes [] = Ret False"
| "pg_hasHealthyNodes (n # ns) =
     (if nd_locked n then Block
      else if nd_Health n = HealthHealthy then Ret True else pg_hasHealthyNodes ns)"

fun pg_countHealthyNodes :: "pg_node list \<Rightarrow> nat outcome" where
  "pg_countHealthyNodes [] = Ret 0"
| "pg_countHealthyNodes (n # ns) =
     (if nd_locked n then Block
      else bind_outcome (pg_countHealthyNodes ns)
        (\<lambda>k. Ret (if nd_Health n = HealthHealthy then Suc k else k)))"

definition pg_initializeNodes :: "pg_dial list \<Rightarrow> pg_cluster \<Rightarrow> (string, pg_cluster) result outcome" where
  "pg_initializeNodes ds c =
     bind_outcome (pg_connect_all (cm_config c) ds (pg_planned_nodes (cm_config c)))
       (\<lambda>(errs, ns).
          let c' = c\<lparr>cm_nodes := cm_nodes c @ ns\<rparr>
          in bind_outcome (pg_hasHealthyNodes (cm_nodes c')) (\<lambda>ok.
               if ok then Ret (Inr c')
               else Ret (Inl (''no healthy database nodes available: '' @ concat errs))))"

definition pg_NewClusterManager :: "pg_dial list \<Rightarrow> pg_config \<Rightarrow> (string, pg_cluster) result outcome" where
  "pg_NewClusterManager ds config =
     (let cfg = pg_setDefaults config
      in case pg_Validate cfg of
           Some err \<Rightarrow> Ret (Inl (''invalid configuration: '' @ err))
         | None \<Rightarrow>
             bind_outcome (pg_initializeNodes ds \<lparr>cm_config = cfg, cm_nodes = [],
                 cm_readIndex = 0, cm_circuitOpen = False, cm_circuitOpenTime = zero_time\<rparr>)
               (\<lambda>r. Ret (case r of Inl err \<Rightarrow> Inl (''failed to initialize nodes: '' @ err)
                                 | Inr c \<Rightarrow> Inr c)))"

section \<open>Choosing a pool\<close>

definition pg_isCircuitOpen :: "instant \<Rightarrow> pg_cluster \<Rightarrow> bool \<times> pg_cluster" where
  "pg_isCircuitOpen now c =
     (if \<not> cm_circuitOpen c then (False, c)
      else if now - cm_circuitOpenTime c > pc_CircuitBreakerTimeout (cm_config c)
        then (False, c\<lparr>cm_circuitOpen := False\<rparr>)
      else (True, c))"

definition pg_openCircuitBreaker :: "instant \<Rightarrow> pg_cluster \<Rightarrow> pg_cluster" where
  "pg_openCircuitBreaker now c =
     (if \<not> cm_circuitOpen c then c\<lparr>cm_circuitOpen := True, cm_circuitOpenTime := now\<rparr> else c)"

definition pg_usable_writer :: "pg_node \<Rightarrow> bool" where
  "pg_usable_writer n \<longleftrightarrow> nd_Role n = RoleWriter \<and> nd_Health n = HealthHealthy \<and> nd_sqlDB n \<noteq> None"

definition pg_usable_reader :: "pg_node \<Rightarrow> bool" where
  "pg_usable_reader n \<longleftrightarrow> (nd_Role n = RoleReader \<or> nd_Role n = RoleWriter)
     \<and> nd_Health n = HealthHealthy \<and> nd_sqlDB n \<noteq> None"

fun pg_find_writer :: "pg_node list \<Rightarrow> nat option outcome" where
  "pg_find_writer [] = Ret None"
| "pg_find_writer (n # ns) =
     (if nd_locked n then Block
      else if pg_usable_writer n then Ret (Some 0)
      else bind_outcome (pg_find_writer ns) (\<lambda>r. Ret (map_option Suc r)))"

type_synonym pg_pool_result = "(string, nat option) result outcome"

definition pg_Writer :: "instant \<Rightarrow> pg_cluster \<Rightarrow> pg_pool_result \<times> pg_cluster" where
  "pg_Writer now c0 =
     (let (isOpen, c) = pg_isCircuitOpen now c0
      in if isOpen then (Ret (Inl ''circuit breaker is open''), c)
         else case pg_find_writer (cm_nodes c) of
             Ret (Some i) \<Rightarrow>
               (Ret (Inr (nd_sqlDB (cm_nodes c ! i))),
                pg_set_node i (\<lambda>n. n\<lparr>nd_writeCount := wrap64 (nd_writeCount n + 1)\<rparr>) c)
           | Ret None \<Rightarrow>
               (Ret (Inl ''no healthy writer node available''), pg_openCircuitBreaker now c)
           | Panic m \<Rightarrow> (Panic m, c)
           | Block \<Rightarrow> (Block, c))"

text \<open>The exchange sort of \<^verbatim>\<open>getHealthyReaders\<close>, as the two nested loops write it.\<close>

definition swap_at :: "nat \<Rightarrow> nat \<Rightarrow> 'a list \<Rightarrow> 'a list" where
  "swap_at i j xs = xs[i := xs ! j, j := xs ! i]"

definition exchange_pass :: "('a \<Rightarrow> int) \<Rightarrow> nat \<Rightarrow> 'a list \<Rightarrow> 'a list" where
  "exchange_pass key i xs =
     fold (\<lambda>j ys. if key (ys ! i) > key (ys ! j) then swap_at i j ys else ys)
       [Suc i..<length xs] xs"

definition exchange_sort :: "('a \<Rightarrow> int) \<Rightarrow> 'a list \<Rightarrow> 'a list" where
  "exchange_sort key xs = fold (exchange_pass key) [0..<length xs - 1] xs"

definition pg_getHealthyReaders :: "pg_node list \<Rightarrow> nat list outcome" where
  "pg_getHealthyReaders ns =
     (if list_ex nd_locked ns then Block
      else Ret (exchange_sort (\<lambda>i. nd_Priority (ns ! i)) (positions pg_usable_reader ns)))"

fun pg_least_loop :: "(nat \<Rightarrow> int) \<Rightarrow> nat \<Rightarrow> int \<Rightarrow> nat list \<Rightarrow> nat" where
  "pg_least_loop load selected minConnections [] = selected"
| "pg_least_loop load selected minConnections (r # rs) =
     (if load r < minConnections then pg_least_loop load r (load r) rs
      else pg_least_loop load selected minConnections rs)"

definition pg_selectLeastConnectedReader :: "pg_node list \<Rightarrow> nat list \<Rightarrow> nat option" where
  "pg_selectLeastConnectedReader ns readers =
     (case readers of [] \<Rightarrow> None
      | r # rs \<Rightarrow> Some (pg_least_loop (\<lambda>i. nd_readCount (ns ! i)) r (nd_readCount (ns ! r)) rs))"

text \<open>The pick of a reader: the position chosen, and the round-robin counter after it.\<close>

definition pg_select :: "nat \<Rightarrow> nat list \<Rightarrow> pg_cluster \<Rightarrow> nat outcome \<times> int" where
  "pg_select r readers c =
     (if pc_ReadBalanceStrategy (cm_config c) = ''random''
        then (Ret (readers ! (r mod length readers)), cm_readIndex c)
      else if pc_ReadBalanceStrategy (cm_config c) = ''priority''
        then (Ret (readers ! 0), cm_readIndex c)
      else if pc_ReadBalanceStrategy (cm_config c) = ''least_connections''
        then (case pg_selectLeastConnectedReader (cm_nodes c) readers of
                Some i \<Rightarrow> Ret i | None \<Rightarrow> Panic ''nil pointer dereference'', cm_readIndex c)
      else (let (o1, idx) = rr_next (cm_readIndex c) (length readers)
            in (bind_outcome o1 (\<lambda>k. Ret (readers ! k)), idx)))"

definition pg_Reader :: "instant \<Rightarrow> nat \<Rightarrow> pg_cluster \<Rightarrow> pg_pool_result \<times> pg_cluster" where
  "pg_Reader now r c0 =
     (let (isOpen, c) = pg_isCircuitOpen now c0
      in if isOpen then (Ret (Inl ''circuit breaker is open''), c)
         else case pg_getHealthyReaders (cm_nodes c) of
             Panic m \<Rightarrow> (Panic m, c)
           | Block \<Rightarrow> (Block, c)
           | Ret readers \<Rightarrow>
               if readers = [] then pg_Writer now c
               else (case pg_select r readers c of
                   (Ret i, idx) \<Rightarrow>
                     (Ret (Inr (nd_sqlDB (cm_nodes c ! i))),
                      pg_set_node i (\<lambda>n. n\<lparr>nd_readCount := wrap64 (nd_readCount n + 1)\<rparr>)
                        (c\<lparr>cm_readIndex := idx\<rparr>))
                 | (Panic m, idx) \<Rightarrow> (Panic m, c\<lparr>cm_readIndex := idx\<rparr>)
                 | (Block, idx) \<Rightarrow> (Block, c\<lparr>cm_readIndex := idx\<rparr>)))"

text \<open>The hint \<^verbatim>\<open>WithWriter\<close> and \<^verbatim>\<open>WithReader\<close> leave in a context, \<open>None\<close> when there is none.\<close>

definition pg_WithWriter :: "bool option \<Rightarrow> bool option" where
  "pg_WithWriter ctx = Some True"

definition pg_WithReader :: "bool option \<Rightarrow> bool option" where
  "pg_WithReader ctx = Some False"

definition pg_DB :: "instant \<Rightarrow> nat \<Rightarrow> bool option \<Rightarrow> pg_cluster \<Rightarrow> pg_pool_result \<times> pg_cluster" where
  "pg_DB now r ctx c = (if ctx = Some True then pg_Writer now c else pg_Reader now r c)"

section \<open>Facts\<close>

text \<open>The exchange sort permutes and sorts.\<close>

lemma swap_at_mset: "i < length xs \<Longrightarrow> j < length xs \<Longrightarrow> mset (swap_at i j xs) = mset xs"
  by (simp add: swap_at_def mset_swap)

lemma swap_at_length [simp]: "length (swap_at i j xs) = length xs"
  by (simp add: swap_at_def)

abbreviation exchange_step :: "('a \<Rightarrow> int) \<Rightarrow> nat \<Rightarrow> nat \<Rightarrow> 'a list \<Rightarrow> 'a list" where
  "exchange_step key i j ys \<equiv> (if key (ys ! i) > key (ys ! j) then swap_at i j ys else ys)"

text \<open>After the pass, position \<open>i\<close> holds a minimum of the rest and the positions before it are kept.\<close>

lemma exchange_pass_prefix:
  assumes "i < length xs" and "m \<le> length xs"
  shows "let ys = fold (exchange_step key i) [Suc i..<m] xs
         in length ys = length xs \<and> mset ys = mset xs \<and> take i ys = take i xs
            \<and> (\<forall>j. i < j \<and> j < m \<longrightarrow> key (ys ! i) \<le> key (ys ! j))"
  using assms(2)
proof (induction m)
  case 0
  then show ?case by simp
next
  case (Suc m)
  show ?case
  proof (cases "m \<le> i")
    case True
    then show ?thesis by (simp add: Let_def)
  next
    case False
    define ys where "ys = fold (exchange_step key i) [Suc i..<m] xs"
    have ih: "length ys = length xs" "mset ys = mset xs" "take i ys = take i xs"
      "\<forall>j. i < j \<and> j < m \<longrightarrow> key (ys ! i) \<le> key (ys ! j)"
      using Suc by (simp_all add: ys_def Let_def)
    have "fold (exchange_step key i) [Suc i..<Suc m] xs = exchange_step key i m ys"
      using False by (simp add: ys_def)
    moreover have "mset (swap_at i m ys) = mset xs"
      using ih Suc.prems assms(1) by (simp add: swap_at_mset)
    moreover have "take i (swap_at i m ys) = take i xs"
      using ih False by (simp add: swap_at_def)
    moreover have "\<forall>j. i < j \<and> j < Suc m \<longrightarrow>
        key (exchange_step key i m ys ! i) \<le> key (exchange_step key i m ys ! j)"
      using ih False Suc.prems assms(1)
      by (auto simp: swap_at_def nth_list_update less_Suc_eq)
    ultimately show ?thesis using ih by (simp add: Let_def)
  qed
qed

lemma exchange_pass:
  assumes "i < length xs"
  shows "length (exchange_pass key i xs) = length xs" "mset (exchange_pass key i xs) = mset xs"
    "take i (exchange_pass key i xs) = take i xs"
    "i < j \<Longrightarrow> j < length xs \<Longrightarrow> key (exchange_pass key i xs ! i) \<le> key (exchange_pass key i xs ! j)"
  using exchange_pass_prefix [OF assms order_refl, of key]
  by (simp_all add: exchange_pass_def Let_def)

text \<open>The first \<open>m\<close> positions are settled: each is at most every later one.\<close>

definition settled :: "('a \<Rightarrow> int) \<Rightarrow> nat \<Rightarrow> 'a list \<Rightarrow> bool" where
  "settled key m xs \<longleftrightarrow> (\<forall>i<m. \<forall>j<length xs. i < j \<longrightarrow> key (xs ! i) \<le> key (xs ! j))"

lemma take_mset_drop:
  "take m xs = take m ys \<Longrightarrow> mset xs = mset ys \<Longrightarrow> set (drop m xs) = set (drop m ys)"
proof -
  assume a: "take m xs = take m ys" "mset xs = mset ys"
  have "mset (take m xs) + mset (drop m xs) = mset (take m ys) + mset (drop m ys)"
    using a(2) by (simp flip: mset_append)
  with a(1) have "mset (drop m xs) = mset (drop m ys)" by simp
  then show ?thesis by (rule mset_eq_setD)
qed

lemma settled_pass:
  assumes "settled key m xs" and "m < length xs"
  shows "settled key (Suc m) (exchange_pass key m xs)"
  unfolding settled_def
proof (intro allI impI)
  let ?ys = "exchange_pass key m xs"
  note ex = exchange_pass [OF assms(2), where key = key]
  fix i j assume ij: "i < Suc m" "j < length ?ys" "i < j"
  show "key (?ys ! i) \<le> key (?ys ! j)"
  proof (cases "i = m")
    case True
    then show ?thesis using ex ij by simp
  next
    case False
    then have im: "i < m" using ij by simp
    then have yi: "?ys ! i = xs ! i" using ex(3) by (metis nth_take)
    show ?thesis
    proof (cases "j < m")
      case True
      then have "?ys ! j = xs ! j" using ex(3) by (metis nth_take)
      then show ?thesis using yi assms im ij True by (simp add: settled_def)
    next
      case False
      have "?ys ! j \<in> set (drop m ?ys)"
        using False ij(2) by (auto simp: in_set_conv_nth intro!: exI [of _ "j - m"])
      then have "?ys ! j \<in> set (drop m xs)" using take_mset_drop [OF ex(3,2)] by simp
      then obtain k where "k < length xs - m" "?ys ! j = xs ! (m + k)"
        by (auto simp: in_set_conv_nth)
      then show ?thesis using yi assms im by (simp add: settled_def)
    qed
  qed
qed

lemma exchange_sort_settled:
  "m \<le> length xs \<Longrightarrow> (let ys = fold (exchange_pass key) [0..<m] xs
     in length ys = length xs \<and> mset ys = mset xs \<and> settled key m ys)"
proof (induction m)
  case 0
  then show ?case by (simp add: settled_def)
next
  case (Suc m)
  then show ?case
    using exchange_pass(1,2) [of m "fold (exchange_pass key) [0..<m] xs" key]
      settled_pass [of key m "fold (exchange_pass key) [0..<m] xs"]
    by (simp add: Let_def)
qed

lemma exchange_sort:
  "mset (exchange_sort key xs) = mset xs" "sorted (map key (exchange_sort key xs))"
  "length (exchange_sort key xs) = length xs"
proof -
  let ?ys = "exchange_sort key xs"
  have a: "length ?ys = length xs" "mset ?ys = mset xs" "settled key (length xs - 1) ?ys"
    using exchange_sort_settled [of "length xs - 1" xs key]
    by (simp_all add: exchange_sort_def Let_def)
  then show "mset ?ys = mset xs" "length ?ys = length xs" by simp_all
  show "sorted (map key ?ys)"
    unfolding sorted_iff_nth_mono_less using a by (auto simp: settled_def)
qed

lemma exchange_sort_set [simp]: "set (exchange_sort key xs) = set xs"
  using mset_eq_setD [OF exchange_sort(1)] .

lemma exchange_sort_Nil_iff [simp]: "exchange_sort key xs = [] \<longleftrightarrow> xs = []"
  using exchange_sort(3) [of key xs] by (metis length_0_conv)

text \<open>What the loops over the nodes find.\<close>

lemma pg_find_writer_unlocked:
  "list_all (\<lambda>n. \<not> nd_locked n) ns \<Longrightarrow>
     pg_find_writer ns = Ret (find_index pg_usable_writer ns)"
  by (induction ns) auto

lemma pg_find_writer_Some:
  "pg_find_writer ns = Ret (Some i) \<Longrightarrow> i < length ns \<and> pg_usable_writer (ns ! i)"
proof (induction ns arbitrary: i)
  case (Cons n ns)
  then show ?case by (auto simp: outcome_simps split: if_splits)
qed simp

lemma pg_getHealthyReaders_Ret:
  "pg_getHealthyReaders ns = Ret rs \<longleftrightarrow>
     list_all (\<lambda>n. \<not> nd_locked n) ns \<and>
     rs = exchange_sort (\<lambda>i. nd_Priority (ns ! i)) (positions pg_usable_reader ns)"
  by (auto simp: pg_getHealthyReaders_def list_ex_iff list_all_iff)

lemma pg_usable_writer_reader: "pg_usable_writer n \<Longrightarrow> pg_usable_reader n"
  by (simp add: pg_usable_writer_def pg_usable_reader_def)

lemma pg_least_loop_in: "pg_least_loop load s m rs \<in> insert s (set rs)"
  by (induction rs arbitrary: s m) auto

lemma pg_least_loop_min:
  "m = load s \<Longrightarrow> \<forall>r\<in>insert s (set rs). load (pg_least_loop load s m rs) \<le> load r"
proof (induction rs arbitrary: s m)
  case (Cons r rs)
  from Cons.IH [of "load r" r] Cons.IH [of m s] Cons.prems show ?case
    by (auto intro: order_trans less_imp_le)
qed simp

lemma pg_selectLeast_Some:
  "readers \<noteq> [] \<Longrightarrow> \<exists>i\<in>set readers. pg_selectLeastConnectedReader ns readers = Some i
     \<and> (\<forall>j\<in>set readers. nd_readCount (ns ! i) \<le> nd_readCount (ns ! j))"
proof -
  assume "readers \<noteq> []"
  then obtain r rs where r: "readers = r # rs" by (cases readers) auto
  let ?l = "\<lambda>i. nd_readCount (ns ! i)"
  have "pg_least_loop ?l r (?l r) rs \<in> set readers" using pg_least_loop_in [of ?l r "?l r" rs] r by simp
  moreover have "\<forall>j\<in>set readers. ?l (pg_least_loop ?l r (?l r) rs) \<le> ?l j"
    using pg_least_loop_min [of "?l r" ?l r rs] r by simp
  ultimately show ?thesis using r by (auto simp: pg_selectLeastConnectedReader_def)
qed

lemma pg_select_in:
  "readers \<noteq> [] \<Longrightarrow> fst (pg_select r readers c) = Ret i \<Longrightarrow> i \<in> set readers"
proof -
  assume ne: "readers \<noteq> []" and sel: "fst (pg_select r readers c) = Ret i"
  obtain k where k: "pg_selectLeastConnectedReader (cm_nodes c) readers = Some k" "k \<in> set readers"
    using pg_selectLeast_Some [OF ne] by blast
  obtain o1 idx where rr: "rr_next (cm_readIndex c) (length readers) = (o1, idx)" by fastforce
  have "readers ! x \<in> set readers" if "o1 = Ret x" for x
    using rr_next_in_range [of "cm_readIndex c" "length readers" x] rr that by simp
  with sel k rr ne show ?thesis
    by (auto simp: pg_select_def Let_def outcome_simps split: if_splits)
qed

lemma pg_isCircuitOpen_nodes [simp]:
  "cm_nodes (snd (pg_isCircuitOpen now c)) = cm_nodes c"
  "cm_config (snd (pg_isCircuitOpen now c)) = cm_config c"
  "cm_readIndex (snd (pg_isCircuitOpen now c)) = cm_readIndex c"
  by (simp_all add: pg_isCircuitOpen_def)

lemma pg_openCircuitBreaker_nodes [simp]:
  "cm_nodes (pg_openCircuitBreaker now c) = cm_nodes c"
  "cm_config (pg_openCircuitBreaker now c) = cm_config c"
  by (simp_all add: pg_openCircuitBreaker_def)

interpretation pg_breaker: circuit_breaker "\<lambda>now c. (\<lambda>(b, c'). (\<not> b, c')) (pg_isCircuitOpen now c)"
  cm_circuitOpen cm_circuitOpenTime "\<lambda>c. pc_CircuitBreakerTimeout (cm_config c)"
  by unfold_locales (simp_all add: pg_isCircuitOpen_def)

end
