(* ===== verification/Pg_Monitor.thy ===== *)
theory Pg_Monitor
  imports Pg_Cluster
begin

text \<open>
  Health checks and writer detection of the Postgres cluster manager
  (\<^verbatim>\<open>pgcluster/health.go\<close>, \<^verbatim>\<open>pgcluster/writer_detection.go\<close>, \<^verbatim>\<open>ClusterManager.Close\<close>), and the
  manager as a state machine: every operation a caller or a background goroutine runs is a
  step. The goroutines \<^verbatim>\<open>performHealthChecks\<close> starts each touch their own node only, so their
  effect is a map over the nodes.
\<close>

section \<open>Classifying errors\<close>

definition ci_contains :: "string \<Rightarrow> string \<Rightarrow> bool" where
  "ci_contains s t = strContains (toLower s) (toLower t)"

definition pg_retryableKeywords :: "string list" where
  "pg_retryableKeywords = [''connection refused'', ''timeout'', ''network'', ''dial'', ''temporary'',
     ''connection reset'', ''broken pipe'', ''no route to host'',
     ''connection timed out'', ''i/o timeout'', ''context deadline exceeded'']"

definition pg_nonRetryableKeywords :: "string list" where
  "pg_nonRetryableKeywords = [''authentication'', ''password'', ''permission denied'',
     ''access denied'', ''database does not exist'', ''role does not exist'', ''syntax error'',
     ''invalid'', ''malformed'', ''ssl required'']"

definition pg_isRetryableError :: "string option \<Rightarrow> bool" where
  "pg_isRetryableError err =
     (case err of
        None \<Rightarrow> False
      | Some errStr \<Rightarrow>
          if list_ex (ci_contains errStr) pg_retryableKeywords then True
          else if list_ex (ci_contains errStr) pg_nonRetryableKeywords then False
          else True)"

section \<open>Health checks\<close>

text \<open>
  What one check sees: the clock, a dial should it reconnect, the ping and how long it took.
  The check holds the node's mutex throughout, so the reconnection it attempts finds the
  mutex taken.
\<close>

record pg_probe =
  pr_now :: instant
  pr_dial :: pg_dial
  pr_ping :: "string option"
  pr_took :: duration

definition pg_checkNodeHealth :: "pg_config \<Rightarrow> pg_probe \<Rightarrow> pg_node \<Rightarrow> unit outcome \<times> pg_node" where
  "pg_checkNodeHealth cfg p node0 =
     (if nd_locked node0 then (Block, node0)
      else if pr_now p - nd_lastCheck node0 < 10 * second then (Ret (), node0)
      else
        let node = node0\<lparr>nd_lastCheck := pr_now p\<rparr>
        in if nd_sqlDB node = None then
             (case pg_connectToNode cfg (pr_dial p) (node\<lparr>nd_locked := True\<rparr>) of
                (Ret _, n') \<Rightarrow> (Ret (), n'\<lparr>nd_locked := False\<rparr>)
              | (Panic m, n') \<Rightarrow> (Panic m, n'\<lparr>nd_locked := False\<rparr>)
              | (Block, n') \<Rightarrow> (Block, n'))
           else case pr_ping p of
               Some err \<Rightarrow>
                 let n1 = node\<lparr>nd_responseTime := pr_took p,
                               nd_errorCount := wrap64 (nd_errorCount node + 1),
                               nd_lastError := Some err\<rparr>
                 in if pg_isRetryableError (Some err) then
                      (Ret (), if nd_Health n1 = HealthHealthy
                               then n1\<lparr>nd_Health := HealthDegraded\<rparr> else n1)
                    else (Ret (), n1\<lparr>nd_Health := HealthFailed, nd_sqlDB := None\<rparr>)
             | None \<Rightarrow>
                 let n1 = node\<lparr>nd_responseTime := pr_took p\<rparr>;
                     n2 = (if nd_Health n1 \<noteq> HealthHealthy
                           then n1\<lparr>nd_Health := HealthHealthy, nd_lastError := None\<rparr> else n1)
                 in (Ret (), if nd_responseTime n2 > 5 * second \<and> nd_Health n2 = HealthHealthy
                             then n2\<lparr>nd_Health := HealthDegraded\<rparr> else n2))"

definition pg_performHealthChecks :: "(nat \<Rightarrow> pg_probe) \<Rightarrow> pg_cluster \<Rightarrow> pg_cluster" where
  "pg_performHealthChecks probes c =
     c\<lparr>cm_nodes := map (\<lambda>(i, n). snd (pg_checkNodeHealth (cm_config c) (probes i) n))
         (enumerate 0 (cm_nodes c))\<rparr>"

record pg_stats =
  st_URL :: string
  st_Role :: NodeRole
  st_Health :: NodeHealth
  st_Priority :: int
  st_ReadCount :: int
  st_WriteCount :: int
  st_ErrorCount :: int
  st_ResponseTime :: duration
  st_LastError :: "string option"
  st_LastCheck :: instant

definition pg_node_stats :: "pg_node \<Rightarrow> pg_stats" where
  "pg_node_stats n = \<lparr>st_URL = nd_URL n, st_Role = nd_Role n, st_Health = nd_Health n,
     st_Priority = nd_Priority n, st_ReadCount = nd_readCount n, st_WriteCount = nd_writeCount n,
     st_ErrorCount = nd_errorCount n, st_ResponseTime = nd_responseTime n,
     st_LastError = nd_lastError n, st_LastCheck = nd_lastCheck n\<rparr>"

definition pg_GetNodeStats :: "pg_cluster \<Rightarrow> (string \<rightharpoonup> pg_stats) outcome" where
  "pg_GetNodeStats c =
     (if list_ex nd_locked (cm_nodes c) then Block
      else Ret (fold (\<lambda>n m. m(nd_Name n \<mapsto> pg_node_stats n)) (cm_nodes c) Map.empty))"

definition pg_HealthCheck :: "(nat \<Rightarrow> pg_probe) \<Rightarrow> pg_cluster \<Rightarrow> string option outcome \<times> pg_cluster" where
  "pg_HealthCheck probes c0 =
     (let c = pg_performHealthChecks probes c0
      in (bind_outcome (pg_hasHealthyNodes (cm_nodes c)) (\<lambda>ok.
            if \<not> ok then Ret (Some ''no healthy database nodes available'')
            else if list_ex nd_locked (cm_nodes c) then Block
            else if \<not> list_ex (\<lambda>n. nd_Health n = HealthHealthy \<and> nd_Role n = RoleWriter) (cm_nodes c)
              then Ret (Some ''no healthy writer node available'')
            else Ret None), c))"

section \<open>Writer detection\<close>

definition pg_promote :: "pg_node \<Rightarrow> pg_node" where
  "pg_promote n = (if nd_Role n \<noteq> RoleWriter
     then n\<lparr>nd_Role := RoleWriter, nd_Priority := 0\<rparr> else n)"

definition pg_demote :: "pg_node \<Rightarrow> pg_node" where
  "pg_demote n = (if nd_Role n \<noteq> RoleReader
     then n\<lparr>nd_Role := RoleReader,
            nd_Priority := (if nd_Priority n = 0 then 1 else nd_Priority n)\<rparr> else n)"

text \<open>A goroutine that finds the node's mutex held for ever leaves the node as it is.\<close>

definition under_lock :: "(pg_node \<Rightarrow> pg_node) \<Rightarrow> pg_node \<Rightarrow> pg_node" where
  "under_lock f n = (if nd_locked n then n else f n)"

definition pg_detectWriterByQuery :: "(nat \<Rightarrow> (string, bool) result) \<Rightarrow> pg_cluster \<Rightarrow> pg_cluster" where
  "pg_detectWriterByQuery answers c =
     c\<lparr>cm_nodes := map (\<lambda>(i, n).
         if nd_Health n \<noteq> HealthHealthy \<or> nd_sqlDB n = None then n
         else case answers i of
             Inl err \<Rightarrow> n
           | Inr isPrimary \<Rightarrow> under_lock (if isPrimary then pg_promote else pg_demote) n)
         (enumerate 0 (cm_nodes c))\<rparr>"

definition pg_detectWriterByProbe :: "(nat \<Rightarrow> (string, unit) result) \<Rightarrow> pg_cluster \<Rightarrow> pg_cluster" where
  "pg_detectWriterByProbe begins c =
     c\<lparr>cm_nodes := map (\<lambda>(i, n).
         if nd_Health n \<noteq> HealthHealthy \<or> nd_sqlDB n = None then n
         else case begins i of Inl err \<Rightarrow> n | Inr _ \<Rightarrow> under_lock pg_promote n)
         (enumerate 0 (cm_nodes c))\<rparr>"

definition pg_extractIPFromURL :: "string \<Rightarrow> string" where
  "pg_extractIPFromURL url0 =
     (if \<not> hasPrefix url0 ''postgres://'' then []
      else let url = trimPrefix url0 ''postgres://''
           in case strIndex url ''@'' of
                None \<Rightarrow> []
              | Some atIndex \<Rightarrow>
                  let hostPort = drop (atIndex + 1) url;
                      hostPort1 = (case strIndex hostPort ''/'' of
                         Some k \<Rightarrow> take k hostPort | None \<Rightarrow> hostPort)
                  in (case strIndex hostPort1 '':'' of
                        Some k \<Rightarrow> take k hostPort1 | None \<Rightarrow> hostPort1))"

text \<open>The loop over the nodes stops for good at a mutex that is never released.\<close>

fun pg_assign_writer :: "string \<Rightarrow> pg_node list \<Rightarrow> unit outcome \<times> pg_node list" where
  "pg_assign_writer writerIP [] = (Ret (), [])"
| "pg_assign_writer writerIP (n # ns) =
     (let nodeIP = pg_extractIPFromURL (nd_URL n)
      in if nodeIP = [] then
           (let (r, ns') = pg_assign_writer writerIP ns in (r, n # ns'))
         else if nd_locked n then (Block, n # ns)
         else let (r, ns') = pg_assign_writer writerIP ns
              in (r, (if nodeIP = writerIP then pg_promote n else pg_demote n) # ns'))"

definition pg_updateWriterByIP :: "string \<Rightarrow> pg_cluster \<Rightarrow> unit outcome \<times> pg_cluster" where
  "pg_updateWriterByIP writerIP c =
     (let (r, ns) = pg_assign_writer writerIP (cm_nodes c) in (r, c\<lparr>cm_nodes := ns\<rparr>))"

definition pg_detectWriterByDNS :: "(string, string list) result \<Rightarrow> pg_cluster \<Rightarrow> unit outcome \<times> pg_cluster" where
  "pg_detectWriterByDNS lookup c =
     (if pc_WriterDNSName (cm_config c) = [] then (Ret (), c)
      else case lookup of
          Inl err \<Rightarrow> (Ret (), c)
        | Inr [] \<Rightarrow> (Ret (), c)
        | Inr (ip # ips) \<Rightarrow> pg_updateWriterByIP ip c)"

record pg_detection_env =
  de_lookup :: "(string, string list) result"
  de_answers :: "nat \<Rightarrow> (string, bool) result"
  de_begins :: "nat \<Rightarrow> (string, unit) result"

definition pg_detectWriter :: "pg_detection_env \<Rightarrow> pg_cluster \<Rightarrow> unit outcome \<times> pg_cluster" where
  "pg_detectWriter env c =
     (case pc_WriterDetectionStrategy (cm_config c) of
        StrategyDNS \<Rightarrow> pg_detectWriterByDNS (de_lookup env) c
      | StrategyQuery \<Rightarrow> (Ret (), pg_detectWriterByQuery (de_answers env) c)
      | StrategyProbe \<Rightarrow> (Ret (), pg_detectWriterByProbe (de_begins env) c)
      | StrategyConfig \<Rightarrow> (Ret (), c))"

definition pg_ForceWriterDetection :: "pg_detection_env \<Rightarrow> pg_cluster \<Rightarrow> unit outcome \<times> pg_cluster" where
  "pg_ForceWriterDetection env c = pg_detectWriter env c"

fun pg_elect :: "nat \<Rightarrow> nat \<Rightarrow> pg_node list \<Rightarrow> unit outcome \<times> pg_node list" where
  "pg_elect target i [] = (Ret (), [])"
| "pg_elect target i (n # ns) =
     (if nd_locked n then (Block, n # ns)
      else let (r, ns') = pg_elect target (Suc i) ns
           in (r, (if i = target then n\<lparr>nd_Role := RoleWriter, nd_Priority := 0\<rparr>
                   else if nd_Role n = RoleWriter
                   then n\<lparr>nd_Role := RoleReader,
                          nd_Priority := (if nd_Priority n = 0 then 1 else nd_Priority n)\<rparr>
                   else n) # ns'))"

definition pg_SetWriterNode :: "string \<Rightarrow> pg_cluster \<Rightarrow> string option outcome \<times> pg_cluster" where
  "pg_SetWriterNode nodeName c =
     (case find_index (\<lambda>n. nd_Name n = nodeName) (cm_nodes c) of
        None \<Rightarrow> (Ret (Some (''node '' @ nodeName @ '' not found'')), c)
      | Some target \<Rightarrow>
          let (r, ns) = pg_elect target 0 (cm_nodes c)
          in (bind_outcome r (\<lambda>_. Ret None), c\<lparr>cm_nodes := ns\<rparr>))"

section \<open>Closing\<close>

text \<open>\<^verbatim>\<open>Close\<close>, once the background tasks have stopped: the handles closed and the errors joined.\<close>

fun pg_close_nodes :: "(nat \<Rightarrow> string option) \<Rightarrow> pg_node list \<Rightarrow> (nat list \<times> string list) outcome" where
  "pg_close_nodes closeErr [] = Ret ([], [])"
| "pg_close_nodes closeErr (n # ns) =
     (if nd_locked n then Block
      else bind_outcome (pg_close_nodes closeErr ns) (\<lambda>(dbs, errs).
        Ret (case nd_sqlDB n of
               None \<Rightarrow> (dbs, errs)
             | Some db \<Rightarrow> (db # dbs,
                 (case closeErr db of None \<Rightarrow> errs
                  | Some e \<Rightarrow> (''closing '' @ nd_Name n @ '': '' @ e) # errs)))))"

definition pg_Close :: "(nat \<Rightarrow> string option) \<Rightarrow> pg_cluster \<Rightarrow> (nat list \<times> string list) outcome" where
  "pg_Close closeErr c = pg_close_nodes closeErr (cm_nodes c)"

section \<open>The manager as a state machine\<close>

inductive pg_step :: "pg_cluster \<Rightarrow> pg_cluster \<Rightarrow> bool" where
  writer: "pg_step c (snd (pg_Writer now c))"
| reader: "pg_step c (snd (pg_Reader now r c))"
| check: "i < length (cm_nodes c) \<Longrightarrow>
    pg_step c (pg_set_node i (\<lambda>n. snd (pg_checkNodeHealth (cm_config c) p n)) c)"
| detect: "pg_step c (snd (pg_detectWriter env c))"
| elect: "pg_step c (snd (pg_SetWriterNode name c))"

definition pg_reachable :: "pg_cluster \<Rightarrow> bool" where
  "pg_reachable c \<longleftrightarrow> (\<exists>ds config c0. pg_NewClusterManager ds config = Ret (Inr c0) \<and> pg_step\<^sup>*\<^sup>* c0 c)"

inductive_cases pg_stepE: "pg_step c c'"

section \<open>How a node evolves\<close>

text \<open>
  A node of a manager is a reader or a writer, the writers are the nodes of priority 0, and the
  failed nodes are those without a pool.
\<close>

definition pg_role_ok :: "NodeRole \<Rightarrow> int \<Rightarrow> bool" where
  "pg_role_ok role prio = (case role of RoleWriter \<Rightarrow> prio = 0 | RoleReader \<Rightarrow> 0 < prio
     | RoleUnknown \<Rightarrow> False)"

definition pg_node_ok :: "pg_node \<Rightarrow> bool" where
  "pg_node_ok n \<longleftrightarrow> pg_role_ok (nd_Role n) (nd_Priority n)
     \<and> (nd_Health n = HealthFailed \<longleftrightarrow> nd_sqlDB n = None)"

text \<open>What every operation does to a node it may touch.\<close>

definition pg_evolves :: "pg_node \<Rightarrow> pg_node \<Rightarrow> bool" where
  "pg_evolves n n' \<longleftrightarrow> nd_URL n' = nd_URL n \<and> nd_Name n' = nd_Name n
     \<and> (nd_locked n \<longrightarrow> nd_locked n')
     \<and> (pg_node_ok n \<longrightarrow> pg_node_ok n' \<and> (nd_Health n = HealthFailed \<longrightarrow> nd_Health n' = HealthFailed))"

lemma pg_evolves_refl [simp, intro]: "pg_evolves n n"
  by (simp add: pg_evolves_def)

lemma pg_evolves_trans: "pg_evolves a b \<Longrightarrow> pg_evolves b c \<Longrightarrow> pg_evolves a c"
  by (auto simp: pg_evolves_def)

lemma pg_evolves_promote [simp]: "pg_evolves n (pg_promote n)"
  by (simp add: pg_evolves_def pg_node_ok_def pg_promote_def pg_role_ok_def)

lemma pg_evolves_demote [simp]: "pg_evolves n (pg_demote n)"
  by (cases "nd_Role n") (simp_all add: pg_evolves_def pg_node_ok_def pg_demote_def pg_role_ok_def)

lemma pg_evolves_under_lock: "pg_evolves n (f n) \<Longrightarrow> pg_evolves n (under_lock f n)"
  by (simp add: under_lock_def)

lemma pg_connectToNode_locked [simp]:
  "nd_locked n \<Longrightarrow> pg_connectToNode cfg d n = (Block, n)"
  by (simp add: pg_connectToNode_def)

text \<open>The self-deadlock: a check of a node without a pool never returns.\<close>

lemma pg_check_no_pool:
  "\<not> nd_locked n \<Longrightarrow> 10 * second \<le> pr_now p - nd_lastCheck n \<Longrightarrow> nd_sqlDB n = None \<Longrightarrow>
     pg_checkNodeHealth cfg p n = (Block, n\<lparr>nd_lastCheck := pr_now p, nd_locked := True\<rparr>)"
  unfolding pg_checkNodeHealth_def Let_def by simp

lemma pg_evolves_check: "pg_evolves n (snd (pg_checkNodeHealth cfg p n))"
proof (cases "nd_locked n \<or> pr_now p - nd_lastCheck n < 10 * second")
  case True
  then show ?thesis by (auto simp: pg_checkNodeHealth_def)
next
  case False
  show ?thesis
  proof (cases "nd_sqlDB n")
    case None
    with False show ?thesis by (simp add: pg_check_no_pool pg_evolves_def pg_node_ok_def)
  next
    case (Some db)
    with False show ?thesis
      unfolding pg_checkNodeHealth_def Let_def
      by (cases "pr_ping p")
        (simp_all add: pg_evolves_def pg_node_ok_def split del: if_split split: if_split)
  qed
qed

text \<open>Each operation evolves the nodes pointwise and keeps the configuration.\<close>

definition pg_moves :: "pg_cluster \<Rightarrow> pg_cluster \<Rightarrow> bool" where
  "pg_moves c c' \<longleftrightarrow> cm_config c' = cm_config c \<and> list_all2 pg_evolves (cm_nodes c) (cm_nodes c')"

lemma list_all2_evolves_refl [simp]: "list_all2 pg_evolves ns ns"
  by (simp add: list_all2_refl)

lemma list_all2_enumerate_map:
  "(\<And>i n. P n (f (i, n))) \<Longrightarrow> list_all2 P ns (map f (enumerate k ns))"
  by (auto simp: list_all2_conv_all_nth nth_enumerate_eq)

lemma pg_moves_refl [simp]: "pg_moves c c"
  by (simp add: pg_moves_def)

lemma pg_moves_trans: "pg_moves a b \<Longrightarrow> pg_moves b c \<Longrightarrow> pg_moves a c"
  unfolding pg_moves_def using list_all2_trans [of pg_evolves pg_evolves pg_evolves] pg_evolves_trans
  by metis

lemma pg_moves_set_node:
  "cm_nodes c' = cm_nodes c \<Longrightarrow> cm_config c' = cm_config c \<Longrightarrow> (\<And>n. pg_evolves n (f n)) \<Longrightarrow>
     pg_moves c (pg_set_node i f c')"
proof -
  assume a: "cm_nodes c' = cm_nodes c" "cm_config c' = cm_config c" "\<And>n. pg_evolves n (f n)"
  have "pg_evolves (cm_nodes c ! k) ((cm_nodes c)[i := f (cm_nodes c ! i)] ! k)"
    if "k < length (cm_nodes c)" for k
    using that a(3) by (cases "k = i") simp_all
  with a show ?thesis by (simp add: pg_moves_def pg_set_node_def list_all2_conv_all_nth)
qed

lemma pg_evolves_counts [simp]:
  "pg_evolves n (n\<lparr>nd_writeCount := w\<rparr>)" "pg_evolves n (n\<lparr>nd_readCount := w\<rparr>)"
  by (simp_all add: pg_evolves_def pg_node_ok_def)

lemma pg_moves_Writer: "pg_moves c (snd (pg_Writer now c))"
proof (cases "pg_find_writer (cm_nodes c)")
  case (Ret r)
  then show ?thesis
    by (cases r) (auto simp: pg_Writer_def split_beta intro: pg_moves_set_node simp: pg_moves_def [of c "pg_openCircuitBreaker _ _"] pg_moves_def [of c "snd (pg_isCircuitOpen _ _)"])
qed (auto simp: pg_Writer_def split_beta pg_moves_def)

lemma pg_moves_Reader: "pg_moves c (snd (pg_Reader now r c))"
proof -
  let ?c = "snd (pg_isCircuitOpen now c)"
  have mc: "pg_moves c ?c" "pg_moves c (?c\<lparr>cm_readIndex := x\<rparr>)" for x
    by (simp_all add: pg_moves_def)
  have ms: "pg_moves c (pg_set_node i (\<lambda>n. n\<lparr>nd_readCount := wrap64 (nd_readCount n + 1)\<rparr>)
      (?c\<lparr>cm_readIndex := x\<rparr>))" for i x
    by (rule pg_moves_set_node) simp_all
  have mw: "pg_moves c (snd (pg_Writer now ?c))"
    by (rule pg_moves_trans [OF mc(1) pg_moves_Writer])
  show ?thesis
    unfolding pg_Reader_def split_beta Let_def
    using mc ms mw by (auto split: outcome.splits)
qed

lemma pg_moves_elect: "list_all2 pg_evolves ns (snd (pg_elect t i ns))"
proof (induction ns arbitrary: i)
  case (Cons n ns)
  have "pg_evolves n (n\<lparr>nd_Role := RoleWriter, nd_Priority := 0\<rparr>)"
    "nd_Role n = RoleWriter \<Longrightarrow> pg_evolves n (n\<lparr>nd_Role := RoleReader,
       nd_Priority := (if nd_Priority n = 0 then 1 else nd_Priority n)\<rparr>)"
    by (cases "nd_Role n"; simp add: pg_evolves_def pg_node_ok_def pg_role_ok_def)+
  then show ?case using Cons.IH [of "Suc i"] by (auto simp: split_beta)
qed simp

lemma pg_moves_assign: "list_all2 pg_evolves ns (snd (pg_assign_writer ip ns))"
  by (induction ns) (auto simp: split_beta Let_def)

lemma pg_moves_detect: "pg_moves c (snd (pg_detectWriter env c))"
proof -
  have "pg_moves c (snd (pg_detectWriterByDNS lk c))" for lk
    by (auto simp: pg_detectWriterByDNS_def pg_updateWriterByIP_def split_beta pg_moves_def
        pg_moves_assign split: sum.split list.split)
  moreover have "pg_moves c (pg_detectWriterByQuery a c)" for a
    unfolding pg_detectWriterByQuery_def pg_moves_def
    by (auto intro!: list_all2_enumerate_map pg_evolves_under_lock split: sum.split)
  moreover have "pg_moves c (pg_detectWriterByProbe b c)" for b
    unfolding pg_detectWriterByProbe_def pg_moves_def
    by (auto intro!: list_all2_enumerate_map pg_evolves_under_lock split: sum.split)
  ultimately show ?thesis
    by (simp add: pg_detectWriter_def split: WriterDetectionStrategy.split)
qed

lemma pg_moves_SetWriterNode: "pg_moves c (snd (pg_SetWriterNode name c))"
  by (simp add: pg_SetWriterNode_def split_beta pg_moves_def pg_moves_elect split: option.split)

lemma pg_moves_step: "pg_step c c' \<Longrightarrow> pg_moves c c'"
  by (induction rule: pg_step.induct)
    (simp_all add: pg_moves_Writer pg_moves_Reader pg_moves_detect pg_moves_SetWriterNode
      pg_moves_set_node pg_evolves_check)

lemma pg_moves_steps: "pg_step\<^sup>*\<^sup>* c c' \<Longrightarrow> pg_moves c c'"
  by (induction rule: rtranclp_induct) (auto intro: pg_moves_trans pg_moves_step)

lemma pg_moves_nth:
  "pg_moves c c' \<Longrightarrow> i < length (cm_nodes c) \<Longrightarrow>
     i < length (cm_nodes c') \<and> pg_evolves (cm_nodes c ! i) (cm_nodes c' ! i)"
  by (auto simp: pg_moves_def list_all2_conv_all_nth)

lemma pg_moves_ok:
  "pg_moves c c' \<Longrightarrow> list_all pg_node_ok (cm_nodes c) \<Longrightarrow> list_all pg_node_ok (cm_nodes c')"
  by (auto simp: pg_moves_def list_all2_conv_all_nth list_all_length pg_evolves_def)

lemma pg_moves_locked:
  "pg_moves c c' \<Longrightarrow> i < length (cm_nodes c) \<Longrightarrow> nd_locked (cm_nodes c ! i) \<Longrightarrow>
     list_ex nd_locked (cm_nodes c')"
  using pg_moves_nth [of c c' i] by (auto simp: pg_evolves_def list_ex_iff)

section \<open>The manager a constructor returns\<close>

lemma pg_connect_ok:
  "pg_connectToNode cfg d n = (Ret e, n') \<Longrightarrow> nd_sqlDB n = None \<Longrightarrow>
     pg_role_ok (nd_Role n) (nd_Priority n) \<Longrightarrow> pg_node_ok n' \<and> \<not> nd_locked n'"
  by (auto simp: pg_connectToNode_def pg_node_ok_def split: if_splits outcome.splits option.splits sum.splits)

definition pg_fresh :: "pg_node \<Rightarrow> bool" where
  "pg_fresh n \<longleftrightarrow> nd_sqlDB n = None \<and> pg_role_ok (nd_Role n) (nd_Priority n)"

lemma pg_planned_fresh: "list_all pg_fresh (pg_planned_nodes cfg)"
  by (auto simp: pg_planned_nodes_def pg_fresh_def pg_new_node_def pg_role_ok_def list_all_iff in_set_enumerate_eq)

lemma pg_connect_all_ok:
  "pg_connect_all cfg ds ns = Ret (errs, ns') \<Longrightarrow> list_all pg_fresh ns \<Longrightarrow>
     list_all (\<lambda>n. pg_node_ok n \<and> \<not> nd_locked n) ns'"
proof (induction cfg ds ns arbitrary: errs ns' rule: pg_connect_all.induct)
  case (1 cfg d ds n ns)
  obtain o1 n1 where o1: "pg_connectToNode cfg d n = (o1, n1)" by fastforce
  with 1(2) obtain err where err: "o1 = Ret err" by (cases o1) auto
  from o1 err 1(2) obtain errs1 ns1 where r: "pg_connect_all cfg ds ns = Ret (errs1, ns1)" "ns' = n1 # ns1"
    by (auto simp: outcome_simps)
  have "pg_node_ok n1 \<and> \<not> nd_locked n1"
    using pg_connect_ok [of cfg d n err n1] o1 err 1(3) by (simp add: pg_fresh_def)
  with 1(1) [OF o1 [symmetric] err r(1)] 1(3) r(2) o1 err show ?case by auto
qed auto

lemma pg_new_ok:
  "pg_NewClusterManager ds config = Ret (Inr c) \<Longrightarrow>
     list_all (\<lambda>n. pg_node_ok n \<and> \<not> nd_locked n) (cm_nodes c) \<and> cm_config c = pg_setDefaults config
     \<and> \<not> cm_circuitOpen c \<and> cm_readIndex c = 0"
proof -
  assume "pg_NewClusterManager ds config = Ret (Inr c)"
  then obtain errs ns where
    "pg_connect_all (pg_setDefaults config) ds (pg_planned_nodes (pg_setDefaults config)) = Ret (errs, ns)"
    "c = \<lparr>cm_config = pg_setDefaults config, cm_nodes = ns, cm_readIndex = 0,
      cm_circuitOpen = False, cm_circuitOpenTime = zero_time\<rparr>"
    by (auto simp: pg_NewClusterManager_def pg_initializeNodes_def Let_def outcome_simps
        split: option.split_asm sum.split_asm if_split_asm)
  then show ?thesis using pg_connect_all_ok [OF _ pg_planned_fresh] by simp
qed

lemma pg_reachable_ok: "pg_reachable c \<Longrightarrow> list_all pg_node_ok (cm_nodes c)"
proof -
  assume "pg_reachable c"
  then obtain ds config c0 where "pg_NewClusterManager ds config = Ret (Inr c0)" "pg_step\<^sup>*\<^sup>* c0 c"
    by (auto simp: pg_reachable_def)
  then show ?thesis
    using pg_new_ok [of ds config c0] pg_moves_ok [OF pg_moves_steps] by (fastforce simp: list_all_iff)
qed

end
