(* ===== verification/Amqp_Config.thy ===== *)
theory Amqp_Config
  imports Pg_Config
begin

text \<open>
  Configuration of the RabbitMQ cluster adapter (\<^verbatim>\<open>amqpcluster/config.go\<close>): the node URLs from
  a list or from components, event signing, and the optional settings.
\<close>

record amqp_env_config =
  ac_Nodes :: "string list"
  ac_ServiceName :: string
  ac_HealthCheckInterval :: duration
  ac_RetryAttempts :: int
  ac_LoadBalanceStrategy :: string
  ac_EventSigningKey :: string
  ac_SigningRequired :: bool

text \<open>A component of a node URL: the suffixed variable, the plain one, then the default.\<close>

definition amqp_buildNodeURL :: "environ \<Rightarrow> string \<Rightarrow> string \<Rightarrow> string" where
  "amqp_buildNodeURL e hostSuffix portSuffix =
     (let url = getenv e (''RABBITMQ_URL'' @ portSuffix)
      in if url \<noteq> [] then url
         else let user = db_part e ''RABBITMQ_USER'' portSuffix ''guest'';
                  pass = db_part e ''RABBITMQ_PASS'' portSuffix ''guest'';
                  host = db_part e ''RABBITMQ_HOST'' hostSuffix
                           (if hostSuffix = [] then ''localhost'' else []);
                  port = db_part e ''RABBITMQ_PORT'' portSuffix ''5672'';
                  vhost = db_part e ''RABBITMQ_VHOST'' portSuffix ''/''
              in if host = [] then []
                 else ''amqp://'' @ user @ '':'' @ pass @ ''@'' @ host @ '':'' @ port @ vhost)"

definition amqp_node_suffix :: "int \<Rightarrow> string" where
  "amqp_node_suffix i = (if i = 1 then [] else ''_'' @ itoa i)"

definition amqp_loadNodes :: "environ \<Rightarrow> amqp_env_config \<Rightarrow> (string, amqp_env_config) result" where
  "amqp_loadNodes e c =
     (let nodesEnv = getenv e ''RABBITMQ_CLUSTER_NODES''
      in if nodesEnv \<noteq> [] then Inr (c\<lparr>ac_Nodes := map trimSpace (strSplit nodesEnv '','')\<rparr>)
         else let urls = filter (\<lambda>u. u \<noteq> [])
                    (map (\<lambda>i. amqp_buildNodeURL e (amqp_node_suffix i) (amqp_node_suffix i)) [1..5])
              in if urls = []
                 then Inl ''no RabbitMQ nodes configured. Set RABBITMQ_CLUSTER_NODES or RABBITMQ_URL''
                 else Inr (c\<lparr>ac_Nodes := urls\<rparr>))"

definition amqp_loadSigningConfig :: "environ \<Rightarrow> amqp_env_config \<Rightarrow> amqp_env_config" where
  "amqp_loadSigningConfig e c =
     (let required = getenv e ''EVENT_SIGNING_REQUIRED''
      in c\<lparr>ac_EventSigningKey := orElse (getenv e ''EVENT_SIGNING_KEY'') ''dev-signing-key-change-in-production'',
           ac_SigningRequired := (if required \<noteq> [] then toLower required = ''true''
                                  else ac_SigningRequired c)\<rparr>)"

definition amqp_validStrategies :: "string list" where
  "amqp_validStrategies = [''round_robin'', ''random'', ''hash'']"

definition amqp_loadOptionalSettings :: "environ \<Rightarrow> amqp_env_config \<Rightarrow> amqp_env_config" where
  "amqp_loadOptionalSettings e c =
     (let strategy = getenv e ''RABBITMQ_LOAD_BALANCE_STRATEGY''
      in c\<lparr>ac_HealthCheckInterval := durationVar e ''RABBITMQ_HEALTH_CHECK_INTERVAL'' (ac_HealthCheckInterval c),
           ac_RetryAttempts := intVar e ''RABBITMQ_RETRY_ATTEMPTS'' (\<lambda>v. 0 < v) (ac_RetryAttempts c),
           ac_LoadBalanceStrategy := (if strategy \<noteq> [] \<and> strategy \<in> set amqp_validStrategies
                                      then strategy else ac_LoadBalanceStrategy c)\<rparr>)"

definition amqp_LoadConfigFromEnv :: "environ \<Rightarrow> string \<Rightarrow> (string, amqp_env_config) result" where
  "amqp_LoadConfigFromEnv e serviceName =
     (case amqp_loadNodes e \<lparr>ac_Nodes = [], ac_ServiceName = serviceName,
             ac_HealthCheckInterval = 30 * second, ac_RetryAttempts = 3,
             ac_LoadBalanceStrategy = ''round_robin'', ac_EventSigningKey = [],
             ac_SigningRequired = True\<rparr> of
        Inl err \<Rightarrow> Inl err
      | Inr c \<Rightarrow> Inr (amqp_loadOptionalSettings e (amqp_loadSigningConfig e c)))"

definition amqp_Validate :: "amqp_env_config \<Rightarrow> string option" where
  "amqp_Validate c =
     (if ac_Nodes c = [] then Some ''at least one RabbitMQ node must be configured''
      else if ac_ServiceName c = [] then Some ''service name is required''
      else if ac_HealthCheckInterval c \<le> 0 then Some ''health check interval must be positive''
      else if ac_RetryAttempts c < 1 then Some ''retry attempts must be at least 1''
      else if ac_LoadBalanceStrategy c \<notin> set amqp_validStrategies
        then Some (''invalid load balance strategy: '' @ ac_LoadBalanceStrategy c)
      else None)"

text \<open>\<^verbatim>\<open>maskCredentials\<close> is, statement for statement, \<^verbatim>\<open>maskURL\<close> of \<^verbatim>\<open>pgcluster/config.go\<close>.\<close>

definition amqp_maskCredentials :: "string \<Rightarrow> string" where
  "amqp_maskCredentials url = pg_maskURL url"

definition show_strings :: "string list \<Rightarrow> string" where
  "show_strings xs = ''['' @ strJoin xs '' '' @ '']''"

definition amqp_config_String :: "(duration \<Rightarrow> string) \<Rightarrow> amqp_env_config \<Rightarrow> string" where
  "amqp_config_String showDuration c =
     ''Config{Nodes: '' @ show_strings (map amqp_maskCredentials (ac_Nodes c))
     @ '', Service: '' @ ac_ServiceName c
     @ '', HealthCheck: '' @ showDuration (ac_HealthCheckInterval c)
     @ '', Retries: '' @ itoa (ac_RetryAttempts c)
     @ '', Strategy: '' @ ac_LoadBalanceStrategy c
     @ '', SigningRequired: '' @ (if ac_SigningRequired c then ''true'' else ''false'') @ ''}''"

section \<open>Facts\<close>

lemma amqp_first_node: "amqp_buildNodeURL e [] [] \<noteq> []"
  by (simp add: amqp_buildNodeURL_def Let_def db_part_def orElse_Nil_iff)

text \<open>Loading never fails: the first node always has a URL.\<close>

lemma amqp_loadNodes_ok:
  "\<exists>urls. urls \<noteq> [] \<and> amqp_loadNodes e c = Inr (c\<lparr>ac_Nodes := urls\<rparr>)"
proof -
  let ?urls = "filter (\<lambda>u. u \<noteq> [])
      (map (\<lambda>i. amqp_buildNodeURL e (amqp_node_suffix i) (amqp_node_suffix i)) [1..5])"
  have "amqp_buildNodeURL e (amqp_node_suffix 1) (amqp_node_suffix 1) \<noteq> []"
    by (simp add: amqp_node_suffix_def amqp_first_node)
  then have "?urls \<noteq> []" unfolding filter_empty_conv set_map by fastforce
  moreover have "map trimSpace (strSplit s '','') \<noteq> []" for s
    by (simp add: strSplit_not_Nil)
  ultimately show ?thesis
    unfolding amqp_loadNodes_def Let_def by (simp only: if_False split: if_split) blast
qed

lemma amqp_orElse_suffix: "host \<noteq> [] \<Longrightarrow> getenv e (name @ sfx) = [] \<Longrightarrow> getenv e name = host \<Longrightarrow>
   db_part e name sfx d = host"
  by (simp add: db_part_def orElse_def)

end
