(* ===== verification/Amqp_Cluster.thy ===== *)
theory Amqp_Cluster
  imports Amqp_Config Contracts
begin

text \<open>
  The RabbitMQ cluster adapter (\<^verbatim>\<open>amqpcluster/adapter.go\<close>): connecting, choosing a node,
  publishing with failover, declaring and binding on every healthy node, subscribing, health
  checks and closing. Nodes are named by their position; connections and channels are handles;
  what the broker answers is an argument. \<open>an_locked\<close> is a node's mutex held by a goroutine that
  will never release it.
\<close>

section \<open>State\<close>

record amqp_node =
  an_URL :: string
  an_Name :: string
  an_conn :: "nat option"
  an_publishCh :: "nat option"
  an_subscribeCh :: "nat option"
  an_state :: NodeState
  an_lastError :: "string option"
  an_lastCheck :: instant
  an_publishCount :: int
  an_subscribeCount :: int
  an_errorCount :: int
  an_locked :: bool

record amqp_cluster_config =
  cc_Nodes :: "string list"
  cc_ServiceName :: string
  cc_HealthCheckInterval :: duration
  cc_RetryAttempts :: int
  cc_CircuitBreakerThreshold :: int
  cc_LoadBalanceStrategy :: string

record amqp_adapter =
  aa_config :: amqp_cluster_config
  aa_nodes :: "amqp_node list"
  aa_nodeIndex :: int

definition amqp_set_node :: "nat \<Rightarrow> (amqp_node \<Rightarrow> amqp_node) \<Rightarrow> amqp_adapter \<Rightarrow> amqp_adapter" where
  "amqp_set_node i f a = a\<lparr>aa_nodes := (aa_nodes a)[i := f (aa_nodes a ! i)]\<rparr>"

section \<open>Connecting\<close>

text \<open>What one dial sees: the connection, and the two channels opened on it.\<close>

record amqp_dial =
  ad_dial :: "(string, nat) result"
  ad_publish :: "(string, nat) result"
  ad_subscribe :: "(string, nat) result"
  ad_now :: instant

definition amqp_connectToNode :: "amqp_dial \<Rightarrow> amqp_node \<Rightarrow> string option outcome \<times> amqp_node" where
  "amqp_connectToNode d node =
     (if an_locked node then (Block, node)
      else case ad_dial d of
          Inl err \<Rightarrow> (Ret (Some (''failed to connect to '' @ amqp_maskCredentials (an_URL node) @ '': '' @ err)),
            node\<lparr>an_state := NodeFailed, an_lastError := Some err, an_lastCheck := ad_now d,
                 an_errorCount := wrap64 (an_errorCount node + 1)\<rparr>)
        | Inr conn \<Rightarrow>
            (case ad_publish d of
               Inl err \<Rightarrow> (Ret (Some (''failed to create publish channel for ''
                   @ amqp_maskCredentials (an_URL node) @ '': '' @ err)),
                 node\<lparr>an_state := NodeFailed, an_lastError := Some err\<rparr>)
             | Inr pch \<Rightarrow>
                 (case ad_subscribe d of
                    Inl err \<Rightarrow> (Ret (Some (''failed to create subscribe channel for ''
                        @ amqp_maskCredentials (an_URL node) @ '': '' @ err)),
                      node\<lparr>an_state := NodeFailed, an_lastError := Some err\<rparr>)
                  | Inr sch \<Rightarrow> (Ret None,
                      node\<lparr>an_conn := Some conn, an_publishCh := Some pch, an_subscribeCh := Some sch,
                           an_state := NodeHealthy, an_lastError := None, an_lastCheck := ad_now d\<rparr>))))"

text \<open>\<^verbatim>\<open>connectToAllNodes\<close>: the number of nodes connected and the last error.\<close>

fun amqp_connectToAll :: "amqp_dial list \<Rightarrow> amqp_node list \<Rightarrow> (nat \<times> string option) outcome \<times> amqp_node list" where
  "amqp_connectToAll (d # ds) (n # ns) =
     (case amqp_connectToNode d n of
        (Ret err, n') \<Rightarrow>
          (let (r, ns') = amqp_connectToAll ds ns
           in (bind_outcome r (\<lambda>(k, lastErr).
                 Ret (case err of None \<Rightarrow> (Suc k, lastErr)
                      | Some m \<Rightarrow> (k, case lastErr of None \<Rightarrow> Some m | Some m' \<Rightarrow> Some m'))), n' # ns'))
      | (Panic m, n') \<Rightarrow> (Panic m, n' # ns)
      | (Block, n') \<Rightarrow> (Block, n' # ns))"
| "amqp_connectToAll _ ns = (Ret (0, None), ns)"

definition amqp_setDefaults :: "amqp_cluster_config \<Rightarrow> amqp_cluster_config" where
  "amqp_setDefaults c =
     c\<lparr>cc_HealthCheckInterval := dflt (cc_HealthCheckInterval c) (30 * second),
       cc_RetryAttempts := dflt (cc_RetryAttempts c) 3,
       cc_CircuitBreakerThreshold := dflt (cc_CircuitBreakerThreshold c) 5,
       cc_LoadBalanceStrategy := orElse (cc_LoadBalanceStrategy c) ''round_robin''\<rparr>"

definition amqp_new_node :: "instant \<Rightarrow> nat \<Rightarrow> string \<Rightarrow> amqp_node" where
  "amqp_new_node now i url = \<lparr>an_URL = url, an_Name = ''node-'' @ itoa (int i), an_conn = None,
     an_publishCh = None, an_subscribeCh = None, an_state = NodeFailed, an_lastError = None,
     an_lastCheck = now, an_publishCount = 0, an_subscribeCount = 0, an_errorCount = 0,
     an_locked = False\<rparr>"

definition amqp_NewClusterAdapter ::
    "instant \<Rightarrow> amqp_dial list \<Rightarrow> amqp_cluster_config \<Rightarrow> (string, amqp_adapter) result outcome" where
  "amqp_NewClusterAdapter now ds config =
     (if cc_Nodes config = [] then Ret (Inl ''at least one RabbitMQ node URL is required'')
      else let cfg = amqp_setDefaults config;
               (r, ns) = amqp_connectToAll ds
                  (map (\<lambda>(i, url). amqp_new_node now i url) (enumerate 0 (cc_Nodes cfg)))
           in bind_outcome r (\<lambda>(healthy, lastErr).
                if healthy = 0 then Ret (Inl (''failed to connect to any RabbitMQ nodes: ''
                    @ ''failed to connect to any nodes, last error: ''
                    @ (case lastErr of None \<Rightarrow> ''<nil>'' | Some m \<Rightarrow> m)))
                else Ret (Inr \<lparr>aa_config = cfg, aa_nodes = ns, aa_nodeIndex = 0\<rparr>)))"

section \<open>Choosing a node\<close>

definition amqp_getHealthyNodes :: "amqp_adapter \<Rightarrow> nat list outcome" where
  "amqp_getHealthyNodes a =
     (if list_ex an_locked (aa_nodes a) then Block
      else Ret (positions (\<lambda>n. an_state n = NodeHealthy) (aa_nodes a)))"

definition amqp_selectNodeForPublish ::
    "nat \<Rightarrow> string \<Rightarrow> amqp_adapter \<Rightarrow> nat option outcome \<times> amqp_adapter" where
  "amqp_selectNodeForPublish r routingKey a =
     (case amqp_getHealthyNodes a of
        Panic m \<Rightarrow> (Panic m, a)
      | Block \<Rightarrow> (Block, a)
      | Ret healthy \<Rightarrow>
          if healthy = [] then (Ret None, a)
          else let (o1, idx) = balance (cc_LoadBalanceStrategy (aa_config a)) r routingKey
                                 (length healthy) (aa_nodeIndex a)
               in (bind_outcome o1 (\<lambda>k. Ret (Some (healthy ! k))), a\<lparr>aa_nodeIndex := idx\<rparr>))"

section \<open>Publishing\<close>

text \<open>
  \<open>send i k\<close> is the error of the \<open>k\<close>-th attempt of a \<^verbatim>\<open>Publish\<close> call, made on node \<open>i\<close>. A failed
  attempt counts an error and degrades a healthy node.
\<close>

definition amqp_publish_failed :: "amqp_node \<Rightarrow> amqp_node" where
  "amqp_publish_failed n = n\<lparr>an_errorCount := wrap64 (an_errorCount n + 1),
     an_state := (if an_state n = NodeHealthy then NodeDegraded else an_state n)\<rparr>"

definition amqp_publish_done :: "amqp_node \<Rightarrow> amqp_node" where
  "amqp_publish_done n = n\<lparr>an_publishCount := wrap64 (an_publishCount n + 1)\<rparr>"

definition amqp_publishToNode ::
    "string option \<Rightarrow> nat \<Rightarrow> amqp_adapter \<Rightarrow> string option \<times> amqp_adapter" where
  "amqp_publishToNode sent i a =
     (case an_publishCh (aa_nodes a ! i) of
        None \<Rightarrow> (Some ''node channel is nil'', a)
      | Some ch \<Rightarrow>
          (case sent of
             Some err \<Rightarrow> (Some err, amqp_set_node i amqp_publish_failed a)
           | None \<Rightarrow> (None, a)))"

text \<open>The failover loop: whether a node accepted, and the nodes that accepted the message.\<close>

fun amqp_failover :: "(nat \<Rightarrow> nat \<Rightarrow> string option) \<Rightarrow> nat \<Rightarrow> nat list \<Rightarrow> amqp_adapter \<Rightarrow>
    string option \<times> nat list \<times> amqp_adapter" where
  "amqp_failover send k [] a = (Some ''failed to publish message to any healthy node'', [], a)"
| "amqp_failover send k (i # is) a =
     (case amqp_publishToNode (send i k) i a of
        (None, a') \<Rightarrow> (None, [i], amqp_set_node i amqp_publish_done a')
      | (Some err, a') \<Rightarrow> amqp_failover send (Suc k) is a')"

definition amqp_try_others :: "(nat \<Rightarrow> nat \<Rightarrow> string option) \<Rightarrow> amqp_adapter \<Rightarrow>
    (string option \<times> nat list) outcome \<times> amqp_adapter" where
  "amqp_try_others send a =
     (case amqp_getHealthyNodes a of
        Panic m \<Rightarrow> (Panic m, a)
      | Block \<Rightarrow> (Block, a)
      | Ret healthy \<Rightarrow>
          (let (err, accepted, a') = amqp_failover send 1 healthy a in (Ret (err, accepted), a')))"

definition amqp_Publish :: "(nat \<Rightarrow> nat \<Rightarrow> string option) \<Rightarrow> nat \<Rightarrow> string \<Rightarrow> amqp_adapter \<Rightarrow>
    (string option \<times> nat list) outcome \<times> amqp_adapter" where
  "amqp_Publish send r routingKey a0 =
     (case amqp_selectNodeForPublish r routingKey a0 of
        (Panic m, a) \<Rightarrow> (Panic m, a)
      | (Block, a) \<Rightarrow> (Block, a)
      | (Ret None, a) \<Rightarrow> amqp_try_others send a
      | (Ret (Some i), a) \<Rightarrow>
          (case amqp_publishToNode (send i 0) i a of
             (None, a') \<Rightarrow> (Ret (None, [i]), amqp_set_node i amqp_publish_done a')
           | (Some err, a') \<Rightarrow> amqp_try_others send a'))"

section \<open>Topology and consuming\<close>

text \<open>
  \<open>amqp_fanout\<close>: the shared loop of \<^verbatim>\<open>DeclareExchange\<close>, \<^verbatim>\<open>DeclareQueue\<close> and \<^verbatim>\<open>BindQueue\<close> over the
  healthy nodes with a channel: the nodes that succeeded and the last error.
\<close>

fun amqp_fanout :: "(amqp_node \<Rightarrow> nat option) \<Rightarrow> (nat \<Rightarrow> string option) \<Rightarrow> amqp_adapter \<Rightarrow> nat list \<Rightarrow>
    nat list \<times> string option" where
  "amqp_fanout ch_of op a [] = ([], None)"
| "amqp_fanout ch_of op a (i # is) =
     (let (succeeded, lastErr) = amqp_fanout ch_of op a is
      in if ch_of (aa_nodes a ! i) = None then (succeeded, lastErr)
         else case op i of
             None \<Rightarrow> (i # succeeded, lastErr)
           | Some err \<Rightarrow> (succeeded, case lastErr of None \<Rightarrow> Some err | Some e \<Rightarrow> Some e))"

definition amqp_on_healthy :: "string \<Rightarrow> string \<Rightarrow> (amqp_node \<Rightarrow> nat option) \<Rightarrow> (nat \<Rightarrow> string option) \<Rightarrow>
    amqp_adapter \<Rightarrow> (string option \<times> nat list) outcome" where
  "amqp_on_healthy noneMsg failMsg ch_of op a =
     bind_outcome (amqp_getHealthyNodes a) (\<lambda>healthy.
       if healthy = [] then Ret (Some noneMsg, [])
       else let (succeeded, lastErr) = amqp_fanout ch_of op a healthy
            in if succeeded = []
               then Ret (Some (failMsg @ (case lastErr of None \<Rightarrow> ''<nil>'' | Some e \<Rightarrow> e)), [])
               else Ret (None, succeeded))"

definition amqp_DeclareExchange :: "(nat \<Rightarrow> string option) \<Rightarrow> amqp_adapter \<Rightarrow> (string option \<times> nat list) outcome" where
  "amqp_DeclareExchange = amqp_on_healthy ''no healthy nodes available for exchange declaration''
     ''failed to declare exchange on any node: '' an_publishCh"

definition amqp_DeclareQueue :: "(nat \<Rightarrow> string option) \<Rightarrow> amqp_adapter \<Rightarrow> (string option \<times> nat list) outcome" where
  "amqp_DeclareQueue = amqp_on_healthy ''no healthy nodes available for queue declaration''
     ''failed to declare queue on any node: '' an_subscribeCh"

definition amqp_BindQueue :: "(nat \<Rightarrow> string option) \<Rightarrow> amqp_adapter \<Rightarrow> (string option \<times> nat list) outcome" where
  "amqp_BindQueue = amqp_on_healthy ''no healthy nodes available for queue binding''
     ''failed to bind queue on any node: '' an_subscribeCh"

text \<open>
  \<^verbatim>\<open>Subscribe\<close>: the nodes consumed from, each with its consumer tag (numbered among the healthy
  nodes, not by node); forwarding one delivery counts it on its node.
\<close>

definition amqp_Subscribe :: "string \<Rightarrow> (nat \<Rightarrow> string option) \<Rightarrow> amqp_adapter \<Rightarrow>
    (string, (nat \<times> string) list) result outcome" where
  "amqp_Subscribe consumerTag consume a =
     bind_outcome (amqp_getHealthyNodes a) (\<lambda>healthy.
       if healthy = [] then Ret (Inl ''no healthy nodes available for subscription'')
       else let subs = map (\<lambda>(k, i). (i, consumerTag @ ''-node-'' @ itoa (int k)))
                  (filter (\<lambda>(k, i). an_subscribeCh (aa_nodes a ! i) \<noteq> None \<and> consume i = None)
                    (enumerate 0 healthy))
            in if subs = [] then Ret (Inl ''failed to subscribe to any healthy node'')
               else Ret (Inr subs))"

definition amqp_forward :: "nat \<Rightarrow> 'm \<Rightarrow> 'm list \<Rightarrow> amqp_adapter \<Rightarrow> ('m list \<times> amqp_adapter) outcome" where
  "amqp_forward i msg multiplexed a =
     (if length multiplexed < 100
      then Ret (multiplexed @ [msg],
        amqp_set_node i (\<lambda>n. n\<lparr>an_subscribeCount := wrap64 (an_subscribeCount n + 1)\<rparr>) a)
      else Block)"

record amqp_stats =
  as_URL :: string
  as_State :: NodeState
  as_PublishCount :: int
  as_SubscribeCount :: int
  as_ErrorCount :: int
  as_LastError :: "string option"
  as_LastCheck :: instant

definition amqp_node_stats :: "amqp_node \<Rightarrow> amqp_stats" where
  "amqp_node_stats n = \<lparr>as_URL = an_URL n, as_State = an_state n, as_PublishCount = an_publishCount n,
     as_SubscribeCount = an_subscribeCount n, as_ErrorCount = an_errorCount n,
     as_LastError = an_lastError n, as_LastCheck = an_lastCheck n\<rparr>"

definition amqp_GetNodeStats :: "amqp_adapter \<Rightarrow> (string \<rightharpoonup> amqp_stats) outcome" where
  "amqp_GetNodeStats a =
     (if list_ex an_locked (aa_nodes a) then Block
      else Ret (fold (\<lambda>n m. m(an_Name n \<mapsto> amqp_node_stats n)) (aa_nodes a) Map.empty))"

section \<open>Health checks and closing\<close>

text \<open>
  What a check sees: the clock, whether the connection is closed, a dial, a new channel and the
  time passed when the error rate is computed. The rate \<^verbatim>\<open>errorCount / elapsed.Minutes() < 1.0\<close> is
  compared as \<open>errorCount \<cdot> minute < elapsed\<close> (at zero elapsed time the quotient is infinite
  or not a number, and the comparison false).
\<close>

record amqp_probe =
  ap_now :: instant
  ap_closed :: bool
  ap_dial :: amqp_dial
  ap_channel :: "(string, nat) result"
  ap_elapsed :: duration

definition amqp_revive_channel :: "amqp_probe \<Rightarrow> amqp_node \<Rightarrow> amqp_node" where
  "amqp_revive_channel p n =
     (if an_publishCh n = None then
        (case ap_channel p of
           Inl err \<Rightarrow> n\<lparr>an_state := NodeFailed\<rparr>
         | Inr ch \<Rightarrow> n\<lparr>an_publishCh := Some ch,
             an_state := (if an_state n = NodeFailed then NodeHealthy else an_state n)\<rparr>)
      else n)"

definition amqp_upgrade :: "amqp_probe \<Rightarrow> amqp_node \<Rightarrow> amqp_node" where
  "amqp_upgrade p n =
     (if an_state n = NodeDegraded \<and> an_errorCount n * minute < ap_elapsed p
      then n\<lparr>an_state := NodeHealthy\<rparr> else n)"

definition amqp_checkNodeHealth :: "amqp_probe \<Rightarrow> amqp_node \<Rightarrow> unit outcome \<times> amqp_node" where
  "amqp_checkNodeHealth p node0 =
     (if an_locked node0 then (Block, node0)
      else if ap_now p - an_lastCheck node0 < 10 * second then (Ret (), node0)
      else
        let node = node0\<lparr>an_lastCheck := ap_now p\<rparr>
        in if an_conn node = None \<or> ap_closed p then
             (case amqp_connectToNode (ap_dial p) (node\<lparr>an_locked := True\<rparr>) of
                (Ret _, n') \<Rightarrow> (Ret (), n'\<lparr>an_locked := False\<rparr>)
              | (Panic m, n') \<Rightarrow> (Panic m, n'\<lparr>an_locked := False\<rparr>)
              | (Block, n') \<Rightarrow> (Block, n'))
           else (Ret (), amqp_upgrade p (amqp_revive_channel p node)))"

definition amqp_performHealthChecks :: "(nat \<Rightarrow> amqp_probe) \<Rightarrow> amqp_adapter \<Rightarrow> amqp_adapter" where
  "amqp_performHealthChecks probes a =
     a\<lparr>aa_nodes := map (\<lambda>(i, n). snd (amqp_checkNodeHealth (probes i) n)) (enumerate 0 (aa_nodes a))\<rparr>"

text \<open>\<^verbatim>\<open>Close\<close>: the errors joined, in the order the handles of each node are closed.\<close>

definition amqp_close_node :: "(nat \<Rightarrow> string option) \<Rightarrow> (nat \<Rightarrow> bool) \<Rightarrow> amqp_node \<Rightarrow> string list" where
  "amqp_close_node closeErr isClosed n =
     (let one = (\<lambda>msg h. case h of None \<Rightarrow> [] | Some x \<Rightarrow>
            (case closeErr x of None \<Rightarrow> [] | Some e \<Rightarrow> [msg @ an_Name n @ '': '' @ e]))
      in one ''closing publish channel on '' (an_publishCh n)
         @ one ''closing subscribe channel on '' (an_subscribeCh n)
         @ one ''closing connection to ''
             (case an_conn n of Some x \<Rightarrow> if isClosed x then None else Some x | None \<Rightarrow> None))"

definition amqp_Close :: "(nat \<Rightarrow> string option) \<Rightarrow> (nat \<Rightarrow> bool) \<Rightarrow> amqp_adapter \<Rightarrow> string list outcome" where
  "amqp_Close closeErr isClosed a =
     (if list_ex an_locked (aa_nodes a) then Block
      else Ret (concat (map (amqp_close_node closeErr isClosed) (aa_nodes a))))"

section \<open>The adapter as a state machine\<close>

text \<open>
  The elapsed time of a check is the time between two statements of one function; the steps
  take it to be below a minute.
\<close>

inductive amqp_step :: "amqp_adapter \<Rightarrow> amqp_adapter \<Rightarrow> bool" where
  publish: "amqp_step a (snd (amqp_Publish send r key a))"
| check: "i < length (aa_nodes a) \<Longrightarrow> ap_elapsed p < minute \<Longrightarrow>
    amqp_step a (amqp_set_node i (\<lambda>n. snd (amqp_checkNodeHealth p n)) a)"
| forward: "amqp_forward i (msg :: string) q a = Ret (q', a') \<Longrightarrow> amqp_step a a'"

definition amqp_reachable :: "amqp_adapter \<Rightarrow> bool" where
  "amqp_reachable a \<longleftrightarrow> (\<exists>now ds config a0. amqp_NewClusterAdapter now ds config = Ret (Inr a0)
     \<and> amqp_step\<^sup>*\<^sup>* a0 a)"

section \<open>How a node evolves\<close>

text \<open>
  The error count of a healthy node is 0 and that of a degraded node 1; nodes that are not failed
  have a connection and a publish channel, failed ones have no connection.
\<close>

definition amqp_node_ok :: "amqp_node \<Rightarrow> bool" where
  "amqp_node_ok n \<longleftrightarrow> (an_state n = NodeHealthy \<longrightarrow> an_errorCount n = 0)
     \<and> (an_state n = NodeDegraded \<longrightarrow> an_errorCount n = 1)
     \<and> (an_state n \<noteq> NodeFailed \<longrightarrow> an_conn n \<noteq> None \<and> an_publishCh n \<noteq> None)
     \<and> (an_state n = NodeFailed \<longrightarrow> an_conn n = None)"

definition amqp_evolves :: "amqp_node \<Rightarrow> amqp_node \<Rightarrow> bool" where
  "amqp_evolves n n' \<longleftrightarrow> an_URL n' = an_URL n \<and> an_Name n' = an_Name n \<and> (an_locked n \<longrightarrow> an_locked n')
     \<and> (amqp_node_ok n \<longrightarrow> amqp_node_ok n' \<and> an_state n \<le> an_state n')"

lemma amqp_evolves_refl [simp, intro]: "amqp_evolves n n"
  by (simp add: amqp_evolves_def)

lemma amqp_evolves_trans: "amqp_evolves a b \<Longrightarrow> amqp_evolves b c \<Longrightarrow> amqp_evolves a c"
  by (auto simp: amqp_evolves_def)

lemma amqp_evolves_done [simp]: "amqp_evolves n (amqp_publish_done n)"
  by (simp add: amqp_evolves_def amqp_node_ok_def amqp_publish_done_def)

lemma amqp_evolves_subscribed [simp]: "amqp_evolves n (n\<lparr>an_subscribeCount := k\<rparr>)"
  by (simp add: amqp_evolves_def amqp_node_ok_def)

lemma wrap64_1: "wrap64 1 = 1"
  by (simp add: wrap64_def)

text \<open>Only a node that is healthy when the message is sent to it may fail a publish.\<close>

lemma amqp_evolves_failed: "an_state n = NodeHealthy \<Longrightarrow> amqp_evolves n (amqp_publish_failed n)"
  by (simp add: amqp_evolves_def amqp_node_ok_def amqp_publish_failed_def wrap64_1)

lemma amqp_connect_locked [simp]: "an_locked n \<Longrightarrow> amqp_connectToNode d n = (Block, n)"
  by (simp add: amqp_connectToNode_def)

text \<open>The self-deadlock: reconnecting from a check never returns.\<close>

lemma amqp_check_deadlock:
  "\<not> an_locked n \<Longrightarrow> 10 * second \<le> ap_now p - an_lastCheck n \<Longrightarrow> an_conn n = None \<or> ap_closed p \<Longrightarrow>
     amqp_checkNodeHealth p n = (Block, n\<lparr>an_lastCheck := ap_now p, an_locked := True\<rparr>)"
  unfolding amqp_checkNodeHealth_def Let_def by auto

lemma amqp_evolves_lastCheck: "amqp_evolves n (n\<lparr>an_lastCheck := t\<rparr>)"
  by (simp add: amqp_evolves_def amqp_node_ok_def)

lemma amqp_evolves_revive: "an_conn n \<noteq> None \<Longrightarrow> amqp_evolves n (amqp_revive_channel p n)"
  by (auto simp: amqp_revive_channel_def amqp_evolves_def amqp_node_ok_def split: sum.split)

lemma amqp_evolves_upgrade: "ap_elapsed p < minute \<Longrightarrow> amqp_evolves n (amqp_upgrade p n)"
  by (auto simp: amqp_upgrade_def amqp_evolves_def amqp_node_ok_def)

lemma amqp_evolves_check: "ap_elapsed p < minute \<Longrightarrow> amqp_evolves n (snd (amqp_checkNodeHealth p n))"
proof (cases "an_locked n \<or> ap_now p - an_lastCheck n < 10 * second")
  case True
  then show ?thesis by (auto simp: amqp_checkNodeHealth_def)
next
  case False
  assume e: "ap_elapsed p < minute"
  show ?thesis
  proof (cases "an_conn n = None \<or> ap_closed p")
    case True
    with False show ?thesis
      by (subst amqp_check_deadlock) (auto simp: amqp_evolves_def amqp_node_ok_def)
  next
    case conn: False
    let ?n = "n\<lparr>an_lastCheck := ap_now p\<rparr>"
    have "amqp_evolves n (amqp_upgrade p (amqp_revive_channel p ?n))"
      using conn by (intro amqp_evolves_trans [OF amqp_evolves_lastCheck amqp_evolves_trans
            [OF amqp_evolves_revive amqp_evolves_upgrade [OF e]]]) simp
    then show ?thesis using conn False by (auto simp: amqp_checkNodeHealth_def Let_def)
  qed
qed

definition amqp_moves :: "amqp_adapter \<Rightarrow> amqp_adapter \<Rightarrow> bool" where
  "amqp_moves a a' \<longleftrightarrow> aa_config a' = aa_config a \<and> list_all2 amqp_evolves (aa_nodes a) (aa_nodes a')"

lemma amqp_moves_refl [simp]: "amqp_moves a a"
  by (simp add: amqp_moves_def list_all2_refl)

lemma amqp_moves_trans: "amqp_moves a b \<Longrightarrow> amqp_moves b c \<Longrightarrow> amqp_moves a c"
  unfolding amqp_moves_def using list_all2_trans [of amqp_evolves amqp_evolves amqp_evolves]
    amqp_evolves_trans by metis

lemma amqp_moves_set_node:
  "amqp_evolves (aa_nodes a ! i) (f (aa_nodes a ! i)) \<Longrightarrow> amqp_moves a (amqp_set_node i f a)"
proof -
  assume f: "amqp_evolves (aa_nodes a ! i) (f (aa_nodes a ! i))"
  have "amqp_evolves (aa_nodes a ! k) ((aa_nodes a)[i := f (aa_nodes a ! i)] ! k)"
    if "k < length (aa_nodes a)" for k
    using that f by (cases "k = i") simp_all
  then show ?thesis by (simp add: amqp_moves_def amqp_set_node_def list_all2_conv_all_nth)
qed

lemma amqp_set_node_simps [simp]:
  "length (aa_nodes (amqp_set_node i f a)) = length (aa_nodes a)"
  "aa_config (amqp_set_node i f a) = aa_config a"
  "aa_nodeIndex (amqp_set_node i f a) = aa_nodeIndex a"
  "k \<noteq> i \<Longrightarrow> aa_nodes (amqp_set_node i f a) ! k = aa_nodes a ! k"
  "i < length (aa_nodes a) \<Longrightarrow> aa_nodes (amqp_set_node i f a) ! i = f (aa_nodes a ! i)"
  by (simp_all add: amqp_set_node_def)

lemma amqp_moves_publishToNode:
  "an_state (aa_nodes a ! i) = NodeHealthy \<Longrightarrow> amqp_moves a (snd (amqp_publishToNode s i a))"
  by (auto simp: amqp_publishToNode_def amqp_moves_set_node amqp_evolves_failed split: option.split)

lemma amqp_publishToNode_other:
  "k \<noteq> i \<Longrightarrow> aa_nodes (snd (amqp_publishToNode s i a)) ! k = aa_nodes a ! k"
  "length (aa_nodes (snd (amqp_publishToNode s i a))) = length (aa_nodes a)"
  by (auto simp: amqp_publishToNode_def split: option.split)

lemma amqp_moves_failover:
  "distinct is \<Longrightarrow> \<forall>i\<in>set is. an_state (aa_nodes a ! i) = NodeHealthy \<Longrightarrow>
     amqp_moves a (snd (snd (amqp_failover send k is a)))"
proof (induction "is" arbitrary: a k)
  case (Cons i "is")
  let ?p = "amqp_publishToNode (send i k) i a"
  have m: "amqp_moves a (snd ?p)" using Cons.prems by (simp add: amqp_moves_publishToNode)
  show ?case
  proof (cases "fst ?p")
    case None
    then have "amqp_moves (snd ?p) (amqp_set_node i amqp_publish_done (snd ?p))"
      by (simp add: amqp_moves_set_node)
    with None m show ?thesis by (auto simp: split_beta intro: amqp_moves_trans)
  next
    case (Some err)
    have "\<forall>j\<in>set is. an_state (aa_nodes (snd ?p) ! j) = NodeHealthy"
      using Cons.prems by (metis amqp_publishToNode_other(1) distinct.simps(2) list.set_intros(2))
    then have "amqp_moves (snd ?p) (snd (snd (amqp_failover send (Suc k) is (snd ?p))))"
      using Cons.IH [of "snd ?p"] Cons.prems(1) by simp
    with Some m show ?thesis by (auto simp: split_beta intro: amqp_moves_trans)
  qed
qed simp

lemma amqp_healthy_nodes:
  "amqp_getHealthyNodes a = Ret hs \<Longrightarrow> distinct hs \<and> (\<forall>i\<in>set hs. an_state (aa_nodes a ! i) = NodeHealthy)
     \<and> (\<forall>i\<in>set hs. i < length (aa_nodes a))"
  by (auto simp: amqp_getHealthyNodes_def split: if_splits)

lemma amqp_select_nodes [simp]:
  "aa_nodes (snd (amqp_selectNodeForPublish r key a)) = aa_nodes a"
  "aa_config (snd (amqp_selectNodeForPublish r key a)) = aa_config a"
  by (simp_all add: amqp_selectNodeForPublish_def split_beta Let_def split: outcome.split)

text \<open>For adapters of fewer than \<open>2 ^ 32\<close> nodes a hash pick is in range too.\<close>

lemma amqp_select_healthy:
  assumes "fst (amqp_selectNodeForPublish r key a) = Ret (Some i)" and "length (aa_nodes a) < 2 ^ 32"
  shows "i < length (aa_nodes a) \<and> an_state (aa_nodes a ! i) = NodeHealthy"
proof -
  from assms(1) obtain hs where hs: "amqp_getHealthyNodes a = Ret hs" "hs \<noteq> []"
    by (auto simp: amqp_selectNodeForPublish_def split: outcome.split_asm if_split_asm)
  with assms(1) obtain k where k: "i = hs ! k"
    "fst (balance (cc_LoadBalanceStrategy (aa_config a)) r key (length hs) (aa_nodeIndex a)) = Ret k"
    by (auto simp: amqp_selectNodeForPublish_def split_beta outcome_simps)
  have "length hs \<le> length (aa_nodes a)"
    using hs(1) by (auto simp: amqp_getHealthyNodes_def positions_def intro: le_trans [OF length_filter_le]
        split: if_split_asm)
  then have "k < length hs"
    using balance_in_range [OF _ _ k(2)] hs(2) assms(2) by simp
  then show ?thesis using amqp_healthy_nodes [OF hs(1)] k(1) by simp
qed

lemma amqp_moves_try_others: "amqp_moves a (snd (amqp_try_others send a))"
proof (cases "amqp_getHealthyNodes a")
  case (Ret hs)
  have "amqp_moves a (snd (snd (amqp_failover send 1 hs a)))"
    using amqp_healthy_nodes [OF Ret] by (intro amqp_moves_failover) auto
  with Ret show ?thesis by (simp add: amqp_try_others_def split_beta)
qed (simp_all add: amqp_try_others_def)

lemma amqp_moves_Publish:
  assumes "length (aa_nodes a) < 2 ^ 32"
  shows "amqp_moves a (snd (amqp_Publish send r key a))"
proof -
  obtain o1 a1 where s: "amqp_selectNodeForPublish r key a = (o1, a1)" by fastforce
  have m0: "amqp_moves a a1"
    using amqp_select_nodes [of r key a] by (simp add: s amqp_moves_def list_all2_refl)
  show ?thesis
  proof (cases o1)
    case (Ret primary)
    show ?thesis
    proof (cases primary)
      case None
      with Ret show ?thesis
        using amqp_moves_trans [OF m0 amqp_moves_try_others] by (simp add: amqp_Publish_def s)
    next
      case (Some i)
      have h: "an_state (aa_nodes a1 ! i) = NodeHealthy"
        using amqp_select_healthy [of r key a i] amqp_select_nodes(1) [of r key a] Ret Some assms
        by (simp add: s)
      obtain e a2 where p: "amqp_publishToNode (send i 0) i a1 = (e, a2)" by fastforce
      have m1: "amqp_moves a a2"
        using amqp_moves_trans [OF m0 amqp_moves_publishToNode [OF h, of "send i 0"]] by (simp add: p)
      have m2: "amqp_moves a (amqp_set_node i amqp_publish_done a2)"
        by (rule amqp_moves_trans [OF m1 amqp_moves_set_node]) simp
      show ?thesis
        using Ret Some m2 amqp_moves_trans [OF m1 amqp_moves_try_others]
        by (cases e) (simp_all add: amqp_Publish_def s p)
    qed
  qed (use m0 in \<open>simp_all add: amqp_Publish_def s\<close>)
qed

lemma amqp_moves_step: "amqp_step a a' \<Longrightarrow> length (aa_nodes a) < 2 ^ 32 \<Longrightarrow> amqp_moves a a'"
proof (induction rule: amqp_step.induct)
  case (publish a send r key)
  then show ?case by (simp add: amqp_moves_Publish)
next
  case (check i a p)
  then show ?case by (simp add: amqp_moves_set_node amqp_evolves_check)
next
  case (forward i msg q a q' a')
  then have "a' = amqp_set_node i (\<lambda>n. n\<lparr>an_subscribeCount := wrap64 (an_subscribeCount n + 1)\<rparr>) a"
    by (simp add: amqp_forward_def split: if_splits)
  then show ?case by (simp add: amqp_moves_set_node)
qed

lemma amqp_failover_length:
  "length (aa_nodes (snd (snd (amqp_failover send k is a)))) = length (aa_nodes a)"
  by (induction "is" arbitrary: a k) (auto simp: split_beta amqp_publishToNode_other split: option.split)

lemma amqp_step_length: "amqp_step a a' \<Longrightarrow> length (aa_nodes a') = length (aa_nodes a)"
proof (induction rule: amqp_step.induct)
  case (publish a send r key)
  have t: "length (aa_nodes (snd (amqp_try_others send a'))) = length (aa_nodes a')" for a'
    by (simp add: amqp_try_others_def split_beta amqp_failover_length split: outcome.split)
  show ?case
    by (auto simp: amqp_Publish_def split_beta amqp_publishToNode_other t
        split: outcome.split option.split)
qed (auto simp: amqp_forward_def split: if_splits)

interpretation amqp_size: frozen amqp_step "\<lambda>_. True" "\<lambda>a. length (aa_nodes a)"
  by unfold_locales (simp_all add: amqp_step_length)

lemma amqp_moves_length: "amqp_moves a a' \<Longrightarrow> length (aa_nodes a') = length (aa_nodes a)"
  by (auto simp: amqp_moves_def dest: list_all2_lengthD)

lemma amqp_moves_steps: "amqp_step\<^sup>*\<^sup>* a a' \<Longrightarrow> length (aa_nodes a) < 2 ^ 32 \<Longrightarrow> amqp_moves a a'"
proof (induction rule: rtranclp_induct)
  case (step b c)
  then show ?case using amqp_moves_step [of b c] amqp_moves_length [of a b] by (auto intro: amqp_moves_trans)
qed simp

lemma amqp_moves_nth:
  "amqp_moves a a' \<Longrightarrow> i < length (aa_nodes a) \<Longrightarrow> amqp_evolves (aa_nodes a ! i) (aa_nodes a' ! i)"
  by (auto simp: amqp_moves_def list_all2_conv_all_nth)

lemma amqp_moves_ok:
  "amqp_moves a a' \<Longrightarrow> list_all amqp_node_ok (aa_nodes a) \<Longrightarrow> list_all amqp_node_ok (aa_nodes a')"
  by (auto simp: amqp_moves_def list_all2_conv_all_nth list_all_length amqp_evolves_def)

lemma amqp_moves_locked:
  "amqp_moves a a' \<Longrightarrow> i < length (aa_nodes a) \<Longrightarrow> an_locked (aa_nodes a ! i) \<Longrightarrow>
     list_ex an_locked (aa_nodes a')"
  using amqp_moves_nth [of a a' i] by (auto simp: amqp_evolves_def list_ex_length amqp_moves_length)

section \<open>The adapter a constructor returns\<close>

lemma amqp_connect_ok:
  "amqp_connectToNode d n = (Ret e, n') \<Longrightarrow> an_conn n = None \<Longrightarrow> an_errorCount n = 0 \<Longrightarrow>
     amqp_node_ok n' \<and> \<not> an_locked n'"
  by (auto simp: amqp_connectToNode_def amqp_node_ok_def split: if_splits sum.splits)

lemma amqp_connectToAll_ok:
  "amqp_connectToAll ds ns = (Ret r, ns') \<Longrightarrow>
     list_all (\<lambda>n. an_conn n = None \<and> an_errorCount n = 0 \<and> an_state n = NodeFailed \<and> \<not> an_locked n) ns \<Longrightarrow>
     list_all (\<lambda>n. amqp_node_ok n \<and> \<not> an_locked n) ns' \<and> length ns' = length ns"
proof (induction ds ns arbitrary: r ns' rule: amqp_connectToAll.induct)
  case (1 d ds n ns)
  obtain o1 n1 where o1: "amqp_connectToNode d n = (o1, n1)" by fastforce
  with 1(2) obtain err where err: "o1 = Ret err" by (cases o1) auto
  obtain r2 ns2 where r2: "amqp_connectToAll ds ns = (r2, ns2)" by fastforce
  with 1(2) o1 err have n': "ns' = n1 # ns2" by simp
  from 1(2) o1 err r2 obtain r3 where r3: "r2 = Ret r3" by (cases r2) auto
  have "amqp_node_ok n1 \<and> \<not> an_locked n1"
    using amqp_connect_ok [of d n err n1] o1 err 1(3) by simp
  then show ?case using 1(1) [OF o1 [symmetric] err r2 [unfolded r3]] 1(3) n' by simp
qed (auto simp: list_all_iff amqp_node_ok_def)

lemma amqp_new_ok:
  assumes "amqp_NewClusterAdapter now ds config = Ret (Inr a)"
  shows "list_all (\<lambda>n. amqp_node_ok n \<and> \<not> an_locked n) (aa_nodes a) \<and> aa_nodeIndex a = 0
    \<and> length (aa_nodes a) = length (cc_Nodes config)"
proof -
  let ?ns = "map (\<lambda>(i, url). amqp_new_node now i url) (enumerate 0 (cc_Nodes (amqp_setDefaults config)))"
  obtain r ns' where r: "amqp_connectToAll ds ?ns = (r, ns')" by fastforce
  with assms obtain x where x: "r = Ret x" "aa_nodes a = ns'" "aa_nodeIndex a = 0"
    by (cases r) (auto simp: amqp_NewClusterAdapter_def Let_def split: if_splits)
  have f: "list_all (\<lambda>n. an_conn n = None \<and> an_errorCount n = 0 \<and> an_state n = NodeFailed \<and> \<not> an_locked n) ?ns"
    by (auto simp: list_all_iff amqp_new_node_def)
  have "length ?ns = length (cc_Nodes config)" by (simp add: amqp_setDefaults_def)
  with amqp_connectToAll_ok [OF r [unfolded x(1)] f] x show ?thesis by simp
qed

lemma amqp_reachable_ok:
  assumes "amqp_reachable a" and "length (aa_nodes a) < 2 ^ 32"
  shows "list_all amqp_node_ok (aa_nodes a)"
proof -
  from assms(1) obtain now ds config a0 where new: "amqp_NewClusterAdapter now ds config = Ret (Inr a0)"
    and steps: "amqp_step\<^sup>*\<^sup>* a0 a"
    by (auto simp: amqp_reachable_def)
  have len: "length (aa_nodes a0) = length (aa_nodes a)"
    using amqp_size.view_steps [OF steps] by simp
  have "list_all amqp_node_ok (aa_nodes a0)" using amqp_new_ok [OF new] by (simp add: list_all_iff)
  then show ?thesis using amqp_moves_ok [OF amqp_moves_steps [OF steps]] assms(2) len by simp
qed

end
