(* ===== verification/Amqp_Theorems.thy ===== *)
theory Amqp_Theorems
  imports Amqp_Cluster
begin

text \<open>The properties of the RabbitMQ cluster adapter, and the two-node adapter of the witnesses.\<close>

section \<open>A concrete adapter\<close>

definition amqp_demo_node :: "nat \<Rightarrow> amqp_node" where
  "amqp_demo_node h = (amqp_new_node 0 h ''amqp://q'')\<lparr>an_conn := Some h, an_publishCh := Some h,
     an_subscribeCh := Some h, an_state := NodeHealthy\<rparr>"

definition amqp_demo_config :: amqp_cluster_config where
  "amqp_demo_config = \<lparr>cc_Nodes = [''amqp://q'', ''amqp://q''], cc_ServiceName = ''api'',
     cc_HealthCheckInterval = 0, cc_RetryAttempts = 0, cc_CircuitBreakerThreshold = 0,
     cc_LoadBalanceStrategy = []\<rparr>"

definition amqp_demo_dial :: "nat \<Rightarrow> amqp_dial" where
  "amqp_demo_dial h = \<lparr>ad_dial = Inr h, ad_publish = Inr h, ad_subscribe = Inr h, ad_now = 0\<rparr>"

definition amqp_demo :: amqp_adapter where
  "amqp_demo = \<lparr>aa_config = amqp_setDefaults amqp_demo_config,
     aa_nodes = [amqp_demo_node 0, amqp_demo_node 1], aa_nodeIndex = 0\<rparr>"

lemma amqp_demo_new:
  "amqp_NewClusterAdapter 0 [amqp_demo_dial 0, amqp_demo_dial 1] amqp_demo_config = Ret (Inr amqp_demo)"
  by (simp add: amqp_NewClusterAdapter_def amqp_setDefaults_def amqp_connectToNode_def Let_def
      amqp_new_node_def amqp_demo_dial_def amqp_demo_config_def amqp_demo_def amqp_demo_node_def)

lemma amqp_demo_reachable: "amqp_reachable amqp_demo"
  unfolding amqp_reachable_def using amqp_demo_new by blast

lemma amqp_demo_simps [simp]:
  "aa_nodes amqp_demo = [amqp_demo_node 0, amqp_demo_node 1]" "aa_nodeIndex amqp_demo = 0"
  "cc_LoadBalanceStrategy (aa_config amqp_demo) = ''round_robin''"
  "an_state (amqp_demo_node h) = NodeHealthy" "\<not> an_locked (amqp_demo_node h)"
  "an_publishCh (amqp_demo_node h) = Some h" "an_conn (amqp_demo_node h) = Some h"
  "an_lastCheck (amqp_demo_node h) = 0"
  by (simp_all add: amqp_demo_def amqp_demo_node_def amqp_setDefaults_def amqp_demo_config_def
      amqp_new_node_def)

lemma amqp_demo_publish: "\<exists>a'. amqp_Publish (\<lambda>_ _. None) 0 key amqp_demo = (Ret (None, [1]), a')"
proof -
  have h: "amqp_getHealthyNodes amqp_demo = Ret [0, 1]"
    by (simp add: amqp_getHealthyNodes_def positions_def upt_rec)
  have "rr_next 0 (Suc (Suc 0)) = (Ret 1, 1)" by (simp add: rr_next_ok max_int64_def)
  then have "amqp_selectNodeForPublish 0 key amqp_demo = (Ret (Some 1), amqp_demo\<lparr>aa_nodeIndex := 1\<rparr>)"
    by (simp add: amqp_selectNodeForPublish_def h balance_def)
  then show ?thesis by (simp add: amqp_Publish_def amqp_publishToNode_def)
qed

section \<open>Publishing\<close>

definition amqp_usable :: "amqp_adapter \<Rightarrow> nat set" where
  "amqp_usable a = {i. i < length (aa_nodes a) \<and> an_state (aa_nodes a ! i) = NodeHealthy}"

lemma amqp_publishToNode_const:
  "i < length (aa_nodes a) \<Longrightarrow> an_publishCh (aa_nodes a ! i) \<noteq> None \<Longrightarrow>
     an_state (aa_nodes a ! i) = NodeHealthy \<Longrightarrow> amqp_publishToNode s i a = (e, a') \<Longrightarrow>
     e = s \<and> (s \<noteq> None \<longrightarrow> an_state (aa_nodes a' ! i) = NodeDegraded) \<and> (s = None \<longrightarrow> a' = a)
     \<and> an_locked (aa_nodes a' ! i) = an_locked (aa_nodes a ! i)
     \<and> length (aa_nodes a') = length (aa_nodes a) \<and> (\<forall>k. k \<noteq> i \<longrightarrow> aa_nodes a' ! k = aa_nodes a ! k)"
  by (auto simp: amqp_publishToNode_def amqp_publish_failed_def split: option.splits)

lemma amqp_failover_const:
  assumes "distinct is" and "\<forall>i\<in>set is. i < length (aa_nodes a)
      \<and> an_state (aa_nodes a ! i) = NodeHealthy \<and> an_publishCh (aa_nodes a ! i) \<noteq> None"
    and "amqp_failover (\<lambda>i _. up i) k is a = (err, acc, a')"
  shows "(\<exists>i\<in>set is. up i = None \<and> err = None \<and> acc = [i]) \<or>
     (\<forall>i\<in>set is. up i \<noteq> None \<and> an_state (aa_nodes a' ! i) = NodeDegraded) \<and> err \<noteq> None \<and> acc = []
       \<and> (\<forall>k. k \<notin> set is \<longrightarrow> aa_nodes a' ! k = aa_nodes a ! k)"
  using assms
proof (induction "is" arbitrary: a k)
  case (Cons i "is")
  obtain e a1 where p: "amqp_publishToNode (up i) i a = (e, a1)" by fastforce
  have pc: "e = up i" "up i \<noteq> None \<Longrightarrow> an_state (aa_nodes a1 ! i) = NodeDegraded"
    "length (aa_nodes a1) = length (aa_nodes a)" "\<forall>k. k \<noteq> i \<longrightarrow> aa_nodes a1 ! k = aa_nodes a ! k"
    using amqp_publishToNode_const [OF _ _ _ p] Cons.prems by simp_all
  show ?case
  proof (cases "up i")
    case None
    with p pc Cons.prems show ?thesis by simp
  next
    case (Some m)
    have ne: "\<forall>j\<in>set is. j \<noteq> i" using Cons.prems(1) by auto
    have pre: "\<forall>j\<in>set is. j < length (aa_nodes a1)
      \<and> an_state (aa_nodes a1 ! j) = NodeHealthy \<and> an_publishCh (aa_nodes a1 ! j) \<noteq> None"
      using pc(3,4) Cons.prems(2) ne by simp
    have r: "amqp_failover (\<lambda>i _. up i) (Suc k) is a1 = (err, acc, a')"
      using Cons.prems(3) p pc(1) Some by simp
    have i: "i \<notin> set is" using Cons.prems(1) by simp
    have "distinct is" using Cons.prems(1) by simp
    from Cons.IH [OF this pre r] show ?thesis
    proof (elim disjE)
      assume "(\<forall>i\<in>set is. up i \<noteq> None \<and> an_state (aa_nodes a' ! i) = NodeDegraded) \<and> err \<noteq> None
        \<and> acc = [] \<and> (\<forall>k. k \<notin> set is \<longrightarrow> aa_nodes a' ! k = aa_nodes a1 ! k)"
      with pc Some i show ?thesis by auto
    qed auto
  qed
qed auto

lemma amqp_getHealthy_set:
  "list_all (\<lambda>n. \<not> an_locked n) (aa_nodes a) \<Longrightarrow>
     \<exists>hs. amqp_getHealthyNodes a = Ret hs \<and> set hs = amqp_usable a \<and> distinct hs"
  by (auto simp: amqp_getHealthyNodes_def amqp_usable_def list_all_iff list_ex_iff positions_set)

lemma amqp_select_returns:
  assumes "list_all (\<lambda>n. \<not> an_locked n) (aa_nodes a)" and "0 \<le> aa_nodeIndex a"
    and "aa_nodeIndex a < max_int64" and "length (aa_nodes a) < 2 ^ 32"
  shows "\<exists>p a1. amqp_selectNodeForPublish r key a = (Ret p, a1) \<and> aa_nodes a1 = aa_nodes a
    \<and> (case p of None \<Rightarrow> amqp_usable a = {} | Some i \<Rightarrow> i \<in> amqp_usable a)"
proof -
  obtain hs where hs: "amqp_getHealthyNodes a = Ret hs" "set hs = amqp_usable a"
    using amqp_getHealthy_set [OF assms(1)] by blast
  show ?thesis
  proof (cases "hs = []")
    case True
    with hs show ?thesis by (auto simp: amqp_selectNodeForPublish_def)
  next
    case False
    then have "\<exists>k. fst (balance (cc_LoadBalanceStrategy (aa_config a)) r key (length hs) (aa_nodeIndex a)) = Ret k"
      using assms(2,3) by (simp add: balance_def rr_next_ok)
    then obtain k idx where k: "balance (cc_LoadBalanceStrategy (aa_config a)) r key (length hs) (aa_nodeIndex a)
        = (Ret k, idx)" by (metis prod.collapse)
    with hs False have s: "amqp_selectNodeForPublish r key a = (Ret (Some (hs ! k)), a\<lparr>aa_nodeIndex := idx\<rparr>)"
      by (simp add: amqp_selectNodeForPublish_def)
    then have "hs ! k \<in> amqp_usable a"
      using amqp_select_healthy [of r key a "hs ! k"] assms(4) by (simp add: amqp_usable_def)
    with s show ?thesis by simp
  qed
qed

text \<open>C18: \<^verbatim>\<open>Publish\<close> hands the message to exactly one healthy node that accepts it, and fails only when
  every healthy node refuses; then no node has the message and each of them is left degraded.\<close>

theorem amqp_Publish_exactly_once:
  assumes "amqp_reachable a" and "list_all (\<lambda>n. \<not> an_locked n) (aa_nodes a)"
    and "0 \<le> aa_nodeIndex a" and "aa_nodeIndex a < max_int64" and "length (aa_nodes a) < 2 ^ 32"
  shows "\<exists>err acc a'. amqp_Publish (\<lambda>i _. up i) r key a = (Ret (err, acc), a')
    \<and> ((\<exists>i\<in>amqp_usable a. up i = None \<and> err = None \<and> acc = [i])
       \<or> (\<forall>i\<in>amqp_usable a. up i \<noteq> None \<and> an_state (aa_nodes a' ! i) = NodeDegraded) \<and> err \<noteq> None \<and> acc = [])"
proof -
  have ok: "\<forall>i\<in>amqp_usable a. i < length (aa_nodes a) \<and> an_state (aa_nodes a ! i) = NodeHealthy
      \<and> an_publishCh (aa_nodes a ! i) \<noteq> None"
    using amqp_reachable_ok [OF assms(1,5)]
    by (auto simp: amqp_usable_def list_all_length amqp_node_ok_def)
  obtain p a1 where s: "amqp_selectNodeForPublish r key a = (Ret p, a1)" "aa_nodes a1 = aa_nodes a"
    "case p of None \<Rightarrow> amqp_usable a = {} | Some i \<Rightarrow> i \<in> amqp_usable a"
    using amqp_select_returns [OF assms(2-5)] by blast
  show ?thesis
  proof (cases p)
    case None
    then have "amqp_usable a1 = {}" using s by (simp add: amqp_usable_def)
    then have "amqp_getHealthyNodes a1 = Ret []"
      using amqp_getHealthy_set [of a1] assms(2) s(2) by (metis set_empty)
    with None s show ?thesis by (simp add: amqp_Publish_def amqp_try_others_def)
  next
    case (Some i)
    then have iu: "i \<in> amqp_usable a" using s(3) by simp
    obtain e a2 where pn: "amqp_publishToNode (up i) i a1 = (e, a2)" by fastforce
    have pc: "e = up i" "up i \<noteq> None \<Longrightarrow> an_state (aa_nodes a2 ! i) = NodeDegraded"
      "length (aa_nodes a2) = length (aa_nodes a)" "\<forall>k. k \<noteq> i \<longrightarrow> aa_nodes a2 ! k = aa_nodes a ! k"
      using amqp_publishToNode_const [OF _ _ _ pn] iu ok s(2) by simp_all
    show ?thesis
    proof (cases "up i")
      case None
      with Some s pn pc(1) iu show ?thesis by (auto simp: amqp_Publish_def)
    next
      case (Some m)
      have "an_locked (aa_nodes a2 ! i) = an_locked (aa_nodes a ! i)"
        using amqp_publishToNode_const [OF _ _ _ pn] iu ok s(2) by simp
      then have "list_all (\<lambda>n. \<not> an_locked n) (aa_nodes a2)"
        using assms(2) pc(3,4) unfolding list_all_length by metis
      then obtain hs where hs: "amqp_getHealthyNodes a2 = Ret hs" "set hs = amqp_usable a2" "distinct hs"
        using amqp_getHealthy_set by blast
      have u: "amqp_usable a2 = amqp_usable a - {i}"
        using pc(2-4) Some by (auto simp: amqp_usable_def) (metis NodeState.distinct(1))+
      obtain err acc a' where f: "amqp_failover (\<lambda>i _. up i) 1 hs a2 = (err, acc, a')"
        by (metis prod_cases3)
      have pre: "\<forall>j\<in>set hs. j < length (aa_nodes a2) \<and> an_state (aa_nodes a2 ! j) = NodeHealthy
          \<and> an_publishCh (aa_nodes a2 ! j) \<noteq> None"
        using hs(2) u ok pc(3,4) by simp
      have "amqp_Publish (\<lambda>i _. up i) r key a = (Ret (err, acc), a')"
        using \<open>p = Some i\<close> s(1) pn pc(1) Some hs(1) f
        by (simp add: amqp_Publish_def amqp_try_others_def)
      moreover from amqp_failover_const [OF hs(3) pre f]
      have "(\<exists>j\<in>amqp_usable a. up j = None \<and> err = None \<and> acc = [j]) \<or>
        (\<forall>j\<in>amqp_usable a. up j \<noteq> None \<and> an_state (aa_nodes a' ! j) = NodeDegraded) \<and> err \<noteq> None \<and> acc = []"
        using hs(2) u pc(2) Some by (elim disjE) auto
      ultimately show ?thesis by blast
    qed
  qed
qed

theorem amqp_Publish_exactly_once_witness:
  "\<exists>err acc a'. amqp_Publish (\<lambda>i _. if i = 1 then Some ''closed'' else None) 0 [] amqp_demo
     = (Ret (err, acc), a') \<and> err = None \<and> acc = [0]"
proof -
  have h: "list_all (\<lambda>n. \<not> an_locked n) (aa_nodes amqp_demo)" "0 \<le> aa_nodeIndex amqp_demo"
    "aa_nodeIndex amqp_demo < max_int64" "length (aa_nodes amqp_demo) < 2 ^ 32"
    by (simp_all add: max_int64_def)
  have u: "0 \<in> amqp_usable amqp_demo" "\<forall>i\<in>amqp_usable amqp_demo. i < 2"
    by (auto simp: amqp_usable_def)
  from amqp_Publish_exactly_once [OF amqp_demo_reachable h, of "\<lambda>i. if i = 1 then Some ''closed'' else None" 0 "[]"]
  obtain err acc a' where e: "amqp_Publish (\<lambda>i _. if i = 1 then Some ''closed'' else None) 0 [] amqp_demo
     = (Ret (err, acc), a')" "(\<exists>i\<in>amqp_usable amqp_demo. i \<noteq> 1 \<and> err = None \<and> acc = [i])"
    using u(1) by (auto split: if_splits)
  then obtain i where i: "i \<in> amqp_usable amqp_demo" "i \<noteq> 1" "err = None" "acc = [i]" by blast
  from i(1,2) u(2) have "i = 0" by (metis One_nat_def less_2_cases)
  with e(1) i show ?thesis by blast
qed

text \<open>The set of healthy nodes only shrinks: whatever is published, checked or delivered, a node's state
  never gets better, so one refused publish takes a node out of use for good.\<close>

theorem amqp_state_never_improves:
  assumes "amqp_reachable a" and "length (aa_nodes a) < 2 ^ 32" and "i < length (aa_nodes a)"
    and "amqp_step\<^sup>*\<^sup>* a a'"
  shows "an_state (aa_nodes a ! i) \<le> an_state (aa_nodes a' ! i)"
proof -
  have "amqp_node_ok (aa_nodes a ! i)"
    using amqp_reachable_ok [OF assms(1,2)] assms(3) by (simp add: list_all_length)
  then show ?thesis
    using amqp_moves_nth [OF amqp_moves_steps [OF assms(4,2)] assms(3)] by (simp add: amqp_evolves_def)
qed

definition amqp_demo_probe :: amqp_probe where
  "amqp_demo_probe = \<lparr>ap_now = 60 * second, ap_closed = True, ap_dial = amqp_demo_dial 7,
     ap_channel = Inr 7, ap_elapsed = 100\<rparr>"

theorem amqp_state_never_improves_witness:
  "an_state (aa_nodes (snd (amqp_Publish (\<lambda>_ _. Some ''closed'') 0 [] amqp_demo)) ! 0) \<ge> NodeHealthy"
proof -
  let ?a' = "snd (amqp_Publish (\<lambda>_ _. Some ''closed'') 0 [] amqp_demo)"
  have "amqp_step\<^sup>*\<^sup>* amqp_demo ?a'" by (rule r_into_rtranclp, rule amqp_step.publish)
  from amqp_state_never_improves [OF amqp_demo_reachable _ _ this, of 0] show ?thesis by simp
qed

text \<open>When a health check finds a connection closed it deadlocks on the node's mutex, and from then on
  every \<^verbatim>\<open>Publish\<close> blocks, whatever the other nodes do.\<close>

theorem amqp_closed_connection_stops_publishing:
  assumes "length (aa_nodes a) < 2 ^ 32" and "i < length (aa_nodes a)" and "\<not> an_locked (aa_nodes a ! i)"
    and "10 * second \<le> ap_now p - an_lastCheck (aa_nodes a ! i)" and "ap_closed p"
    and "amqp_step\<^sup>*\<^sup>* (amqp_set_node i (\<lambda>n. snd (amqp_checkNodeHealth p n)) a) a'"
  shows "fst (amqp_checkNodeHealth p (aa_nodes a ! i)) = Block \<and> fst (amqp_Publish send r key a') = Block"
proof -
  note ch = amqp_check_deadlock [OF assms(3,4) disjI2 [OF assms(5)]]
  let ?a = "amqp_set_node i (\<lambda>n. snd (amqp_checkNodeHealth p n)) a"
  have "an_locked (aa_nodes ?a ! i)" using assms(2) ch by simp
  then have "list_ex an_locked (aa_nodes a')"
    using amqp_moves_locked [OF amqp_moves_steps [OF assms(6)]] assms(1,2) by simp
  then have "amqp_getHealthyNodes a' = Block" by (simp add: amqp_getHealthyNodes_def)
  then show ?thesis using ch by (simp add: amqp_Publish_def amqp_selectNodeForPublish_def)
qed

theorem amqp_closed_connection_stops_publishing_witness:
  "fst (amqp_Publish (\<lambda>_ _. None) 0 []
     (amqp_set_node 1 (\<lambda>n. snd (amqp_checkNodeHealth amqp_demo_probe n)) amqp_demo)) = Block"
proof -
  have "length (aa_nodes amqp_demo) < 2 ^ 32" "1 < length (aa_nodes amqp_demo)"
    "\<not> an_locked (aa_nodes amqp_demo ! 1)"
    "10 * second \<le> ap_now amqp_demo_probe - an_lastCheck (aa_nodes amqp_demo ! 1)"
    "ap_closed amqp_demo_probe"
    by (simp_all add: amqp_demo_probe_def)
  from amqp_closed_connection_stops_publishing [OF this rtranclp.rtrancl_refl] show ?thesis by (rule conjunct2)
qed

section \<open>Balancing\<close>

definition amqp_round_robin :: "amqp_adapter \<Rightarrow> bool" where
  "amqp_round_robin a \<longleftrightarrow> cc_LoadBalanceStrategy (aa_config a) = ''round_robin''
     \<and> list_all (\<lambda>n. \<not> an_locked n) (aa_nodes a) \<and> amqp_usable a \<noteq> {} \<and> 0 \<le> aa_nodeIndex a"

definition amqp_pool :: "amqp_adapter \<Rightarrow> nat option list" where
  "amqp_pool a = map Some (positions (\<lambda>n. an_state n = NodeHealthy) (aa_nodes a))"

interpretation amqp_balance: balanced_pool "amqp_selectNodeForPublish r key" amqp_pool aa_nodeIndex
  amqp_round_robin for r key
proof
  fix s assume s: "amqp_round_robin s"
  then show ne: "amqp_pool s \<noteq> []"
    by (auto simp: amqp_round_robin_def amqp_pool_def amqp_usable_def positions_Nil_iff)
  show "0 \<le> aa_nodeIndex s" using s by (simp add: amqp_round_robin_def)
  assume c: "aa_nodeIndex s < max_int64"
  let ?hs = "positions (\<lambda>n. an_state n = NodeHealthy) (aa_nodes s)"
  have h: "amqp_getHealthyNodes s = Ret ?hs"
    using s by (simp add: amqp_getHealthyNodes_def amqp_round_robin_def list_all_iff list_ex_iff)
  have n: "0 < length ?hs" using ne by (simp add: amqp_pool_def)
  let ?k = "nat ((aa_nodeIndex s + 1) mod int (length ?hs))"
  have "?k < length ?hs" using n by (simp add: nat_less_iff)
  moreover have "amqp_selectNodeForPublish r key s = (Ret (Some (?hs ! ?k)), s\<lparr>aa_nodeIndex := aa_nodeIndex s + 1\<rparr>)"
    using s h n c by (simp add: amqp_selectNodeForPublish_def amqp_round_robin_def balance_def rr_next_ok)
  ultimately show "\<exists>s'. amqp_selectNodeForPublish r key s =
      (Ret (amqp_pool s ! nat ((aa_nodeIndex s + 1) mod int (length (amqp_pool s)))), s')
    \<and> amqp_round_robin s' \<and> aa_nodeIndex s' = aa_nodeIndex s + 1 \<and> amqp_pool s' = amqp_pool s"
    using s by (simp add: amqp_pool_def amqp_round_robin_def amqp_usable_def)
qed

text \<open>With round robin, as many publishes in a row as there are healthy nodes pick each healthy node
  exactly once.\<close>

theorem amqp_round_robin_fair:
  assumes "amqp_round_robin a" and "aa_nodeIndex a + int (length (amqp_pool a)) \<le> max_int64"
  shows "\<exists>picks. take_turns (amqp_selectNodeForPublish r key) a (card (amqp_usable a)) = Some picks
    \<and> distinct picks \<and> set picks = Some ` amqp_usable a"
proof -
  have s: "set (amqp_pool a) = Some ` amqp_usable a" "distinct (amqp_pool a)"
    by (auto simp: amqp_pool_def amqp_usable_def positions_set distinct_map)
  then have l: "length (amqp_pool a) = card (amqp_usable a)"
    using distinct_card [OF s(2)] by (simp add: card_image)
  obtain picks where p: "take_turns (amqp_selectNodeForPublish r key) a (card (amqp_usable a)) = Some picks"
    "mset picks = mset (amqp_pool a)"
    using amqp_balance.one_round [OF assms, of r key] unfolding l by blast
  then show ?thesis using s mset_eq_setD mset_eq_imp_distinct_iff by metis
qed

theorem amqp_round_robin_fair_witness:
  "\<exists>picks. take_turns (amqp_selectNodeForPublish 0 []) amqp_demo (card (amqp_usable amqp_demo)) = Some picks
     \<and> set picks = {Some 0, Some 1}"
proof -
  have u: "amqp_usable amqp_demo = {0, 1}" by (auto simp: amqp_usable_def less_Suc_eq)
  have r: "amqp_round_robin amqp_demo" by (simp add: amqp_round_robin_def u)
  have "aa_nodeIndex amqp_demo + int (length (amqp_pool amqp_demo)) \<le> max_int64"
    by (simp add: amqp_pool_def positions_def upt_rec max_int64_def)
  from amqp_round_robin_fair [OF r this, of 0 "[]"] show ?thesis by (auto simp: u)
qed

section \<open>Configuration\<close>

text \<open>With \<^verbatim>\<open>RABBITMQ_HOST\<close> and no per-node variable set, the configuration lists the same node five
  times: the host of the first node is taken for the others too.\<close>

theorem amqp_host_alone_five_nodes:
  assumes "getenv e ''RABBITMQ_CLUSTER_NODES'' = []" and "getenv e ''RABBITMQ_HOST'' \<noteq> []"
    and "\<forall>name\<in>{''RABBITMQ_URL'', ''RABBITMQ_USER'', ''RABBITMQ_PASS'', ''RABBITMQ_HOST'', ''RABBITMQ_PORT'',
       ''RABBITMQ_VHOST''}. \<forall>i\<in>{2..5}. getenv e (name @ ''_'' @ itoa i) = []"
    and "getenv e ''RABBITMQ_URL'' = []"
  shows "\<exists>url c. amqp_LoadConfigFromEnv e name = Inr c \<and> ac_Nodes c = replicate 5 url
    \<and> url = amqp_buildNodeURL e [] []"
proof -
  have part: "db_part e v (amqp_node_suffix i) d = orElse (getenv e v) d"
    if "v \<in> {''RABBITMQ_USER'', ''RABBITMQ_PASS'', ''RABBITMQ_HOST'', ''RABBITMQ_PORT'', ''RABBITMQ_VHOST''}"
      and "i \<in> {1..5}" for v i d
    using assms(3) that by (cases "i = 1") (auto simp: db_part_def amqp_node_suffix_def orElse_def)
  have url: "getenv e (''RABBITMQ_URL'' @ amqp_node_suffix i) = []" if "i \<in> {1..5}" for i
    using assms(3,4) that by (cases "i = 1") (auto simp: amqp_node_suffix_def)
  have host: "orElse (getenv e ''RABBITMQ_HOST'') d = getenv e ''RABBITMQ_HOST''" for d
    using assms(2) by (simp add: orElse_def)
  have same: "amqp_buildNodeURL e (amqp_node_suffix i) (amqp_node_suffix i) = amqp_buildNodeURL e [] []"
    if "i \<in> {1..5}" for i
    using url [OF that] url [of 1] part [OF _ that] part [of _ 1] host
    by (simp add: amqp_buildNodeURL_def amqp_node_suffix_def [of 1] cong: if_cong)
  let ?u = "amqp_buildNodeURL e [] []"
  have "map (\<lambda>i. amqp_buildNodeURL e (amqp_node_suffix i) (amqp_node_suffix i)) [1..5] = map (\<lambda>i. ?u) [1..5]"
    using same by (intro map_cong) auto
  also have "filter (\<lambda>u. u \<noteq> []) \<dots> = replicate 5 ?u"
    using amqp_first_node [of e] by (simp add: upto_rec1 numeral_eq_Suc)
  finally have f: "filter (\<lambda>u. u \<noteq> []) (map (\<lambda>i. amqp_buildNodeURL e (amqp_node_suffix i) (amqp_node_suffix i)) [1..5])
      = replicate 5 ?u" .
  have n: "amqp_loadNodes e c = Inr (c\<lparr>ac_Nodes := replicate 5 ?u\<rparr>)" for c
    unfolding amqp_loadNodes_def Let_def f assms(1) by simp
  show ?thesis
    unfolding amqp_LoadConfigFromEnv_def n
    by (simp add: amqp_loadOptionalSettings_def amqp_loadSigningConfig_def Let_def)
qed

theorem amqp_host_alone_five_nodes_witness:
  "\<exists>url c. amqp_LoadConfigFromEnv [''RABBITMQ_HOST'' \<mapsto> ''mq''] ''api'' = Inr c \<and> ac_Nodes c = replicate 5 url"
proof -
  have "getenv [''RABBITMQ_HOST'' \<mapsto> ''mq''] k = []" if "k \<noteq> ''RABBITMQ_HOST''" for k
    using that by (simp add: getenv_def)
  moreover have "getenv [''RABBITMQ_HOST'' \<mapsto> ''mq''] ''RABBITMQ_HOST'' = ''mq''" by (simp add: getenv_def)
  ultimately show ?thesis
    using amqp_host_alone_five_nodes [of "[''RABBITMQ_HOST'' \<mapsto> ''mq'']" "''api''"] by auto
qed

end
