(* ===== verification/Json_Canonical.thy ===== *)
theory Json_Canonical
  imports Go_Std "HOL-Library.List_Lexorder" "HOL-Library.Char_ord"
begin

text \<open>
  JSON values as Go's \<^verbatim>\<open>any\<close> holds them, and the canonical encoding the event signatures
  are computed over (\<^verbatim>\<open>marshalCanonicalJSON\<close>, \<^verbatim>\<open>normalizeDataStructure\<close> of
  \<^verbatim>\<open>eventbus/signing.go\<close>). A map is a list of its entries in some order; a number is the literal
  \<^verbatim>\<open>json.Marshal\<close> prints for it. Strings are taken to be valid UTF-8 without U+2028 and U+2029. The
  second half proves the encoding injective up to the order of map entries.
\<close>

section \<open>Values\<close>

text \<open>\<open>AOther\<close> is a value \<^verbatim>\<open>json.Marshal\<close> rejects: a function, a channel, a NaN.\<close>

datatype goany =
  ANil
| ABool bool
| ANum string
| AStr string
| AList "goany list"
| AMap "(string \<times> goany) list"
| AOther string

text \<open>\<^verbatim>\<open>normalizeDataStructure\<close>: the JSON round trip keeps a JSON value and fails on any other.\<close>

fun json_errors :: "goany \<Rightarrow> string list" where
  "json_errors (AList vs) = concat (map json_errors vs)"
| "json_errors (AMap kvs) = concat (map (\<lambda>kv. json_errors (snd kv)) kvs)"
| "json_errors (AOther t) = [''json: unsupported type: '' @ t]"
| "json_errors v = []"

definition normalizeDataStructure :: "goany \<Rightarrow> (string, goany) result" where
  "normalizeDataStructure data = (case json_errors data of err # _ \<Rightarrow> Inl err | [] \<Rightarrow> Inr data)"

section \<open>Encoding\<close>

definition hex_digit :: "nat \<Rightarrow> char" where
  "hex_digit n = char_of (if n < 10 then 48 + n else 87 + n)"

text \<open>How \<^verbatim>\<open>encoding/json\<close> writes one byte of a string.\<close>

definition json_esc :: "char \<Rightarrow> string" where
  "json_esc c =
     (let n = (of_char c :: nat)
      in if c = CHR 0x22 then [CHR 0x5C, CHR 0x22]
         else if c = CHR 0x5C then [CHR 0x5C, CHR 0x5C]
         else if c = CHR 0x08 then [CHR 0x5C, CHR ''b'']
         else if c = CHR 0x0C then [CHR 0x5C, CHR ''f'']
         else if c = CHR 0x0A then [CHR 0x5C, CHR ''n'']
         else if c = CHR 0x0D then [CHR 0x5C, CHR ''r'']
         else if c = CHR 0x09 then [CHR 0x5C, CHR ''t'']
         else if n < 32 \<or> c \<in> set ''<>&''
           then [CHR 0x5C, CHR ''u'', CHR ''0'', CHR ''0'', hex_digit (n div 16), hex_digit (n mod 16)]
         else [c])"

definition json_quote :: "string \<Rightarrow> string" where
  "json_quote s = CHR 0x22 # concat (map json_esc s) @ [CHR 0x22]"

fun marshalCanonicalJSON :: "goany \<Rightarrow> string" where
  "marshalCanonicalJSON (AMap kvs) =
     ''{'' @ strJoin (map (\<lambda>(k, v). json_quote k @ '':'' @ v)
         (sort_key fst (map (map_prod id marshalCanonicalJSON) kvs))) '','' @ ''}''"
| "marshalCanonicalJSON (AList vs) = ''['' @ strJoin (map marshalCanonicalJSON vs) '','' @ '']''"
| "marshalCanonicalJSON ANil = ''null''"
| "marshalCanonicalJSON (ABool b) = (if b then ''true'' else ''false'')"
| "marshalCanonicalJSON (ANum lit) = lit"
| "marshalCanonicalJSON (AStr s) = json_quote s"
| "marshalCanonicalJSON (AOther t) = []"

section \<open>Reading a string back\<close>

text \<open>A decoder for \<^const>\<open>json_quote\<close>, only to show that nothing is lost.\<close>

definition hex_val :: "char \<Rightarrow> nat" where
  "hex_val c = (let n = of_char c in if n < 58 then n - 48 else n - 87)"

fun json_unesc :: "string \<Rightarrow> (char \<times> string) option" where
  "json_unesc [] = None"
| "json_unesc (c # s) =
     (if c = CHR 0x22 then None
      else if c \<noteq> CHR 0x5C then Some (c, s)
      else case s of
          [] \<Rightarrow> None
        | d # s' \<Rightarrow>
            if d = CHR ''b'' then Some (CHR 0x08, s')
            else if d = CHR ''f'' then Some (CHR 0x0C, s')
            else if d = CHR ''n'' then Some (CHR 0x0A, s')
            else if d = CHR ''r'' then Some (CHR 0x0D, s')
            else if d = CHR ''t'' then Some (CHR 0x09, s')
            else if d = CHR ''u'' then
              (case s' of _ # _ # h # l # s'' \<Rightarrow> Some (char_of (16 * hex_val h + hex_val l), s'')
               | _ \<Rightarrow> None)
            else Some (d, s'))"

lemma hex_val_digit: "n < 16 \<Longrightarrow> hex_val (hex_digit n) = n"
  by (auto simp: hex_val_def hex_digit_def Let_def)

lemma json_unesc_esc: "json_unesc (json_esc c @ r) = Some (c, r)"
proof -
  have n: "(of_char c :: nat) < 256" by (metis nat_of_char_less_256)
  have h: "char_of (16 * hex_val (hex_digit (of_char c div 16)) + hex_val (hex_digit (of_char c mod 16))) = c"
  proof -
    have "(of_char c :: nat) div 16 < 16" using n by (simp add: less_mult_imp_div_less)
    then show ?thesis by (simp add: hex_val_digit)
  qed
  show ?thesis
    unfolding json_esc_def Let_def by (simp add: h split: if_split)
qed

lemma json_quote_inj:
  assumes "json_quote s @ r = json_quote s' @ r'"
  shows "s = s' \<and> r = r'"
proof -
  have "concat (map json_esc s) @ CHR 0x22 # r = concat (map json_esc s') @ CHR 0x22 # r' \<Longrightarrow>
      s = s' \<and> r = r'"
  proof (induction s arbitrary: s')
    case Nil
    have "json_unesc (concat (map json_esc s') @ CHR 0x22 # r') = None"
      unfolding Nil [symmetric] by simp
    then have "s' = []" by (cases s') (simp_all add: json_unesc_esc)
    with Nil show ?case by simp
  next
    case (Cons c s)
    have u: "json_unesc (concat (map json_esc s') @ CHR 0x22 # r') =
        Some (c, concat (map json_esc s) @ CHR 0x22 # r)"
      unfolding Cons.prems [symmetric] by (simp add: json_unesc_esc)
    then obtain d t where d: "s' = d # t" by (cases s') simp_all
    with u have "d = c" "concat (map json_esc t) @ CHR 0x22 # r' = concat (map json_esc s) @ CHR 0x22 # r"
      by (simp_all add: json_unesc_esc)
    with Cons.IH [of t] d show ?case by simp
  qed
  with assms show ?thesis by (simp add: json_quote_def)
qed

section \<open>The encoding of sorted values\<close>

fun sort_maps :: "goany \<Rightarrow> goany" where
  "sort_maps (AMap kvs) = AMap (sort_key fst (map (map_prod id sort_maps) kvs))"
| "sort_maps (AList vs) = AList (map sort_maps vs)"
| "sort_maps v = v"

fun json_print :: "goany \<Rightarrow> string" where
  "json_print (AMap kvs) =
     ''{'' @ strJoin (map (\<lambda>(k, v). json_quote k @ '':'' @ json_print v) kvs) '','' @ ''}''"
| "json_print (AList vs) = ''['' @ strJoin (map json_print vs) '','' @ '']''"
| "json_print ANil = ''null''"
| "json_print (ABool b) = (if b then ''true'' else ''false'')"
| "json_print (ANum lit) = lit"
| "json_print (AStr s) = json_quote s"
| "json_print (AOther t) = []"

lemma sort_key_map_prod:
  "sort_key fst (map (map_prod id g) kvs) = map (map_prod id g) (sort_key fst kvs)"
proof -
  have "insort_key fst (map_prod id g x) (map (map_prod id g) xs) = map (map_prod id g) (insort_key fst x xs)"
    for x xs
    by (induction xs) auto
  note ins = this
  show ?thesis by (induction kvs) (simp_all only: list.map sort_key_simps ins)
qed

lemma marshal_sorts: "marshalCanonicalJSON v = json_print (sort_maps v)"
proof (induction v)
  case (AMap kvs)
  have "\<forall>x\<in>set kvs. marshalCanonicalJSON (snd x) = json_print (sort_maps (snd x))"
    using AMap by (auto simp: snds.simps)
  then have "map (\<lambda>x. json_quote (fst x) @ CHR '':'' # marshalCanonicalJSON (snd x)) (sort_key fst kvs)
      = map (\<lambda>x. json_quote (fst x) @ CHR '':'' # json_print (sort_maps (snd x))) (sort_key fst kvs)"
    by (intro map_cong) auto
  from arg_cong [OF this, of "\<lambda>xs. strJoin xs '',''"] show ?case
    by (simp add: sort_key_map_prod comp_def split_beta del: map_eq_conv)
qed (auto simp: comp_def cong: map_cong)

definition num_char :: "char \<Rightarrow> bool" where
  "num_char c \<longleftrightarrow> is_digit c \<or> c \<in> set ''+-.eE''"

fun json_wf :: "goany \<Rightarrow> bool" where
  "json_wf (AMap kvs) = (\<forall>kv\<in>set kvs. json_wf (snd kv))"
| "json_wf (AList vs) = (\<forall>v\<in>set vs. json_wf v)"
| "json_wf (ANum lit) = (lit \<noteq> [] \<and> list_all num_char lit \<and> hd lit \<notin> set ''+.eE'')"
| "json_wf (AOther t) = False"
| "json_wf v = True"

definition ends :: "string \<Rightarrow> bool" where
  "ends r \<longleftrightarrow> r = [] \<or> \<not> num_char (hd r)"

lemma ends_Cons: "ends (c # r) \<longleftrightarrow> \<not> num_char c"
  by (simp add: ends_def)

lemma not_num_char [simp]:
  "\<not> num_char (CHR '','')" "\<not> num_char (CHR '']'')" "\<not> num_char (CHR ''}'')"
  by (simp_all add: num_char_def is_digit_def)

text \<open>The first byte tells the constructor.\<close>

definition json_kind :: "char \<Rightarrow> nat" where
  "json_kind c = (if c = CHR ''n'' then 0 else if c = CHR ''t'' then 1 else if c = CHR ''f'' then 2
     else if c = CHR ''['' then 3 else if c = CHR ''{'' then 4
     else if c = CHR 0x22 then 5 else 6)"

fun value_kind :: "goany \<Rightarrow> nat" where
  "value_kind ANil = 0"
| "value_kind (ABool b) = (if b then 1 else 2)"
| "value_kind (AList vs) = 3"
| "value_kind (AMap kvs) = 4"
| "value_kind (AStr s) = 5"
| "value_kind (ANum lit) = 6"
| "value_kind (AOther t) = 7"

lemma json_print_kind:
  "json_wf v \<Longrightarrow> json_print v \<noteq> [] \<and> json_kind (hd (json_print v)) = value_kind v"
proof (cases v)
  case (ANum lit)
  moreover assume "json_wf v"
  ultimately obtain c cs where c: "lit = c # cs" "num_char c" "c \<notin> set ''+.eE''" by (cases lit) auto
  then have "is_digit c \<or> c = CHR ''-''" by (auto simp: num_char_def)
  then have "json_kind c = 6" by (auto simp: json_kind_def is_digit_def)
  with ANum c show ?thesis by simp
qed (auto simp: json_kind_def json_quote_def)

lemma json_print_hd:
  "json_wf v \<Longrightarrow> json_print v \<noteq> [] \<and> hd (json_print v) \<noteq> CHR '']'' \<and> hd (json_print v) \<noteq> CHR ''}''"
proof (cases v)
  case (ANum lit)
  moreover assume "json_wf v"
  ultimately show ?thesis by (cases lit) auto
qed (auto simp: json_quote_def)

text \<open>Items that can be told from what follows them stay so when joined by commas.\<close>

lemma join_inj:
  assumes "\<forall>x\<in>set xs. \<forall>y\<in>set ys. \<forall>r r'. f x @ r = f y @ r' \<longrightarrow> ends r \<longrightarrow> ends r' \<longrightarrow> x = y \<and> r = r'"
    and "\<forall>x\<in>set xs \<union> set ys. f x \<noteq> [] \<and> hd (f x) \<noteq> close"
    and "\<not> num_char close" "close \<noteq> CHR '',''"
    and "strJoin (map f xs) '','' @ close # r = strJoin (map f ys) '','' @ close # r'"
  shows "xs = ys \<and> r = r'"
  using assms
proof (induction xs arbitrary: ys)
  case Nil
  then show ?case
  proof (cases ys)
    case (Cons y ys')
    then have "hd (close # r) = hd (f y)"
      using Nil by (cases ys') (simp_all add: Nil.prems(5))
    with Nil.prems(2) Cons show ?thesis by auto
  qed simp
next
  case (Cons x xs)
  define tl1 where "tl1 = (if xs = [] then close # r else '','' @ strJoin (map f xs) '','' @ close # r)"
  have l: "strJoin (map f (x # xs)) '','' @ close # r = f x @ tl1"
    by (cases xs) (simp_all add: tl1_def)
  show ?case
  proof (cases ys)
    case Nil
    then have "f x @ tl1 = close # r'" using Cons.prems(5) l by simp
    moreover have "f x \<noteq> []" using Cons.prems(2) by simp
    ultimately have "hd (f x) = close" by (cases "f x") simp_all
    with Cons.prems(2) show ?thesis by auto
  next
    case ys: (Cons y ys')
    define tl2 where "tl2 = (if ys' = [] then close # r' else '','' @ strJoin (map f ys') '','' @ close # r')"
    have l2: "strJoin (map f ys) '','' @ close # r' = f y @ tl2"
      by (cases ys') (simp_all add: tl2_def ys)
    have "ends tl1" "ends tl2" using Cons.prems(3) by (simp_all add: tl1_def tl2_def ends_Cons)
    moreover have "f x @ tl1 = f y @ tl2" using Cons.prems(5) l l2 by simp
    ultimately have xy: "x = y" "tl1 = tl2" using Cons.prems(1) ys by auto
    show ?thesis
    proof (cases "xs = [] \<or> ys' = []")
      case True
      with xy(2) Cons.prems(4) have "xs = [] \<and> ys' = [] \<and> r = r'"
        by (auto simp: tl1_def tl2_def split: if_splits)
      with xy(1) ys show ?thesis by simp
    next
      case False
      with xy(2) have "strJoin (map f xs) '','' @ close # r = strJoin (map f ys') '','' @ close # r'"
        by (simp add: tl1_def tl2_def)
      moreover have "\<forall>a\<in>set xs. \<forall>b\<in>set ys'. \<forall>r r'. f a @ r = f b @ r' \<longrightarrow> ends r \<longrightarrow> ends r' \<longrightarrow> a = b \<and> r = r'"
        using Cons.prems(1) unfolding ys by (meson list.set_intros(2))
      moreover have "\<forall>a\<in>set xs \<union> set ys'. f a \<noteq> [] \<and> hd (f a) \<noteq> close"
        using Cons.prems(2) unfolding ys by (meson UnE UnI1 UnI2 list.set_intros(2))
      ultimately have "xs = ys' \<and> r = r'" using Cons.IH [OF _ _ Cons.prems(3,4)] by blast
      then show ?thesis using xy(1) ys by simp
    qed
  qed
qed

lemma num_literal_inj:
  assumes "list_all num_char a" "list_all num_char b" "a @ r = b @ r'" "ends r" "ends r'"
  shows "a = b \<and> r = r'"
proof -
  have "takeWhile num_char (c @ t) = c" if "list_all num_char c" "ends t" for c t
    using that by (cases t) (simp_all add: ends_def takeWhile_append list_all_iff)
  with assms have "a = b" by metis
  with assms(3) show ?thesis by simp
qed

lemma json_print_inj:
  "json_wf v \<Longrightarrow> json_wf w \<Longrightarrow> json_print v @ r = json_print w @ r' \<Longrightarrow> ends r \<Longrightarrow> ends r' \<Longrightarrow>
     v = w \<and> r = r'"
proof (induction v arbitrary: w r r')
  case (AMap kvs)
  have "value_kind w = 4"
    using json_print_kind [OF AMap.prems(1)] json_print_kind [OF AMap.prems(2)] AMap.prems(3)
    by (metis hd_append2 value_kind.simps(4))
  then obtain kvs' where w: "w = AMap kvs'" by (cases w) (auto split: if_splits)
  let ?f = "\<lambda>(k, v). json_quote k @ '':'' @ json_print v"
  have "strJoin (map ?f kvs) '','' @ CHR ''}'' # r = strJoin (map ?f kvs') '','' @ CHR ''}'' # r'"
    using AMap.prems(3) w by simp
  moreover have "?f x @ t = ?f y @ t' \<longrightarrow> ends t \<longrightarrow> ends t' \<longrightarrow> x = y \<and> t = t'"
    if xy: "x \<in> set kvs" "y \<in> set kvs'" for x y t t'
  proof (intro impI)
    assume "?f x @ t = ?f y @ t'" and e: "ends t" "ends t'"
    then have q: "fst x = fst y \<and> '':'' @ json_print (snd x) @ t = '':'' @ json_print (snd y) @ t'"
      using json_quote_inj [of "fst x" "'':'' @ json_print (snd x) @ t"] by (simp add: split_beta)
    have "json_wf (snd x)" "json_wf (snd y)" using AMap.prems xy w by auto
    then have "snd x = snd y \<and> t = t'"
      using AMap.IH [of x "snd x" "snd y" t t'] xy(1) q e by (simp add: snds.simps)
    with q show "x = y \<and> t = t'" by (simp add: prod_eq_iff)
  qed
  moreover have "?f x \<noteq> [] \<and> hd (?f x) \<noteq> CHR ''}''" for x
    by (simp add: split_beta json_quote_def)
  ultimately have "kvs = kvs' \<and> r = r'"
    by (intro join_inj [of kvs kvs' ?f "CHR ''}''"]) auto
  with w show ?case by simp
next
  case (AList vs)
  have "value_kind w = 3"
    using json_print_kind [OF AList.prems(1)] json_print_kind [OF AList.prems(2)] AList.prems(3)
    by (metis hd_append2 value_kind.simps(3))
  then obtain vs' where w: "w = AList vs'" by (cases w) (auto split: if_splits)
  have "strJoin (map json_print vs) '','' @ CHR '']'' # r = strJoin (map json_print vs') '','' @ CHR '']'' # r'"
    using AList.prems(3) w by simp
  moreover have "\<forall>x\<in>set vs \<union> set vs'. json_print x \<noteq> [] \<and> hd (json_print x) \<noteq> CHR '']''"
    using AList.prems(1,2) w json_print_hd by auto
  moreover have "\<forall>x\<in>set vs. \<forall>y\<in>set vs'. \<forall>t t'. json_print x @ t = json_print y @ t' \<longrightarrow> ends t \<longrightarrow> ends t'
      \<longrightarrow> x = y \<and> t = t'"
    using AList.IH AList.prems(1,2) w by (metis json_wf.simps(2))
  ultimately have "vs = vs' \<and> r = r'"
    by (intro join_inj [of vs vs' json_print "CHR '']''"]) auto
  with w show ?case by simp
next
  case (ANum lit)
  have "value_kind w = 6"
    using json_print_kind [OF ANum.prems(1)] json_print_kind [OF ANum.prems(2)] ANum.prems(3)
    by (metis hd_append2 value_kind.simps(6))
  then obtain lit' where "w = ANum lit'" by (cases w) (auto split: if_splits)
  with ANum num_literal_inj [of lit lit' r r'] show ?case by simp
next
  case (AStr s)
  have "value_kind w = 5"
    using json_print_kind [OF AStr.prems(1)] json_print_kind [OF AStr.prems(2)] AStr.prems(3)
    by (metis hd_append2 value_kind.simps(5))
  then obtain s' where "w = AStr s'" by (cases w) (auto split: if_splits)
  with AStr json_quote_inj [of s r s' r'] show ?case by simp
next
  case ANil
  have "value_kind w = 0"
    using json_print_kind [OF ANil.prems(1)] json_print_kind [OF ANil.prems(2)] ANil.prems(3)
    by (metis hd_append2 value_kind.simps(1))
  with ANil show ?case by (cases w) (auto split: if_splits)
next
  case (ABool b)
  have "value_kind w = value_kind (ABool b)"
    using json_print_kind [OF ABool.prems(1)] json_print_kind [OF ABool.prems(2)] ABool.prems(3)
    by (metis hd_append2)
  with ABool show ?case by (cases w) (auto split: if_splits)
qed simp

section \<open>The canonical encoding\<close>

lemma json_wf_sort_maps [simp]: "json_wf (sort_maps v) = json_wf v"
proof (induction v)
  case (AMap kvs)
  then show ?case by (auto simp: map_prod_def split_beta)
qed auto

lemma marshal_inj:
  "json_wf v \<Longrightarrow> json_wf w \<Longrightarrow> marshalCanonicalJSON v = marshalCanonicalJSON w \<Longrightarrow> sort_maps v = sort_maps w"
  using json_print_inj [of "sort_maps v" "sort_maps w" "[]" "[]"]
  by (simp add: marshal_sorts ends_def)

text \<open>With distinct keys the order of a map's entries does not show.\<close>

lemma sort_key_distinct_cong:
  "mset xs = mset ys \<Longrightarrow> distinct (map fst xs) \<Longrightarrow> sort_key fst xs = sort_key fst ys"
proof -
  assume a: "mset xs = mset ys" "distinct (map fst xs)"
  then have "inj_on fst (set xs)" by (simp add: distinct_map)
  with a(1) show ?thesis by (intro sort_key_inj_key_eq) simp_all
qed

end
