(* ===== verification/Event_Signing.thy ===== *)
theory Event_Signing
  imports Json_Canonical
begin

text \<open>
  The event envelope and its signature (\<^verbatim>\<open>eventbus/events.go\<close>, \<^verbatim>\<open>eventbus/signing.go\<close>).
  \<open>mac key bytes\<close> stands for the base64 text of the HMAC-SHA256; the clock is an argument.
  Instants keep their nanoseconds, the signature covers seconds.
\<close>

section \<open>Events\<close>

record base_event =
  ev_ID :: string
  ev_Type :: string
  ev_Timestamp :: instant
  ev_Source :: string
  ev_UserID :: string
  ev_Data :: "(string \<times> goany) list option"

definition zero_event :: base_event where
  "zero_event = \<lparr>ev_ID = [], ev_Type = [], ev_Timestamp = zero_time, ev_Source = [], ev_UserID = [],
     ev_Data = None\<rparr>"

definition randomString :: "nat list \<Rightarrow> string" where
  "randomString rnds = map (\<lambda>r. ''abcdefghijklmnopqrstuvwxyz0123456789'' ! (r mod 36)) rnds"

definition generateEventID :: "instant \<Rightarrow> nat list \<Rightarrow> string" where
  "generateEventID now rnds = itoa now @ ''-'' @ randomString (take 8 rnds)"

definition NewEvent :: "instant \<Rightarrow> nat list \<Rightarrow> string \<Rightarrow> string \<Rightarrow> (string \<times> goany) list option \<Rightarrow> base_event" where
  "NewEvent now rnds eventType source data = \<lparr>ev_ID = generateEventID now rnds, ev_Type = eventType,
     ev_Timestamp = now, ev_Source = source, ev_UserID = [], ev_Data = data\<rparr>"

definition SetUserID :: "string \<Rightarrow> base_event \<Rightarrow> base_event" where
  "SetUserID userID e = e\<lparr>ev_UserID := userID\<rparr>"

definition ValidateEvent :: "base_event \<Rightarrow> string option" where
  "ValidateEvent e =
     (if ev_ID e = [] then Some ''event ID is required''
      else if ev_Type e = [] then Some ''event type is required''
      else if ev_Source e = [] then Some ''event source is required''
      else if ev_Timestamp e = zero_time then Some ''event timestamp is required''
      else None)"

definition GetEventDomain :: "base_event \<Rightarrow> string" where
  "GetEventDomain e = (let parts = strSplit (ev_Type e) ''.'' in if 0 < length parts then parts ! 0 else [])"

definition GetEventAction :: "base_event \<Rightarrow> string" where
  "GetEventAction e = (let parts = strSplit (ev_Type e) ''.'' in if 1 < length parts then parts ! 1 else [])"

section \<open>Signing\<close>

record signature_config =
  sc_SigningKey :: string
  sc_ExpiryWindow :: duration
  sc_RequiredClaims :: "string list"

record signed_event =
  se_Event :: "base_event option"
  se_Signature :: string
  se_SignedAt :: instant
  se_ExpiresAt :: instant

definition devSigningKey :: string where
  "devSigningKey = ''dev-signing-key-change-in-production''"

definition standardClaims :: "string list" where
  "standardClaims = [''id'', ''type'', ''timestamp'', ''source'']"

definition DefaultSignatureConfig :: "environ \<Rightarrow> signature_config" where
  "DefaultSignatureConfig e = \<lparr>sc_SigningKey = orElse (getenv e ''EVENT_SIGNING_KEY'') devSigningKey,
     sc_ExpiryWindow = 30 * minute, sc_RequiredClaims = standardClaims\<rparr>"

definition claim_error :: "base_event \<Rightarrow> string \<Rightarrow> string option" where
  "claim_error e claim =
     (if claim = ''id'' then
        (if trimSpace (ev_ID e) = [] then Some ''missing required claim: id'' else None)
      else if claim = ''type'' then
        (if trimSpace (ev_Type e) = [] then Some ''missing required claim: type'' else None)
      else if claim = ''timestamp'' then
        (if ev_Timestamp e = zero_time then Some ''missing required claim: timestamp'' else None)
      else if claim = ''source'' then
        (if trimSpace (ev_Source e) = [] then Some ''missing required claim: source'' else None)
      else Some (''unknown required claim: '' @ claim))"

fun validateRequiredClaims :: "base_event \<Rightarrow> string list \<Rightarrow> string option" where
  "validateRequiredClaims e [] = None"
| "validateRequiredClaims e (claim # cs) =
     (case claim_error e claim of Some err \<Rightarrow> Some err | None \<Rightarrow> validateRequiredClaims e cs)"

definition data_value :: "(string \<times> goany) list option \<Rightarrow> goany" where
  "data_value d = (case d of None \<Rightarrow> ANil | Some kvs \<Rightarrow> AMap kvs)"

definition canonical_value :: "base_event \<Rightarrow> instant \<Rightarrow> instant \<Rightarrow> goany" where
  "canonical_value e signedAt expiresAt = AMap
     [(''data'', data_value (ev_Data e)),
      (''expires_at'', ANum (itoa (unix_of expiresAt))),
      (''id'', AStr (ev_ID e)),
      (''signed_at'', ANum (itoa (unix_of signedAt))),
      (''source'', AStr (ev_Source e)),
      (''timestamp'', ANum (itoa (unix_of (ev_Timestamp e)))),
      (''type'', AStr (ev_Type e)),
      (''user_id'', AStr (ev_UserID e))]"

definition createCanonicalEventData ::
    "base_event \<Rightarrow> instant \<Rightarrow> instant \<Rightarrow> (string, string) result" where
  "createCanonicalEventData e signedAt expiresAt =
     (case normalizeDataStructure (data_value (ev_Data e)) of
        Inl err \<Rightarrow> Inl (''failed to normalize event data: '' @ err)
      | Inr normalized \<Rightarrow> Inr (marshalCanonicalJSON (canonical_value e signedAt expiresAt)))"

definition generateSignature :: "(string \<Rightarrow> string \<Rightarrow> string) \<Rightarrow> string \<Rightarrow> string \<Rightarrow> (string, string) result" where
  "generateSignature mac data key =
     (if length key < 16 then Inl ''signing key must be at least 16 bytes long'' else Inr (mac key data))"

definition SignEvent ::
    "(string \<Rightarrow> string \<Rightarrow> string) \<Rightarrow> instant \<Rightarrow> signature_config \<Rightarrow> base_event \<Rightarrow> (string, signed_event) result" where
  "SignEvent mac now config event =
     (case validateRequiredClaims event (sc_RequiredClaims config) of
        Some err \<Rightarrow> Inl (''event validation failed: '' @ err)
      | None \<Rightarrow>
          let expiresAt = now + sc_ExpiryWindow config
          in case createCanonicalEventData event now expiresAt of
               Inl err \<Rightarrow> Inl (''failed to create canonical data: '' @ err)
             | Inr canonical \<Rightarrow>
                 (case generateSignature mac canonical (sc_SigningKey config) of
                    Inl err \<Rightarrow> Inl (''failed to generate signature: '' @ err)
                  | Inr sig \<Rightarrow> Inr \<lparr>se_Event = Some event, se_Signature = sig, se_SignedAt = now,
                      se_ExpiresAt = expiresAt\<rparr>))"

text \<open>\<^verbatim>\<open>VerifyEvent\<close> reads the event without a nil check.\<close>

definition VerifyEvent ::
    "(string \<Rightarrow> string \<Rightarrow> string) \<Rightarrow> instant \<Rightarrow> signature_config \<Rightarrow> signed_event \<Rightarrow> string option outcome" where
  "VerifyEvent mac now config s =
     (if now > se_ExpiresAt s then Ret (Some ''event signature has expired'')
      else case se_Event s of
          None \<Rightarrow> Panic ''nil pointer dereference''
        | Some event \<Rightarrow>
            (case validateRequiredClaims event (sc_RequiredClaims config) of
               Some err \<Rightarrow> Ret (Some (''event validation failed: '' @ err))
             | None \<Rightarrow>
                 (case createCanonicalEventData event (se_SignedAt s) (se_ExpiresAt s) of
                    Inl err \<Rightarrow> Ret (Some (''failed to recreate canonical data: '' @ err))
                  | Inr canonical \<Rightarrow>
                      (case generateSignature mac canonical (sc_SigningKey config) of
                         Inl err \<Rightarrow> Ret (Some (''failed to generate expected signature: '' @ err))
                       | Inr expected \<Rightarrow>
                           if se_Signature s \<noteq> expected
                           then Ret (Some (''invalid signature: expected '' @ take 10 expected
                                  @ '', got '' @ take 10 (se_Signature s)))
                           else Ret None))))"

definition RotateSigningKey :: "signature_config \<Rightarrow> string \<Rightarrow> signature_config" where
  "RotateSigningKey oldConfig newKey = oldConfig\<lparr>sc_SigningKey := newKey\<rparr>"

text \<open>\<^verbatim>\<open>NewEventSigner\<close> and \<^verbatim>\<open>NewEventVerifier\<close> fall back to the environment's key.\<close>

definition NewEventSigner :: "environ \<Rightarrow> signature_config option \<Rightarrow> signature_config" where
  "NewEventSigner e config = (case config of None \<Rightarrow> DefaultSignatureConfig e | Some c \<Rightarrow> c)"

definition NewEventVerifier :: "environ \<Rightarrow> signature_config option \<Rightarrow> signature_config" where
  "NewEventVerifier e config = (case config of None \<Rightarrow> DefaultSignatureConfig e | Some c \<Rightarrow> c)"

lemma itoa_number: "json_wf (ANum (itoa i))"
proof -
  have h: "dec_digits n \<noteq> [] \<and> list_all num_char (dec_digits n) \<and> hd (dec_digits n) \<notin> set ''+.eE''" for n
    using dec_digits_digits [of n]
    by (cases "dec_digits n") (auto simp: list_all_iff num_char_def is_digit_def)
  then show ?thesis by (simp add: itoa_def num_char_def)
qed

section \<open>What the signature covers\<close>

lemma json_wf_no_errors: "json_wf v \<Longrightarrow> json_errors v = []"
  by (induction v) (auto simp: snds.simps)

definition data_wf :: "base_event \<Rightarrow> bool" where
  "data_wf e \<longleftrightarrow> json_wf (data_value (ev_Data e))"

lemma canonical_wf: "data_wf e \<Longrightarrow> json_wf (canonical_value e s x)"
  using itoa_number by (simp add: canonical_value_def data_wf_def)

lemma createCanonical_wf:
  "data_wf e \<Longrightarrow> createCanonicalEventData e s x = Inr (marshalCanonicalJSON (canonical_value e s x))"
  by (simp add: createCanonicalEventData_def normalizeDataStructure_def data_wf_def json_wf_no_errors)

lemma sort_key_sorted: "sorted (map f xs) \<Longrightarrow> sort_key f xs = xs"
  by (induction xs) (simp_all add: insort_is_Cons)

text \<open>The keys of the signed object are written in their order.\<close>

lemma canonical_keys_sorted:
  "sorted [''data'', ''expires_at'', ''id'', ''signed_at'', ''source'', ''timestamp'', ''type'', ''user_id'']"
  by code_simp

text \<open>Equal canonical bytes come from events that agree in every field, times up to the second.\<close>

lemma canonical_covers:
  assumes "data_wf e" "data_wf e'"
    and "marshalCanonicalJSON (canonical_value e s x) = marshalCanonicalJSON (canonical_value e' s' x')"
  shows "ev_ID e = ev_ID e' \<and> ev_Type e = ev_Type e' \<and> ev_Source e = ev_Source e' \<and> ev_UserID e = ev_UserID e'
    \<and> unix_of (ev_Timestamp e) = unix_of (ev_Timestamp e') \<and> unix_of s = unix_of s' \<and> unix_of x = unix_of x'
    \<and> sort_maps (data_value (ev_Data e)) = sort_maps (data_value (ev_Data e'))"
proof -
  have sorted: "sort_maps (canonical_value a u v) = AMap
     [(''data'', sort_maps (data_value (ev_Data a))), (''expires_at'', ANum (itoa (unix_of v))),
      (''id'', AStr (ev_ID a)), (''signed_at'', ANum (itoa (unix_of u))), (''source'', AStr (ev_Source a)),
      (''timestamp'', ANum (itoa (unix_of (ev_Timestamp a)))), (''type'', AStr (ev_Type a)),
      (''user_id'', AStr (ev_UserID a))]" for a u v
    unfolding canonical_value_def sort_maps.simps
    by (subst sort_key_sorted) (use canonical_keys_sorted in simp_all)
  from marshal_inj [OF canonical_wf [OF assms(1)] canonical_wf [OF assms(2)] assms(3)]
  show ?thesis unfolding sorted by (auto dest: itoa_inj)
qed

end
