(* ===== verification/Event_Bus.thy ===== *)
theory Event_Bus
  imports Event_Signing
begin

text \<open>
  Publishing and consuming events over one RabbitMQ channel (\<^verbatim>\<open>eventbus/publisher.go\<close>,
  \<^verbatim>\<open>dispatcher.go\<close>, \<^verbatim>\<open>broadcast.go\<close>, \<^verbatim>\<open>context.go\<close>). A message body is the JSON document it holds:
  an event, a signed event, or something \<^verbatim>\<open>json.Unmarshal\<close> rejects. A delivery is settled by an
  acknowledgement, a requeue or a rejection to the dead-letter queue; handlers, the channel and
  the clock are arguments. A handler may return an error or panic.
\<close>

section \<open>Messages\<close>

datatype header = HBool bool | HStr string | HInt32 int | HInt64 int

datatype wire_body = WireEvent base_event | WireSigned signed_event | WireBad string

record amqp_msg =
  ms_Exchange :: string
  ms_RoutingKey :: string
  ms_Headers :: "string \<rightharpoonup> header"
  ms_Body :: wire_body
  ms_MessageId :: string
  ms_Type :: string
  ms_AppId :: string
  ms_Timestamp :: instant

text \<open>
  \<^verbatim>\<open>json.Marshal\<close> of an event, and \<^verbatim>\<open>json.Unmarshal\<close> into a \<^verbatim>\<open>BaseEvent\<close> or a \<^verbatim>\<open>SignedEvent\<close>: the
  two have no field name in common, so reading one as the other leaves the zero value.
\<close>

definition ToJSON :: "base_event \<Rightarrow> (string, wire_body) result" where
  "ToJSON e = (case normalizeDataStructure (data_value (ev_Data e)) of
     Inl err \<Rightarrow> Inl err | Inr _ \<Rightarrow> Inr (WireEvent e))"

definition FromJSON :: "wire_body \<Rightarrow> (string, base_event) result" where
  "FromJSON b = (case b of WireEvent e \<Rightarrow> Inr e | WireSigned s \<Rightarrow> Inr zero_event | WireBad err \<Rightarrow> Inl err)"

definition decode_signed :: "wire_body \<Rightarrow> (string, signed_event) result" where
  "decode_signed b = (case b of
     WireSigned s \<Rightarrow> Inr s
   | WireEvent e \<Rightarrow> Inr \<lparr>se_Event = None, se_Signature = [], se_SignedAt = zero_time, se_ExpiresAt = zero_time\<rparr>
   | WireBad err \<Rightarrow> Inl err)"

datatype settlement = Acked | Requeued | DeadLettered

type_synonym event_handler = "base_event \<Rightarrow> string option outcome"

section \<open>Publishing\<close>

record eb_publisher =
  pb_serviceName :: string
  pb_signer :: "signature_config option"
  pb_requireSigning :: bool

text \<open>\<open>steps k\<close> is the error of the dial, the channel and the exchange declaration.\<close>

definition NewPublisherWithSigning :: "environ \<Rightarrow> (nat \<Rightarrow> string option) \<Rightarrow> string \<Rightarrow>
    signature_config option \<Rightarrow> bool \<Rightarrow> (string, eb_publisher) result" where
  "NewPublisherWithSigning e steps serviceName signingConfig requireSigning =
     (case (steps 0, steps 1, steps 2) of
        (Some err, _, _) \<Rightarrow> Inl err
      | (None, Some err, _) \<Rightarrow> Inl err
      | (None, None, Some err) \<Rightarrow> Inl err
      | (None, None, None) \<Rightarrow> Inr \<lparr>pb_serviceName = serviceName,
          pb_signer = (if signingConfig \<noteq> None \<or> requireSigning
                       then Some (NewEventSigner e signingConfig) else None),
          pb_requireSigning = requireSigning\<rparr>)"

text \<open>The result of a publish: the error, the messages handed to the broker, the metric recorded.\<close>

definition eb_send :: "(amqp_msg \<Rightarrow> string option) \<Rightarrow> amqp_msg \<Rightarrow> string option \<times> amqp_msg list \<times> string" where
  "eb_send send m = (case send m of Some err \<Rightarrow> (Some err, [], ''error'') | None \<Rightarrow> (None, [m], ''success''))"

definition eb_message :: "instant \<Rightarrow> string \<Rightarrow> base_event \<Rightarrow> (string \<rightharpoonup> header) \<Rightarrow> wire_body \<Rightarrow> amqp_msg" where
  "eb_message now exchange event headers body = \<lparr>ms_Exchange = exchange, ms_RoutingKey = ev_Type event,
     ms_Headers = headers, ms_Body = body, ms_MessageId = [], ms_Type = [], ms_AppId = [],
     ms_Timestamp = now\<rparr>"

definition PublishSigned :: "(string \<Rightarrow> string \<Rightarrow> string) \<Rightarrow> instant \<Rightarrow> (amqp_msg \<Rightarrow> string option) \<Rightarrow> string \<Rightarrow>
    eb_publisher \<Rightarrow> base_event \<Rightarrow> string option \<times> amqp_msg list \<times> string" where
  "PublishSigned mac now send exchange p event =
     (case pb_signer p of
        None \<Rightarrow> (Some ''signer not configured for signed publishing'', [], [])
      | Some cfg \<Rightarrow>
          (case SignEvent mac now cfg event of
             Inl err \<Rightarrow> (Some err, [], ''error'')
           | Inr s \<Rightarrow> eb_send send (eb_message now exchange event
               [''signed'' \<mapsto> HBool True, ''signature'' \<mapsto> HStr (se_Signature s),
                ''signed_at'' \<mapsto> HInt64 (unix_of (se_SignedAt s)),
                ''expires_at'' \<mapsto> HInt64 (unix_of (se_ExpiresAt s)),
                ''source'' \<mapsto> HStr (ev_Source event), ''event_type'' \<mapsto> HStr (ev_Type event),
                ''event_id'' \<mapsto> HStr (ev_ID event)]
               (WireSigned s))))"

definition eb_Publish :: "(string \<Rightarrow> string \<Rightarrow> string) \<Rightarrow> instant \<Rightarrow> (amqp_msg \<Rightarrow> string option) \<Rightarrow> string \<Rightarrow>
    eb_publisher \<Rightarrow> base_event \<Rightarrow> string option \<times> amqp_msg list \<times> string" where
  "eb_Publish mac now send exchange p event =
     (if pb_signer p \<noteq> None then PublishSigned mac now send exchange p event
      else case ToJSON event of
          Inl err \<Rightarrow> (Some err, [], ''error'')
        | Inr body \<Rightarrow> eb_send send (eb_message now exchange event
            [''signed'' \<mapsto> HBool False, ''source'' \<mapsto> HStr (ev_Source event),
             ''event_type'' \<mapsto> HStr (ev_Type event), ''event_id'' \<mapsto> HStr (ev_ID event)]
            body))"

definition eb_TestConnection :: "bool \<Rightarrow> bool \<Rightarrow> string option \<Rightarrow> string option" where
  "eb_TestConnection connClosed channelNil testErr =
     (if connClosed then Some ''connection is closed''
      else if channelNil then Some ''channel is nil''
      else testErr)"

section \<open>Consuming\<close>

record eb_subscriber =
  sb_serviceName :: string
  sb_verifier :: "signature_config option"
  sb_requireSigning :: bool

definition NewSubscriberWithSigning :: "environ \<Rightarrow> (nat \<Rightarrow> string option) \<Rightarrow> string \<Rightarrow>
    signature_config option \<Rightarrow> bool \<Rightarrow> (string, eb_subscriber) result" where
  "NewSubscriberWithSigning e steps serviceName signingConfig requireSigning =
     (case (steps 0, steps 1) of
        (Some err, _) \<Rightarrow> Inl err
      | (None, Some err) \<Rightarrow> Inl err
      | (None, None) \<Rightarrow> Inr \<lparr>sb_serviceName = serviceName,
          sb_verifier = (if signingConfig \<noteq> None \<or> requireSigning
                         then Some (NewEventVerifier e signingConfig) else None),
          sb_requireSigning = requireSigning\<rparr>)"

text \<open>The channel operations of \<^verbatim>\<open>Subscribe\<close>, run in order up to the first error.\<close>

datatype channel_op =
  QueueDeclare string "(string \<times> string) list"
| QueueBind string string string
| Qos nat
| Consume string

definition eb_subscribe_ops :: "string \<Rightarrow> string \<Rightarrow> string \<Rightarrow> channel_op list" where
  "eb_subscribe_ops exchange queueName routingKey =
     (let dlqName = queueName @ ''.dlq''
      in [QueueDeclare dlqName [],
          QueueDeclare queueName [(''x-dead-letter-exchange'', exchange),
            (''x-dead-letter-routing-key'', dlqName), (''x-message-ttl'', ''300000'')],
          QueueBind queueName routingKey exchange,
          QueueBind dlqName dlqName exchange,
          Qos 1,
          Consume queueName])"

fun run_ops :: "(channel_op \<Rightarrow> string option) \<Rightarrow> channel_op list \<Rightarrow> string option \<times> channel_op list" where
  "run_ops exec [] = (None, [])"
| "run_ops exec (x # xs) =
     (case exec x of
        Some err \<Rightarrow> (Some err, [])
      | None \<Rightarrow> (let (r, done) = run_ops exec xs in (r, x # done)))"

definition eb_Subscribe :: "(channel_op \<Rightarrow> string option) \<Rightarrow> string \<Rightarrow> string \<Rightarrow> string \<Rightarrow>
    string option \<times> channel_op list" where
  "eb_Subscribe exec exchange queueName routingKey =
     run_ops exec (eb_subscribe_ops exchange queueName routingKey)"

definition eb_isRetryableError :: "string \<Rightarrow> bool" where
  "eb_isRetryableError err =
     (let errStr = toLower err
      in if strContains errStr ''connection'' \<or> strContains errStr ''timeout''
            \<or> strContains errStr ''network'' \<or> strContains errStr ''dial'' then True
         else if strContains errStr ''invalid'' \<or> strContains errStr ''missing''
            \<or> strContains errStr ''malformed'' then False
         else False)"

text \<open>
  \<^verbatim>\<open>d.Headers["signed"].(bool)\<close>: whether the header is a boolean, and which. The reading of a
  delivery ends in an event, in a rejection with the reason its metric names, or in a panic (the
  error path of a failed verification reads the event of the envelope, which may be nil).
\<close>

definition signed_header :: "(string \<rightharpoonup> header) \<Rightarrow> bool option" where
  "signed_header h = (case h ''signed'' of Some (HBool b) \<Rightarrow> Some b | _ \<Rightarrow> None)"

definition eb_parse :: "(string \<Rightarrow> string \<Rightarrow> string) \<Rightarrow> instant \<Rightarrow> eb_subscriber \<Rightarrow> amqp_msg \<Rightarrow>
    (string, base_event) result outcome" where
  "eb_parse mac now s d =
     (case (signed_header (ms_Headers d), sb_verifier s) of
        (Some True, Some cfg) \<Rightarrow>
          (case decode_signed (ms_Body d) of
             Inl err \<Rightarrow> Ret (Inl ''parse_error'')
           | Inr se \<Rightarrow>
               bind_outcome (VerifyEvent mac now cfg se) (\<lambda>bad.
                 case se_Event se of
                   None \<Rightarrow> Panic ''nil pointer dereference''
                 | Some event \<Rightarrow>
                     (if bad \<noteq> None then Ret (Inl ''invalid_signature'') else Ret (Inr event))))
      | (hdr, _) \<Rightarrow>
          if sb_requireSigning s \<and> hdr \<noteq> Some True then Ret (Inl ''unsigned_event_rejected'')
          else (case FromJSON (ms_Body d) of
                  Inl err \<Rightarrow> Ret (Inl ''parse_error'')
                | Inr event \<Rightarrow> Ret (Inr event)))"

text \<open>
  One delivery: how it is settled, and the event handed to the handler, if any. A panic anywhere
  is recovered into a rejection.
\<close>

definition recover_settlement :: "settlement outcome \<Rightarrow> settlement" where
  "recover_settlement o1 = (case o1 of Ret s \<Rightarrow> s | _ \<Rightarrow> DeadLettered)"

definition eb_handle :: "(string \<Rightarrow> string \<Rightarrow> string) \<Rightarrow> instant \<Rightarrow> eb_subscriber \<Rightarrow> event_handler \<Rightarrow> amqp_msg \<Rightarrow>
    settlement outcome \<times> base_event option" where
  "eb_handle mac now s handler d =
     (case eb_parse mac now s d of
        Panic m \<Rightarrow> (Panic m, None)
      | Block \<Rightarrow> (Block, None)
      | Ret (Inl reason) \<Rightarrow> (Ret DeadLettered, None)
      | Ret (Inr event) \<Rightarrow>
          (bind_outcome (handler event) (\<lambda>err. Ret (case err of
             None \<Rightarrow> Acked
           | Some e \<Rightarrow> if eb_isRetryableError e then Requeued else DeadLettered)), Some event))"

definition eb_deliver :: "(string \<Rightarrow> string \<Rightarrow> string) \<Rightarrow> instant \<Rightarrow> eb_subscriber \<Rightarrow> event_handler \<Rightarrow> amqp_msg \<Rightarrow>
    settlement list \<times> base_event option" where
  "eb_deliver mac now s handler d =
     (let (o1, ev) = eb_handle mac now s handler d in ([recover_settlement o1], ev))"

section \<open>Dispatching\<close>

record dispatcher =
  di_service :: string
  di_queue :: string
  di_handlers :: "string \<rightharpoonup> event_handler"
  di_fallback :: "event_handler option"

definition NewDispatcher :: "string \<Rightarrow> string \<Rightarrow> dispatcher" where
  "NewDispatcher service queue = \<lparr>di_service = service, di_queue = queue, di_handlers = Map.empty,
     di_fallback = None\<rparr>"

definition di_Register :: "string \<Rightarrow> event_handler \<Rightarrow> dispatcher \<Rightarrow> dispatcher" where
  "di_Register eventType fn d = d\<lparr>di_handlers := (di_handlers d)(eventType \<mapsto> fn)\<rparr>"

definition di_Fallback :: "event_handler \<Rightarrow> dispatcher \<Rightarrow> dispatcher" where
  "di_Fallback fn d = d\<lparr>di_fallback := Some fn\<rparr>"

definition di_WithMetrics :: "string \<Rightarrow> string \<Rightarrow> event_handler \<Rightarrow> dispatcher" where
  "di_WithMetrics service queue handler = di_Fallback handler (NewDispatcher service queue)"

text \<open>\<^verbatim>\<open>Handle\<close>: the result and the status recorded (none when the handler panics).\<close>

definition di_Handle :: "dispatcher \<Rightarrow> base_event \<Rightarrow> string option outcome \<times> string list" where
  "di_Handle d event =
     (let fn = (case di_handlers d (ev_Type event) of Some f \<Rightarrow> Some f | None \<Rightarrow> di_fallback d)
      in case fn of
           None \<Rightarrow> (Ret None, [''unhandled''])
         | Some f \<Rightarrow>
             (case f event of
                Ret err \<Rightarrow> (Ret err, [if err = None then ''success'' else ''error''])
              | Panic m \<Rightarrow> (Panic m, [])
              | Block \<Rightarrow> (Block, [])))"

section \<open>Broadcasts\<close>

definition bc_queue_name :: "string \<Rightarrow> string \<Rightarrow> string \<Rightarrow> string" where
  "bc_queue_name exchangeName serviceName instanceID =
     exchangeName @ ''.'' @ serviceName @ ''.'' @ instanceID"

definition bc_headers :: "string \<Rightarrow> string \<Rightarrow> (string \<rightharpoonup> header) \<Rightarrow> (string \<rightharpoonup> string)" where
  "bc_headers exchangeName instanceID h =
     (\<lambda>k. case h k of Some (HStr s) \<Rightarrow> Some s | _ \<Rightarrow> None)
       (''broadcast'' \<mapsto> ''true'', ''exchange'' \<mapsto> exchangeName, ''instance_id'' \<mapsto> instanceID)"

definition bc_retryCount :: "(string \<rightharpoonup> header) \<Rightarrow> int" where
  "bc_retryCount h = (case h ''x-retry-count'' of Some (HInt32 n) \<Rightarrow> n | _ \<Rightarrow> 0)"

text \<open>One broadcast delivery; there is no recovery from a handler's panic.\<close>

definition bc_process :: "event_handler \<Rightarrow> amqp_msg \<Rightarrow> settlement outcome" where
  "bc_process handler msg =
     (case FromJSON (ms_Body msg) of
        Inl err \<Rightarrow> Ret DeadLettered
      | Inr baseEvent \<Rightarrow>
          bind_outcome (handler baseEvent) (\<lambda>err. Ret (case err of
            None \<Rightarrow> Acked
          | Some e \<Rightarrow> if bc_retryCount (ms_Headers msg) < 3 then Requeued else DeadLettered)))"

text \<open>The broker redelivers a requeued message with the same headers; \<open>n\<close> bounds the deliveries.\<close>

fun bc_redeliver :: "nat \<Rightarrow> event_handler \<Rightarrow> amqp_msg \<Rightarrow> settlement outcome list" where
  "bc_redeliver 0 handler msg = []"
| "bc_redeliver (Suc n) handler msg =
     (let o1 = bc_process handler msg
      in o1 # (if o1 = Ret Requeued then bc_redeliver n handler msg else []))"

definition PublishBroadcast :: "instant \<Rightarrow> string \<Rightarrow> (nat \<Rightarrow> string option) \<Rightarrow> (amqp_msg \<Rightarrow> string option) \<Rightarrow>
    eb_publisher \<Rightarrow> string \<Rightarrow> base_event \<Rightarrow> string option \<times> amqp_msg list" where
  "PublishBroadcast now rfc3339 steps send p exchangeName event =
     (case steps 0 of
        Some err \<Rightarrow> (Some (''failed to declare broadcast exchange: '' @ err), [])
      | None \<Rightarrow>
          (case ToJSON event of
             Inl err \<Rightarrow> (Some (''failed to serialize broadcast event: '' @ err), [])
           | Inr body \<Rightarrow>
               let m = \<lparr>ms_Exchange = exchangeName, ms_RoutingKey = [],
                   ms_Headers = [''broadcast'' \<mapsto> HBool True, ''published_at'' \<mapsto> HStr rfc3339,
                     ''source'' \<mapsto> HStr (ev_Source event), ''event_type'' \<mapsto> HStr (ev_Type event),
                     ''event_id'' \<mapsto> HStr (ev_ID event)],
                   ms_Body = body, ms_MessageId = ev_ID event, ms_Type = ev_Type event,
                   ms_AppId = pb_serviceName p, ms_Timestamp = ev_Timestamp event\<rparr>
               in case send m of
                    Some err \<Rightarrow> (Some (''failed to publish broadcast event: '' @ err), [])
                  | None \<Rightarrow> (None, [m])))"

section \<open>Consumers in general\<close>

text \<open>
  What the broker relies on: every delivery is settled exactly once. A consumer that keeps the
  contract settles a stream of deliveries one by one.
\<close>

locale consumer =
  fixes deliver :: "'d \<Rightarrow> settlement list"
  assumes settles_once: "length (deliver d) = 1"
begin

lemma settles_stream: "length (concat (map deliver ds)) = length ds"
  by (induction ds) (simp_all add: settles_once)

lemma settles_in_order: "concat (map deliver ds) = map (\<lambda>d. hd (deliver d)) ds"
proof (induction ds)
  case (Cons d ds)
  then show ?case using settles_once [of d] by (cases "deliver d") simp_all
qed simp

end

interpretation eb_consumer: consumer "\<lambda>d. fst (eb_deliver mac now s handler d)"
  for mac now s handler
  by unfold_locales (simp add: eb_deliver_def split_beta)

lemma eb_parse_unsigned:
  "signed_header (ms_Headers d) \<noteq> Some True \<Longrightarrow> eb_parse mac now s d =
     (if sb_requireSigning s then Ret (Inl ''unsigned_event_rejected'')
      else case FromJSON (ms_Body d) of Inl err \<Rightarrow> Ret (Inl ''parse_error'') | Inr event \<Rightarrow> Ret (Inr event))"
  by (cases "signed_header (ms_Headers d)"; cases "sb_verifier s") (auto simp: eb_parse_def)

lemma eb_parse_no_verifier:
  "sb_verifier s = None \<Longrightarrow> signed_header (ms_Headers d) = Some True \<Longrightarrow> eb_parse mac now s d =
     (case FromJSON (ms_Body d) of Inl err \<Rightarrow> Ret (Inl ''parse_error'') | Inr event \<Rightarrow> Ret (Inr event))"
  by (simp add: eb_parse_def)

end
