(* ===== verification/Amqp_Events.thy ===== *)
theory Amqp_Events
  imports Amqp_Cluster Event_Bus
begin

text \<open>
  Events over the cluster adapter (\<^verbatim>\<open>amqpcluster/publisher.go\<close>, \<^verbatim>\<open>amqpcluster/subscriber.go\<close>,
  \<^verbatim>\<open>StartEventSubscriber\<close> of \<^verbatim>\<open>amqpcluster/tomb.go\<close>): publishing signed or plain events with
  failover, setting up queues, and handling deliveries.
\<close>

section \<open>Publisher\<close>

record cluster_publisher =
  cp_cluster :: amqp_adapter
  cp_serviceName :: string
  cp_signer :: "signature_config option"
  cp_exchange :: string

definition cp_config :: "string list \<Rightarrow> string \<Rightarrow> amqp_cluster_config" where
  "cp_config nodes serviceName = \<lparr>cc_Nodes = nodes, cc_ServiceName = serviceName,
     cc_HealthCheckInterval = 30 * second, cc_RetryAttempts = 3, cc_CircuitBreakerThreshold = 0,
     cc_LoadBalanceStrategy = ''round_robin''\<rparr>"

definition cp_setupInfrastructure :: "(nat \<Rightarrow> string option) \<Rightarrow> amqp_adapter \<Rightarrow> (string option \<times> nat list) outcome" where
  "cp_setupInfrastructure declare_err cluster = amqp_DeclareExchange declare_err cluster"

declare cp_setupInfrastructure_def [simp]

definition NewClusterPublisher :: "instant \<Rightarrow> amqp_dial list \<Rightarrow> (nat \<Rightarrow> string option) \<Rightarrow> string \<Rightarrow> string list \<Rightarrow>
    string \<Rightarrow> signature_config option \<Rightarrow> (string, cluster_publisher) result outcome" where
  "NewClusterPublisher now ds declare_err exchange nodes serviceName signingConfig =
     bind_outcome (amqp_NewClusterAdapter now ds (cp_config nodes serviceName)) (\<lambda>r.
       case r of
         Inl err \<Rightarrow> Ret (Inl (''failed to create cluster adapter: '' @ err))
       | Inr cluster \<Rightarrow>
           bind_outcome (cp_setupInfrastructure declare_err cluster) (\<lambda>(err, done).
             Ret (case err of
                    Some m \<Rightarrow> Inl (''failed to setup infrastructure: '' @ m)
                  | None \<Rightarrow> Inr \<lparr>cp_cluster = cluster, cp_serviceName = serviceName,
                      cp_signer = signingConfig, cp_exchange = exchange\<rparr>)))"

definition cp_stamp :: "instant \<Rightarrow> string \<Rightarrow> base_event \<Rightarrow> base_event" where
  "cp_stamp now serviceName event =
     event\<lparr>ev_Source := (if ev_Source event = [] then serviceName else ev_Source event),
           ev_Timestamp := (if ev_Timestamp event = zero_time then now else ev_Timestamp event)\<rparr>"

definition cp_envelope :: "instant \<Rightarrow> cluster_publisher \<Rightarrow> base_event \<Rightarrow> (string \<rightharpoonup> header) \<Rightarrow> wire_body \<Rightarrow> amqp_msg" where
  "cp_envelope now cp event headers body = \<lparr>ms_Exchange = cp_exchange cp, ms_RoutingKey = ev_Type event,
     ms_Headers = headers (''source'' \<mapsto> HStr (ev_Source event), ''user_id'' \<mapsto> HStr (ev_UserID event),
       ''event_id'' \<mapsto> HStr (ev_ID event), ''event_type'' \<mapsto> HStr (ev_Type event)),
     ms_Body = body, ms_MessageId = ev_ID event, ms_Type = ev_Type event,
     ms_AppId = cp_serviceName cp, ms_Timestamp = now\<rparr>"

definition cp_message :: "(string \<Rightarrow> string \<Rightarrow> string) \<Rightarrow> instant \<Rightarrow> cluster_publisher \<Rightarrow> base_event \<Rightarrow>
    (string, amqp_msg) result" where
  "cp_message mac now cp event =
     (case cp_signer cp of
        Some cfg \<Rightarrow>
          (case SignEvent mac now cfg event of
             Inl err \<Rightarrow> Inl (''failed to sign event: '' @ err)
           | Inr s \<Rightarrow> Inr (cp_envelope now cp event
               [''signed'' \<mapsto> HBool True, ''signature'' \<mapsto> HStr (se_Signature s)] (WireSigned s)))
      | None \<Rightarrow>
          (case ToJSON event of
             Inl err \<Rightarrow> Inl (''failed to marshal event: '' @ err)
           | Inr body \<Rightarrow> Inr (cp_envelope now cp event [''signed'' \<mapsto> HBool False] body)))"

text \<open>The error, and the node that took the message with the message it took.\<close>

definition cp_Publish :: "(string \<Rightarrow> string \<Rightarrow> string) \<Rightarrow> instant \<Rightarrow> (amqp_msg \<Rightarrow> nat \<Rightarrow> nat \<Rightarrow> string option) \<Rightarrow>
    nat \<Rightarrow> cluster_publisher \<Rightarrow> base_event \<Rightarrow>
    (string option \<times> (nat \<times> amqp_msg) list) outcome \<times> cluster_publisher" where
  "cp_Publish mac now send r cp event0 =
     (let event = cp_stamp now (cp_serviceName cp) event0
      in case cp_message mac now cp event of
           Inl err \<Rightarrow> (Ret (Some err, []), cp)
         | Inr m \<Rightarrow>
             (let (o1, a) = amqp_Publish (send m) r (ev_Type event) (cp_cluster cp)
              in (bind_outcome o1 (\<lambda>(err, accepted). Ret
                    (map_option (\<lambda>e. (if cp_signer cp \<noteq> None
                        then ''failed to publish signed event to cluster: ''
                        else ''failed to publish unsigned event to cluster: '') @ e) err,
                     map (\<lambda>i. (i, m)) accepted)),
                  cp\<lparr>cp_cluster := a\<rparr>)))"

definition cp_Close :: "(nat \<Rightarrow> string option) \<Rightarrow> (nat \<Rightarrow> bool) \<Rightarrow> cluster_publisher \<Rightarrow> string list outcome" where
  "cp_Close closeErr isClosed cp = amqp_Close closeErr isClosed (cp_cluster cp)"

definition cp_TestConnection :: "cluster_publisher \<Rightarrow> string option outcome" where
  "cp_TestConnection cp = bind_outcome (amqp_getHealthyNodes (cp_cluster cp)) (\<lambda>healthy.
     Ret (if healthy = [] then Some ''no healthy nodes available'' else None))"

text \<open>The statistics of a publisher; those of a subscriber have the same fields.\<close>

record publisher_stats =
  ps_ServiceName :: string
  ps_Exchange :: string
  ps_NodeStats :: "string \<rightharpoonup> amqp_stats"
  ps_HealthyNodes :: nat
  ps_TotalNodes :: nat

type_synonym subscriber_stats = publisher_stats

definition stats_of :: "string \<Rightarrow> string \<Rightarrow> (string \<rightharpoonup> amqp_stats) \<Rightarrow> publisher_stats" where
  "stats_of serviceName exchange stats = \<lparr>ps_ServiceName = serviceName, ps_Exchange = exchange, ps_NodeStats = stats,
     ps_HealthyNodes = card {k\<in>dom stats. as_State (the (stats k)) = NodeHealthy}, ps_TotalNodes = card (dom stats)\<rparr>"

definition cp_GetStats :: "cluster_publisher \<Rightarrow> publisher_stats outcome" where
  "cp_GetStats cp = bind_outcome (amqp_GetNodeStats (cp_cluster cp)) (\<lambda>stats.
     Ret (stats_of (cp_serviceName cp) (cp_exchange cp) stats))"

section \<open>Subscriber\<close>

record cluster_subscriber =
  cs_cluster :: amqp_adapter
  cs_serviceName :: string
  cs_verifier :: "signature_config option"
  cs_exchange :: string

definition NewClusterSubscriber :: "instant \<Rightarrow> amqp_dial list \<Rightarrow> string \<Rightarrow> string list \<Rightarrow> string \<Rightarrow>
    signature_config option \<Rightarrow> (string, cluster_subscriber) result outcome" where
  "NewClusterSubscriber now ds exchange nodes serviceName signingConfig =
     bind_outcome (amqp_NewClusterAdapter now ds (cp_config nodes serviceName)) (\<lambda>r.
       Ret (case r of
              Inl err \<Rightarrow> Inl (''failed to create cluster adapter: '' @ err)
            | Inr cluster \<Rightarrow> Inr \<lparr>cs_cluster = cluster, cs_serviceName = serviceName,
                cs_verifier = signingConfig, cs_exchange = exchange\<rparr>))"

definition cs_GetStats :: "cluster_subscriber \<Rightarrow> subscriber_stats outcome" where
  "cs_GetStats cs = bind_outcome (amqp_GetNodeStats (cs_cluster cs)) (\<lambda>stats.
     Ret (stats_of (cs_serviceName cs) (cs_exchange cs) stats))"

record subscription_options =
  so_AutoAck :: bool
  so_Exclusive :: bool
  so_Durable :: bool
  so_AutoDelete :: bool
  so_PrefetchCount :: nat
  so_TTL :: duration

text \<open>The queue arguments, and the four topology operations in order, each on every healthy node.\<close>

definition cs_messageTTL :: "subscription_options \<Rightarrow> int" where
  "cs_messageTTL opts = (if so_TTL opts > 0 then go_quot (so_TTL opts) millisecond
     else go_quot (5 * minute) millisecond)"

definition cs_topology :: "string \<Rightarrow> string \<Rightarrow> string \<Rightarrow> subscription_options \<Rightarrow> (string \<times> channel_op) list" where
  "cs_topology exchange queueName routingPattern opts =
     (let dlqName = queueName @ ''.dlq''
      in [(''failed to declare DLQ: '', QueueDeclare dlqName []),
          (''failed to bind DLQ: '', QueueBind dlqName dlqName exchange),
          (''failed to declare main queue: '', QueueDeclare queueName
             [(''x-dead-letter-exchange'', exchange), (''x-dead-letter-routing-key'', dlqName),
              (''x-message-ttl'', itoa (cs_messageTTL opts))]),
          (''failed to bind main queue: '', QueueBind queueName routingPattern exchange)])"

definition cs_op :: "(channel_op \<Rightarrow> nat \<Rightarrow> string option) \<Rightarrow> channel_op \<Rightarrow> amqp_adapter \<Rightarrow>
    (string option \<times> nat list) outcome" where
  "cs_op exec x a = (case x of QueueBind q k ex \<Rightarrow> amqp_BindQueue (exec x) a
     | _ \<Rightarrow> amqp_DeclareQueue (exec x) a)"

fun cs_run :: "(channel_op \<Rightarrow> nat \<Rightarrow> string option) \<Rightarrow> (string \<times> channel_op) list \<Rightarrow> amqp_adapter \<Rightarrow>
    string option outcome" where
  "cs_run exec [] a = Ret None"
| "cs_run exec ((msg, x) # xs) a =
     bind_outcome (cs_op exec x a) (\<lambda>(err, done).
       case err of Some e \<Rightarrow> Ret (Some (msg @ e)) | None \<Rightarrow> cs_run exec xs a)"

definition cs_SubscribeWithOptions :: "(channel_op \<Rightarrow> nat \<Rightarrow> string option) \<Rightarrow> (nat \<Rightarrow> string option) \<Rightarrow>
    string \<Rightarrow> string \<Rightarrow> subscription_options \<Rightarrow> cluster_subscriber \<Rightarrow>
    (string, (nat \<times> string) list) result outcome" where
  "cs_SubscribeWithOptions exec consume queueName routingPattern opts cs =
     bind_outcome (cs_run exec (cs_topology (cs_exchange cs) queueName routingPattern opts) (cs_cluster cs))
       (\<lambda>err. case err of
          Some e \<Rightarrow> Ret (Inl (''failed to setup queue infrastructure: '' @ e))
        | None \<Rightarrow> bind_outcome (amqp_Subscribe (cs_serviceName cs @ ''-'' @ queueName) consume (cs_cluster cs))
            (\<lambda>r. Ret (case r of Inl e \<Rightarrow> Inl (''failed to start cluster subscription: '' @ e)
                              | Inr subs \<Rightarrow> Inr subs)))"

definition cs_Subscribe :: "(channel_op \<Rightarrow> nat \<Rightarrow> string option) \<Rightarrow> (nat \<Rightarrow> string option) \<Rightarrow>
    string \<Rightarrow> string \<Rightarrow> cluster_subscriber \<Rightarrow> (string, (nat \<times> string) list) result outcome" where
  "cs_Subscribe exec consume queueName routingPattern = cs_SubscribeWithOptions exec consume queueName routingPattern
     \<lparr>so_AutoAck = False, so_Exclusive = False, so_Durable = True, so_AutoDelete = False, so_PrefetchCount = 1, so_TTL = 0\<rparr>"

text \<open>\<^verbatim>\<open>contains\<close> of the package, which its comment calls case-insensitive.\<close>

definition containsInner :: "string \<Rightarrow> string \<Rightarrow> bool" where
  "containsInner s sub =
     list_ex (\<lambda>i. take (length sub) (drop i s) = sub) [1..<Suc (length s - length sub)]"

definition amqp_contains :: "string \<Rightarrow> string \<Rightarrow> bool" where
  "amqp_contains s sub =
     (length s \<ge> length sub \<and>
      (s = sub \<or>
       length s > length sub \<and>
         (take (length sub) s = sub \<or> drop (length s - length sub) s = sub \<or> containsInner s sub)))"

definition cs_isRetryableError :: "string \<Rightarrow> bool" where
  "cs_isRetryableError errStr =
     (if list_ex (amqp_contains errStr) [''connection'', ''timeout'', ''network'', ''dial'', ''temporary'',
           ''refused'', ''unavailable'', ''deadline exceeded''] then True
      else if list_ex (amqp_contains errStr) [''invalid'', ''missing'', ''malformed'', ''signature'',
           ''verification'', ''parse'', ''unmarshal'', ''marshal'', ''json''] then False
      else False)"

definition handleSignedMessage :: "(string \<Rightarrow> string \<Rightarrow> string) \<Rightarrow> instant \<Rightarrow> cluster_subscriber \<Rightarrow> amqp_msg \<Rightarrow>
    (string, base_event option) result outcome" where
  "handleSignedMessage mac now cs d =
     (case cs_verifier cs of
        None \<Rightarrow> Ret (Inl ''received signed message but no verifier configured'')
      | Some cfg \<Rightarrow>
          (case decode_signed (ms_Body d) of
             Inl err \<Rightarrow> Ret (Inl (''failed to unmarshal signed event: '' @ err))
           | Inr se \<Rightarrow>
               bind_outcome (VerifyEvent mac now cfg se) (\<lambda>bad.
                 case se_Event se of
                   None \<Rightarrow> Panic ''nil pointer dereference''
                 | Some event \<Rightarrow>
                     (case bad of
                        Some err \<Rightarrow> Ret (Inl (''signature verification failed: '' @ err))
                      | None \<Rightarrow> Ret (Inr (se_Event se))))))"

definition handleUnsignedMessage :: "amqp_msg \<Rightarrow> (string, base_event option) result outcome" where
  "handleUnsignedMessage d =
     (case FromJSON (ms_Body d) of
        Inl err \<Rightarrow> Ret (Inl (''failed to unmarshal unsigned event: '' @ err))
      | Inr event \<Rightarrow> Ret (Inr (Some event)))"

definition cs_settle_error :: "string \<Rightarrow> settlement" where
  "cs_settle_error err = (if cs_isRetryableError err then Requeued else DeadLettered)"

text \<open>The handler sees the user of the \<^verbatim>\<open>user_id\<close> header, if any, and the event.\<close>

definition cs_user :: "(string \<rightharpoonup> header) \<Rightarrow> string option" where
  "cs_user h = (case h ''user_id'' of Some (HStr u) \<Rightarrow> if u \<noteq> [] then Some u else None | _ \<Rightarrow> None)"

definition cs_handle :: "(string \<Rightarrow> string \<Rightarrow> string) \<Rightarrow> instant \<Rightarrow> cluster_subscriber \<Rightarrow>
    (string option \<Rightarrow> event_handler) \<Rightarrow> amqp_msg \<Rightarrow> settlement outcome \<times> base_event option" where
  "cs_handle mac now cs handler d =
     (case (if signed_header (ms_Headers d) = Some True then handleSignedMessage mac now cs d
            else handleUnsignedMessage d) of
        Panic m \<Rightarrow> (Panic m, None)
      | Block \<Rightarrow> (Block, None)
      | Ret (Inl err) \<Rightarrow> (Ret (cs_settle_error err), None)
      | Ret (Inr None) \<Rightarrow> (Panic ''nil pointer dereference'', None)
      | Ret (Inr (Some event)) \<Rightarrow>
          (bind_outcome (handler (cs_user (ms_Headers d)) event) (\<lambda>err. Ret (case err of
             None \<Rightarrow> Acked | Some e \<Rightarrow> cs_settle_error e)), Some event))"

definition handleMessage :: "(string \<Rightarrow> string \<Rightarrow> string) \<Rightarrow> instant \<Rightarrow> cluster_subscriber \<Rightarrow>
    (string option \<Rightarrow> event_handler) \<Rightarrow> bool \<Rightarrow> amqp_msg \<Rightarrow> settlement list \<times> base_event option" where
  "handleMessage mac now cs handler autoAck d =
     (let (o1, ev) = cs_handle mac now cs handler d
      in (if autoAck then [] else [recover_settlement o1], ev))"

text \<open>
  \<^verbatim>\<open>processMessages\<close> handles what arrives until the channel closes or the context is done, the
  end of the list.
\<close>

definition processMessages :: "(string \<Rightarrow> string \<Rightarrow> string) \<Rightarrow> instant \<Rightarrow> cluster_subscriber \<Rightarrow>
    (string option \<Rightarrow> event_handler) \<Rightarrow> bool \<Rightarrow> amqp_msg list \<Rightarrow> settlement list" where
  "processMessages mac now cs handler autoAck ds =
     concat (map (\<lambda>d. fst (handleMessage mac now cs handler autoAck d)) ds)"

section \<open>Keeping a subscriber running\<close>

text \<open>
  The loop of \<^verbatim>\<open>StartEventSubscriber\<close>: \<open>results k\<close> is what the \<open>k\<close>-th call of the subscriber function
  returns, \<open>cancelled k\<close> whether the context is done when the loop looks before that call. After an
  error the goroutine waits for the context, or for a channel that never delivers. The result is
  the number of calls within \<open>fuel\<close> iterations.
\<close>

fun subscriber_calls :: "(nat \<Rightarrow> string option) \<Rightarrow> (nat \<Rightarrow> bool) \<Rightarrow> nat \<Rightarrow> nat \<Rightarrow> nat" where
  "subscriber_calls results cancelled 0 k = k"
| "subscriber_calls results cancelled (Suc fuel) k =
     (if cancelled k then k
      else case results k of
          Some err \<Rightarrow> Suc k
        | None \<Rightarrow> subscriber_calls results cancelled fuel (Suc k))"

section \<open>Facts\<close>

interpretation amqp_consumer: consumer "\<lambda>d. fst (handleMessage mac now cs handler False d)"
  for mac now cs handler
  by unfold_locales (simp add: handleMessage_def split_beta)

lemma amqp_contains_sublist: "amqp_contains s sub \<longleftrightarrow> strContains s sub"
proof
  assume "amqp_contains s sub"
  then obtain i where "take (length sub) (drop i s) = sub"
    by (fastforce simp: amqp_contains_def containsInner_def list_ex_iff
        intro: that [of 0] that [of "length s - length sub"])
  then show "strContains s sub"
    unfolding strContains_sublist by (metis append_take_drop_id sublist_appendI append_assoc sublist_def)
next
  assume "strContains s sub"
  then obtain a b where s: "s = a @ sub @ b" by (auto simp: strContains_sublist sublist_def)
  show "amqp_contains s sub"
  proof (cases "a = []")
    case True
    with s show ?thesis by (auto simp: amqp_contains_def)
  next
    case False
    then have "0 < length a" by simp
    moreover have "length s = length a + length sub + length b" using s by simp
    ultimately have "1 \<le> length a" "length a < Suc (length s - length sub)" by linarith+
    then have "length a \<in> set [1..<Suc (length s - length sub)]" unfolding set_upt by simp
    moreover have "take (length sub) (drop (length a) s) = sub" using s by simp
    ultimately have "containsInner s sub" unfolding containsInner_def list_ex_iff by blast
    then show ?thesis using s False by (simp add: amqp_contains_def)
  qed
qed

end
