(* ===== verification/Event_Theorems.thy ===== *)
theory Event_Theorems
  imports Amqp_Events Amqp_Theorems
begin

text \<open>
  The properties of event signing, publishing and consuming, and the event, key and handlers of
  their witnesses.
\<close>

section \<open>A concrete event\<close>

definition demo_event :: base_event where
  "demo_event = \<lparr>ev_ID = ''1-a'', ev_Type = ''user.registered'', ev_Timestamp = 5 * second,
     ev_Source = ''api'', ev_UserID = ''u1'',
     ev_Data = Some [(''name'', AStr ''Ann''), (''age'', ANum ''30'')]\<rparr>"

definition demo_signing :: signature_config where
  "demo_signing = \<lparr>sc_SigningKey = ''0123456789abcdef'', sc_ExpiryWindow = 30 * minute,
     sc_RequiredClaims = standardClaims\<rparr>"

text \<open>A keyed function without collisions, in the place of the HMAC.\<close>

definition demo_mac :: "string \<Rightarrow> string \<Rightarrow> string" where
  "demo_mac key bytes = key @ bytes"

definition demo_signed :: signed_event where
  "demo_signed = \<lparr>se_Event = Some demo_event,
     se_Signature = demo_mac ''0123456789abcdef'' (marshalCanonicalJSON (canonical_value demo_event 0 (30 * minute))),
     se_SignedAt = 0, se_ExpiresAt = 30 * minute\<rparr>"

lemma demo_claims: "validateRequiredClaims demo_event standardClaims = None"
  unfolding demo_event_def standardClaims_def by code_simp

lemma demo_data: "data_wf demo_event"
  by (simp add: data_wf_def data_value_def demo_event_def num_char_def is_digit_def)

lemma demo_sign: "SignEvent demo_mac 0 demo_signing demo_event = Inr demo_signed"
  using demo_claims createCanonical_wf [OF demo_data]
  by (simp add: SignEvent_def demo_signing_def generateSignature_def demo_signed_def)

section \<open>Signing and verifying\<close>

text \<open>C5: What \<^verbatim>\<open>SignEvent\<close> signs, \<^verbatim>\<open>VerifyEvent\<close> accepts with the same key up to the end of the expiry
  window, and rejects as expired after it, whatever the keyed hash is.\<close>

theorem sign_then_verify:
  assumes "SignEvent mac now cfg e = Inr s"
  shows "VerifyEvent mac t cfg s =
     (if t \<le> now + sc_ExpiryWindow cfg then Ret None else Ret (Some ''event signature has expired''))"
proof -
  obtain canonical where c: "validateRequiredClaims e (sc_RequiredClaims cfg) = None"
    "createCanonicalEventData e now (now + sc_ExpiryWindow cfg) = Inr canonical"
    "16 \<le> length (sc_SigningKey cfg)"
    "s = \<lparr>se_Event = Some e, se_Signature = mac (sc_SigningKey cfg) canonical, se_SignedAt = now,
       se_ExpiresAt = now + sc_ExpiryWindow cfg\<rparr>"
    using assms by (auto simp: SignEvent_def Let_def generateSignature_def
        split: option.split_asm sum.split_asm if_split_asm)
  then show ?thesis by (simp add: VerifyEvent_def generateSignature_def)
qed

theorem sign_then_verify_witness:
  "VerifyEvent demo_mac (20 * minute) demo_signing demo_signed = Ret None
   \<and> VerifyEvent demo_mac (31 * minute) demo_signing demo_signed = Ret (Some ''event signature has expired'')"
  using sign_then_verify [OF demo_sign, of "20 * minute"] sign_then_verify [OF demo_sign, of "31 * minute"]
  by (simp add: demo_signing_def)

lemma verified_signature:
  assumes "VerifyEvent mac t cfg s = Ret None"
  obtains e canonical where "se_Event s = Some e" "validateRequiredClaims e (sc_RequiredClaims cfg) = None"
    "createCanonicalEventData e (se_SignedAt s) (se_ExpiresAt s) = Inr canonical"
    "se_Signature s = mac (sc_SigningKey cfg) canonical" "t \<le> se_ExpiresAt s" "16 \<le> length (sc_SigningKey cfg)"
  using assms by (auto simp: VerifyEvent_def generateSignature_def
      split: if_split_asm option.split_asm sum.split_asm)



text \<open>The signed bytes do not depend on the order in which Go iterates over the data map: any order of the
  same entries gives the same canonical JSON.\<close>

theorem canonical_order_independent:
  assumes "distinct (map fst kvs)" and "mset kvs = mset kvs'" and "data_wf (e\<lparr>ev_Data := Some kvs\<rparr>)"
  shows "createCanonicalEventData (e\<lparr>ev_Data := Some kvs\<rparr>) signedAt expiresAt
    = createCanonicalEventData (e\<lparr>ev_Data := Some kvs'\<rparr>) signedAt expiresAt"
proof -
  have "set kvs' = set kvs" using assms(2) by (metis mset_eq_setD)
  then have wf': "data_wf (e\<lparr>ev_Data := Some kvs'\<rparr>)"
    using assms(3) by (simp add: data_wf_def data_value_def)
  let ?m = "map_prod id marshalCanonicalJSON"
  have "mset (map ?m kvs) = mset (map ?m kvs')" using assms(2) by simp
  moreover have "distinct (map fst (map ?m kvs))" using assms(1) by (simp add: comp_def)
  ultimately have "sort_key fst (map ?m kvs) = sort_key fst (map ?m kvs')" by (rule sort_key_distinct_cong)
  then have "marshalCanonicalJSON (data_value (Some kvs)) = marshalCanonicalJSON (data_value (Some kvs'))"
    by (simp only: data_value_def option.case marshalCanonicalJSON.simps)
  then have "marshalCanonicalJSON (canonical_value (e\<lparr>ev_Data := Some kvs\<rparr>) signedAt expiresAt)
      = marshalCanonicalJSON (canonical_value (e\<lparr>ev_Data := Some kvs'\<rparr>) signedAt expiresAt)"
    by (simp add: canonical_value_def)
  then show ?thesis using createCanonical_wf [OF assms(3)] createCanonical_wf [OF wf'] by simp
qed

theorem canonical_order_independent_witness:
  "createCanonicalEventData (demo_event\<lparr>ev_Data := Some [(''a'', ANil), (''b'', ABool True)]\<rparr>) 0 0
    = createCanonicalEventData (demo_event\<lparr>ev_Data := Some [(''b'', ABool True), (''a'', ANil)]\<rparr>) 0 0"
  by (rule canonical_order_independent) (simp_all add: data_wf_def data_value_def)

section \<open>Consuming over one channel\<close>

text \<open>A subscriber created with signing required passes to its handler only the event of an envelope whose
  signature it has just verified.\<close>

theorem required_signing_enforced:
  assumes "NewSubscriberWithSigning env steps name config True = Inr s"
    and "eb_deliver mac now s handler d = (settled, Some ev)"
  shows "\<exists>cfg se. sb_verifier s = Some cfg \<and> ms_Body d = WireSigned se \<and> se_Event se = Some ev
    \<and> VerifyEvent mac now cfg se = Ret None"
proof -
  from assms(1) obtain cfg where s: "sb_verifier s = Some cfg" "sb_requireSigning s"
    by (auto simp: NewSubscriberWithSigning_def split: option.split_asm)
  from assms(2) have p: "eb_parse mac now s d = Ret (Inr ev)"
    by (auto simp: eb_deliver_def eb_handle_def split: outcome.split_asm sum.split_asm)
  then have hdr: "signed_header (ms_Headers d) = Some True"
    using s eb_parse_unsigned [of d mac now s] by (cases "signed_header (ms_Headers d) = Some True") auto
  from p have "\<exists>se. decode_signed (ms_Body d) = Inr se \<and> VerifyEvent mac now cfg se = Ret None \<and> se_Event se = Some ev"
    unfolding eb_parse_def hdr s
    by (auto simp: outcome_simps split: sum.split_asm option.split_asm if_split_asm)
  then obtain se where se: "decode_signed (ms_Body d) = Inr se" "VerifyEvent mac now cfg se = Ret None"
    "se_Event se = Some ev" by blast
  then have "ms_Body d = WireSigned se" by (cases "ms_Body d") (auto simp: decode_signed_def)
  with s se show ?thesis by blast
qed

definition demo_subscriber :: eb_subscriber where
  "demo_subscriber = \<lparr>sb_serviceName = ''api'', sb_verifier = Some demo_signing, sb_requireSigning = True\<rparr>"

theorem required_signing_enforced_witness:
  "eb_deliver demo_mac 0 demo_subscriber (\<lambda>_. Ret None)
     (eb_message 0 ''events'' demo_event [''signed'' \<mapsto> HBool True] (WireSigned demo_signed)) = ([Acked], Some demo_event)
   \<and> VerifyEvent demo_mac 0 demo_signing demo_signed = Ret None"
proof -
  let ?d = "eb_message 0 ''events'' demo_event [''signed'' \<mapsto> HBool True] (WireSigned demo_signed)"
  have new: "NewSubscriberWithSigning Map.empty (\<lambda>_. None) ''api'' (Some demo_signing) True = Inr demo_subscriber"
    by (simp add: NewSubscriberWithSigning_def NewEventVerifier_def demo_subscriber_def)
  have v: "VerifyEvent demo_mac 0 demo_signing demo_signed = Ret None"
    using demo_claims createCanonical_wf [OF demo_data]
    by (simp add: VerifyEvent_def demo_signed_def demo_signing_def generateSignature_def)
  have del: "eb_deliver demo_mac 0 demo_subscriber (\<lambda>_. Ret None) ?d = ([Acked], Some demo_event)"
    using v by (simp add: eb_deliver_def eb_handle_def eb_parse_def signed_header_def eb_message_def
        decode_signed_def demo_subscriber_def recover_settlement_def demo_signed_def)
  from required_signing_enforced [OF new del] show ?thesis
    using del by (auto simp: eb_message_def demo_subscriber_def)
qed

text \<open>A broadcast whose handler keeps failing is requeued for ever: the retry count is read from a header
  that neither the consumer nor a requeue ever sets.\<close>

theorem broadcast_requeued_forever:
  assumes "FromJSON (ms_Body msg) = Inr ev" and "handler ev = Ret (Some err)"
    and "ms_Headers msg ''x-retry-count'' = None"
  shows "bc_redeliver n handler msg = replicate n (Ret Requeued)"
proof -
  have "bc_process handler msg = Ret Requeued"
    using assms by (simp add: bc_process_def bc_retryCount_def)
  then show ?thesis by (induction n) (simp_all add: Let_def)
qed

theorem broadcast_requeued_forever_witness:
  "bc_redeliver 1000 (\<lambda>_. Ret (Some ''down'')) (eb_message 0 ''x'' demo_event Map.empty (WireEvent demo_event))
     = replicate 1000 (Ret Requeued)"
  by (rule broadcast_requeued_forever [where ev = demo_event and err = "''down''"])
    (simp_all add: eb_message_def FromJSON_def)

text \<open>C35: The dispatcher hands an event to the handler registered last for its type, or to the fallback, returns
  what it returns and records the true outcome; without either it records \<^verbatim>\<open>unhandled\<close> and returns no
  error.\<close>

theorem dispatcher_outcome:
  "di_Handle (di_Register t f d) ev =
     (if ev_Type ev = t then
        (case f ev of Ret err \<Rightarrow> (Ret err, [if err = None then ''success'' else ''error''])
         | Panic m \<Rightarrow> (Panic m, []) | Block \<Rightarrow> (Block, []))
      else di_Handle d ev)
   \<and> di_Handle (NewDispatcher service queue) ev = (Ret None, [''unhandled''])
   \<and> di_Handle (di_WithMetrics service queue f) ev =
       (case f ev of Ret err \<Rightarrow> (Ret err, [if err = None then ''success'' else ''error''])
        | Panic m \<Rightarrow> (Panic m, []) | Block \<Rightarrow> (Block, []))"
  by (simp add: di_Handle_def di_Register_def NewDispatcher_def di_WithMetrics_def di_Fallback_def
      split: option.split)

section \<open>Consuming over the cluster\<close>

text \<open>Without auto-acknowledgement the cluster consumer settles every delivery exactly once and in order,
  whatever the messages are and whatever the handler does, panics included.\<close>

theorem cluster_settles_once:
  "length (processMessages mac now cs handler False ds) = length ds
   \<and> processMessages mac now cs handler False ds
     = map (\<lambda>d. recover_settlement (fst (cs_handle mac now cs handler d))) ds"
  unfolding processMessages_def
  using amqp_consumer.settles_stream [of mac now cs handler ds]
    amqp_consumer.settles_in_order [of mac now cs handler ds]
  by (simp add: handleMessage_def split_beta)

text \<open>The cluster subscriber handles and acknowledges an unsigned event even when it has a verifier: nothing
  enforces \<^verbatim>\<open>SigningRequired\<close>.\<close>

theorem cluster_accepts_unsigned:
  assumes "signed_header (ms_Headers d) \<noteq> Some True" and "ms_Body d = WireEvent ev"
    and "handler (cs_user (ms_Headers d)) ev = Ret None"
  shows "handleMessage mac now (cs\<lparr>cs_verifier := Some cfg\<rparr>) handler False d = ([Acked], Some ev)"
  using assms by (simp add: handleMessage_def cs_handle_def handleUnsignedMessage_def FromJSON_def
      recover_settlement_def)

definition demo_cluster_subscriber :: cluster_subscriber where
  "demo_cluster_subscriber = \<lparr>cs_cluster = amqp_demo, cs_serviceName = ''api'', cs_verifier = Some demo_signing,
     cs_exchange = ''events''\<rparr>"

theorem cluster_accepts_unsigned_witness:
  "handleMessage demo_mac 0 (demo_cluster_subscriber\<lparr>cs_verifier := Some demo_signing\<rparr>) (\<lambda>_ _. Ret None) False
     (eb_message 0 ''events'' demo_event Map.empty (WireEvent demo_event)) = ([Acked], Some demo_event)"
  by (rule cluster_accepts_unsigned) (simp_all add: eb_message_def signed_header_def)

text \<open>The hand-written \<^verbatim>\<open>contains\<close> is substring search, case included.\<close>

theorem amqp_contains_is_substring:
  "amqp_contains s sub \<longleftrightarrow> sublist sub s"
  by (simp add: amqp_contains_sublist strContains_sublist)

text \<open>A subscriber function that fails is never called again: the wait that is meant as a backoff ends only
  when the context is cancelled.\<close>

theorem failed_subscriber_not_retried:
  assumes "\<forall>j<k. results j = None \<and> \<not> cancelled j" and "\<not> cancelled k" and "results k = Some err"
    and "k < fuel"
  shows "subscriber_calls results cancelled fuel 0 = Suc k"
proof -
  have "subscriber_calls results cancelled fuel i = Suc k" if "i \<le> k" "k - i < fuel" for fuel i
    using that
  proof (induction fuel arbitrary: i)
    case (Suc fuel)
    then show ?case using assms(1-3) by (cases "i = k") auto
  qed simp
  then show ?thesis using assms(4) by simp
qed

theorem failed_subscriber_not_retried_witness:
  "subscriber_calls (\<lambda>_. Some ''refused'') (\<lambda>_. False) 1000 0 = 1"
  using failed_subscriber_not_retried [of 0 "\<lambda>_. Some ''refused''" "\<lambda>_. False" "''refused''" 1000] by simp

section \<open>From publisher to consumer\<close>

text \<open>What a publisher makes of an event, a subscriber with the same key accepts until the signature expires.\<close>

lemma message_accepted:
  assumes "cp_message mac now cp ev = Inr msg" and "cp_signer cp = Some cfg" and "cs_verifier cs = Some cfg"
    and "later \<le> now + sc_ExpiryWindow cfg"
    and "handler (if ev_UserID ev \<noteq> [] then Some (ev_UserID ev) else None) ev = Ret None"
  shows "handleMessage mac later cs handler False msg = ([Acked], Some ev)"
proof -
  from assms(1) obtain s where s: "SignEvent mac now cfg ev = Inr s"
    "msg = cp_envelope now cp ev [''signed'' \<mapsto> HBool True, ''signature'' \<mapsto> HStr (se_Signature s)] (WireSigned s)"
    using assms(2) by (auto simp: cp_message_def split: sum.split_asm)
  have v: "VerifyEvent mac later cfg s = Ret None"
  proof -
    obtain canonical where "validateRequiredClaims ev (sc_RequiredClaims cfg) = None"
      "createCanonicalEventData ev now (now + sc_ExpiryWindow cfg) = Inr canonical"
      "16 \<le> length (sc_SigningKey cfg)"
      "s = \<lparr>se_Event = Some ev, se_Signature = mac (sc_SigningKey cfg) canonical, se_SignedAt = now,
         se_ExpiresAt = now + sc_ExpiryWindow cfg\<rparr>"
      using s(1) by (auto simp: SignEvent_def Let_def generateSignature_def
          split: option.split_asm sum.split_asm if_split_asm)
    then show ?thesis using assms(4) by (simp add: VerifyEvent_def generateSignature_def)
  qed
  have e: "se_Event s = Some ev"
    using s(1) by (auto simp: SignEvent_def Let_def split: option.split_asm sum.split_asm)
  have h: "signed_header (ms_Headers msg) = Some True"
    "cs_user (ms_Headers msg) = (if ev_UserID ev \<noteq> [] then Some (ev_UserID ev) else None)"
    "ms_Body msg = WireSigned s"
    by (simp_all add: s(2) cp_envelope_def signed_header_def cs_user_def)
  show ?thesis
    using v e h assms(3,5)
    by (simp add: handleMessage_def cs_handle_def handleSignedMessage_def decode_signed_def recover_settlement_def)
qed

text \<open>A signed event published over the cluster reaches the handler of a cluster subscriber with the same key
  as the very event that was published, source and timestamp filled in, with its user, and is
  acknowledged when the handler succeeds before the signature expires.\<close>

theorem cluster_round_trip:
  assumes "cp_Publish mac now send r cp event = (Ret (err, accepted), cp')" and "cp_signer cp = Some cfg"
    and "(node, msg) \<in> set accepted" and "cs_verifier cs = Some cfg"
    and "later \<le> now + sc_ExpiryWindow cfg"
    and "ev = cp_stamp now (cp_serviceName cp) event"
    and "handler (if ev_UserID ev \<noteq> [] then Some (ev_UserID ev) else None) ev = Ret None"
  shows "handleMessage mac later cs handler False msg = ([Acked], Some ev)"
proof -
  from assms(1-3) obtain m where m: "cp_message mac now cp ev = Inr m" "msg = m"
    unfolding assms(6)
    by (auto simp: cp_Publish_def Let_def split_beta outcome_simps split: sum.split_asm)
  have "handleMessage mac later cs handler False m = ([Acked], Some ev)"
    by (rule message_accepted [where handler = handler, OF m(1) assms(2,4,5)]) (rule assms(7))
  then show ?thesis by (simp only: m(2))
qed

definition demo_cluster_publisher :: cluster_publisher where
  "demo_cluster_publisher = \<lparr>cp_cluster = amqp_demo, cp_serviceName = ''api'', cp_signer = Some demo_signing,
     cp_exchange = ''events''\<rparr>"

theorem cluster_round_trip_witness:
  "\<exists>msg. fst (cp_Publish demo_mac 0 (\<lambda>_ _ _. None) 0 demo_cluster_publisher demo_event) = Ret (None, [(1, msg)])
     \<and> handleMessage demo_mac minute demo_cluster_subscriber (\<lambda>_ _. Ret None) False msg = ([Acked], Some demo_event)"
proof -
  have st: "demo_event = cp_stamp 0 (cp_serviceName demo_cluster_publisher) demo_event"
    by (simp add: cp_stamp_def demo_event_def demo_cluster_publisher_def zero_time_def)
  have m: "\<exists>m. cp_message demo_mac 0 demo_cluster_publisher demo_event = Inr m"
    using demo_sign by (simp add: cp_message_def demo_cluster_publisher_def)
  then obtain m where m: "cp_message demo_mac 0 demo_cluster_publisher demo_event = Inr m" by blast
  obtain a' where a: "amqp_Publish (\<lambda>_ _. None) 0 (ev_Type demo_event) amqp_demo = (Ret (None, [1]), a')"
    using amqp_demo_publish by blast
  have p: "cp_Publish demo_mac 0 (\<lambda>_ _ _. None) 0 demo_cluster_publisher demo_event
      = (Ret (None, [(1, m)]), demo_cluster_publisher\<lparr>cp_cluster := a'\<rparr>)"
    unfolding cp_Publish_def Let_def st [symmetric] m using a
    by (simp add: demo_cluster_publisher_def)
  have c: "cp_signer demo_cluster_publisher = Some demo_signing" "cs_verifier demo_cluster_subscriber = Some demo_signing"
    "minute \<le> 0 + sc_ExpiryWindow demo_signing" "(1, m) \<in> set [(1::nat, m)]"
    by (simp_all add: demo_cluster_publisher_def demo_cluster_subscriber_def demo_signing_def)
  from cluster_round_trip [OF p c(1,4,2,3) st, of "\<lambda>_ _. Ret None"] p show ?thesis by auto
qed

end
