(* ===== verification/Redis_Config.thy ===== *)
theory Redis_Config
  imports Pg_Config
begin

text \<open>
  Configuration of the Redis cluster adapter (\<^verbatim>\<open>rediscluster/config.go\<close>): node URLs, the
  settings read from the environment, defaults, validation and the masking of passwords.
\<close>

record redis_config =
  rc_NodeURLs :: "string list"
  rc_ServiceName :: string
  rc_Password :: string
  rc_MaxPoolSize :: int
  rc_MinIdleConns :: int
  rc_MaxIdleTime :: duration
  rc_ConnMaxLifetime :: duration
  rc_HealthCheckInterval :: duration
  rc_HealthCheckTimeout :: duration
  rc_MaxRetries :: int
  rc_RetryBackoffBase :: duration
  rc_RetryBackoffMax :: duration
  rc_CircuitBreakerThreshold :: int
  rc_CircuitBreakerTimeout :: duration
  rc_LoadBalanceStrategy :: string

definition redis_zero_config :: redis_config where
  "redis_zero_config = \<lparr>rc_NodeURLs = [], rc_ServiceName = [], rc_Password = [], rc_MaxPoolSize = 0,
     rc_MinIdleConns = 0, rc_MaxIdleTime = 0, rc_ConnMaxLifetime = 0, rc_HealthCheckInterval = 0,
     rc_HealthCheckTimeout = 0, rc_MaxRetries = 0, rc_RetryBackoffBase = 0, rc_RetryBackoffMax = 0,
     rc_CircuitBreakerThreshold = 0, rc_CircuitBreakerTimeout = 0, rc_LoadBalanceStrategy = []\<rparr>"

definition redis_buildURLFromComponents :: "environ \<Rightarrow> redis_config \<Rightarrow> string \<Rightarrow> string" where
  "redis_buildURLFromComponents e c sfx =
     (let host0 = getenv e (''REDIS_HOST'' @ sfx);
          host = (if host0 = [] \<and> sfx = [] then orElse (getenv e ''REDIS_HOST'') ''localhost'' else host0)
      in if host = [] then []
         else let port = db_part e ''REDIS_PORT'' sfx ''6379'';
                  db = db_part e ''REDIS_DB'' sfx ''0''
              in if rc_Password c \<noteq> []
                 then ''redis://:'' @ rc_Password c @ ''@'' @ host @ '':'' @ port @ ''/'' @ db
                 else ''redis://'' @ host @ '':'' @ port @ ''/'' @ db)"

definition redis_loadConnectionURLs :: "environ \<Rightarrow> redis_config \<Rightarrow> (string, redis_config) result" where
  "redis_loadConnectionURLs e c =
     (let nodeURLs = getenv e ''REDIS_CLUSTER_NODES''
      in if nodeURLs \<noteq> [] then Inr (c\<lparr>rc_NodeURLs := map trimSpace (strSplit nodeURLs '','')\<rparr>)
         else
           let urls1 = rc_NodeURLs c @ filter (\<lambda>u. u \<noteq> [])
                 (map (\<lambda>i. getenv e (''REDIS_NODE_'' @ itoa i @ ''_URL'')) [1..10]);
               urls2 = (if urls1 = [] then
                   (if getenv e ''REDIS_URL'' \<noteq> [] then [getenv e ''REDIS_URL'']
                    else filter (\<lambda>u. u \<noteq> []) [redis_buildURLFromComponents e c []])
                 else urls1);
               urls3 = (if length urls2 = 1 then urls2 @ filter (\<lambda>u. u \<noteq> [])
                   (map (\<lambda>i. redis_buildURLFromComponents e c (''_'' @ itoa i)) [2..5])
                 else urls2)
           in if urls3 = [] then Inl ''no Redis nodes configured''
              else Inr (c\<lparr>rc_NodeURLs := urls3, rc_Password := getenv e ''REDIS_PASSWORD''\<rparr>))"

definition redis_loadConnectionPoolSettings :: "environ \<Rightarrow> redis_config \<Rightarrow> redis_config" where
  "redis_loadConnectionPoolSettings e c =
     c\<lparr>rc_MaxPoolSize := intVar e ''REDIS_MAX_POOL_SIZE'' (\<lambda>v. 0 < v) (rc_MaxPoolSize c),
       rc_MinIdleConns := intVar e ''REDIS_MIN_IDLE_CONNS'' (\<lambda>v. 0 \<le> v) (rc_MinIdleConns c),
       rc_MaxIdleTime := durationVar e ''REDIS_MAX_IDLE_TIME'' (rc_MaxIdleTime c),
       rc_ConnMaxLifetime := durationVar e ''REDIS_CONN_MAX_LIFETIME'' (rc_ConnMaxLifetime c)\<rparr>"

definition redis_loadHealthSettings :: "environ \<Rightarrow> redis_config \<Rightarrow> redis_config" where
  "redis_loadHealthSettings e c =
     c\<lparr>rc_HealthCheckInterval := durationVar e ''REDIS_HEALTH_CHECK_INTERVAL'' (rc_HealthCheckInterval c),
       rc_HealthCheckTimeout := durationVar e ''REDIS_HEALTH_CHECK_TIMEOUT'' (rc_HealthCheckTimeout c),
       rc_MaxRetries := intVar e ''REDIS_MAX_RETRIES'' (\<lambda>v. 0 \<le> v) (rc_MaxRetries c),
       rc_RetryBackoffBase := durationVar e ''REDIS_RETRY_BACKOFF_BASE'' (rc_RetryBackoffBase c),
       rc_RetryBackoffMax := durationVar e ''REDIS_RETRY_BACKOFF_MAX'' (rc_RetryBackoffMax c)\<rparr>"

definition redis_loadCircuitBreakerSettings :: "environ \<Rightarrow> redis_config \<Rightarrow> redis_config" where
  "redis_loadCircuitBreakerSettings e c =
     c\<lparr>rc_CircuitBreakerThreshold :=
         intVar e ''REDIS_CIRCUIT_BREAKER_THRESHOLD'' (\<lambda>v. 0 < v) (rc_CircuitBreakerThreshold c),
       rc_CircuitBreakerTimeout :=
         durationVar e ''REDIS_CIRCUIT_BREAKER_TIMEOUT'' (rc_CircuitBreakerTimeout c)\<rparr>"

definition redis_validStrategies :: "string list" where
  "redis_validStrategies = [''round_robin'', ''random'', ''hash'']"

definition redis_loadReadBalancingSettings :: "environ \<Rightarrow> redis_config \<Rightarrow> redis_config" where
  "redis_loadReadBalancingSettings e c =
     (let strategy = toLower (getenv e ''REDIS_LOAD_BALANCE_STRATEGY'')
      in if strategy \<in> set redis_validStrategies then c\<lparr>rc_LoadBalanceStrategy := strategy\<rparr>
         else c\<lparr>rc_LoadBalanceStrategy := ''round_robin''\<rparr>)"

definition redis_setDefaults :: "redis_config \<Rightarrow> redis_config" where
  "redis_setDefaults c =
     c\<lparr>rc_MaxPoolSize := dflt (rc_MaxPoolSize c) 100,
       rc_MinIdleConns := dflt (rc_MinIdleConns c) 10,
       rc_MaxIdleTime := dflt (rc_MaxIdleTime c) (30 * second),
       rc_ConnMaxLifetime := dflt (rc_ConnMaxLifetime c) (5 * minute),
       rc_HealthCheckInterval := dflt (rc_HealthCheckInterval c) (30 * second),
       rc_HealthCheckTimeout := dflt (rc_HealthCheckTimeout c) (5 * second),
       rc_MaxRetries := dflt (rc_MaxRetries c) 3,
       rc_RetryBackoffBase := dflt (rc_RetryBackoffBase c) (1 * second),
       rc_RetryBackoffMax := dflt (rc_RetryBackoffMax c) (30 * second),
       rc_CircuitBreakerThreshold := dflt (rc_CircuitBreakerThreshold c) 5,
       rc_CircuitBreakerTimeout := dflt (rc_CircuitBreakerTimeout c) (60 * second)\<rparr>"

definition redis_Validate :: "redis_config \<Rightarrow> string option" where
  "redis_Validate c =
     (if rc_NodeURLs c = [] then Some ''at least one Redis node URL is required''
      else if rc_ServiceName c = [] then Some ''service name is required''
      else if rc_MaxPoolSize c \<le> 0 then Some ''max pool size must be positive''
      else if rc_MinIdleConns c < 0 \<or> rc_MinIdleConns c > rc_MaxPoolSize c
        then Some ''min idle connections must be between 0 and max pool size''
      else if rc_HealthCheckInterval c \<le> 0 then Some ''health check interval must be positive''
      else if rc_MaxRetries c < 0 then Some ''max retries must be non-negative''
      else if rc_LoadBalanceStrategy c \<notin> set redis_validStrategies
        then Some (''invalid load balance strategy: '' @ rc_LoadBalanceStrategy c)
      else None)"

definition redis_LoadConfigFromEnv :: "environ \<Rightarrow> string \<Rightarrow> (string, redis_config) result" where
  "redis_LoadConfigFromEnv e serviceName =
     (case redis_loadConnectionURLs e (redis_zero_config\<lparr>rc_ServiceName := serviceName\<rparr>) of
        Inl err \<Rightarrow> Inl err
      | Inr c0 \<Rightarrow>
          let c = redis_setDefaults (redis_loadReadBalancingSettings e (redis_loadCircuitBreakerSettings e
                    (redis_loadHealthSettings e (redis_loadConnectionPoolSettings e c0))))
          in case redis_Validate c of Some err \<Rightarrow> Inl err | None \<Rightarrow> Inr c)"

definition redis_maskURL :: "string \<Rightarrow> string" where
  "redis_maskURL url =
     (if strContains url ''://'' \<and> strContains url ''@'' then
        let parts = strSplit url ''@''
        in if 2 \<le> length parts then
             let schemeParts = strSplit (parts ! 0) ''://''
             in if 2 \<le> length schemeParts then
                  (if hasPrefix (schemeParts ! 1) '':''
                   then schemeParts ! 0 @ ''://:***@'' @ strJoin (tl parts) ''@''
                   else let credsParts = strSplit (schemeParts ! 1) '':''
                        in if 2 \<le> length credsParts
                           then schemeParts ! 0 @ ''://'' @ credsParts ! 0 @ '':***@''
                                @ strJoin (tl parts) ''@''
                           else url)
                else url
           else url
      else url)"

definition redis_config_String :: "(duration \<Rightarrow> string) \<Rightarrow> redis_config \<Rightarrow> string" where
  "redis_config_String showDuration c =
     ''ClusterConfig{Nodes: ['' @ strJoin (map redis_maskURL (rc_NodeURLs c)) '' '' @ '']''
     @ '', Strategy: '' @ rc_LoadBalanceStrategy c
     @ '', MaxPool: '' @ itoa (rc_MaxPoolSize c)
     @ '', HealthCheck: '' @ showDuration (rc_HealthCheckInterval c) @ ''}''"

section \<open>Facts\<close>

text \<open>The loaders after the URLs leave the URLs and the password alone.\<close>

lemma redis_settings_frame:
  "rc_NodeURLs (redis_setDefaults (redis_loadReadBalancingSettings e (redis_loadCircuitBreakerSettings e
      (redis_loadHealthSettings e (redis_loadConnectionPoolSettings e c))))) = rc_NodeURLs c"
  "rc_Password (redis_setDefaults (redis_loadReadBalancingSettings e (redis_loadCircuitBreakerSettings e
      (redis_loadHealthSettings e (redis_loadConnectionPoolSettings e c))))) = rc_Password c"
  by (simp_all add: redis_setDefaults_def redis_loadReadBalancingSettings_def Let_def
      redis_loadCircuitBreakerSettings_def redis_loadHealthSettings_def
      redis_loadConnectionPoolSettings_def)

lemma redis_retries_positive:
  "0 < rc_MaxRetries (redis_setDefaults (redis_loadReadBalancingSettings e (redis_loadCircuitBreakerSettings e
      (redis_loadHealthSettings e (redis_loadConnectionPoolSettings e (c\<lparr>rc_MaxRetries := 0\<rparr>))))))"
  using intVar_cases [of e "''REDIS_MAX_RETRIES''" "\<lambda>v. 0 \<le> v" 0]
  by (auto simp: redis_setDefaults_def redis_loadReadBalancingSettings_def Let_def dflt_def
      redis_loadCircuitBreakerSettings_def redis_loadHealthSettings_def
      redis_loadConnectionPoolSettings_def)

end
