(* ===== verification/Redis_Cluster.thy ===== *)
theory Redis_Cluster
  imports Redis_Config Contracts
begin

text \<open>
  The Redis cluster adapter (\<^verbatim>\<open>rediscluster/adapter.go\<close>, \<^verbatim>\<open>health.go\<close>): connecting, choosing a
  node, running an operation with retries, metrics, health checks. A \<^verbatim>\<open>*redis.Client\<close> is a handle;
  what parsing a URL, a ping and an operation return are arguments. \<open>rn_locked\<close> is a node's mutex held
  by a goroutine that will never release it, and \<open>ra_locked\<close> the adapter's.
\<close>

section \<open>State\<close>

definition state_String :: "NodeState \<Rightarrow> string" where
  "state_String s = (case s of NodeHealthy \<Rightarrow> ''healthy'' | NodeDegraded \<Rightarrow> ''degraded'' | _ \<Rightarrow> ''failed'')"

record redis_node =
  rn_URL :: string
  rn_Name :: string
  rn_client :: "nat option"
  rn_state :: NodeState
  rn_lastError :: "string option"
  rn_lastCheck :: instant
  rn_lastLatency :: duration
  rn_opsCount :: int
  rn_errorCount :: int
  rn_locked :: bool

record redis_adapter =
  ra_config :: redis_config
  ra_nodes :: "redis_node list"
  ra_nodeIndex :: int
  ra_primaryClient :: "nat option"
  ra_locked :: bool

definition redis_set_node :: "nat \<Rightarrow> (redis_node \<Rightarrow> redis_node) \<Rightarrow> redis_adapter \<Rightarrow> redis_adapter" where
  "redis_set_node i f a = a\<lparr>ra_nodes := (ra_nodes a)[i := f (ra_nodes a ! i)]\<rparr>"

section \<open>Connecting\<close>

record redis_dial =
  rd_parse :: "string option"
  rd_client :: nat
  rd_ping :: "string option"
  rd_latency :: duration
  rd_now :: instant

definition redis_connectToNode :: "redis_dial \<Rightarrow> redis_node \<Rightarrow> string option outcome \<times> redis_node" where
  "redis_connectToNode d node =
     (if rn_locked node then (Block, node)
      else case rd_parse d of
          Some err \<Rightarrow> (Ret (Some (''failed to parse Redis URL: '' @ err)),
            node\<lparr>rn_state := NodeFailed, rn_lastError := Some err, rn_lastCheck := rd_now d\<rparr>)
        | None \<Rightarrow>
            (case rd_ping d of
               Some err \<Rightarrow> (Ret (Some (''failed to ping Redis node: '' @ err)),
                 node\<lparr>rn_state := NodeFailed, rn_lastError := Some err, rn_lastCheck := rd_now d,
                      rn_errorCount := wrap64 (rn_errorCount node + 1)\<rparr>)
             | None \<Rightarrow> (Ret None,
                 node\<lparr>rn_client := Some (rd_client d), rn_state := NodeHealthy, rn_lastError := None,
                      rn_lastCheck := rd_now d, rn_lastLatency := rd_latency d\<rparr>)))"

fun redis_connectToAll :: "redis_dial list \<Rightarrow> redis_node list \<Rightarrow>
    (nat \<times> string option) outcome \<times> redis_node list" where
  "redis_connectToAll (d # ds) (n # ns) =
     (case redis_connectToNode d n of
        (Ret err, n') \<Rightarrow>
          (let (r, ns') = redis_connectToAll ds ns
           in (bind_outcome r (\<lambda>(k, lastErr).
                 Ret (case err of None \<Rightarrow> (Suc k, lastErr)
                      | Some m \<Rightarrow> (k, case lastErr of None \<Rightarrow> Some m | Some m' \<Rightarrow> Some m'))), n' # ns'))
      | (Panic m, n') \<Rightarrow> (Panic m, n' # ns)
      | (Block, n') \<Rightarrow> (Block, n' # ns))"
| "redis_connectToAll _ ns = (Ret (0, None), ns)"

definition redis_new_node :: "instant \<Rightarrow> nat \<Rightarrow> string \<Rightarrow> redis_node" where
  "redis_new_node now i url = \<lparr>rn_URL = url, rn_Name = ''node-'' @ itoa (int i), rn_client = None,
     rn_state = NodeFailed, rn_lastError = None, rn_lastCheck = now, rn_lastLatency = 0,
     rn_opsCount = 0, rn_errorCount = 0, rn_locked = False\<rparr>"

definition redis_usable :: "redis_node \<Rightarrow> bool" where
  "redis_usable n \<longleftrightarrow> rn_state n = NodeHealthy \<and> rn_client n \<noteq> None"

definition redis_getHealthyNodes :: "redis_node list \<Rightarrow> nat list outcome" where
  "redis_getHealthyNodes ns =
     (if list_ex rn_locked ns then Block else Ret (positions redis_usable ns))"

definition redis_getFirstHealthyNode :: "redis_node list \<Rightarrow> nat option outcome" where
  "redis_getFirstHealthyNode ns = bind_outcome (redis_getHealthyNodes ns) (\<lambda>healthy.
     Ret (case healthy of [] \<Rightarrow> None | i # _ \<Rightarrow> Some i))"

definition redis_NewClusterAdapter ::
    "instant \<Rightarrow> redis_dial list \<Rightarrow> redis_config \<Rightarrow> (string, redis_adapter) result outcome" where
  "redis_NewClusterAdapter now ds config =
     (if rc_NodeURLs config = [] then Ret (Inl ''at least one Redis node URL is required'')
      else let (r, ns) = redis_connectToAll ds
                  (map (\<lambda>(i, url). redis_new_node now i url) (enumerate 0 (rc_NodeURLs config)))
           in bind_outcome r (\<lambda>(healthy, lastErr).
                if healthy = 0 then Ret (Inl (''failed to connect to any Redis nodes: ''
                    @ ''failed to connect to any nodes, last error: ''
                    @ (case lastErr of None \<Rightarrow> ''<nil>'' | Some m \<Rightarrow> m)))
                else bind_outcome (redis_getFirstHealthyNode ns) (\<lambda>first.
                  Ret (Inr \<lparr>ra_config = config, ra_nodes = ns, ra_nodeIndex = 0,
                    ra_primaryClient = (case first of None \<Rightarrow> None | Some i \<Rightarrow> rn_client (ns ! i)),
                    ra_locked = False\<rparr>))))"

section \<open>Choosing a node\<close>

definition redis_healthy :: "redis_adapter \<Rightarrow> nat list outcome" where
  "redis_healthy a = (if ra_locked a then Block else redis_getHealthyNodes (ra_nodes a))"

definition redis_selectNode :: "nat \<Rightarrow> string \<Rightarrow> redis_adapter \<Rightarrow> nat option outcome \<times> redis_adapter" where
  "redis_selectNode r key a =
     (case redis_healthy a of
        Panic m \<Rightarrow> (Panic m, a)
      | Block \<Rightarrow> (Block, a)
      | Ret healthy \<Rightarrow>
          if healthy = [] then (Ret None, a)
          else let (o1, idx) = balance (rc_LoadBalanceStrategy (ra_config a)) r key
                                 (length healthy) (ra_nodeIndex a)
               in (bind_outcome o1 (\<lambda>k. Ret (Some (healthy ! k))), a\<lparr>ra_nodeIndex := idx\<rparr>))"

definition redis_GetHealthyNode :: "nat \<Rightarrow> redis_adapter \<Rightarrow> nat option outcome \<times> redis_adapter" where
  "redis_GetHealthyNode r a = redis_selectNode r [] a"

definition redis_GetNodeByKey :: "nat \<Rightarrow> string \<Rightarrow> redis_adapter \<Rightarrow> nat option outcome \<times> redis_adapter" where
  "redis_GetNodeByKey r key a = redis_selectNode r key a"

definition redis_GetNodeByIndex :: "int \<Rightarrow> redis_adapter \<Rightarrow> nat option outcome" where
  "redis_GetNodeByIndex index a =
     (if ra_locked a then Block
      else Ret (if 0 \<le> index \<and> index < int (length (ra_nodes a)) then Some (nat index) else None))"

text \<open>\<^verbatim>\<open>Client\<close>: the primary client.\<close>

definition redis_Client :: "redis_adapter \<Rightarrow> nat option outcome" where
  "redis_Client a = (if ra_locked a then Block else Ret (ra_primaryClient a))"

section \<open>Running an operation\<close>

text \<open>\<^verbatim>\<open>redis.Nil\<close> (no such key), another error, the context's error.\<close>

datatype redis_error = RedisNil | RedisErr string | CtxErr string

text \<open>
  What one call sees: the operation run on a client at an attempt (its value and error), the random
  picks, the jitter, and whether the context ends during the backoff after an attempt.
\<close>

record 'v redis_env =
  re_exec :: "nat \<Rightarrow> nat \<Rightarrow> 'v \<times> redis_error option"
  re_rand :: "nat \<Rightarrow> nat"
  re_jitter :: "nat \<Rightarrow> nat"
  re_cancel :: "nat \<Rightarrow> string option"

definition redis_checkNodeDegradation :: "redis_config \<Rightarrow> redis_node \<Rightarrow> redis_node" where
  "redis_checkNodeDegradation cfg n =
     (if rn_errorCount n \<ge> rc_CircuitBreakerThreshold cfg \<and> rn_state n = NodeHealthy
      then n\<lparr>rn_state := NodeDegraded\<rparr> else n)"

definition redis_executeOnNode :: "'v redis_env \<Rightarrow> nat \<Rightarrow> redis_node \<Rightarrow> 'v option \<times> redis_error option" where
  "redis_executeOnNode env attempt n =
     (case rn_client n of
        None \<Rightarrow> (None, Some (RedisErr ''node client is nil''))
      | Some client \<Rightarrow> (let (v, err) = re_exec env client attempt in (Some v, err)))"

definition redis_calculateBackoff :: "redis_config \<Rightarrow> nat \<Rightarrow> nat \<Rightarrow> duration outcome" where
  "redis_calculateBackoff cfg r attempt = exp_backoff (rc_RetryBackoffBase cfg) (rc_RetryBackoffMax cfg) r attempt"

text \<open>
  The loop of \<^verbatim>\<open>ExecuteWithRetry\<close> with \<open>k\<close> attempts left. The result is the error, the value the last
  execution left in the command, the nodes the operation was run on, and the adapter.
\<close>

fun redis_retry_loop :: "'v redis_env \<Rightarrow> string \<Rightarrow> nat \<Rightarrow> nat list \<Rightarrow> 'v option \<Rightarrow> nat \<Rightarrow> redis_adapter \<Rightarrow>
    (redis_error option \<times> 'v option \<times> nat list) outcome \<times> redis_adapter" where
  "redis_retry_loop env key attempt tried val 0 a =
     (Ret (Some (RedisErr (''redis operation failed after '' @ itoa (rc_MaxRetries (ra_config a) + 1)
        @ '' attempts'')), val, tried), a)"
| "redis_retry_loop env key attempt tried val (Suc k) a0 =
     (case redis_selectNode (re_rand env attempt) key a0 of
        (Panic m, a) \<Rightarrow> (Panic m, a)
      | (Block, a) \<Rightarrow> (Block, a)
      | (Ret None, a) \<Rightarrow> (Ret (Some (RedisErr ''no healthy Redis nodes available''), val, tried), a)
      | (Ret (Some i), a) \<Rightarrow>
          if i \<in> set tried then redis_retry_loop env key (Suc attempt) tried val k a
          else
            (let (v, err) = redis_executeOnNode env attempt (ra_nodes a ! i);
                 val' = (case v of None \<Rightarrow> val | Some x \<Rightarrow> Some x);
                 tried' = tried @ [i]
             in case err of
                  None \<Rightarrow> (Ret (None, val', tried'),
                    redis_set_node i (\<lambda>n. n\<lparr>rn_opsCount := wrap64 (rn_opsCount n + 1)\<rparr>) a)
                | Some RedisNil \<Rightarrow> (Ret (Some RedisNil, val', tried'), a)
                | Some e \<Rightarrow>
                    (let a' = redis_set_node i (\<lambda>n. redis_checkNodeDegradation (ra_config a)
                           (n\<lparr>rn_errorCount := wrap64 (rn_errorCount n + 1)\<rparr>)) a
                     in if int attempt < rc_MaxRetries (ra_config a) then
                          (case redis_calculateBackoff (ra_config a) (re_jitter env attempt) attempt of
                             Panic m \<Rightarrow> (Panic m, a')
                           | Block \<Rightarrow> (Block, a')
                           | Ret backoff \<Rightarrow>
                               (case re_cancel env attempt of
                                  Some ctxErr \<Rightarrow> (Ret (Some (CtxErr ctxErr), val', tried'), a')
                                | None \<Rightarrow> redis_retry_loop env key (Suc attempt) tried' val' k a'))
                        else redis_retry_loop env key (Suc attempt) tried' val' k a')))"

definition ExecuteWithRetry :: "'v redis_env \<Rightarrow> string \<Rightarrow> redis_adapter \<Rightarrow>
    (redis_error option \<times> 'v option \<times> nat list) outcome \<times> redis_adapter" where
  "ExecuteWithRetry env key a =
     redis_retry_loop env key 0 [] None (nat (rc_MaxRetries (ra_config a) + 1)) a"

section \<open>Health and metrics\<close>

record redis_node_health =
  rh_Name :: string
  rh_URL :: string
  rh_State :: NodeState
  rh_LastError :: "string option"
  rh_LastCheck :: instant
  rh_Latency :: duration
  rh_OpsCount :: int
  rh_ErrorCount :: int

definition redis_node_report :: "redis_node \<Rightarrow> redis_node_health" where
  "redis_node_report n = \<lparr>rh_Name = rn_Name n, rh_URL = redis_maskURL (rn_URL n), rh_State = rn_state n,
     rh_LastError = rn_lastError n, rh_LastCheck = rn_lastCheck n, rh_Latency = rn_lastLatency n,
     rh_OpsCount = rn_opsCount n, rh_ErrorCount = rn_errorCount n\<rparr>"

text \<open>\<^verbatim>\<open>GetClusterHealth\<close>: the nodes, their number and the number of healthy ones.\<close>

definition redis_GetClusterHealth :: "redis_adapter \<Rightarrow> (redis_node_health list \<times> nat \<times> nat) outcome" where
  "redis_GetClusterHealth a =
     (if ra_locked a \<or> list_ex rn_locked (ra_nodes a) then Block
      else Ret (map redis_node_report (ra_nodes a), length (ra_nodes a),
        length (filter (\<lambda>n. rn_state n = NodeHealthy) (ra_nodes a))))"

record redis_metrics =
  rm_TotalOperations :: int
  rm_FailedOperations :: int
  rm_AverageLatency :: duration
  rm_MinLatency :: duration
  rm_MaxLatency :: duration

text \<open>The accumulation over the nodes: the metrics, the total latency and how many latencies it sums.\<close>

definition redis_metrics_step :: "redis_node \<Rightarrow> redis_metrics \<times> int \<times> int \<Rightarrow> redis_metrics \<times> int \<times> int" where
  "redis_metrics_step n = (\<lambda>(m, total, count).
     let m1 = m\<lparr>rm_TotalOperations := wrap64 (rm_TotalOperations m + rn_opsCount n),
                rm_FailedOperations := wrap64 (rm_FailedOperations m + rn_errorCount n)\<rparr>
     in if rn_lastLatency n > 0 then
          (m1\<lparr>rm_MaxLatency := (if rm_MaxLatency m1 < rn_lastLatency n then rn_lastLatency n else rm_MaxLatency m1),
              rm_MinLatency := (if rm_MinLatency m1 = 0 \<or> rm_MinLatency m1 > rn_lastLatency n
                                then rn_lastLatency n else rm_MinLatency m1)\<rparr>,
           wrap64 (total + rn_lastLatency n), count + 1)
        else (m1, total, count))"

definition redis_zero_metrics :: redis_metrics where
  "redis_zero_metrics = \<lparr>rm_TotalOperations = 0, rm_FailedOperations = 0, rm_AverageLatency = 0,
     rm_MinLatency = 0, rm_MaxLatency = 0\<rparr>"

definition redis_GetMetrics :: "redis_adapter \<Rightarrow> redis_metrics outcome" where
  "redis_GetMetrics a =
     (if list_ex rn_locked (ra_nodes a) then Block
      else let (m, total, count) = fold redis_metrics_step (ra_nodes a) (redis_zero_metrics, 0, 0)
           in Ret (if count > 0 then m\<lparr>rm_AverageLatency := go_quot total count\<rparr> else m))"

definition redis_MarkNodeFailed :: "string \<Rightarrow> redis_adapter \<Rightarrow> unit outcome \<times> redis_adapter" where
  "redis_MarkNodeFailed nodeURL a =
     (if ra_locked a then (Block, a)
      else case find_index (\<lambda>n. rn_URL n = nodeURL) (ra_nodes a) of
        None \<Rightarrow> (Ret (), a)
      | Some i \<Rightarrow> if rn_locked (ra_nodes a ! i) then (Block, a)
          else (Ret (), redis_set_node i (\<lambda>n. n\<lparr>rn_state := NodeFailed\<rparr>) a))"

fun redis_close_nodes :: "(nat \<Rightarrow> string option) \<Rightarrow> redis_node list \<Rightarrow> string list outcome" where
  "redis_close_nodes closeErr [] = Ret []"
| "redis_close_nodes closeErr (n # ns) =
     (if rn_locked n then Block
      else bind_outcome (redis_close_nodes closeErr ns) (\<lambda>errs. Ret
        (case rn_client n of None \<Rightarrow> errs
         | Some x \<Rightarrow> (case closeErr x of None \<Rightarrow> errs
                      | Some e \<Rightarrow> (''closing '' @ rn_Name n @ '': '' @ e) # errs))))"

section \<open>Health checks\<close>

record redis_probe =
  rp_now :: instant
  rp_dial :: redis_dial
  rp_ping :: "string option"
  rp_latency :: duration
  rp_elapsed :: duration

text \<open>
  The two loops of \<^verbatim>\<open>updatePrimaryClient\<close>, run by the check of node \<open>me\<close>, whose mutex is held: a
  loop that reaches that node, or one held for ever by another check, blocks. \<open>None\<close> is the first
  loop running to its end.
\<close>

fun primary_still_good :: "nat \<Rightarrow> nat option \<Rightarrow> nat \<Rightarrow> redis_node list \<Rightarrow> bool outcome" where
  "primary_still_good me primary i [] = Ret False"
| "primary_still_good me primary i (n # ns) =
     (if i = me \<or> rn_locked n then Block
      else if rn_client n = primary \<and> rn_state n = NodeHealthy then Ret True
      else primary_still_good me primary (Suc i) ns)"

fun find_primary :: "nat \<Rightarrow> nat \<Rightarrow> redis_node list \<Rightarrow> nat option outcome" where
  "find_primary me i [] = Ret None"
| "find_primary me i (n # ns) =
     (if i = me \<or> rn_locked n then Block
      else if redis_usable n then Ret (rn_client n)
      else find_primary me (Suc i) ns)"

definition redis_updatePrimaryClient :: "nat \<Rightarrow> redis_adapter \<Rightarrow> unit outcome \<times> redis_adapter" where
  "redis_updatePrimaryClient me a =
     (if ra_locked a then (Block, a)
      else case (if ra_primaryClient a = None then Ret False
            else primary_still_good me (ra_primaryClient a) 0 (ra_nodes a)) of
        Panic m \<Rightarrow> (Panic m, a)
      | Block \<Rightarrow> (Block, a\<lparr>ra_locked := True\<rparr>)
      | Ret True \<Rightarrow> (Ret (), a)
      | Ret False \<Rightarrow>
          (case find_primary me 0 (ra_nodes a) of
             Panic m \<Rightarrow> (Panic m, a)
           | Block \<Rightarrow> (Block, a\<lparr>ra_locked := True\<rparr>)
           | Ret c \<Rightarrow> (Ret (), a\<lparr>ra_primaryClient := c\<rparr>)))"

definition redis_checkNodeHealth :: "redis_probe \<Rightarrow> nat \<Rightarrow> redis_adapter \<Rightarrow> unit outcome \<times> redis_adapter" where
  "redis_checkNodeHealth p i a =
     (let node0 = ra_nodes a ! i
      in if rn_locked node0 then (Block, a)
         else if rp_now p - rn_lastCheck node0 < 10 * second then (Ret (), a)
         else
           let node = node0\<lparr>rn_lastCheck := rp_now p\<rparr>;
               put = (\<lambda>n. redis_set_node i (\<lambda>_. n) a);
               reconnect = (\<lambda>n. case redis_connectToNode (rp_dial p) (n\<lparr>rn_locked := True\<rparr>) of
                   (Ret _, n') \<Rightarrow> (Ret (), put (n'\<lparr>rn_locked := False\<rparr>))
                 | (Panic m, n') \<Rightarrow> (Panic m, put (n'\<lparr>rn_locked := False\<rparr>))
                 | (Block, n') \<Rightarrow> (Block, put n'))
           in if rn_client node = None then reconnect node
              else case rp_ping p of
                  Some err \<Rightarrow>
                    reconnect (node\<lparr>rn_errorCount := wrap64 (rn_errorCount node + 1),
                      rn_lastError := Some err,
                      rn_state := (if rn_state node = NodeHealthy then NodeFailed else rn_state node),
                      rn_client := None\<rparr>)
                | None \<Rightarrow>
                    (let n1 = node\<lparr>rn_lastLatency := rp_latency p\<rparr>
                     in case rn_state n1 of
                          NodeHealthy \<Rightarrow> (Ret (), put n1)
                        | NodeDegraded \<Rightarrow>
                            (if rp_elapsed p > rc_CircuitBreakerTimeout (ra_config a)
                             then (Ret (), put (n1\<lparr>rn_errorCount := 0, rn_state := NodeHealthy\<rparr>))
                             else (Ret (), put n1))
                        | NodeFailed \<Rightarrow>
                            (let n2 = n1\<lparr>rn_state := NodeHealthy, rn_errorCount := 0\<rparr>
                             in case redis_updatePrimaryClient i (put n2) of
                                  (Ret _, a') \<Rightarrow> (Ret (), a')
                                | (Panic m, a') \<Rightarrow> (Panic m, a')
                                | (Block, a') \<Rightarrow> (Block, redis_set_node i (\<lambda>n. n\<lparr>rn_locked := True\<rparr>) a'))))"

text \<open>A goroutine for each node; \<open>order\<close> is the order in which they come to run, \<open>probes i\<close> what that of node \<open>i\<close> meets.\<close>

definition redis_performHealthChecks :: "(nat \<Rightarrow> redis_probe) \<Rightarrow> nat list \<Rightarrow> redis_adapter \<Rightarrow> redis_adapter" where
  "redis_performHealthChecks probes order a = fold (\<lambda>i a. snd (redis_checkNodeHealth (probes i) i a)) order a"

text \<open>The exported forms: the first only logs, monitoring having begun with the adapter.\<close>

definition redis_StartHealthMonitoring :: "redis_adapter \<Rightarrow> redis_adapter" where
  "redis_StartHealthMonitoring a = a"

definition redis_ForceHealthCheck :: "(nat \<Rightarrow> redis_probe) \<Rightarrow> nat list \<Rightarrow> redis_adapter \<Rightarrow> redis_adapter" where
  "redis_ForceHealthCheck probes order a = redis_performHealthChecks probes order a"

definition redis_IsHealthy :: "redis_adapter \<Rightarrow> bool outcome" where
  "redis_IsHealthy a = bind_outcome (redis_healthy a) (\<lambda>h. Ret (h \<noteq> []))"

text \<open>
  \<^verbatim>\<open>WaitForHealthy\<close>: \<open>views k\<close> is the adapter seen at the \<open>k\<close>-th look, each look after a one-second tick;
  \<open>None\<close> is a fuel that ran out.
\<close>

fun redis_WaitForHealthy :: "(nat \<Rightarrow> redis_adapter) \<Rightarrow> (nat \<Rightarrow> instant) \<Rightarrow> instant \<Rightarrow> (nat \<Rightarrow> string option) \<Rightarrow>
    nat \<Rightarrow> nat \<Rightarrow> string option outcome option" where
  "redis_WaitForHealthy views now deadline ctx k 0 = None"
| "redis_WaitForHealthy views now deadline ctx k (Suc fuel) =
     (case redis_IsHealthy (views k) of
        Panic m \<Rightarrow> Some (Panic m)
      | Block \<Rightarrow> Some Block
      | Ret True \<Rightarrow> Some (Ret None)
      | Ret False \<Rightarrow>
          (case ctx k of
             Some err \<Rightarrow> Some (Ret (Some err))
           | None \<Rightarrow> if now k > deadline then Some (Ret (Some ''timeout waiting for healthy Redis nodes''))
               else redis_WaitForHealthy views now deadline ctx (Suc k) fuel))"

end
