(* ===== verification/Redis_Client.thy ===== *)
theory Redis_Client
  imports Redis_Cluster
begin

text \<open>
  The go-redis compatible client of the cluster (\<^verbatim>\<open>rediscluster/client.go\<close>): each method runs one
  command through \<^verbatim>\<open>ExecuteWithRetry\<close>, routed by its key or, where the method passes none, by the
  empty key, and returns a command holding the value of the last execution and the error.
\<close>

datatype redis_op =
  OpGet string | OpSet string string duration | OpDel "string list" | OpExists "string list"
| OpExpire string duration | OpTTL string | OpHGet string string | OpHSet string "string list"
| OpHGetAll string | OpHDel string "string list" | OpSAdd string "string list" | OpSMembers string
| OpSRem string "string list" | OpSCard string | OpLPush string "string list" | OpRPop string
| OpLLen string | OpPing | OpKeys string | OpFlushDB | OpIncr string | OpDecr string

record 'v redis_cmd =
  cmd_args :: "string list"
  cmd_val :: "'v option"
  cmd_err :: "redis_error option"

text \<open>What a server answers to a command, by client and attempt, and the rest of the environment.\<close>

record 'v redis_world =
  rw_serve :: "redis_op \<Rightarrow> nat \<Rightarrow> nat \<Rightarrow> 'v \<times> redis_error option"
  rw_rand :: "nat \<Rightarrow> nat"
  rw_jitter :: "nat \<Rightarrow> nat"
  rw_cancel :: "nat \<Rightarrow> string option"

definition client_env :: "'v redis_world \<Rightarrow> redis_op \<Rightarrow> 'v redis_env" where
  "client_env w x = \<lparr>re_exec = rw_serve w x, re_rand = rw_rand w, re_jitter = rw_jitter w,
     re_cancel = rw_cancel w\<rparr>"

definition client_do :: "'v redis_world \<Rightarrow> redis_op \<Rightarrow> string list \<Rightarrow> string \<Rightarrow> redis_adapter \<Rightarrow>
    ('v redis_cmd \<times> nat list) outcome \<times> redis_adapter" where
  "client_do w x args key a =
     (let (o1, a') = ExecuteWithRetry (client_env w x) key a
      in (bind_outcome o1 (\<lambda>(err, val, tried).
            Ret (\<lparr>cmd_args = args, cmd_val = val, cmd_err = err\<rparr>, tried)), a'))"

definition seconds_of :: "duration \<Rightarrow> string" where
  "seconds_of d = itoa (go_quot d second)"

section \<open>Strings and keys\<close>

definition client_Get where
  "client_Get w key = client_do w (OpGet key) [''get'', key] key"

definition client_Set where
  "client_Set w key value expiration =
     client_do w (OpSet key value (if expiration > 0 then expiration else 0))
       ([''set'', key, value] @ (if expiration > 0 then [''EX'', seconds_of expiration] else [])) key"

definition client_Del where
  "client_Del w keys = client_do w (OpDel keys) (''del'' # keys) []"

definition client_Exists where
  "client_Exists w keys = client_do w (OpExists keys) (''exists'' # keys) []"

definition client_Expire where
  "client_Expire w key expiration =
     client_do w (OpExpire key expiration) [''expire'', key, seconds_of expiration] key"

definition client_TTL where
  "client_TTL w key = client_do w (OpTTL key) [''ttl'', key] key"

definition client_Incr where
  "client_Incr w key = client_do w (OpIncr key) [''incr'', key] key"

definition client_Decr where
  "client_Decr w key = client_do w (OpDecr key) [''decr'', key] key"

section \<open>Hashes, sets and lists\<close>

definition client_HGet where
  "client_HGet w key field = client_do w (OpHGet key field) [''hget'', key, field] key"

definition client_HSet where
  "client_HSet w key values = client_do w (OpHSet key values) ([''hset'', key] @ values) key"

definition client_HGetAll where
  "client_HGetAll w key = client_do w (OpHGetAll key) [''hgetall'', key] key"

definition client_HDel where
  "client_HDel w key flds = client_do w (OpHDel key flds) ([''hdel'', key] @ flds) key"

definition client_SAdd where
  "client_SAdd w key members = client_do w (OpSAdd key members) ([''sadd'', key] @ members) key"

definition client_SMembers where
  "client_SMembers w key = client_do w (OpSMembers key) [''smembers'', key] key"

definition client_SRem where
  "client_SRem w key members = client_do w (OpSRem key members) ([''srem'', key] @ members) key"

definition client_SCard where
  "client_SCard w key = client_do w (OpSCard key) [''scard'', key] key"

definition client_LPush where
  "client_LPush w key values = client_do w (OpLPush key values) ([''lpush'', key] @ values) key"

definition client_RPop where
  "client_RPop w key = client_do w (OpRPop key) [''rpop'', key] key"

definition client_LLen where
  "client_LLen w key = client_do w (OpLLen key) [''llen'', key] key"

section \<open>The whole database\<close>

definition client_Ping where
  "client_Ping w = client_do w OpPing [''ping''] []"

definition client_Keys where
  "client_Keys w pattern = client_do w (OpKeys pattern) [''keys'', pattern] []"

definition client_FlushDB where
  "client_FlushDB w = client_do w OpFlushDB [''flushdb''] []"

text \<open>\<^verbatim>\<open>Pipeline\<close> and \<^verbatim>\<open>TxPipeline\<close>: the client the pipeline is opened on.\<close>

definition client_Pipeline :: "nat \<Rightarrow> redis_adapter \<Rightarrow> nat option outcome \<times> redis_adapter" where
  "client_Pipeline r a =
     (case ra_primaryClient a of
        Some c \<Rightarrow> (Ret (Some c), a)
      | None \<Rightarrow>
          (let (o1, a') = redis_GetHealthyNode r a
           in (bind_outcome o1 (\<lambda>node. Ret (case node of None \<Rightarrow> None | Some i \<Rightarrow> rn_client (ra_nodes a' ! i))), a')))"

definition client_TxPipeline :: "nat \<Rightarrow> redis_adapter \<Rightarrow> nat option outcome \<times> redis_adapter" where
  "client_TxPipeline r a = client_Pipeline r a"

definition client_Close :: "(nat \<Rightarrow> string option) \<Rightarrow> redis_adapter \<Rightarrow> string list outcome" where
  "client_Close closeErr a = redis_close_nodes closeErr (ra_nodes a)"

section \<open>Facts\<close>

lemma redis_select_frame [simp]:
  "ra_nodes (snd (redis_selectNode r key a)) = ra_nodes a"
  "ra_config (snd (redis_selectNode r key a)) = ra_config a"
  by (simp_all add: redis_selectNode_def split_beta Let_def split: outcome.split)

text \<open>No mutex is held for ever.\<close>

definition redis_unlocked :: "redis_adapter \<Rightarrow> bool" where
  "redis_unlocked a \<longleftrightarrow> \<not> ra_locked a \<and> list_all (\<lambda>n. \<not> rn_locked n) (ra_nodes a)"

lemma redis_unlocked_index [simp]: "redis_unlocked (a\<lparr>ra_nodeIndex := k\<rparr>) = redis_unlocked a"
  by (simp add: redis_unlocked_def)

lemma redis_healthy_unlocked:
  "redis_unlocked a \<Longrightarrow> redis_healthy a = Ret (positions redis_usable (ra_nodes a))"
  by (simp add: redis_unlocked_def redis_healthy_def redis_getHealthyNodes_def list_ex_iff list_all_iff)

lemma redis_select_locked:
  "\<not> redis_unlocked a \<Longrightarrow> redis_selectNode r key a = (Block, a)"
  by (auto simp: redis_selectNode_def redis_healthy_def redis_unlocked_def redis_getHealthyNodes_def
      list_ex_iff list_all_iff)

text \<open>Under the hash strategy a key always selects the same node while the healthy nodes stay the same.\<close>

definition hash_node :: "string \<Rightarrow> redis_node list \<Rightarrow> nat" where
  "hash_node key ns = (let hs = positions redis_usable ns
     in hs ! unat (fnv32a key mod word_of_nat (length hs)))"

lemma redis_select_hash:
  "rc_LoadBalanceStrategy (ra_config a) = ''hash'' \<Longrightarrow> key \<noteq> [] \<Longrightarrow>
     redis_unlocked a \<Longrightarrow> list_ex redis_usable (ra_nodes a) \<Longrightarrow>
     redis_selectNode r key a = (Ret (Some (hash_node key (ra_nodes a))), a)"
  by (auto simp: redis_selectNode_def redis_healthy_unlocked balance_def hash_node_def Let_def
      positions_Nil_iff list_ex_iff)

lemma redis_select_rr:
  "rc_LoadBalanceStrategy (ra_config a) \<noteq> ''random'' \<Longrightarrow> key = [] \<or> rc_LoadBalanceStrategy (ra_config a) \<noteq> ''hash'' \<Longrightarrow>
     redis_unlocked a \<Longrightarrow> list_ex redis_usable (ra_nodes a) \<Longrightarrow>
     0 \<le> ra_nodeIndex a \<Longrightarrow> ra_nodeIndex a < max_int64 \<Longrightarrow>
     redis_selectNode r key a =
       (Ret (Some (positions redis_usable (ra_nodes a)
          ! nat ((ra_nodeIndex a + 1) mod int (length (positions redis_usable (ra_nodes a)))))),
        a\<lparr>ra_nodeIndex := ra_nodeIndex a + 1\<rparr>)"
proof -
  assume a: "rc_LoadBalanceStrategy (ra_config a) \<noteq> ''random''"
    "key = [] \<or> rc_LoadBalanceStrategy (ra_config a) \<noteq> ''hash''"
    "redis_unlocked a" "list_ex redis_usable (ra_nodes a)"
    "0 \<le> ra_nodeIndex a" "ra_nodeIndex a < max_int64"
  then have "positions redis_usable (ra_nodes a) \<noteq> []" by (auto simp: positions_Nil_iff list_ex_iff)
  with a show ?thesis
    by (auto simp: redis_selectNode_def redis_healthy_unlocked balance_def rr_next_ok)
qed

lemma redis_hash_node_usable:
  assumes "list_ex redis_usable ns" and "length ns < 2 ^ 32"
  shows "hash_node key ns < length ns \<and> redis_usable (ns ! hash_node key ns)"
proof -
  let ?hs = "positions redis_usable ns"
  have ne: "0 < length ?hs" using assms(1) by (auto simp: positions_Nil_iff list_ex_iff)
  have "length ?hs \<le> length ns" by (simp add: positions_def le_trans [OF length_filter_le])
  then have "fst (balance ''hash'' 0 ''x'' (length ?hs) 0) = Ret (unat (fnv32a ''x'' mod word_of_nat (length ?hs)))"
    "unat (h mod word_of_nat (length ?hs)) < length ?hs" for h :: "32 word"
    using ne assms(2) by (simp_all add: balance_def unat_mod unat_of_nat)
  then have "hash_node key ns \<in> set ?hs" unfolding hash_node_def Let_def by (intro nth_mem) blast
  then show ?thesis by simp
qed

text \<open>The loop never runs an operation twice on a node, and at most once per attempt.\<close>

lemma redis_retry_loop_tried:
  "redis_retry_loop env key attempt tried val k a = (Ret (err, v, tried'), a') \<Longrightarrow> distinct tried \<Longrightarrow>
     distinct tried' \<and> length tried' \<le> length tried + k"
proof (induction k arbitrary: attempt tried val a)
  case (Suc k)
  obtain o1 a1 where s: "redis_selectNode (re_rand env attempt) key a = (o1, a1)" by fastforce
  show ?case
  proof (cases o1)
    case (Ret node)
    show ?thesis
    proof (cases node)
      case None
      with Suc.prems s Ret show ?thesis by simp
    next
      case (Some i)
      show ?thesis
      proof (cases "i \<in> set tried")
        case True
        with Suc.prems(1) s Ret Some
        have "redis_retry_loop env key (Suc attempt) tried val k a1 = (Ret (err, v, tried'), a')" by simp
        from Suc.IH [OF this Suc.prems(2)] show ?thesis by simp
      next
        case False
        then have d: "distinct (tried @ [i])" using Suc.prems(2) by simp
        have step: "redis_retry_loop env key (Suc attempt) (tried @ [i]) w k b = (Ret (err, v, tried'), a') \<Longrightarrow>
            ?thesis" for w b
          using Suc.IH [OF _ d] by force
        obtain x e where x: "redis_executeOnNode env attempt (ra_nodes a1 ! i) = (x, e)" by fastforce
        show ?thesis
          using Suc.prems(1) s Ret Some False x d step
          by (auto simp: Let_def split: option.split_asm redis_error.split_asm if_split_asm outcome.split_asm)
      qed
    qed
  qed (use Suc.prems s in simp_all)
qed simp

interpretation redis_balance: balanced_pool "\<lambda>a :: redis_adapter. redis_selectNode r [] a"
  "\<lambda>a :: redis_adapter. map Some (positions redis_usable (ra_nodes a))" ra_nodeIndex
  "\<lambda>a :: redis_adapter. rc_LoadBalanceStrategy (ra_config a) \<noteq> ''random'' \<and> redis_unlocked a
     \<and> list_ex redis_usable (ra_nodes a) \<and> 0 \<le> ra_nodeIndex a"
  for r
proof
  fix s :: redis_adapter assume s: "rc_LoadBalanceStrategy (ra_config s) \<noteq> ''random'' \<and> redis_unlocked s
     \<and> list_ex redis_usable (ra_nodes s) \<and> 0 \<le> ra_nodeIndex s"
  then show ne: "map Some (positions redis_usable (ra_nodes s)) \<noteq> []"
    by (auto simp: positions_Nil_iff list_ex_iff)
  show "0 \<le> ra_nodeIndex s" using s by simp
  assume c: "ra_nodeIndex s < max_int64"
  let ?hs = "positions redis_usable (ra_nodes s)"
  have "nat ((ra_nodeIndex s + 1) mod int (length ?hs)) < length ?hs" using ne by (simp add: nat_less_iff)
  then show "\<exists>s'. redis_selectNode r [] s = (Ret (map Some ?hs ! nat ((ra_nodeIndex s + 1) mod
        int (length (map Some ?hs)))), s') \<and>
      (rc_LoadBalanceStrategy (ra_config s') \<noteq> ''random'' \<and> redis_unlocked s'
        \<and> list_ex redis_usable (ra_nodes s') \<and> 0 \<le> ra_nodeIndex s') \<and>
      ra_nodeIndex s' = ra_nodeIndex s + 1 \<and> map Some (positions redis_usable (ra_nodes s')) = map Some ?hs"
    using s c redis_select_rr [of s "[]" r] by simp
qed

end
