(* ===== verification/Redis_Theorems.thy ===== *)
theory Redis_Theorems
  imports Redis_Client
begin

text \<open>
  Properties of the Redis cluster: retries, routing, health checks, configuration, metrics.
\<close>

section \<open>Retries\<close>

text \<open>What one call may do to the nodes: keep their number and clients, only lose usable ones.\<close>

definition redis_shrinks :: "redis_adapter \<Rightarrow> redis_adapter \<Rightarrow> bool" where
  "redis_shrinks a b \<longleftrightarrow> length (ra_nodes b) = length (ra_nodes a) \<and> ra_config b = ra_config a
     \<and> (\<forall>i<length (ra_nodes a). rn_client (ra_nodes b ! i) = rn_client (ra_nodes a ! i)
          \<and> (redis_usable (ra_nodes b ! i) \<longrightarrow> redis_usable (ra_nodes a ! i)))"

lemma redis_shrinks_refl [simp]: "redis_shrinks a a"
  by (simp add: redis_shrinks_def)

lemma redis_shrinks_trans: "redis_shrinks a b \<Longrightarrow> redis_shrinks b c \<Longrightarrow> redis_shrinks a c"
  by (simp add: redis_shrinks_def)

lemma redis_shrinks_select: "redis_selectNode r key a = (o1, b) \<Longrightarrow> redis_shrinks a b"
  using redis_select_frame [of r key a] by (simp add: redis_shrinks_def)

lemma redis_shrinks_set:
  "(\<And>n. rn_client (f n) = rn_client n \<and> (redis_usable (f n) \<longrightarrow> redis_usable n)) \<Longrightarrow>
     redis_shrinks a (redis_set_node i f a)"
  by (cases "i < length (ra_nodes a)")
     (auto simp: redis_shrinks_def redis_set_node_def nth_list_update list_update_beyond)

lemma redis_shrinks_count: "redis_shrinks a (redis_set_node i (\<lambda>n. n\<lparr>rn_opsCount := f n\<rparr>) a)"
  by (rule redis_shrinks_set) (simp add: redis_usable_def)

lemma redis_shrinks_degrade:
  "redis_shrinks a (redis_set_node i (\<lambda>n. redis_checkNodeDegradation c (n\<lparr>rn_errorCount := f n\<rparr>)) a)"
  by (rule redis_shrinks_set) (simp add: redis_usable_def redis_checkNodeDegradation_def)

lemma redis_select_usable:
  assumes "redis_selectNode r key a = (Ret (Some i), b)" and "length (ra_nodes a) < 2 ^ 32"
  shows "i < length (ra_nodes a) \<and> redis_usable (ra_nodes a ! i)"
proof -
  let ?hs = "positions redis_usable (ra_nodes a)"
  from assms(1) obtain k where k: "fst (balance (rc_LoadBalanceStrategy (ra_config a)) r key (length ?hs)
      (ra_nodeIndex a)) = Ret k" "i = ?hs ! k" "?hs \<noteq> []"
    by (auto simp: redis_selectNode_def redis_healthy_def redis_getHealthyNodes_def Let_def split_beta bind_outcome_Ret_iff
        split: if_splits)
  have "length ?hs \<le> length (ra_nodes a)" by (simp add: positions_def le_trans [OF length_filter_le])
  then have "k < length ?hs"
    using balance_in_range [OF _ _ k(1)] k(3) assms(2) by simp
  then have "i \<in> set ?hs" unfolding k(2) by (rule nth_mem)
  then show ?thesis by (simp only: positions_mem)
qed

text \<open>
  The outcome of a call, relative to the adapter \<open>a0\<close> it began with: the nodes tried are usable ones,
  and the error is the context's, \<^verbatim>\<open>redis.Nil\<close>, exhaustion, or none, and then the value is the one of an
  execution that returned no error.
\<close>

definition redis_result_ok :: "'v redis_env \<Rightarrow> redis_adapter \<Rightarrow> redis_error option \<Rightarrow> 'v option \<Rightarrow> nat list \<Rightarrow> bool" where
  "redis_result_ok env a0 err v tried \<longleftrightarrow>
     (\<forall>i\<in>set tried. i < length (ra_nodes a0) \<and> redis_usable (ra_nodes a0 ! i))
     \<and> (err = None \<longrightarrow> tried \<noteq> [] \<and> (\<exists>t x c. rn_client (ra_nodes a0 ! last tried) = Some c
          \<and> re_exec env c t = (x, None) \<and> v = Some x))"

lemma redis_retry_loop_ok:
  "redis_retry_loop env key attempt tried val k a = (Ret (err, v, tried'), a') \<Longrightarrow> redis_shrinks a0 a \<Longrightarrow>
     length (ra_nodes a0) < 2 ^ 32 \<Longrightarrow> \<forall>i\<in>set tried. i < length (ra_nodes a0) \<and> redis_usable (ra_nodes a0 ! i) \<Longrightarrow>
     redis_result_ok env a0 err v tried' \<and> redis_shrinks a0 a'"
proof (induction k arbitrary: attempt tried val a)
  case 0
  then show ?case by (auto simp: redis_result_ok_def)
next
  case (Suc k)
  note pre = Suc.prems
  obtain o1 a1 where s: "redis_selectNode (re_rand env attempt) key a = (o1, a1)" by fastforce
  have sh: "redis_shrinks a0 a1" using redis_shrinks_trans [OF pre(2) redis_shrinks_select [OF s]] .
  show ?case
  proof (cases o1)
    case (Ret node)
    show ?thesis
    proof (cases node)
      case None
      with pre s Ret sh show ?thesis by (auto simp: redis_result_ok_def)
    next
      case (Some i)
      have len: "length (ra_nodes a) < 2 ^ 32" "ra_nodes a1 = ra_nodes a"
        using pre(2,3) redis_select_frame(1) [of "re_rand env attempt" key a] s by (simp_all add: redis_shrinks_def)
      have i: "i < length (ra_nodes a0)" "redis_usable (ra_nodes a0 ! i)"
        "rn_client (ra_nodes a1 ! i) = rn_client (ra_nodes a0 ! i)"
        using redis_select_usable [of "re_rand env attempt" key a i a1] s Ret Some len pre(2)
        by (auto simp: redis_shrinks_def)
      then obtain c where c: "rn_client (ra_nodes a0 ! i) = Some c" by (auto simp: redis_usable_def)
      show ?thesis
      proof (cases "i \<in> set tried")
        case True
        with pre(1) s Ret Some
        have "redis_retry_loop env key (Suc attempt) tried val k a1 = (Ret (err, v, tried'), a')" by simp
        from Suc.IH [OF this sh pre(3,4)] show ?thesis .
      next
        case False
        have t: "\<forall>j\<in>set (tried @ [i]). j < length (ra_nodes a0) \<and> redis_usable (ra_nodes a0 ! j)"
          using i pre(4) by auto
        obtain x e where x: "re_exec env c attempt = (x, e)" by fastforce
        then have ex: "redis_executeOnNode env attempt (ra_nodes a1 ! i) = (Some x, e)"
          using i(3) c by (simp add: redis_executeOnNode_def)
        let ?a' = "redis_set_node i (\<lambda>n. redis_checkNodeDegradation (ra_config a1)
                           (n\<lparr>rn_errorCount := wrap64 (rn_errorCount n + 1)\<rparr>)) a1"
        note sd = redis_shrinks_trans [OF sh redis_shrinks_degrade]
          and sc = redis_shrinks_trans [OF sh redis_shrinks_count]
        have step: "redis_retry_loop env key (Suc attempt) (tried @ [i]) w k ?a' = (Ret (err, v, tried'), a') \<Longrightarrow>
            ?thesis" for w
          by (rule Suc.IH [OF _ sd pre(3) t])
        have okN: "redis_result_ok env a0 (Some e') w (tried @ [i])" for e' w
          using t unfolding redis_result_ok_def by blast
        have ok: "e = None \<Longrightarrow> redis_result_ok env a0 None (Some x) (tried @ [i])"
          using t x c unfolding redis_result_ok_def by auto
        show ?thesis
          using pre(1) s Ret Some False ex step okN ok sd sc sh
          by (auto simp: Let_def split: option.split_asm redis_error.split_asm if_split_asm outcome.split_asm)
      qed
    qed
  qed (use Suc.prems s in simp_all)
qed

text \<open>C19: \<^verbatim>\<open>ExecuteWithRetry\<close> runs the operation at most once per node and at most \<^verbatim>\<open>MaxRetries+1\<close> times, only on
  nodes that were healthy when it started; no error means that the operation succeeded on the last
  node tried and the command holds its value.\<close>

theorem redis_each_node_at_most_once:
  assumes "ExecuteWithRetry env key a = (Ret (err, v, tried), a')" and "length (ra_nodes a) < 2 ^ 32"
  shows "distinct tried \<and> length tried \<le> nat (rc_MaxRetries (ra_config a) + 1)
    \<and> (\<forall>i\<in>set tried. i < length (ra_nodes a) \<and> redis_usable (ra_nodes a ! i))
    \<and> (err = None \<longrightarrow> tried \<noteq> [] \<and> (\<exists>t x c. rn_client (ra_nodes a ! last tried) = Some c
          \<and> re_exec env c t = (x, None) \<and> v = Some x))"
  using redis_retry_loop_ok [OF assms(1) [unfolded ExecuteWithRetry_def] redis_shrinks_refl assms(2)]
    redis_retry_loop_tried [OF assms(1) [unfolded ExecuteWithRetry_def]]
  by (simp add: redis_result_ok_def)

definition redis_demo_config :: redis_config where
  "redis_demo_config = (redis_setDefaults redis_zero_config)\<lparr>rc_NodeURLs := [''redis://a'', ''redis://b''],
     rc_ServiceName := ''svc'', rc_LoadBalanceStrategy := ''round_robin''\<rparr>"

definition redis_demo_node :: "nat \<Rightarrow> redis_node" where
  "redis_demo_node c = (redis_new_node 0 c ''redis://a'')\<lparr>rn_client := Some c, rn_state := NodeHealthy\<rparr>"

definition redis_demo :: "string \<Rightarrow> redis_adapter" where
  "redis_demo strategy = \<lparr>ra_config = redis_demo_config\<lparr>rc_LoadBalanceStrategy := strategy\<rparr>,
     ra_nodes = [redis_demo_node 0, redis_demo_node 1], ra_nodeIndex = 0, ra_primaryClient = Some 0, ra_locked = False\<rparr>"

definition redis_demo_env :: "nat redis_env" where
  "redis_demo_env = \<lparr>re_exec = (\<lambda>c t. (c, if c = 1 then Some (RedisErr ''refused'') else None)),
     re_rand = (\<lambda>_. 0), re_jitter = (\<lambda>_. 0), re_cancel = (\<lambda>_. None)\<rparr>"

lemma redis_demo_run:
  "fst (ExecuteWithRetry redis_demo_env [] (redis_demo ''round_robin'')) = Ret (None, Some 0, [1, 0])"
  by code_simp

theorem redis_each_node_at_most_once_witness:
  "distinct [1::nat, 0] \<and> redis_usable (ra_nodes (redis_demo ''round_robin'') ! 1)"
proof -
  obtain a' where "ExecuteWithRetry redis_demo_env [] (redis_demo ''round_robin'') = (Ret (None, Some 0, [1, 0]), a')"
    using redis_demo_run by (metis prod.collapse)
  from redis_each_node_at_most_once [OF this] show ?thesis by (simp add: redis_demo_def)
qed

section \<open>Routing by hash\<close>

lemma positions_update_same:
  "p y = p (xs ! i) \<Longrightarrow> positions p (xs[i := y]) = positions p xs"
  by (cases "i < length xs") (auto simp: positions_def nth_list_update intro!: filter_cong)

text \<open>Once the node of the key was tried the loop only counts attempts.\<close>

lemma redis_hash_exhausts:
  "rc_LoadBalanceStrategy (ra_config a) = ''hash'' \<Longrightarrow> key \<noteq> [] \<Longrightarrow>
     redis_unlocked a \<Longrightarrow> list_ex redis_usable (ra_nodes a) \<Longrightarrow>
     hash_node key (ra_nodes a) \<in> set tried \<Longrightarrow>
     redis_retry_loop env key t tried val k a =
       (Ret (Some (RedisErr (''redis operation failed after '' @ itoa (rc_MaxRetries (ra_config a) + 1)
          @ '' attempts'')), val, tried), a)"
  by (induction k arbitrary: t) (simp_all add: redis_select_hash)

lemma redis_hash_one_failure:
  fixes a :: redis_adapter and env :: "'v redis_env" and key :: string
  defines "i \<equiv> hash_node key (ra_nodes a)"
  assumes cfg: "rc_LoadBalanceStrategy (ra_config a) = ''hash''" "key \<noteq> []" "0 < rc_MaxRetries (ra_config a)"
    and nodes: "redis_unlocked a" "list_ex redis_usable (ra_nodes a)"
      "length (ra_nodes a) < 2 ^ 32"
    and fails: "rn_client (ra_nodes a ! i) = Some c" "re_exec env c 0 = (x, Some (RedisErr e))"
    and below: "wrap64 (rn_errorCount (ra_nodes a ! i) + 1) < rc_CircuitBreakerThreshold (ra_config a)"
    and wait: "redis_calculateBackoff (ra_config a) (re_jitter env 0) 0 = Ret d" "re_cancel env 0 = None"
  shows "\<exists>a'. ExecuteWithRetry env key a =
    (Ret (Some (RedisErr (''redis operation failed after '' @ itoa (rc_MaxRetries (ra_config a) + 1)
       @ '' attempts'')), Some x, [i]), a')"
proof -
  let ?a = "redis_set_node i (\<lambda>n. redis_checkNodeDegradation (ra_config a)
     (n\<lparr>rn_errorCount := wrap64 (rn_errorCount n + 1)\<rparr>)) a"
  let ?n = "(ra_nodes a ! i)\<lparr>rn_errorCount := wrap64 (rn_errorCount (ra_nodes a ! i) + 1)\<rparr>"
  have i: "i < length (ra_nodes a)" "redis_usable (ra_nodes a ! i)"
    using redis_hash_node_usable [OF nodes(2,3)] by (simp_all add: i_def)
  have upd: "?a = a\<lparr>ra_nodes := (ra_nodes a)[i := ?n]\<rparr>"
    using below by (simp add: redis_set_node_def redis_checkNodeDegradation_def)
  have u: "redis_usable ?n = redis_usable (ra_nodes a ! i)" by (simp add: redis_usable_def)
  have pos: "positions redis_usable (ra_nodes ?a) = positions redis_usable (ra_nodes a)"
    unfolding upd using positions_update_same [OF u] by simp
  have "hash_node key (ra_nodes ?a) \<in> set [i]" unfolding hash_node_def pos by (simp add: i_def hash_node_def)
  moreover have "redis_unlocked ?a"
    using nodes(1) i(1) unfolding upd by (auto simp: redis_unlocked_def list_all_length nth_list_update)
  moreover have "list_ex redis_usable (ra_nodes ?a)"
  proof -
    have "i \<in> set (positions redis_usable (ra_nodes ?a))" unfolding pos using i by simp
    then show ?thesis unfolding positions_mem list_ex_length by blast
  qed
  moreover have "ra_config ?a = ra_config a" by (simp add: upd)
  ultimately have ex: "redis_retry_loop env key (Suc 0) [i] (Some x) k ?a =
      (Ret (Some (RedisErr (''redis operation failed after '' @ itoa (rc_MaxRetries (ra_config a) + 1)
        @ '' attempts'')), Some x, [i]), ?a)" for k
    using redis_hash_exhausts [of ?a key "[i]" env] cfg(1,2) by simp
  have r: "nat (rc_MaxRetries (ra_config a) + 1) = Suc (nat (rc_MaxRetries (ra_config a)))"
    using cfg(3) by simp
  have sel: "redis_selectNode r' key a = (Ret (Some i), a)" for r'
    unfolding i_def by (rule redis_select_hash [OF cfg(1,2) nodes(1,2)])
  have run: "redis_executeOnNode env 0 (ra_nodes a ! i) = (Some x, Some (RedisErr e))"
    using fails by (simp add: redis_executeOnNode_def)
  show ?thesis
    using cfg(3) wait ex unfolding ExecuteWithRetry_def r by (simp add: sel run Let_def)
qed

text \<open>Under the hash strategy a keyed operation that fails is not tried on another node: while the failing
  node has not reached the error threshold, the remaining attempts select the same node again and
  skip it, and the call reports exhaustion after one execution, whatever the other nodes would answer.\<close>

theorem redis_hash_has_no_failover:
  fixes env :: "'v redis_env"
  assumes "rc_LoadBalanceStrategy (ra_config a) = ''hash''" "key \<noteq> []" "0 < rc_MaxRetries (ra_config a)"
    and "redis_unlocked a" "list_ex redis_usable (ra_nodes a)"
      "length (ra_nodes a) < 2 ^ 32"
    and "rn_client (ra_nodes a ! hash_node key (ra_nodes a)) = Some c" "re_exec env c 0 = (x, Some (RedisErr e))"
    and "wrap64 (rn_errorCount (ra_nodes a ! hash_node key (ra_nodes a)) + 1)
      < rc_CircuitBreakerThreshold (ra_config a)"
    and "redis_calculateBackoff (ra_config a) (re_jitter env 0) 0 = Ret d" "re_cancel env 0 = None"
  shows "\<exists>a' err. ExecuteWithRetry env key a =
    (Ret (Some (RedisErr err), Some x, [hash_node key (ra_nodes a)]), a')"
  using redis_hash_one_failure [OF assms] by blast

lemma redis_demo_hash: "hash_node ''a'' (ra_nodes (redis_demo s)) = 0"
  by (simp add: redis_demo_def) code_simp

definition redis_demo_env0 :: "nat redis_env" where
  "redis_demo_env0 = \<lparr>re_exec = (\<lambda>c t. (c, if c = 0 then Some (RedisErr ''refused'') else None)),
     re_rand = (\<lambda>_. 0), re_jitter = (\<lambda>_. 0), re_cancel = (\<lambda>_. None)\<rparr>"

theorem redis_hash_has_no_failover_witness:
  "\<exists>a' err. ExecuteWithRetry redis_demo_env0 ''a'' (redis_demo ''hash'') = (Ret (Some (RedisErr err), Some 0, [0]), a')"
proof -
  let ?a = "redis_demo ''hash''"
  have b: "redis_calculateBackoff (ra_config ?a) (re_jitter redis_demo_env0 0) 0 = Ret (1 * second)"
    by code_simp
  have "rc_LoadBalanceStrategy (ra_config ?a) = ''hash''" "''a'' \<noteq> []" "0 < rc_MaxRetries (ra_config ?a)"
    "redis_unlocked ?a" "list_ex redis_usable (ra_nodes ?a)"
    "rn_client (ra_nodes ?a ! hash_node ''a'' (ra_nodes ?a)) = Some 0"
    "re_exec redis_demo_env0 0 0 = (0, Some (RedisErr ''refused''))"
    "wrap64 (rn_errorCount (ra_nodes ?a ! hash_node ''a'' (ra_nodes ?a)) + 1)
      < rc_CircuitBreakerThreshold (ra_config ?a)" "re_cancel redis_demo_env0 0 = None"
    unfolding redis_demo_hash by code_simp+
  note f = this
  have "length (ra_nodes ?a) < 2 ^ 32" by (simp add: redis_demo_def)
  from redis_hash_has_no_failover [OF f(1-5) this f(6-8) b f(9)] show ?thesis unfolding redis_demo_hash .
qed

section \<open>Keys are not passed to Del\<close>

text \<open>Under the hash strategy \<^verbatim>\<open>Del\<close> passes no routing key: the client that runs it is the next one in
  round-robin order, while \<^verbatim>\<open>Get\<close> and \<^verbatim>\<open>Set\<close> of the same key go to the node of the key's hash; a
  deletion can be answered by a node that does not hold the key.\<close>

theorem redis_Del_ignores_hash:
  fixes w :: "'v redis_world"
  assumes "rc_LoadBalanceStrategy (ra_config a) = ''hash''" and "key \<noteq> []" and "0 \<le> rc_MaxRetries (ra_config a)"
    and "redis_unlocked a" and "list_ex redis_usable (ra_nodes a)"
    and "0 \<le> ra_nodeIndex a" and "ra_nodeIndex a < max_int64" and "length (ra_nodes a) < 2 ^ 32"
    and serve: "\<And>x c t. snd (rw_serve w x c t) = None"
  shows "\<exists>cmd cmd' a' a''. client_Get w key a = (Ret (cmd, [hash_node key (ra_nodes a)]), a')
    \<and> client_Del w [key] a = (Ret (cmd', [positions redis_usable (ra_nodes a)
          ! nat ((ra_nodeIndex a + 1) mod int (length (positions redis_usable (ra_nodes a))))]), a'')"
proof -
  have r: "nat (rc_MaxRetries (ra_config a) + 1) = Suc (nat (rc_MaxRetries (ra_config a)))"
    using assms(3) by simp
  let ?hs = "positions redis_usable (ra_nodes a)"
  let ?j = "?hs ! nat ((ra_nodeIndex a + 1) mod int (length ?hs))"
  have one: "\<exists>b v. ExecuteWithRetry (client_env w x) k a = (Ret (None, v, [i]), b)"
    if "redis_selectNode (rw_rand w 0) k a = (Ret (Some i), a1)" "rn_client (ra_nodes a ! i) \<noteq> None" for x k i a1
  proof -
    have n: "ra_nodes a1 = ra_nodes a" using redis_select_frame(1) [of "rw_rand w 0" k a] that(1) by simp
    from that(2) obtain c where c: "rn_client (ra_nodes a ! i) = Some c" by auto
    obtain v where v: "rw_serve w x c 0 = (v, None)" using serve [of x c 0] by (metis prod.collapse)
    have "redis_executeOnNode (client_env w x) 0 (ra_nodes a1 ! i) = (Some v, None)"
      by (simp add: redis_executeOnNode_def n c client_env_def v)
    with that(1) show ?thesis unfolding ExecuteWithRetry_def r by (simp add: client_env_def)
  qed
  have g: "redis_selectNode (rw_rand w 0) key a = (Ret (Some (hash_node key (ra_nodes a))), a)"
    by (rule redis_select_hash [OF assms(1,2,4,5)])
  have d: "redis_selectNode (rw_rand w 0) [] a = (Ret (Some ?j), a\<lparr>ra_nodeIndex := ra_nodeIndex a + 1\<rparr>)"
    using redis_select_rr [of a "[]"] assms(1,4-7) by simp
  have "redis_usable (ra_nodes a ! ?j)"
    using redis_select_usable [OF d assms(8)] by simp
  then have "rn_client (ra_nodes a ! ?j) \<noteq> None" by (simp add: redis_usable_def)
  from one [OF d this] obtain b v where D: "ExecuteWithRetry (client_env w (OpDel [key])) [] a = (Ret (None, v, [?j]), b)"
    by blast
  have "rn_client (ra_nodes a ! hash_node key (ra_nodes a)) \<noteq> None"
    using redis_hash_node_usable [OF assms(5,8)] by (simp add: redis_usable_def)
  from one [OF g this] obtain b' v' where
    "ExecuteWithRetry (client_env w (OpGet key)) key a = (Ret (None, v', [hash_node key (ra_nodes a)]), b')" by blast
  with D show ?thesis by (simp add: client_Get_def client_Del_def client_do_def)
qed

definition redis_demo_world :: "nat redis_world" where
  "redis_demo_world = \<lparr>rw_serve = (\<lambda>x c t. (c, None)), rw_rand = (\<lambda>_. 0), rw_jitter = (\<lambda>_. 0), rw_cancel = (\<lambda>_. None)\<rparr>"

theorem redis_Del_ignores_hash_witness:
  "\<exists>cmd cmd' a' a''. client_Get redis_demo_world ''a'' (redis_demo ''hash'') = (Ret (cmd, [0]), a')
    \<and> client_Del redis_demo_world [''a''] (redis_demo ''hash'') = (Ret (cmd', [1]), a'')"
proof -
  let ?a = "redis_demo ''hash''"
  have "rc_LoadBalanceStrategy (ra_config ?a) = ''hash''" "''a'' \<noteq> []" "0 \<le> rc_MaxRetries (ra_config ?a)"
    "redis_unlocked ?a" "list_ex redis_usable (ra_nodes ?a)" "0 \<le> ra_nodeIndex ?a" "ra_nodeIndex ?a < max_int64"
    by code_simp+
  note f = this
  have "length (ra_nodes ?a) < 2 ^ 32" "\<And>x c t. snd (rw_serve redis_demo_world x c t) = None"
    by (simp_all add: redis_demo_def redis_demo_world_def)
  note r = redis_Del_ignores_hash [OF f this]
  have p: "positions redis_usable (ra_nodes ?a) = [0, 1]" "ra_nodeIndex ?a = 0" by code_simp+
  from r show ?thesis unfolding redis_demo_hash p by simp
qed

section \<open>Health checks\<close>

text \<open>What may happen to the adapter while it runs.\<close>

inductive redis_step :: "redis_adapter \<Rightarrow> redis_adapter \<Rightarrow> bool" where
  execute: "redis_step a (snd (ExecuteWithRetry (env :: string redis_env) key a))"
| check_node: "i < length (ra_nodes a) \<Longrightarrow> redis_step a (snd (redis_checkNodeHealth p i a))"
| mark_failed: "redis_step a (snd (redis_MarkNodeFailed url a))"
| pick: "redis_step a (snd (redis_GetNodeByKey r key a))"

lemma redis_locked_execute:
  "\<not> redis_unlocked a \<Longrightarrow> 0 \<le> rc_MaxRetries (ra_config a) \<Longrightarrow> ExecuteWithRetry env key a = (Block, a)"
proof -
  assume a: "\<not> redis_unlocked a" "0 \<le> rc_MaxRetries (ra_config a)"
  have r: "nat (rc_MaxRetries (ra_config a) + 1) = Suc (nat (rc_MaxRetries (ra_config a)))"
    using a(2) by simp
  show ?thesis unfolding ExecuteWithRetry_def r by (simp add: redis_select_locked [OF a(1)])
qed

text \<open>A locked adapter stays locked: every step changes at most one node and never releases.\<close>

lemma redis_set_node_locked:
  "\<not> redis_unlocked a \<Longrightarrow> rn_locked (ra_nodes a ! i) \<longrightarrow> rn_locked (f (ra_nodes a ! i)) \<Longrightarrow>
     \<not> redis_unlocked (redis_set_node i f a)"
  by (cases "i < length (ra_nodes a)")
     (auto simp: redis_unlocked_def redis_set_node_def list_all_length nth_list_update list_update_beyond)

lemma redis_connect_locked:
  "rn_locked (snd (redis_connectToNode d n)) = rn_locked n"
  by (simp add: redis_connectToNode_def split: option.split)

lemma redis_set_node_idem: "f (ra_nodes a ! i) = ra_nodes a ! i \<Longrightarrow> redis_set_node i f a = a"
  by (simp add: redis_set_node_def)

lemma redis_updatePrimary_locked:
  "\<not> redis_unlocked a \<Longrightarrow> \<not> redis_unlocked (snd (redis_updatePrimaryClient me a))
    \<and> ra_config (snd (redis_updatePrimaryClient me a)) = ra_config a
    \<and> ra_nodes (snd (redis_updatePrimaryClient me a)) = ra_nodes a"
  by (auto simp: redis_updatePrimaryClient_def redis_unlocked_def split: outcome.split bool.split)

lemma redis_set_node_config [simp]: "ra_config (redis_set_node i f a) = ra_config a"
  by (simp add: redis_set_node_def)

lemma redis_updatePrimary_config: "redis_updatePrimaryClient me a = (r, b) \<Longrightarrow> ra_config b = ra_config a"
  by (auto simp: redis_updatePrimaryClient_def split: outcome.split_asm bool.split_asm if_split_asm)

lemma redis_check_config: "ra_config (snd (redis_checkNodeHealth p i a)) = ra_config a"
  by (auto simp: redis_checkNodeHealth_def Let_def dest: redis_updatePrimary_config
      split: option.split NodeState.split outcome.split prod.split)

lemma redis_check_locked:
  assumes "\<not> redis_unlocked a"
  shows "\<not> redis_unlocked (snd (redis_checkNodeHealth p i a))"
proof (cases "rn_locked (ra_nodes a ! i)")
  case True
  then show ?thesis using assms by (simp add: redis_checkNodeHealth_def)
next
  case False
  then have put: "\<not> redis_unlocked (redis_set_node i f a)" for f
    using assms by (simp add: redis_set_node_locked)
  have lock: "\<not> redis_unlocked b \<Longrightarrow> \<not> redis_unlocked (redis_set_node i (\<lambda>n. n\<lparr>rn_locked := True\<rparr>) b)" for b
    by (rule redis_set_node_locked) simp_all
  have tail: "\<not> redis_unlocked (snd (case redis_updatePrimaryClient i (redis_set_node i (\<lambda>_. n) a) of
      (Ret _, a') \<Rightarrow> (Ret (), a') | (Panic m, a') \<Rightarrow> (Panic m, a')
    | (Block, a') \<Rightarrow> (Block, redis_set_node i (\<lambda>n. n\<lparr>rn_locked := True\<rparr>) a')))" for n
  proof -
    obtain r a' where "redis_updatePrimaryClient i (redis_set_node i (\<lambda>_. n) a) = (r, a')" by fastforce
    then show ?thesis
      using redis_updatePrimary_locked [OF put, of i "\<lambda>_. n"] lock [of a'] by (cases r) simp_all
  qed
  have recon: "\<not> redis_unlocked (snd (case redis_connectToNode d n of
      (Ret _, n') \<Rightarrow> (Ret (), redis_set_node i (\<lambda>_. n'\<lparr>rn_locked := False\<rparr>) a)
    | (Panic m, n') \<Rightarrow> (Panic m, redis_set_node i (\<lambda>_. n'\<lparr>rn_locked := False\<rparr>) a)
    | (Block, n') \<Rightarrow> (Block, redis_set_node i (\<lambda>_. n') a)))" for d n
    by (cases "redis_connectToNode d n"; cases "fst (redis_connectToNode d n)") (simp_all add: put)
  show ?thesis
    using assms False put tail recon
    by (simp add: redis_checkNodeHealth_def Let_def split: option.split NodeState.split)
qed

lemma redis_step_locked:
  "redis_step a b \<Longrightarrow> \<not> redis_unlocked a \<and> 0 \<le> rc_MaxRetries (ra_config a) \<Longrightarrow>
     \<not> redis_unlocked b \<and> 0 \<le> rc_MaxRetries (ra_config b)"
proof (induction rule: redis_step.induct)
  case (mark_failed a url)
  then show ?case
    by (auto simp: redis_MarkNodeFailed_def redis_set_node_locked split: option.split)
qed (simp_all add: redis_locked_execute redis_check_locked redis_check_config redis_GetNodeByKey_def redis_select_locked)

interpretation redis_lock: preserved redis_step "\<lambda>a. \<not> redis_unlocked a \<and> 0 \<le> rc_MaxRetries (ra_config a)"
  by unfold_locales (rule redis_step_locked)

lemma redis_check_blocks:
  assumes "i < length (ra_nodes a)" and "\<not> rn_locked (ra_nodes a ! i)"
    and "10 * second \<le> rp_now p - rn_lastCheck (ra_nodes a ! i)"
    and "rn_client (ra_nodes a ! i) = None \<or> rp_ping p \<noteq> None"
  shows "fst (redis_checkNodeHealth p i a) = Block \<and> \<not> redis_unlocked (snd (redis_checkNodeHealth p i a))"
proof -
  have l: "\<not> redis_unlocked (redis_set_node i (\<lambda>_. n) a)" if "rn_locked n" for n
    using that assms(1) by (auto simp: redis_unlocked_def redis_set_node_def list_all_length intro!: exI [of _ i])
  have c: "redis_connectToNode d (n\<lparr>rn_locked := True\<rparr>) = (Block, n\<lparr>rn_locked := True\<rparr>)" for d n
    by (simp add: redis_connectToNode_def)
  show ?thesis
    using assms(2-4) l by (auto simp: redis_checkNodeHealth_def c Let_def split: option.split)
qed

text \<open>A health check that finds a node without client, or whose ping fails, deadlocks on the node's mutex
  (it calls \<^verbatim>\<open>connectToNode\<close> holding it); afterwards, whatever happens, every \<^verbatim>\<open>ExecuteWithRetry\<close> blocks: one
  dead node stops the whole cluster.\<close>

theorem redis_dead_node_stops_cluster:
  assumes "i < length (ra_nodes a)" and "\<not> rn_locked (ra_nodes a ! i)"
    and "10 * second \<le> rp_now p - rn_lastCheck (ra_nodes a ! i)"
    and "rn_client (ra_nodes a ! i) = None \<or> rp_ping p \<noteq> None"
    and "0 \<le> rc_MaxRetries (ra_config a)"
    and "redis_step\<^sup>*\<^sup>* (snd (redis_checkNodeHealth p i a)) b"
  shows "fst (redis_checkNodeHealth p i a) = Block \<and> ExecuteWithRetry env key b = (Block, b)"
proof -
  note blocks = redis_check_blocks [OF assms(1-4)]
  have "\<not> redis_unlocked b \<and> 0 \<le> rc_MaxRetries (ra_config b)"
    using redis_lock.good_steps [OF assms(6)] blocks assms(5) by (simp add: redis_check_config)
  then show ?thesis using blocks redis_locked_execute by blast
qed

definition redis_demo_probe :: redis_probe where
  "redis_demo_probe = \<lparr>rp_now = 60 * second, rp_dial = \<lparr>rd_parse = None, rd_client = 7, rd_ping = None,
     rd_latency = 1, rd_now = 60 * second\<rparr>, rp_ping = Some ''timeout'', rp_latency = 1, rp_elapsed = 0\<rparr>"

theorem redis_dead_node_stops_cluster_witness:
  "fst (ExecuteWithRetry redis_demo_env ''k'' (snd (redis_checkNodeHealth redis_demo_probe 1 (redis_demo ''hash'')))) = Block"
proof -
  have "1 < length (ra_nodes (redis_demo ''hash''))" "\<not> rn_locked (ra_nodes (redis_demo ''hash'') ! 1)"
    "10 * second \<le> rp_now redis_demo_probe - rn_lastCheck (ra_nodes (redis_demo ''hash'') ! 1)"
    "rn_client (ra_nodes (redis_demo ''hash'') ! 1) = None \<or> rp_ping redis_demo_probe \<noteq> None"
    "0 \<le> rc_MaxRetries (ra_config (redis_demo ''hash''))"
    by code_simp+
  from redis_dead_node_stops_cluster [OF this rtranclp.rtrancl_refl, of redis_demo_env "''k''"]
  show ?thesis by simp
qed

section \<open>Configuration and metrics\<close>

text \<open>With \<^verbatim>\<open>REDIS_CLUSTER_NODES\<close> set, \<^verbatim>\<open>REDIS_PASSWORD\<close> is never read: the configuration that loads
  has no password, as the production example, which sets both, would show.\<close>

theorem redis_cluster_nodes_drop_password:
  assumes "getenv e ''REDIS_CLUSTER_NODES'' \<noteq> []" and "redis_LoadConfigFromEnv e svc = Inr c"
  shows "rc_Password c = [] \<and> rc_NodeURLs c = map trimSpace (strSplit (getenv e ''REDIS_CLUSTER_NODES'') '','')"
proof -
  have "redis_loadConnectionURLs e (redis_zero_config\<lparr>rc_ServiceName := svc\<rparr>) =
     Inr (redis_zero_config\<lparr>rc_ServiceName := svc, rc_NodeURLs := map trimSpace (strSplit (getenv e ''REDIS_CLUSTER_NODES'') '','')\<rparr>)"
    using assms(1) by (simp add: redis_loadConnectionURLs_def Let_def)
  then show ?thesis
    using assms(2) unfolding redis_LoadConfigFromEnv_def Let_def
    by (auto simp: redis_settings_frame redis_zero_config_def split: option.split_asm)
qed

definition redis_demo_environ :: environ where
  "redis_demo_environ = map_of [(''REDIS_CLUSTER_NODES'', ''redis://r1:6379/0,redis://r2:6379/0''),
     (''REDIS_PASSWORD'', ''secure_password'')]"

theorem redis_cluster_nodes_drop_password_witness:
  "\<exists>c. redis_LoadConfigFromEnv redis_demo_environ ''svc'' = Inr c \<and> rc_Password c = []"
proof -
  have "getenv redis_demo_environ ''REDIS_CLUSTER_NODES'' \<noteq> []" by code_simp
  moreover have "is_ok (redis_LoadConfigFromEnv redis_demo_environ ''svc'')" by code_simp
  then obtain c where "redis_LoadConfigFromEnv redis_demo_environ ''svc'' = Inr c"
    by (cases "redis_LoadConfigFromEnv redis_demo_environ ''svc''") simp_all
  ultimately show ?thesis using redis_cluster_nodes_drop_password by blast
qed

text \<open>The nodes whose latency counts, and the invariant of the accumulation over them.\<close>

definition latencies :: "redis_node list \<Rightarrow> int list" where
  "latencies ns = filter (\<lambda>l. 0 < l) (map rn_lastLatency ns)"

definition metrics_inv :: "redis_metrics \<times> int \<times> int \<Rightarrow> bool" where
  "metrics_inv = (\<lambda>(m, tot, cnt). 0 \<le> cnt \<and> rm_AverageLatency m = 0 \<and>
     (if cnt = 0 then tot = 0 \<and> rm_MinLatency m = 0 \<and> rm_MaxLatency m = 0
      else 0 < rm_MinLatency m \<and> rm_MinLatency m \<le> rm_MaxLatency m
         \<and> rm_MinLatency m * cnt \<le> tot \<and> tot \<le> rm_MaxLatency m * cnt))"

lemma metrics_step_inv:
  assumes "metrics_inv (m, tot, cnt)" and "0 < rn_lastLatency n" and "0 \<le> tot"
    and "tot + rn_lastLatency n \<le> max_int64"
  shows "metrics_inv (redis_metrics_step n (m, tot, cnt))
    \<and> fst (snd (redis_metrics_step n (m, tot, cnt))) = tot + rn_lastLatency n
    \<and> snd (snd (redis_metrics_step n (m, tot, cnt))) = cnt + 1"
proof -
  let ?l = "rn_lastLatency n"
  have w: "wrap64 (tot + ?l) = tot + ?l"
    using assms(2-4) by (intro wrap64_id) (simp add: in_int64_def)
  have lo: "x \<le> rm_MinLatency m \<Longrightarrow> x \<le> ?l \<Longrightarrow> 0 < cnt \<Longrightarrow> rm_MinLatency m * cnt \<le> tot \<Longrightarrow>
      x * (cnt + 1) \<le> tot + ?l" for x
  proof -
    assume a: "x \<le> rm_MinLatency m" "x \<le> ?l" "0 < cnt" "rm_MinLatency m * cnt \<le> tot"
    have "x * cnt \<le> rm_MinLatency m * cnt" using a by (intro mult_right_mono) simp_all
    with a show ?thesis unfolding distrib_left by linarith
  qed
  have hi: "rm_MaxLatency m \<le> x \<Longrightarrow> ?l \<le> x \<Longrightarrow> 0 < cnt \<Longrightarrow> tot \<le> rm_MaxLatency m * cnt \<Longrightarrow>
      tot + ?l \<le> x * (cnt + 1)" for x
  proof -
    assume a: "rm_MaxLatency m \<le> x" "?l \<le> x" "0 < cnt" "tot \<le> rm_MaxLatency m * cnt"
    have "rm_MaxLatency m * cnt \<le> x * cnt" using a by (intro mult_right_mono) simp_all
    with a show ?thesis unfolding distrib_left by linarith
  qed
  show ?thesis
  proof (cases "cnt = 0")
    case True
    with assms(1,2) w show ?thesis by (simp add: metrics_inv_def redis_metrics_step_def Let_def)
  next
    case False
    then have c: "0 < cnt" "0 < rm_MinLatency m" "rm_MinLatency m \<le> rm_MaxLatency m"
      "rm_MinLatency m * cnt \<le> tot" "tot \<le> rm_MaxLatency m * cnt" "rm_AverageLatency m = 0"
      using assms(1) by (auto simp: metrics_inv_def)
    then show ?thesis
      using assms(2) w lo [of "min (rm_MinLatency m) ?l"] hi [of "max (rm_MaxLatency m) ?l"]
      by (auto simp: metrics_inv_def redis_metrics_step_def Let_def min_def max_def split: if_splits)
  qed
qed

lemma metrics_fold_inv:
  "metrics_inv (m, tot, cnt) \<Longrightarrow> 0 \<le> tot \<Longrightarrow> tot + sum_list (latencies ns) \<le> max_int64 \<Longrightarrow>
     metrics_inv (fold redis_metrics_step ns (m, tot, cnt))
     \<and> snd (snd (fold redis_metrics_step ns (m, tot, cnt))) = cnt + int (length (latencies ns))
     \<and> fst (snd (fold redis_metrics_step ns (m, tot, cnt))) = tot + sum_list (latencies ns)"
proof (induction ns arbitrary: m tot cnt)
  case Nil
  then show ?case by (simp add: latencies_def)
next
  case (Cons n ns)
  obtain m' tot' cnt' where s: "redis_metrics_step n (m, tot, cnt) = (m', tot', cnt')"
    by (metis prod.collapse)
  have nn: "0 \<le> sum_list (latencies ns)" by (auto simp: latencies_def intro: sum_list_nonneg)
  show ?case
  proof (cases "0 < rn_lastLatency n")
    case True
    then have l: "latencies (n # ns) = rn_lastLatency n # latencies ns" by (simp add: latencies_def)
    have "tot + rn_lastLatency n \<le> max_int64" using Cons.prems(3) nn l by simp
    from metrics_step_inv [OF Cons.prems(1) True Cons.prems(2) this]
    have m: "metrics_inv (m', tot', cnt')" "tot' = tot + rn_lastLatency n" "cnt' = cnt + 1"
      unfolding s by auto
    have "0 \<le> tot'" "tot' + sum_list (latencies ns) \<le> max_int64" using m(2) Cons.prems(2,3) True l by simp_all
    from Cons.IH [OF m(1) this] show ?thesis using m(2,3) l s by simp
  next
    case False
    then have "latencies (n # ns) = latencies ns" by (simp add: latencies_def)
    moreover have m: "metrics_inv (m', tot, cnt)" "tot' = tot" "cnt' = cnt"
      using s False Cons.prems(1) by (auto simp: redis_metrics_step_def metrics_inv_def Let_def split: if_splits)
    ultimately show ?thesis using Cons.IH [OF m(1)] Cons.prems(2,3) s by simp
  qed
qed

text \<open>\<^verbatim>\<open>GetMetrics\<close> on an adapter none of whose mutexes is held reports, as long as the latencies sum
  to a machine integer, the floor of their mean over the nodes that have one, and it lies between the
  reported minimum and maximum.\<close>

theorem redis_metrics_ordered:
  assumes "list_all (\<lambda>n. \<not> rn_locked n) (ra_nodes a)" and "sum_list (latencies (ra_nodes a)) \<le> max_int64"
  shows "\<exists>m. redis_GetMetrics a = Ret m \<and> rm_MinLatency m \<le> rm_AverageLatency m
    \<and> rm_AverageLatency m \<le> rm_MaxLatency m
    \<and> rm_AverageLatency m = sum_list (latencies (ra_nodes a)) div int (length (latencies (ra_nodes a)))"
proof -
  obtain m tot cnt where f: "fold redis_metrics_step (ra_nodes a) (redis_zero_metrics, 0, 0) = (m, tot, cnt)"
    by (metis prod.collapse)
  have nn: "0 \<le> sum_list (latencies (ra_nodes a))" by (auto simp: latencies_def intro: sum_list_nonneg)
  have z: "metrics_inv (redis_zero_metrics, 0, 0)" by (simp add: metrics_inv_def redis_zero_metrics_def)
  have "0 + sum_list (latencies (ra_nodes a)) \<le> max_int64" using assms(2) by simp
  note metrics_fold_inv [OF z order_refl this, unfolded f fst_conv snd_conv]
  then have i: "metrics_inv (m, tot, cnt)" "cnt = int (length (latencies (ra_nodes a)))"
    "tot = sum_list (latencies (ra_nodes a))" by auto
  have r: "redis_GetMetrics a = Ret (if cnt > 0 then m\<lparr>rm_AverageLatency := go_quot tot cnt\<rparr> else m)"
    using assms(1) by (simp add: redis_GetMetrics_def f list_ex_iff list_all_iff)
  show ?thesis
  proof (cases "cnt > 0")
    case True
    then have q: "go_quot tot cnt = tot div cnt" using i nn by (simp add: go_quot_nonneg)
    have "rm_MinLatency m * cnt \<le> tot" "tot \<le> rm_MaxLatency m * cnt"
      using i(1) True by (auto simp: metrics_inv_def)
    then have "rm_MinLatency m \<le> tot div cnt" "tot div cnt \<le> rm_MaxLatency m"
      using True zdiv_mono1 [of "rm_MinLatency m * cnt" tot cnt]
        zdiv_mono1 [of tot "rm_MaxLatency m * cnt" cnt] by simp_all
    then show ?thesis using r True q i by simp
  next
    case False
    then show ?thesis using r i by (simp add: metrics_inv_def split: if_splits)
  qed
qed

theorem redis_metrics_ordered_witness:
  "\<exists>m. redis_GetMetrics (redis_demo ''hash'') = Ret m \<and> rm_MinLatency m \<le> rm_MaxLatency m"
proof -
  have "list_all (\<lambda>n. \<not> rn_locked n) (ra_nodes (redis_demo ''hash''))"
    "sum_list (latencies (ra_nodes (redis_demo ''hash''))) \<le> max_int64" by code_simp+
  from redis_metrics_ordered [OF this] show ?thesis by auto
qed

section \<open>Forced checks\<close>

lemma redis_check_length: "length (ra_nodes (snd (redis_checkNodeHealth p i a))) = length (ra_nodes a)"
proof -
  have "length (ra_nodes (redis_set_node i f b)) = length (ra_nodes b)" for f b by (simp add: redis_set_node_def)
  moreover have "ra_nodes (snd (redis_updatePrimaryClient me b)) = ra_nodes b" for me b
    by (simp add: redis_updatePrimaryClient_def split: outcome.split bool.split)
  ultimately show ?thesis
    by (auto simp: redis_checkNodeHealth_def Let_def split: option.split NodeState.split outcome.split prod.split; metis snd_conv)
qed

lemma redis_performHealthChecks_steps:
  "\<forall>i\<in>set order. i < length (ra_nodes a) \<Longrightarrow> redis_step\<^sup>*\<^sup>* a (redis_performHealthChecks probes order a)"
proof (induction order arbitrary: a)
  case (Cons i order)
  then have "redis_step a (snd (redis_checkNodeHealth (probes i) i a))" by (auto intro: redis_step.check_node)
  moreover have "redis_step\<^sup>*\<^sup>* (snd (redis_checkNodeHealth (probes i) i a))
      (redis_performHealthChecks probes order (snd (redis_checkNodeHealth (probes i) i a)))"
    using Cons.prems by (intro Cons.IH) (simp add: redis_check_length)
  ultimately show ?case by (simp add: redis_performHealthChecks_def converse_rtranclp_into_rtranclp)
qed (simp add: redis_performHealthChecks_def)

text \<open>A check that is forced within ten seconds of the last one checks nothing.\<close>

theorem forced_check_skipped:
  assumes "\<forall>i\<in>set order. \<not> rn_locked (ra_nodes a ! i) \<and> rp_now (probes i) - rn_lastCheck (ra_nodes a ! i) < 10 * second"
  shows "redis_ForceHealthCheck probes order a = a"
proof -
  have "snd (redis_checkNodeHealth (probes i) i a) = a" if "i \<in> set order" for i
    using assms that by (simp add: redis_checkNodeHealth_def)
  then show ?thesis unfolding redis_ForceHealthCheck_def redis_performHealthChecks_def
    by (induction order) simp_all
qed

end
