(* ===== verification/Http_Trace.thy ===== *)
theory Http_Trace
  imports Go_Std
begin

text \<open>
  Build information (\<^verbatim>\<open>buildinfo/buildinfo.go\<close>), HTTP header keys as \<^verbatim>\<open>net/http\<close> canonicalizes them, and
  the trace context of the HTTP client (\<^verbatim>\<open>httpclient/client.go\<close>): identifiers, the W3C \<^verbatim>\<open>traceparent\<close>
  value, the conversion to headers and back.
\<close>

section \<open>Build information\<close>

record build_info =
  bi_Version :: string
  bi_CommitHash :: string
  bi_BuildDate :: string
  bi_BuildBy :: string

record runtime_info =
  rt_GOOS :: string
  rt_GOARCH :: string
  rt_Version :: string

definition build_defaults :: build_info where
  "build_defaults = \<lparr>bi_Version = ''dev'', bi_CommitHash = ''unknown'', bi_BuildDate = ''unknown'',
     bi_BuildBy = ''unknown''\<rparr>"

text \<open>\<^verbatim>\<open>GetInfo\<close>: the stamped values, the Go version and the platform.\<close>

definition GetInfo :: "runtime_info \<Rightarrow> build_info \<Rightarrow> build_info \<times> string \<times> string" where
  "GetInfo rt b = (b, rt_Version rt, rt_GOOS rt @ ''/'' @ rt_GOARCH rt)"

definition GetUserAgent :: "runtime_info \<Rightarrow> build_info \<Rightarrow> string \<Rightarrow> string" where
  "GetUserAgent rt b serviceName = serviceName @ ''/'' @ bi_Version b @ '' ('' @ bi_CommitHash b @ ''; ''
     @ rt_GOOS rt @ '') Go/'' @ rt_Version rt"

definition GetVersionString :: "build_info \<Rightarrow> string" where
  "GetVersionString b =
     (if bi_CommitHash b \<noteq> ''unknown'' \<and> length (bi_CommitHash b) > 7
      then bi_Version b @ '' ('' @ take 7 (bi_CommitHash b) @ '')'' else bi_Version b)"

section \<open>Headers\<close>

text \<open>
  \<^verbatim>\<open>textproto.CanonicalMIMEHeaderKey\<close>: a key of token characters gets upper case at its start and
  after each hyphen and lower case elsewhere; any other key is left alone.
\<close>

definition token_char :: "char \<Rightarrow> bool" where
  "token_char c = (is_upper c \<or> is_lower c \<or> is_digit c \<or> c \<in> set ''!#$%&*+-.^_`|~'' \<or> c = CHR 0x27)"

fun canon_key :: "bool \<Rightarrow> string \<Rightarrow> string" where
  "canon_key up [] = []"
| "canon_key up (c # s) = (if up then char_upper c else char_lower c) # canon_key (c = CHR ''-'') s"

definition canonicalKey :: "string \<Rightarrow> string" where
  "canonicalKey k = (if list_all token_char k then canon_key True k else k)"

type_synonym headers = "string \<rightharpoonup> string"

text \<open>\<^verbatim>\<open>Header.Set\<close> and \<^verbatim>\<open>Header.Get\<close>; a map's pairs are set in the order they are iterated.\<close>

definition header_set :: "string \<times> string \<Rightarrow> headers \<Rightarrow> headers" where
  "header_set = (\<lambda>(k, v) h. h(canonicalKey k \<mapsto> v))"

definition header_set_all :: "(string \<times> string) list \<Rightarrow> headers \<Rightarrow> headers" where
  "header_set_all kvs h = fold header_set kvs h"

definition header_get :: "headers \<Rightarrow> string \<Rightarrow> string" where
  "header_get h k = (case h (canonicalKey k) of None \<Rightarrow> [] | Some v \<Rightarrow> v)"

section \<open>Identifiers\<close>

definition hexDigit :: "nat \<Rightarrow> char" where
  "hexDigit d = char_of (if d < 10 then 48 + d else 87 + d)"

definition hexEncode :: "string \<Rightarrow> string" where
  "hexEncode bs = concat (map (\<lambda>c. let n = (of_char c :: nat) in [hexDigit (n div 16), hexDigit (n mod 16)]) bs)"

text \<open>\<^verbatim>\<open>randomHex\<close>: what \<^verbatim>\<open>rand.Read\<close> fills in, or the clock when it fails.\<close>

definition randomHex :: "instant \<Rightarrow> string option \<Rightarrow> string" where
  "randomHex now bytes = (case bytes of Some bs \<Rightarrow> hexEncode bs | None \<Rightarrow> itoa now)"

definition hex_char :: "char \<Rightarrow> bool" where
  "hex_char c = (is_digit c \<or> (97 \<le> (of_char c :: nat) \<and> (of_char c :: nat) \<le> 102))"

definition isHex :: "string \<Rightarrow> nat \<Rightarrow> bool" where
  "isHex s n = (length s = n \<and> list_all hex_char s \<and> list_ex (\<lambda>c. c \<noteq> CHR ''0'') s)"

section \<open>Trace contexts\<close>

record trace_context =
  tc_TraceID :: string
  tc_SpanID :: string
  tc_ParentSpanID :: string
  tc_RequestID :: string
  tc_CorrelationID :: string
  tc_UserID :: string
  tc_ServiceChain :: "string list"

text \<open>\<open>draw i\<close> is the \<open>i\<close>-th read of random bytes; \<open>existing\<close> the trace the Go context carries.\<close>

definition NewTraceContext :: "instant \<Rightarrow> (nat \<Rightarrow> string option) \<Rightarrow> trace_context option \<Rightarrow> trace_context" where
  "NewTraceContext now draw existing =
     (case existing of
        Some t \<Rightarrow> \<lparr>tc_TraceID = tc_TraceID t, tc_SpanID = randomHex now (draw 0), tc_ParentSpanID = tc_SpanID t,
          tc_RequestID = tc_RequestID t, tc_CorrelationID = tc_CorrelationID t, tc_UserID = tc_UserID t,
          tc_ServiceChain = tc_ServiceChain t\<rparr>
      | None \<Rightarrow> \<lparr>tc_TraceID = randomHex now (draw 0), tc_SpanID = randomHex now (draw 1), tc_ParentSpanID = [],
          tc_RequestID = randomHex now (draw 2), tc_CorrelationID = randomHex now (draw 3), tc_UserID = [],
          tc_ServiceChain = []\<rparr>)"

definition AddToServiceChain :: "string \<Rightarrow> trace_context \<Rightarrow> trace_context" where
  "AddToServiceChain serviceName tc = tc\<lparr>tc_ServiceChain := tc_ServiceChain tc @ [serviceName]\<rparr>"

definition Traceparent :: "trace_context option \<Rightarrow> string" where
  "Traceparent t =
     (case t of None \<Rightarrow> []
      | Some tc \<Rightarrow> if \<not> isHex (tc_TraceID tc) 32 \<or> \<not> isHex (tc_SpanID tc) 16 then []
          else ''00'' @ ''-'' @ tc_TraceID tc @ ''-'' @ tc_SpanID tc @ ''-'' @ ''01'')"

definition parseTraceparent :: "string \<Rightarrow> (string \<times> string) option" where
  "parseTraceparent value =
     (let parts = strSplit (trimSpace value) ''-''
      in if length parts < 4 \<or> length (parts ! 0) \<noteq> 2 then None
         else if \<not> isHex (parts ! 1) 32 \<or> \<not> isHex (parts ! 2) 16 then None
         else Some (parts ! 1, parts ! 2))"

definition ToHeaders :: "trace_context option \<Rightarrow> (string \<times> string) list" where
  "ToHeaders t =
     (case t of None \<Rightarrow> []
      | Some tc \<Rightarrow>
          [(''X-Trace-ID'', tc_TraceID tc), (''X-Span-ID'', tc_SpanID tc), (''X-Request-ID'', tc_RequestID tc),
           (''X-Correlation-ID'', tc_CorrelationID tc)]
          @ (if Traceparent t \<noteq> [] then [(''traceparent'', Traceparent t)] else [])
          @ (if tc_ParentSpanID tc \<noteq> [] then [(''X-Parent-Span-ID'', tc_ParentSpanID tc)] else [])
          @ (if tc_UserID tc \<noteq> [] then [(''X-User-ID'', tc_UserID tc)] else [])
          @ (if tc_ServiceChain tc \<noteq> [] then [(''X-Service-Chain'', strJoin (tc_ServiceChain tc) ''->'')] else []))"

definition TraceContextFromHeaders :: "instant \<Rightarrow> string option \<Rightarrow> headers \<Rightarrow> trace_context" where
  "TraceContextFromHeaders now draw h =
     (let tc = \<lparr>tc_TraceID = header_get h ''X-Trace-ID'', tc_SpanID = header_get h ''X-Span-ID'',
            tc_ParentSpanID = header_get h ''X-Parent-Span-ID'', tc_RequestID = header_get h ''X-Request-ID'',
            tc_CorrelationID = header_get h ''X-Correlation-ID'', tc_UserID = header_get h ''X-User-ID'',
            tc_ServiceChain = []\<rparr>;
          tc1 = (case parseTraceparent (header_get h ''traceparent'') of
              Some (traceID, parentSpanID) \<Rightarrow>
                tc\<lparr>tc_TraceID := traceID, tc_ParentSpanID := parentSpanID,
                   tc_SpanID := (if tc_SpanID tc = [] then randomHex now draw else tc_SpanID tc)\<rparr>
            | None \<Rightarrow> tc);
          chainStr = header_get h ''X-Service-Chain''
      in if chainStr \<noteq> [] then tc1\<lparr>tc_ServiceChain := strSplit chainStr ''->''\<rparr> else tc1)"

section \<open>Facts\<close>

lemma length_hexEncode: "length (hexEncode bs) = 2 * length bs"
  by (induction bs) (simp_all add: hexEncode_def Let_def)

lemma is_digit_nat: "is_digit c \<longleftrightarrow> 48 \<le> (of_char c :: nat) \<and> (of_char c :: nat) \<le> 57"
proof -
  have "(of_char c :: int) = int (of_char c)" by (rule of_nat_of_char [symmetric])
  then show ?thesis unfolding is_digit_def by linarith
qed

lemma hexDigit_hex: "d < 16 \<Longrightarrow> hex_char (hexDigit d)"
  by (auto simp: hexDigit_def hex_char_def is_digit_nat)

lemma hexEncode_hex: "list_all hex_char (hexEncode bs)"
proof (induction bs)
  case (Cons c bs)
  have "(of_char c :: nat) < 256" by (rule nat_of_char_less_256)
  then have "(of_char c :: nat) div 16 < 16" by (simp add: less_mult_imp_div_less)
  then have "hex_char (hexDigit (of_char c div 16))" "hex_char (hexDigit (of_char c mod 16))"
    by (simp_all add: hexDigit_hex)
  then show ?case using Cons by (simp add: hexEncode_def Let_def)
qed (simp add: hexEncode_def)

lemma hex_char_plain: "hex_char c \<Longrightarrow> c \<noteq> CHR ''-'' \<and> \<not> is_space c"
  by (auto simp: hex_char_def is_digit_nat is_space_def)

lemma isHex_plain: "isHex s n \<Longrightarrow> CHR ''-'' \<notin> set s \<and> (\<forall>c\<in>set s. \<not> is_space c)"
  using hex_char_plain by (auto simp: isHex_def list_all_iff)

end
