(* ===== verification/Http_Client.thy ===== *)
theory Http_Client
  imports Http_Trace Contracts
begin

text \<open>
  The HTTP client (\<^verbatim>\<open>httpclient/client.go\<close>): circuit breaker, configuration, one request, the retry loop
  around it. Metrics are the events of a run. What the transport answers, the body \<^verbatim>\<open>json.Marshal\<close> yields,
  random bytes and the clock are arguments.
\<close>

section \<open>Circuit breaker\<close>

datatype CircuitBreakerState = CircuitClosed | CircuitOpen | CircuitHalfOpen

record http_breaker =
  cb_maxFailures :: int
  cb_resetTimeout :: duration
  cb_failureCount :: int
  cb_lastFailureTime :: instant
  cb_state :: CircuitBreakerState

text \<open>A new breaker holds the zero \<^verbatim>\<open>time.Time\<close>.\<close>

definition NewCircuitBreaker :: "int \<Rightarrow> duration \<Rightarrow> http_breaker" where
  "NewCircuitBreaker maxFailures resetTimeout = \<lparr>cb_maxFailures = maxFailures,
     cb_resetTimeout = resetTimeout, cb_failureCount = 0, cb_lastFailureTime = zero_time,
     cb_state = CircuitClosed\<rparr>"

definition CanExecute :: "instant \<Rightarrow> http_breaker \<Rightarrow> bool \<times> http_breaker" where
  "CanExecute now cb =
     (case cb_state cb of
        CircuitClosed \<Rightarrow> (True, cb)
      | CircuitOpen \<Rightarrow> if now - cb_lastFailureTime cb > cb_resetTimeout cb
          then (True, cb\<lparr>cb_state := CircuitHalfOpen\<rparr>) else (False, cb)
      | CircuitHalfOpen \<Rightarrow> (True, cb))"

definition RecordSuccess :: "http_breaker \<Rightarrow> http_breaker" where
  "RecordSuccess cb = cb\<lparr>cb_failureCount := 0, cb_state := CircuitClosed\<rparr>"

definition RecordFailure :: "instant \<Rightarrow> http_breaker \<Rightarrow> http_breaker" where
  "RecordFailure now cb =
     (let cb1 = cb\<lparr>cb_failureCount := wrap64 (cb_failureCount cb + 1), cb_lastFailureTime := now\<rparr>
      in if cb_failureCount cb1 \<ge> cb_maxFailures cb1 then cb1\<lparr>cb_state := CircuitOpen\<rparr> else cb1)"

section \<open>Configuration\<close>

text \<open>
  \<open>rt_scale\<close> is the product with the \<^verbatim>\<open>float64\<close> multiplier, converted back to a duration; the default
  multiplier 2 is exact for durations below \<^verbatim>\<open>2^53\<close> ns (104 days).
\<close>

record retry_config =
  rt_MaxRetries :: int
  rt_InitialWait :: duration
  rt_MaxWait :: duration
  rt_scale :: "duration \<Rightarrow> duration"

definition DefaultRetryConfig :: retry_config where
  "DefaultRetryConfig = \<lparr>rt_MaxRetries = 3, rt_InitialWait = 100 * millisecond, rt_MaxWait = 5 * second,
     rt_scale = (\<lambda>d. 2 * d)\<rparr>"

record http_config =
  hc_BaseURL :: string
  hc_ServiceName :: string
  hc_TargetServiceName :: string
  hc_AuthToken :: string
  hc_APIKeyPrefix :: string
  hc_Timeout :: duration
  hc_Headers :: "(string \<times> string) list"
  hc_RetryConfig :: "retry_config option"
  hc_CircuitBreaker :: "http_breaker option"

record http_client =
  hl_timeout :: duration
  hl_baseURL :: string
  hl_serviceName :: string
  hl_authToken :: string
  hl_apiKeyPrefix :: string
  hl_userAgent :: string
  hl_defaultHeaders :: "(string \<times> string) list"
  hl_circuitBreaker :: http_breaker
  hl_retryConfig :: retry_config
  hl_targetService :: string

definition hostFromURL :: "string \<Rightarrow> string" where
  "hostFromURL baseURL =
     (let u0 = trimPrefix (trimPrefix baseURL ''http://'') ''https://'';
          u1 = (case strIndex u0 ''/'' of None \<Rightarrow> u0 | Some i \<Rightarrow> take i u0)
      in case strIndex u1 '':'' of None \<Rightarrow> u1 | Some i \<Rightarrow> take i u1)"

definition NewClient :: "runtime_info \<Rightarrow> build_info \<Rightarrow> http_config \<Rightarrow> http_client" where
  "NewClient rt b config = \<lparr>
     hl_timeout = (if hc_Timeout config = 0 then 30 * second else hc_Timeout config),
     hl_baseURL = hc_BaseURL config, hl_serviceName = hc_ServiceName config,
     hl_authToken = hc_AuthToken config, hl_apiKeyPrefix = orElse (hc_APIKeyPrefix config) ''sk_'',
     hl_userAgent = GetUserAgent rt b (hc_ServiceName config), hl_defaultHeaders = hc_Headers config,
     hl_circuitBreaker = (case hc_CircuitBreaker config of
         None \<Rightarrow> NewCircuitBreaker 5 (60 * second) | Some cb \<Rightarrow> cb),
     hl_retryConfig = (case hc_RetryConfig config of None \<Rightarrow> DefaultRetryConfig | Some r \<Rightarrow> r),
     hl_targetService = orElse (hc_TargetServiceName config) (hostFromURL (hc_BaseURL config))\<rparr>"

definition NewServiceClient ::
    "runtime_info \<Rightarrow> build_info \<Rightarrow> string \<Rightarrow> string \<Rightarrow> string \<Rightarrow> http_client" where
  "NewServiceClient rt b baseURL serviceName authToken =
     NewClient rt b \<lparr>hc_BaseURL = baseURL, hc_ServiceName = serviceName, hc_TargetServiceName = [],
       hc_AuthToken = authToken, hc_APIKeyPrefix = [], hc_Timeout = 0, hc_Headers = [],
       hc_RetryConfig = None, hc_CircuitBreaker = None\<rparr>"

section \<open>One request\<close>

text \<open>
  \<open>rq_Body\<close> is the marshalled body or the marshaller's error, \<open>None\<close> for no body; headers and query
  parameters are maps, given in the order they are iterated.
\<close>

record http_request =
  rq_Method :: string
  rq_Path :: string
  rq_Body :: "(string, string) result option"
  rq_Headers :: "(string \<times> string) list"
  rq_QueryParams :: "(string \<times> string) list"

record wire_request =
  wr_Method :: string
  wr_URL :: string
  wr_Body :: "string option"
  wr_Headers :: headers

record http_response =
  rs_StatusCode :: int
  rs_Body :: string
  rs_Headers :: headers
  rs_TraceContext :: "trace_context option"

text \<open>
  One call's surroundings, by attempt: the random bytes drawn, the error of \<^verbatim>\<open>http.NewRequest\<close>, the
  answer of the transport with what reading its body gives, the context's error during the
  wait before the attempt; and the trace of the caller's context.
\<close>

record http_env =
  he_clock :: instant
  he_draw :: "nat \<Rightarrow> nat \<Rightarrow> string option"
  he_trace :: "trace_context option"
  he_newRequest :: "string \<Rightarrow> string \<Rightarrow> string option"
  he_transport :: "nat \<Rightarrow> wire_request \<Rightarrow> (string, int \<times> (string, string) result \<times> headers) result"
  he_cancel :: "nat \<Rightarrow> string option"

definition buildQuery :: "(string \<times> string) list \<Rightarrow> string" where
  "buildQuery params = (if params = [] then [] else ''?'' @ strJoin (map (\<lambda>(k, v). k @ ''='' @ v) params) ''&'')"

definition buildURL :: "http_client \<Rightarrow> http_request \<Rightarrow> string" where
  "buildURL c req = (if \<not> hasPrefix (rq_Path req) ''/'' then hl_baseURL c @ ''/'' @ rq_Path req
                     else hl_baseURL c @ rq_Path req) @ buildQuery (rq_QueryParams req)"

definition authHeader :: "http_client \<Rightarrow> (string \<times> string) list" where
  "authHeader c =
     (if hl_authToken c = [] then []
      else if hasPrefix (hl_authToken c) (hl_apiKeyPrefix c) then [(''X-API-Key'', hl_authToken c)]
      else [(''Authorization'', ''Bearer '' @ hl_authToken c)])"

definition requestHeaders :: "http_client \<Rightarrow> trace_context \<Rightarrow> http_request \<Rightarrow> headers" where
  "requestHeaders c tc req = header_set_all
     ([(''User-Agent'', hl_userAgent c)]
      @ (if rq_Body req \<noteq> None then [(''Content-Type'', ''application/json'')] else [])
      @ authHeader c @ ToHeaders (Some tc) @ hl_defaultHeaders c @ rq_Headers req) Map.empty"

definition doSingleRequest :: "http_env \<Rightarrow> http_client \<Rightarrow> http_request \<Rightarrow> nat \<Rightarrow>
    (string, http_response) result \<times> wire_request list" where
  "doSingleRequest env c req attempt =
     (let tc = AddToServiceChain (hl_serviceName c) (NewTraceContext (he_clock env) (he_draw env attempt) (he_trace env));
          url = buildURL c req
      in case rq_Body req of
           Some (Inl err) \<Rightarrow> (Inl (''failed to marshal request body: '' @ err), [])
         | body \<Rightarrow>
             (case he_newRequest env (rq_Method req) url of
                Some err \<Rightarrow> (Inl (''failed to create request: '' @ err), [])
              | None \<Rightarrow>
                  (let w = \<lparr>wr_Method = rq_Method req, wr_URL = url,
                        wr_Body = (case body of Some (Inr bs) \<Rightarrow> Some bs | _ \<Rightarrow> None),
                        wr_Headers = requestHeaders c tc req\<rparr>
                   in case he_transport env attempt w of
                        Inl err \<Rightarrow> (Inl (''failed to perform request: '' @ err), [w])
                      | Inr (status, Inl err, hs) \<Rightarrow> (Inl (''failed to read response body: '' @ err), [w])
                      | Inr (status, Inr rbody, hs) \<Rightarrow>
                          (Inr \<lparr>rs_StatusCode = status, rs_Body = rbody, rs_Headers = hs,
                             rs_TraceContext = Some tc\<rparr>, [w]))))"

definition IsSuccess :: "http_response \<Rightarrow> bool" where
  "IsSuccess r = (200 \<le> rs_StatusCode r \<and> rs_StatusCode r < 300)"

section \<open>The retry loop\<close>

text \<open>What a run does, in order: requests sent, waits, and the metrics recorded.\<close>

datatype http_event =
  Sent wire_request
| Waited duration
| RetryAttempt string
| ErrorMetric string
| RequestMetric string int
| BreakerMetric CircuitBreakerState

datatype loop_end = Returned http_response bool | Cancelled string | Exhausted "string option"

definition nextWait :: "retry_config \<Rightarrow> duration \<Rightarrow> duration" where
  "nextWait r wait = (if rt_scale r wait > rt_MaxWait r then rt_MaxWait r else rt_scale r wait)"

text \<open>
  The loop with \<open>k\<close> attempts left, before attempt \<open>attempt\<close>: how it ends (a returned response with
  whether it counts as a success for the breaker), and what it did.
\<close>

fun http_loop :: "http_env \<Rightarrow> http_client \<Rightarrow> http_request \<Rightarrow> nat \<Rightarrow> duration \<Rightarrow> string option \<Rightarrow> nat \<Rightarrow>
    loop_end \<times> http_event list" where
  "http_loop env c req attempt wait lastErr 0 = (Exhausted lastErr, [])"
| "http_loop env c req attempt wait lastErr (Suc k) =
     (let retry = (if attempt > 0 then [RetryAttempt (if lastErr \<noteq> None then ''network_error'' else ''server_error'')]
                   else [])
      in case (if attempt > 0 then he_cancel env attempt else None) of
           Some err \<Rightarrow> (Cancelled err, retry @ [ErrorMetric ''context_cancelled''])
         | None \<Rightarrow>
             (let waited = (if attempt > 0 then [Waited wait] else []);
                  wait' = (if attempt > 0 then nextWait (hl_retryConfig c) wait else wait);
                  (r, sent) = doSingleRequest env c req attempt;
                  pre = retry @ waited @ map Sent sent
              in case r of
                   Inl err \<Rightarrow> (let (e, evs) = http_loop env c req (Suc attempt) wait' (Some err) k in (e, pre @ evs))
                 | Inr resp \<Rightarrow>
                     (let pre' = pre @ [RequestMetric (rq_Method req) (rs_StatusCode resp)]
                      in if IsSuccess resp then (Returned resp True, pre')
                         else if rs_StatusCode resp \<ge> 400 \<and> rs_StatusCode resp < 500 then (Returned resp True, pre')
                         else if rs_StatusCode resp \<ge> 500
                         then (let (e, evs) = http_loop env c req (Suc attempt) wait'
                                   (Some (''server error: '' @ itoa (rs_StatusCode resp))) k in (e, pre' @ evs))
                         else (Returned resp False, pre'))))"

text \<open>\<^verbatim>\<open>Do\<close>: \<open>start\<close> and \<open>finish\<close> are the clock when it begins and when a failure is recorded.\<close>

definition http_Do :: "instant \<Rightarrow> instant \<Rightarrow> http_env \<Rightarrow> http_request \<Rightarrow> http_client \<Rightarrow>
    (string, http_response) result \<times> http_client \<times> http_event list" where
  "http_Do start finish env req c0 =
     (let (ok, cb) = CanExecute start (hl_circuitBreaker c0);
          c = c0\<lparr>hl_circuitBreaker := cb\<rparr>;
          record = (\<lambda>cb'. c\<lparr>hl_circuitBreaker := cb'\<rparr>)
      in if \<not> ok then (Inl ''circuit breaker is open'', c, [ErrorMetric ''circuit_breaker_open''])
         else
           (let (e, evs) = http_loop env c req 0 (rt_InitialWait (hl_retryConfig c)) None
                  (nat (rt_MaxRetries (hl_retryConfig c) + 1));
                n = itoa (rt_MaxRetries (hl_retryConfig c))
            in case e of
                 Returned resp True \<Rightarrow> (Inr resp, record (RecordSuccess cb), evs @ [BreakerMetric CircuitClosed])
               | Returned resp False \<Rightarrow> (Inr resp, c, evs)
               | Cancelled err \<Rightarrow> (Inl err, c, evs)
               | Exhausted lastErr \<Rightarrow>
                   (let cb' = RecordFailure finish cb
                    in (Inl (''request failed after '' @ n @ '' retries''
                           @ (case lastErr of None \<Rightarrow> [] | Some m \<Rightarrow> '': '' @ m)),
                        record cb', evs @ [BreakerMetric (cb_state cb'), ErrorMetric ''max_retries_exceeded'']))))"

section \<open>The methods\<close>

definition http_Get where
  "http_Get start finish env path queryParams c = http_Do start finish env
     \<lparr>rq_Method = ''GET'', rq_Path = path, rq_Body = None, rq_Headers = [], rq_QueryParams = queryParams\<rparr> c"

definition http_Post where
  "http_Post start finish env path body c = http_Do start finish env
     \<lparr>rq_Method = ''POST'', rq_Path = path, rq_Body = body, rq_Headers = [], rq_QueryParams = []\<rparr> c"

definition http_Put where
  "http_Put start finish env path body c = http_Do start finish env
     \<lparr>rq_Method = ''PUT'', rq_Path = path, rq_Body = body, rq_Headers = [], rq_QueryParams = []\<rparr> c"

definition http_Delete where
  "http_Delete start finish env path c = http_Do start finish env
     \<lparr>rq_Method = ''DELETE'', rq_Path = path, rq_Body = None, rq_Headers = [], rq_QueryParams = []\<rparr> c"

definition http_HealthCheck where
  "http_HealthCheck start finish env c =
     (let (r, c', evs) = http_Get start finish env ''/health'' [] c
      in ((case r of
             Inl err \<Rightarrow> Some (''health check failed: '' @ err)
           | Inr resp \<Rightarrow> if rs_StatusCode resp \<noteq> 200
               then Some (''health check failed with status: '' @ itoa (rs_StatusCode resp)) else None), c', evs))"

definition UpdateAuthToken :: "string \<Rightarrow> http_client \<Rightarrow> http_client" where
  "UpdateAuthToken token c = c\<lparr>hl_authToken := token\<rparr>"

definition GetBaseURL :: "http_client \<Rightarrow> string" where "GetBaseURL = hl_baseURL"
definition GetServiceName :: "http_client \<Rightarrow> string" where "GetServiceName = hl_serviceName"

definition GetCircuitBreakerState :: "http_client \<Rightarrow> CircuitBreakerState" where
  "GetCircuitBreakerState c = cb_state (hl_circuitBreaker c)"

definition resp_DecodeJSON :: "(string \<Rightarrow> (string, 'v) result) \<Rightarrow> http_response \<Rightarrow> (string, 'v) result" where
  "resp_DecodeJSON decode r = (case decode (rs_Body r) of
     Inl err \<Rightarrow> Inl (''failed to decode JSON response: '' @ err)
   | Inr v \<Rightarrow> Inr v)"

text \<open>\<^verbatim>\<open>GetError\<close>: \<open>decode\<close> is what \<^verbatim>\<open>json.Unmarshal\<close> reads from a body into the error and message fields.\<close>

definition GetError :: "(string \<Rightarrow> (string, string \<times> string) result) \<Rightarrow> http_response \<Rightarrow> string option" where
  "GetError decode r =
     (if IsSuccess r then None
      else let api = (\<lambda>m. Some (''API error (status '' @ itoa (rs_StatusCode r) @ ''): '' @ m));
               plain = Some (''HTTP error: status '' @ itoa (rs_StatusCode r))
           in case resp_DecodeJSON decode r of
                Inl _ \<Rightarrow> plain
              | Inr (error, message) \<Rightarrow>
                  if error \<noteq> [] then api error else if message \<noteq> [] then api message else plain)"

section \<open>The breaker as a circuit breaker\<close>

interpretation http_cb: circuit_breaker CanExecute "\<lambda>cb :: http_breaker. cb_state cb = CircuitOpen" cb_lastFailureTime
  cb_resetTimeout
  by unfold_locales (auto simp: CanExecute_def split: CircuitBreakerState.split)

text \<open>
  The invariant of a breaker with a positive threshold: closed exactly below it.
\<close>

definition breaker_ok :: "http_breaker \<Rightarrow> bool" where
  "breaker_ok cb \<longleftrightarrow> 0 < cb_maxFailures cb \<and> 0 \<le> cb_failureCount cb
     \<and> (cb_state cb = CircuitClosed \<longleftrightarrow> cb_failureCount cb < cb_maxFailures cb)"

lemma breaker_ok_new: "0 < n \<Longrightarrow> breaker_ok (NewCircuitBreaker n d)"
  by (simp add: breaker_ok_def NewCircuitBreaker_def)

lemma breaker_ok_admit: "breaker_ok cb \<Longrightarrow> breaker_ok (snd (CanExecute t cb))"
  by (auto simp: breaker_ok_def CanExecute_def split: CircuitBreakerState.split)

lemma breaker_ok_success: "breaker_ok cb \<Longrightarrow> breaker_ok (RecordSuccess cb)"
  by (simp add: breaker_ok_def RecordSuccess_def)

lemma breaker_ok_failure: "breaker_ok cb \<Longrightarrow> cb_failureCount cb < max_int64 \<Longrightarrow> breaker_ok (RecordFailure t cb)"
  by (auto simp: breaker_ok_def RecordFailure_def Let_def wrap64_id in_int64_def)

end
