(* ===== verification/Http_Theorems.thy ===== *)
theory Http_Theorems
  imports Http_Client
begin

text \<open>
  Properties of the HTTP client: what a call may send and return, what an outage does to the breaker,
  what the retry loop does with a request that cannot be built, and the trace headers.
\<close>

section \<open>Calls\<close>

fun sent_of :: "http_event list \<Rightarrow> wire_request list" where
  "sent_of [] = []"
| "sent_of (Sent w # es) = w # sent_of es"
| "sent_of (e # es) = sent_of es"

fun waits_of :: "http_event list \<Rightarrow> duration list" where
  "waits_of [] = []"
| "waits_of (Waited d # es) = d # waits_of es"
| "waits_of (e # es) = waits_of es"

lemma sent_of_append [simp]: "sent_of (xs @ ys) = sent_of xs @ sent_of ys"
  by (induction xs rule: sent_of.induct) simp_all

lemma waits_of_append [simp]: "waits_of (xs @ ys) = waits_of xs @ waits_of ys"
  by (induction xs rule: waits_of.induct) simp_all

lemma sent_of_map [simp]: "sent_of (map Sent ws) = ws" and waits_of_map [simp]: "waits_of (map Sent ws) = []"
  by (induction ws) simp_all

lemma doSingle_sent:
  "doSingleRequest env c req attempt = (r, ws) \<Longrightarrow>
     length ws \<le> 1 \<and> (\<forall>w\<in>set ws. wr_Method w = rq_Method req \<and> wr_URL w = buildURL c req)"
  by (auto simp: doSingleRequest_def Let_def split: option.split_asm sum.split_asm)

text \<open>What the loop guarantees with \<open>k\<close> attempts left.\<close>

definition loop_ok :: "http_client \<Rightarrow> http_request \<Rightarrow> duration \<Rightarrow> nat \<Rightarrow> loop_end \<times> http_event list \<Rightarrow> bool" where
  "loop_ok c req wait k = (\<lambda>(e, evs).
     length (sent_of evs) \<le> k
     \<and> (\<forall>w\<in>set (sent_of evs). wr_Method w = rq_Method req \<and> wr_URL w = buildURL c req)
     \<and> (\<forall>d\<in>set (waits_of evs). d = wait \<or> d \<le> rt_MaxWait (hl_retryConfig c))
     \<and> (\<forall>resp b. e = Returned resp b \<longrightarrow> rs_StatusCode resp < 500
          \<and> (b \<longleftrightarrow> IsSuccess resp \<or> 400 \<le> rs_StatusCode resp)))"

lemma nextWait_le: "nextWait r w \<le> rt_MaxWait r"
  by (simp add: nextWait_def)

definition pre_ok :: "http_client \<Rightarrow> http_request \<Rightarrow> duration \<Rightarrow> http_event list \<Rightarrow> bool" where
  "pre_ok c req wait pre \<longleftrightarrow> length (sent_of pre) \<le> 1
     \<and> (\<forall>w\<in>set (sent_of pre). wr_Method w = rq_Method req \<and> wr_URL w = buildURL c req)
     \<and> (\<forall>d\<in>set (waits_of pre). d = wait)"

lemma loop_ok_later:
  "loop_ok c req wait' k x \<Longrightarrow> pre_ok c req wait pre \<Longrightarrow> wait' = wait \<or> wait' \<le> rt_MaxWait (hl_retryConfig c) \<Longrightarrow>
     loop_ok c req wait (Suc k) (case x of (e, evs) \<Rightarrow> (e, pre @ evs))"
  by (cases x) (auto simp: loop_ok_def pre_ok_def)

lemma loop_ok_stop:
  "pre_ok c req wait pre \<Longrightarrow> (\<And>resp b. e = Returned resp b \<Longrightarrow> rs_StatusCode resp < 500
      \<and> (b \<longleftrightarrow> IsSuccess resp \<or> 400 \<le> rs_StatusCode resp)) \<Longrightarrow> loop_ok c req wait (Suc k) (e, pre)"
  by (auto simp: loop_ok_def pre_ok_def)

lemma http_loop_ok: "loop_ok c req wait k (http_loop env c req attempt wait lastErr k)"
proof (induction k arbitrary: attempt wait lastErr)
  case 0
  then show ?case by (simp add: loop_ok_def)
next
  case (Suc k)
  let ?wait' = "if attempt > 0 then nextWait (hl_retryConfig c) wait else wait"
  let ?retry = "if attempt > 0 then [RetryAttempt (if lastErr \<noteq> None then ''network_error'' else ''server_error'')] else []"
  let ?pre = "\<lambda>ws. ?retry @ (if attempt > 0 then [Waited wait] else []) @ map Sent ws"
  obtain r ws where s: "doSingleRequest env c req attempt = (r, ws)" by fastforce
  have p: "pre_ok c req wait (?pre ws)" using doSingle_sent [OF s] by (simp add: pre_ok_def)
  then have p': "pre_ok c req wait (?pre ws @ [RequestMetric m n])" for m n by (simp add: pre_ok_def)
  have c: "pre_ok c req wait (?retry @ [ErrorMetric x])" for x by (simp add: pre_ok_def)
  have w: "?wait' = wait \<or> ?wait' \<le> rt_MaxWait (hl_retryConfig c)" by (simp add: nextWait_le)
  have later: "loop_ok c req wait (Suc k) (case http_loop env c req (Suc attempt) ?wait' m k of (e, evs) \<Rightarrow> (e, ?pre ws @ evs))"
    for m by (rule loop_ok_later [OF Suc.IH p w])
  have later': "loop_ok c req wait (Suc k) (case http_loop env c req (Suc attempt) ?wait' m k of
      (e, evs) \<Rightarrow> (e, (?pre ws @ [RequestMetric x n]) @ evs))" for m x n
    by (rule loop_ok_later [OF Suc.IH p' w])
  show ?case
  proof (cases "if attempt > 0 then he_cancel env attempt else None")
    case (Some err)
    then show ?thesis using loop_ok_stop [OF c [of "''context_cancelled''"], where e = "Cancelled err" and k = k]
      unfolding http_loop.simps Let_def by simp
  next
    case None
    show ?thesis
    proof (cases r)
      case (Inl err)
      show ?thesis using later [of "Some err"]
        unfolding http_loop.simps Let_def None s Inl by simp
    next
      case (Inr resp)
      consider "IsSuccess resp \<or> 400 \<le> rs_StatusCode resp \<and> rs_StatusCode resp < 500"
        | "\<not> IsSuccess resp" "rs_StatusCode resp \<ge> 500" | "\<not> IsSuccess resp" "rs_StatusCode resp < 400" by linarith
      then show ?thesis
      proof cases
        case 1
        then show ?thesis
          using loop_ok_stop [OF p' [of "rq_Method req" "rs_StatusCode resp"], where e = "Returned resp True" and k = k]
          unfolding http_loop.simps Let_def None s Inr by (auto simp: IsSuccess_def)
      next
        case 2
        then show ?thesis
          using later' [where m = "Some (''server error: '' @ itoa (rs_StatusCode resp))" and x = "rq_Method req"
              and n = "rs_StatusCode resp"]
          unfolding http_loop.simps Let_def None s Inr by simp
      next
        case 3
        then show ?thesis
          using loop_ok_stop [OF p' [of "rq_Method req" "rs_StatusCode resp"], where e = "Returned resp False" and k = k]
          unfolding http_loop.simps Let_def None s Inr by simp
      qed
    qed
  qed
qed


definition http_demo_client :: http_client where
  "http_demo_client = \<lparr>hl_timeout = 30 * second, hl_baseURL = ''http://users'', hl_serviceName = ''orders'',
     hl_authToken = ''sk_1'', hl_apiKeyPrefix = ''sk_'', hl_userAgent = ''orders/dev'', hl_defaultHeaders = [],
     hl_circuitBreaker = NewCircuitBreaker 2 (60 * second), hl_retryConfig = DefaultRetryConfig\<lparr>rt_MaxRetries := 1\<rparr>,
     hl_targetService = ''users''\<rparr>"

definition http_demo_req :: http_request where
  "http_demo_req = \<lparr>rq_Method = ''GET'', rq_Path = ''u/1'', rq_Body = None, rq_Headers = [], rq_QueryParams = []\<rparr>"

definition http_demo_env :: "int \<Rightarrow> http_env" where
  "http_demo_env status = \<lparr>he_clock = 0, he_draw = (\<lambda>_ _. None), he_trace = None, he_newRequest = (\<lambda>_ _. None),
     he_transport = (\<lambda>_ _. Inr (status, Inr [], Map.empty)), he_cancel = (\<lambda>_. None)\<rparr>"


section \<open>An outage\<close>

definition http_down :: "http_env \<Rightarrow> bool" where
  "http_down env \<longleftrightarrow> (\<forall>k. he_cancel env k = None)
     \<and> (\<forall>k w. case he_transport env k w of Inl _ \<Rightarrow> True | Inr (status, _) \<Rightarrow> 500 \<le> status)"

lemma http_down_single:
  "http_down env \<Longrightarrow> doSingleRequest env c req attempt = (Inr resp, ws) \<Longrightarrow> 500 \<le> rs_StatusCode resp"
proof -
  assume d: "http_down env" and s: "doSingleRequest env c req attempt = (Inr resp, ws)"
  have t: "he_transport env k w = Inr (status, x) \<Longrightarrow> 500 \<le> status" for k w status x
    using d unfolding http_down_def by (auto dest!: spec [of _ k] spec [of _ w])
  from s show ?thesis
    by (auto simp: doSingleRequest_def Let_def dest!: t split: option.split_asm sum.split_asm)
qed

lemma http_down_loop: "http_down env \<Longrightarrow> \<exists>m. fst (http_loop env c req attempt wait lastErr k) = Exhausted m"
proof (induction k arbitrary: attempt wait lastErr)
  case (Suc k)
  obtain r ws where s: "doSingleRequest env c req attempt = (r, ws)" by fastforce
  have n: "(if attempt > 0 then he_cancel env attempt else None) = None" using Suc.prems by (simp add: http_down_def)
  show ?case
  proof (cases r)
    case (Inl err)
    then show ?thesis using Suc.IH [OF Suc.prems] unfolding http_loop.simps Let_def n s by (simp add: split_beta)
  next
    case (Inr resp)
    then have "500 \<le> rs_StatusCode resp" using http_down_single [OF Suc.prems] s by blast
    then show ?thesis using Suc.IH [OF Suc.prems] Inr unfolding http_loop.simps Let_def n s
      by (simp add: split_beta IsSuccess_def)
  qed
qed simp

lemma http_Do_down:
  assumes "http_down env" and "fst (CanExecute start (hl_circuitBreaker c))"
  shows "fst (snd (http_Do start finish env req c)) =
    c\<lparr>hl_circuitBreaker := RecordFailure finish (snd (CanExecute start (hl_circuitBreaker c)))\<rparr>"
proof -
  obtain cb where k: "CanExecute start (hl_circuitBreaker c) = (True, cb)" using assms(2) by (metis prod.collapse)
  obtain m where "fst (http_loop env (c\<lparr>hl_circuitBreaker := cb\<rparr>) req 0 (rt_InitialWait (hl_retryConfig c)) None
      (nat (rt_MaxRetries (hl_retryConfig c) + 1))) = Exhausted m" using http_down_loop [OF assms(1)] by blast
  then show ?thesis by (simp add: http_Do_def k Let_def split_beta)
qed

text \<open>Calls in order, each with its two clock readings.\<close>

fun http_run :: "(instant \<times> instant \<times> http_env \<times> http_request) list \<Rightarrow> http_client \<Rightarrow>
    http_client \<times> http_event list" where
  "http_run [] c = (c, [])"
| "http_run ((start, finish, env, req) # calls) c =
     (let (_, c', evs) = http_Do start finish env req c; (c'', evs') = http_run calls c' in (c'', evs @ evs'))"

lemma http_run_append:
  "http_run (xs @ ys) c = (let (c1, e1) = http_run xs c; (c2, e2) = http_run ys c1 in (c2, e1 @ e2))"
  by (induction xs arbitrary: c) (auto simp: Let_def split_beta)

lemma http_outage_counts:
  "\<forall>(start, finish, env, req)\<in>set calls. http_down env \<Longrightarrow> calls \<noteq> [] \<Longrightarrow>
     cb_state (hl_circuitBreaker c) = CircuitClosed \<Longrightarrow> cb_failureCount (hl_circuitBreaker c) = j \<Longrightarrow> 0 \<le> j \<Longrightarrow>
     j + int (length calls) = cb_maxFailures (hl_circuitBreaker c) \<Longrightarrow> cb_maxFailures (hl_circuitBreaker c) \<le> max_int64 \<Longrightarrow>
     cb_state (hl_circuitBreaker (fst (http_run calls c))) = CircuitOpen
     \<and> cb_lastFailureTime (hl_circuitBreaker (fst (http_run calls c))) = fst (snd (last calls))
     \<and> cb_resetTimeout (hl_circuitBreaker (fst (http_run calls c))) = cb_resetTimeout (hl_circuitBreaker c)"
proof (induction calls arbitrary: c j)
  case (Cons x calls)
  obtain start finish env req where x: "x = (start, finish, env, req)" by (metis prod_cases4)
  let ?cb = "hl_circuitBreaker c"
  have adm: "CanExecute start ?cb = (True, ?cb)" using Cons.prems(3) by (simp add: CanExecute_def)
  have "http_down env" using Cons.prems(1) x by simp
  from http_Do_down [OF this, of start c finish req]
  have d: "fst (snd (http_Do start finish env req c)) = c\<lparr>hl_circuitBreaker := RecordFailure finish ?cb\<rparr>"
    by (simp add: adm)
  let ?c = "c\<lparr>hl_circuitBreaker := RecordFailure finish ?cb\<rparr>"
  have run: "fst (http_run (x # calls) c) = fst (http_run calls ?c)"
    using d by (simp add: x split_beta)
  have w: "wrap64 (j + 1) = j + 1"
    using Cons.prems(5-7) by (intro wrap64_id) (simp add: in_int64_def)
  show ?case
  proof (cases "calls = []")
    case True
    then show ?thesis using run Cons.prems w x by (simp add: RecordFailure_def Let_def)
  next
    case False
    have lt: "j + 1 < cb_maxFailures ?cb" using Cons.prems(6) False by (cases calls) auto
    have a: "cb_state (hl_circuitBreaker ?c) = CircuitClosed" "cb_failureCount (hl_circuitBreaker ?c) = j + 1"
      "cb_maxFailures (hl_circuitBreaker ?c) = cb_maxFailures ?cb"
      "cb_resetTimeout (hl_circuitBreaker ?c) = cb_resetTimeout ?cb"
      using Cons.prems(3,4) w lt by (simp_all add: RecordFailure_def Let_def)
    have "\<forall>(start, finish, env, req)\<in>set calls. http_down env" using Cons.prems(1) by simp
    from Cons.IH [OF this False a(1) a(2)] show ?thesis using a(3,4) Cons.prems(5-7) run False by simp
  qed
qed simp

lemma http_run_refused:
  "cb_state (hl_circuitBreaker c) = CircuitOpen \<Longrightarrow>
     \<forall>(start, finish, env, req)\<in>set calls. start - cb_lastFailureTime (hl_circuitBreaker c) \<le> cb_resetTimeout (hl_circuitBreaker c) \<Longrightarrow>
     http_run calls c = (c, replicate (length calls) (ErrorMetric ''circuit_breaker_open''))"
proof (induction calls)
  case (Cons x calls)
  obtain start finish env req where x: "x = (start, finish, env, req)" by (metis prod_cases4)
  have "CanExecute start (hl_circuitBreaker c) = (False, hl_circuitBreaker c)"
    using http_cb.admit_early [OF Cons.prems(1), of start] Cons.prems(2) x by simp
  then have "http_Do start finish env req c = (Inl ''circuit breaker is open'', c, [ErrorMetric ''circuit_breaker_open''])"
    by (simp add: http_Do_def)
  then show ?case using Cons x by simp
qed simp



section \<open>The client's breaker\<close>

lemma http_Do_breaker:
  "breaker_ok (hl_circuitBreaker c) \<Longrightarrow> cb_failureCount (hl_circuitBreaker c) < max_int64 \<Longrightarrow>
     http_Do start finish env req c = (r, c', evs) \<Longrightarrow>
     breaker_ok (hl_circuitBreaker c') \<and> cb_failureCount (hl_circuitBreaker c') \<le> cb_failureCount (hl_circuitBreaker c) + 1
     \<and> cb_maxFailures (hl_circuitBreaker c') = cb_maxFailures (hl_circuitBreaker c)
     \<and> cb_resetTimeout (hl_circuitBreaker c') = cb_resetTimeout (hl_circuitBreaker c)"
proof -
  assume ok: "breaker_ok (hl_circuitBreaker c)" "cb_failureCount (hl_circuitBreaker c) < max_int64"
    and d: "http_Do start finish env req c = (r, c', evs)"
  let ?cb = "hl_circuitBreaker c"
  obtain b cb where k: "CanExecute start ?cb = (b, cb)" by fastforce
  have cb: "breaker_ok cb" "cb_failureCount cb = cb_failureCount ?cb" "cb_maxFailures cb = cb_maxFailures ?cb"
    "cb_resetTimeout cb = cb_resetTimeout ?cb"
    using breaker_ok_admit [OF ok(1), of start] k
    by (auto simp: CanExecute_def split: CircuitBreakerState.split_asm if_split_asm)
  have f: "breaker_ok (RecordFailure finish cb)" "cb_failureCount (RecordFailure finish cb) = cb_failureCount ?cb + 1"
    "cb_maxFailures (RecordFailure finish cb) = cb_maxFailures ?cb" "cb_resetTimeout (RecordFailure finish cb) = cb_resetTimeout ?cb"
    using breaker_ok_failure [OF cb(1)] cb ok
    by (simp_all add: RecordFailure_def Let_def wrap64_id in_int64_def breaker_ok_def max_int64_def)
  have s: "breaker_ok (RecordSuccess cb)" "cb_failureCount (RecordSuccess cb) = 0"
    "cb_maxFailures (RecordSuccess cb) = cb_maxFailures ?cb" "cb_resetTimeout (RecordSuccess cb) = cb_resetTimeout ?cb"
    using breaker_ok_success [OF cb(1)] cb by (simp_all add: RecordSuccess_def)
  have "hl_circuitBreaker c' \<in> {cb, RecordSuccess cb, RecordFailure finish cb}"
    using d unfolding http_Do_def k Let_def
    by (auto split: if_split_asm prod.split_asm loop_end.split_asm bool.split_asm)
  then show ?thesis using cb f s ok(1) by (auto simp: breaker_ok_def)
qed

text \<open>The breaker of a client stays well formed: from a fresh breaker of positive threshold, whatever the calls
meet, it is closed exactly while fewer failures than the threshold have been counted, the count is never negative
nor above the number of calls, and threshold and timeout do not change.\<close>

theorem http_breaker_well_formed:
  assumes "hl_circuitBreaker c = NewCircuitBreaker n d" and "0 < n" and "int (length calls) < max_int64"
  shows "let cb = hl_circuitBreaker (fst (http_run calls c)) in
    (cb_state cb = CircuitClosed \<longleftrightarrow> cb_failureCount cb < n) \<and> 0 \<le> cb_failureCount cb
    \<and> cb_failureCount cb \<le> int (length calls) \<and> cb_maxFailures cb = n \<and> cb_resetTimeout cb = d"
proof -
  have "breaker_ok (hl_circuitBreaker (fst (http_run calls c)))
     \<and> cb_failureCount (hl_circuitBreaker (fst (http_run calls c))) \<le> j + int (length calls)
     \<and> cb_maxFailures (hl_circuitBreaker (fst (http_run calls c))) = n
     \<and> cb_resetTimeout (hl_circuitBreaker (fst (http_run calls c))) = d"
    if "breaker_ok (hl_circuitBreaker c)" "cb_failureCount (hl_circuitBreaker c) \<le> j"
      "cb_maxFailures (hl_circuitBreaker c) = n" "cb_resetTimeout (hl_circuitBreaker c) = d"
      "j + int (length calls) < max_int64" for j c
    using that
  proof (induction calls arbitrary: c j)
    case (Cons x calls)
    obtain start finish env req where x: "x = (start, finish, env, req)" by (metis prod_cases4)
    obtain r c' evs where d: "http_Do start finish env req c = (r, c', evs)" by (metis prod_cases3)
    have "cb_failureCount (hl_circuitBreaker c) < max_int64" using Cons.prems(2,5) by simp
    from http_Do_breaker [OF Cons.prems(1) this d] Cons.IH [of c' "j + 1"] Cons.prems(2-5)
    show ?case by (simp add: x d split_beta)
  qed simp
  from this [of c 0] show ?thesis
    using assms by (simp add: breaker_ok_new Let_def) (simp add: NewCircuitBreaker_def breaker_ok_def)
qed

theorem http_breaker_well_formed_witness:
  "cb_failureCount (hl_circuitBreaker (fst (http_run [(0, 1, http_demo_env 503, http_demo_req)] http_demo_client))) \<le> 1"
proof -
  have "hl_circuitBreaker http_demo_client = NewCircuitBreaker 2 (60 * second)" by (simp add: http_demo_client_def)
  from http_breaker_well_formed [OF this, of "[(0, 1, http_demo_env 503, http_demo_req)]"]
  show ?thesis by (simp add: max_int64_def Let_def)
qed

section \<open>A request that cannot be built\<close>

lemma http_loop_marshal:
  "rq_Body req = Some (Inl err) \<Longrightarrow> \<forall>k. he_cancel env k = None \<Longrightarrow>
     \<exists>evs. http_loop env c req (Suc attempt) wait (Some (''failed to marshal request body: '' @ err)) k
       = (Exhausted (Some (''failed to marshal request body: '' @ err)), evs)
       \<and> sent_of evs = [] \<and> length (waits_of evs) = k"
proof (induction k arbitrary: attempt wait)
  case (Suc k)
  have s: "doSingleRequest env c req (Suc attempt) = (Inl (''failed to marshal request body: '' @ err), [])"
    using Suc.prems(1) by (simp add: doSingleRequest_def)
  have n: "(if Suc attempt > 0 then he_cancel env (Suc attempt) else None) = None" using Suc.prems(2) by simp
  from Suc.IH [OF Suc.prems, of "Suc attempt" "nextWait (hl_retryConfig c) wait"] show ?case
    unfolding http_loop.simps Let_def n s by auto
qed simp

text \<open>A request whose body cannot be marshalled is treated as a network failure: nothing is sent, the
  call still waits \<^verbatim>\<open>MaxRetries\<close> times, and it counts as a failure of the service in the breaker.\<close>

theorem http_marshal_error_retried:
  assumes "rq_Body req = Some (Inl err)" and "\<forall>k. he_cancel env k = None"
    and "0 \<le> rt_MaxRetries (hl_retryConfig c)" and "CanExecute start (hl_circuitBreaker c) = (True, cb)"
  shows "\<exists>evs msg. http_Do start finish env req c = (Inl msg, c\<lparr>hl_circuitBreaker := RecordFailure finish cb\<rparr>, evs)
    \<and> sent_of evs = [] \<and> length (waits_of evs) = nat (rt_MaxRetries (hl_retryConfig c))"
proof -
  let ?c = "c\<lparr>hl_circuitBreaker := cb\<rparr>"
  have s: "doSingleRequest env ?c req 0 = (Inl (''failed to marshal request body: '' @ err), [])"
    using assms(1) by (simp add: doSingleRequest_def)
  have n: "nat (rt_MaxRetries (hl_retryConfig c) + 1) = Suc (nat (rt_MaxRetries (hl_retryConfig c)))"
    using assms(3) by simp
  obtain evs where "http_loop env ?c req (Suc 0) (rt_InitialWait (hl_retryConfig c))
      (Some (''failed to marshal request body: '' @ err)) (nat (rt_MaxRetries (hl_retryConfig c)))
      = (Exhausted (Some (''failed to marshal request body: '' @ err)), evs)"
    "sent_of evs = []" "length (waits_of evs) = nat (rt_MaxRetries (hl_retryConfig c))"
    using http_loop_marshal [OF assms(1,2)] by blast
  moreover from this have "http_loop env ?c req 0 (rt_InitialWait (hl_retryConfig c)) None (nat (rt_MaxRetries (hl_retryConfig c) + 1))
      = (Exhausted (Some (''failed to marshal request body: '' @ err)), evs)" unfolding n by (simp add: s)
  ultimately show ?thesis by (simp add: http_Do_def assms(4) Let_def)
qed

theorem http_marshal_error_retried_witness:
  "sent_of (snd (snd (http_Do 0 1 (http_demo_env 200) (http_demo_req\<lparr>rq_Body := Some (Inl ''chan'')\<rparr>) http_demo_client))) = []"
proof -
  have "rq_Body (http_demo_req\<lparr>rq_Body := Some (Inl ''chan'')\<rparr>) = Some (Inl ''chan'')" by simp
  moreover have "\<forall>k. he_cancel (http_demo_env 200) k = None" by (simp add: http_demo_env_def)
  moreover have "0 \<le> rt_MaxRetries (hl_retryConfig http_demo_client)" by (simp add: http_demo_client_def)
  moreover have "CanExecute 0 (hl_circuitBreaker http_demo_client) = (True, NewCircuitBreaker 2 (60 * second))"
    by (simp add: http_demo_client_def CanExecute_def NewCircuitBreaker_def)
  ultimately show ?thesis using http_marshal_error_retried [of "http_demo_req\<lparr>rq_Body := Some (Inl ''chan'')\<rparr>"
        "''chan''" "http_demo_env 200" http_demo_client 0 _ 1] by auto
qed

section \<open>Trace headers\<close>

lemma trace_keys:
  "canonicalKey ''X-Trace-ID'' = ''X-Trace-Id''" "canonicalKey ''X-Span-ID'' = ''X-Span-Id''"
  "canonicalKey ''X-Request-ID'' = ''X-Request-Id''" "canonicalKey ''X-Correlation-ID'' = ''X-Correlation-Id''"
  "canonicalKey ''traceparent'' = ''Traceparent''" "canonicalKey ''X-Parent-Span-ID'' = ''X-Parent-Span-Id''"
  "canonicalKey ''X-User-ID'' = ''X-User-Id''" "canonicalKey ''X-Service-Chain'' = ''X-Service-Chain''"
  by code_simp+

definition chain_name :: "string \<Rightarrow> bool" where
  "chain_name s \<longleftrightarrow> s \<noteq> [] \<and> strIndex s ''->'' = None"

lemma chain_name_cuts: "chain_name s \<Longrightarrow> cuts_at s ''->''"
proof -
  assume s: "chain_name s"
  then have n: "\<not> hasPrefix (drop j s) ''->''" for j
    by (metis chain_name_def strIndex_None drop_all hasPrefix.simps(2) nle_le)
  have "\<not> hasPrefix (drop j s @ ''->'') ''->''" if "j < length s" for j
  proof (cases "length (drop j s) \<ge> 2")
    case True
    then obtain a b r where d: "drop j s = a # b # r" by (cases "drop j s"; cases "tl (drop j s)") auto
    then show ?thesis using n [of j] by simp
  next
    case False
    then have "length (drop j s) = 1" using that by simp
    then obtain a where "drop j s = [a]" by (cases "drop j s") auto
    then show ?thesis by simp
  qed
  then show ?thesis by (simp add: cuts_at_def)
qed

lemma chain_roundtrip:
  "xs \<noteq> [] \<Longrightarrow> \<forall>s\<in>set xs. chain_name s \<Longrightarrow> strSplit (strJoin xs ''->'') ''->'' = xs \<and> strJoin xs ''->'' \<noteq> []"
proof -
  assume a: "xs \<noteq> []" "\<forall>s\<in>set xs. chain_name s"
  have "strSplit (strJoin xs ''->'') ''->'' = xs"
    using a chain_name_cuts by (intro strSplit_strJoin) (auto simp: chain_name_def)
  moreover have "strJoin xs ''->'' \<noteq> []" using a by (cases xs; cases "tl xs") (auto simp: chain_name_def)
  ultimately show ?thesis ..
qed

lemma traceparent_roundtrip:
  assumes "isHex (tc_TraceID tc) 32" and "isHex (tc_SpanID tc) 16"
  shows "parseTraceparent (Traceparent (Some tc)) = Some (tc_TraceID tc, tc_SpanID tc)"
    and "Traceparent (Some tc) \<noteq> []"
proof -
  let ?v = "''00'' @ ''-'' @ tc_TraceID tc @ ''-'' @ tc_SpanID tc @ ''-'' @ ''01''"
  have v: "Traceparent (Some tc) = ?v" using assms by (simp add: Traceparent_def)
  have h: "CHR ''-'' \<notin> set (tc_TraceID tc)" "CHR ''-'' \<notin> set (tc_SpanID tc)"
    "\<forall>c\<in>set (tc_TraceID tc) \<union> set (tc_SpanID tc). \<not> is_space c"
    using isHex_plain [OF assms(1)] isHex_plain [OF assms(2)] by auto
  have "\<not> is_space (CHR ''0'')" "\<not> is_space (CHR ''1'')" "\<not> is_space (CHR ''-'')" by code_simp+
  then have t: "trimSpace ?v = ?v" using h(3) by (intro trimSpace_no_space) auto
  have "strSplit ?v ''-'' = [''00'', tc_TraceID tc, tc_SpanID tc, ''01'']"
    using strSplit_single_head [of "CHR ''-''" "''00''"] strSplit_single_head [OF h(1)]
      strSplit_single_head [OF h(2)] strSplit_single_None [of "CHR ''-''" "''01''"] by simp
  then show "parseTraceparent (Traceparent (Some tc)) = Some (tc_TraceID tc, tc_SpanID tc)"
    unfolding v parseTraceparent_def t Let_def using assms by simp
  show "Traceparent (Some tc) \<noteq> []" unfolding v by simp
qed

text \<open>The trace a client sends is read back by the receiver with the same trace, request, correlation
  and user identifiers and service chain, and the sender's span as its parent; but its own span is the
  sender's too, since the span header of the sender is taken as the receiver's.\<close>

theorem http_trace_roundtrip:
  assumes "isHex (tc_TraceID tc) 32" and "isHex (tc_SpanID tc) 16"
    and "\<forall>s\<in>set (tc_ServiceChain tc). chain_name s"
  shows "TraceContextFromHeaders now draw (header_set_all (ToHeaders (Some tc)) Map.empty) =
    tc\<lparr>tc_ParentSpanID := tc_SpanID tc\<rparr>"
proof -
  have ne: "tc_SpanID tc \<noteq> []" using assms(2) by (auto simp: isHex_def)
  note tp = traceparent_roundtrip [OF assms(1,2)]
  let ?h = "header_set_all (ToHeaders (Some tc)) Map.empty"
  have g: "header_get ?h ''X-Trace-ID'' = tc_TraceID tc" "header_get ?h ''X-Span-ID'' = tc_SpanID tc"
    "header_get ?h ''X-Request-ID'' = tc_RequestID tc" "header_get ?h ''X-Correlation-ID'' = tc_CorrelationID tc"
    "header_get ?h ''X-User-ID'' = tc_UserID tc" "header_get ?h ''traceparent'' = Traceparent (Some tc)"
    "header_get ?h ''X-Service-Chain'' = strJoin (tc_ServiceChain tc) ''->''"
    using tp(2) by (simp_all add: header_get_def header_set_all_def header_set_def ToHeaders_def trace_keys)
  show ?thesis
  proof (cases "tc_ServiceChain tc = []")
    case True
    then show ?thesis using ne unfolding TraceContextFromHeaders_def g tp(1) Let_def by simp
  next
    case False
    then show ?thesis using ne chain_roundtrip [OF False assms(3)]
      unfolding TraceContextFromHeaders_def g tp(1) Let_def by simp
  qed
qed

definition http_demo_trace :: trace_context where
  "http_demo_trace = \<lparr>tc_TraceID = replicate 32 (CHR ''a''), tc_SpanID = replicate 16 (CHR ''1''), tc_ParentSpanID = [],
     tc_RequestID = ''r'', tc_CorrelationID = ''c'', tc_UserID = [], tc_ServiceChain = [''gateway'', ''orders'']\<rparr>"

theorem http_trace_roundtrip_witness:
  "tc_SpanID (TraceContextFromHeaders 0 None (header_set_all (ToHeaders (Some http_demo_trace)) Map.empty))
   = replicate 16 (CHR ''1'')"
proof -
  have "isHex (tc_TraceID http_demo_trace) 32" "isHex (tc_SpanID http_demo_trace) 16"
    "\<forall>s\<in>set (tc_ServiceChain http_demo_trace). chain_name s" by code_simp+
  from http_trace_roundtrip [OF this] show ?thesis by (simp add: http_demo_trace_def)
qed

text \<open>Query values are not escaped: two different maps of parameters give the same URL.\<close>

lemma http_query_injection:
  "buildQuery [(''a'', ''1&b=2'')] = buildQuery [(''a'', ''1''), (''b'', ''2'')]"
  by (simp add: buildQuery_def)

end
