(* ===== verification/Secrets_Store.thy ===== *)
theory Secrets_Store
  imports Env_Reader
begin

text \<open>
  The \<^verbatim>\<open>Store\<close> interface of \<^verbatim>\<open>secrets/secrets.go\<close>, the environment store (\<^verbatim>\<open>env.go\<close>) and the chain
  (\<^verbatim>\<open>chain.go\<close>). A store is its three operations over a world \<open>'w\<close>: what the process environment and the
  remote services hold when an operation runs.
\<close>

section \<open>Errors and paths\<close>

text \<open>An error is told apart by the sentinel it wraps (\<^verbatim>\<open>errors.Is\<close>).\<close>

datatype sec_kind = ErrNotFound | ErrReadOnly | ErrAccessDenied | ErrUnavailable | ErrCtx | ErrOther

datatype sec_error = SecErr (sec_kind_of: sec_kind) (sec_msg: string)

text \<open>\<^verbatim>\<open>%q\<close>, for strings of printable characters without quotes and backslashes.\<close>

definition quoted :: "string \<Rightarrow> string" where
  "quoted s = CHR 0x22 # s @ [CHR 0x22]"

definition errNotFound :: sec_error where "errNotFound = SecErr ErrNotFound ''secret not found''"
definition errReadOnly :: sec_error where "errReadOnly = SecErr ErrReadOnly ''secret store is read-only''"

definition ServiceKeyPath :: "string \<Rightarrow> string" where
  "ServiceKeyPath serviceName = ''service-keys/'' @ serviceName"

definition EventSigningKeyPath :: string where "EventSigningKeyPath = ''kms/event-signing-key''"

record 'w store =
  st_Get :: "'w \<Rightarrow> string \<Rightarrow> (sec_error, string) result"
  st_Set :: "'w \<Rightarrow> string \<Rightarrow> string \<Rightarrow> sec_error option \<times> 'w"
  st_Exists :: "'w \<Rightarrow> string \<Rightarrow> (sec_error, bool) result"

section \<open>The contract of a single-shot store\<close>

text \<open>\<^verbatim>\<open>Exists\<close> answers what \<^verbatim>\<open>Get\<close> would find: true for a value, false for \<^verbatim>\<open>ErrNotFound\<close>, else its error.\<close>

definition presence :: "(sec_error, string) result \<Rightarrow> (sec_error, bool) result" where
  "presence r = (case r of Inr _ \<Rightarrow> Inr True
     | Inl e \<Rightarrow> if sec_kind_of e = ErrNotFound then Inr False else Inl e)"

locale single_shot_store =
  fixes get :: "'w \<Rightarrow> string \<Rightarrow> (sec_error, string) result"
    and pres :: "'w \<Rightarrow> string \<Rightarrow> (sec_error, bool) result"
  assumes exists_get: "pres w p = presence (get w p)"
begin

lemma exists_true: "pres w p = Inr True \<longleftrightarrow> (\<exists>v. get w p = Inr v)"
  by (auto simp: exists_get presence_def split: sum.split)

lemma exists_false: "pres w p = Inr False \<longleftrightarrow> (\<exists>e. get w p = Inl e \<and> sec_kind_of e = ErrNotFound)"
  by (auto simp: exists_get presence_def split: sum.split)

lemma exists_error: "pres w p = Inl e \<longleftrightarrow> get w p = Inl e \<and> sec_kind_of e \<noteq> ErrNotFound"
  by (auto simp: exists_get presence_def split: sum.split)

end

section \<open>The environment store\<close>

text \<open>\<^verbatim>\<open>aliases\<close>: the variables tried for a path before the generic one; options append.\<close>

type_synonym aliases = "string \<Rightarrow> string list"

definition WithAlias :: "string \<Rightarrow> string list \<Rightarrow> aliases \<Rightarrow> aliases" where
  "WithAlias path envVars al = al(path := al path @ envVars)"

definition NewEnvStore :: "(aliases \<Rightarrow> aliases) list \<Rightarrow> aliases" where
  "NewEnvStore opts = fold (\<lambda>f al. f al) opts (\<lambda>_. [])"

definition EnvVarName :: "string \<Rightarrow> string" where
  "EnvVarName path = ''SECRET_'' @ map (\<lambda>c. if c \<in> set ''/-.'' then CHR ''_'' else c) (toUpper path)"

definition env_candidates :: "aliases \<Rightarrow> string \<Rightarrow> string list" where
  "env_candidates al path = al path @ [EnvVarName path]"

definition envStore_Get :: "('w \<Rightarrow> environ) \<Rightarrow> aliases \<Rightarrow> 'w \<Rightarrow> string \<Rightarrow> (sec_error, string) result" where
  "envStore_Get env al w path =
     (case filter (\<lambda>v. v \<noteq> []) (map (getenv (env w)) (env_candidates al path)) of
        v # _ \<Rightarrow> Inr v
      | [] \<Rightarrow> Inl (SecErr ErrNotFound (''env backend: '' @ quoted path @ '' (tried ''
          @ strJoin (env_candidates al path) '', '' @ ''): secret not found'')))"

definition envStore_Set :: "'w \<Rightarrow> string \<Rightarrow> string \<Rightarrow> sec_error option \<times> 'w" where
  "envStore_Set w path v =
     (Some (SecErr ErrReadOnly (''env backend: cannot write '' @ quoted path @ '': secret store is read-only'')), w)"

definition envStore_Exists :: "('w \<Rightarrow> environ) \<Rightarrow> aliases \<Rightarrow> 'w \<Rightarrow> string \<Rightarrow> (sec_error, bool) result" where
  "envStore_Exists env al w path = Inr (list_ex (\<lambda>k. getenv (env w) k \<noteq> []) (env_candidates al path))"

definition EnvStore :: "('w \<Rightarrow> environ) \<Rightarrow> aliases \<Rightarrow> 'w store" where
  "EnvStore env al = \<lparr>st_Get = envStore_Get env al, st_Set = envStore_Set, st_Exists = envStore_Exists env al\<rparr>"

interpretation env_store: single_shot_store "envStore_Get env al" "envStore_Exists env al"
  for env :: "'w \<Rightarrow> environ" and al
proof
  fix w :: 'w and p
  let ?vs = "map (getenv (env w)) (env_candidates al p)"
  have "filter (\<lambda>v. v \<noteq> []) ?vs = [] \<longleftrightarrow> \<not> list_ex (\<lambda>k. getenv (env w) k \<noteq> []) (env_candidates al p)"
    by (auto simp: filter_empty_conv list_ex_iff)
  then show "envStore_Exists env al w p = presence (envStore_Get env al w p)"
    by (auto simp: envStore_Exists_def envStore_Get_def presence_def split: list.split)
qed

section \<open>The chain\<close>

fun chain_Get_from :: "sec_error \<Rightarrow> 'w store list \<Rightarrow> 'w \<Rightarrow> string \<Rightarrow> (sec_error, string) result" where
  "chain_Get_from lastErr [] w path = Inl lastErr"
| "chain_Get_from lastErr (s # ss) w path =
     (case st_Get s w path of
        Inr v \<Rightarrow> Inr v
      | Inl e \<Rightarrow> if sec_kind_of e \<noteq> ErrNotFound then Inl e else chain_Get_from e ss w path)"

definition chain_Get :: "'w store list \<Rightarrow> 'w \<Rightarrow> string \<Rightarrow> (sec_error, string) result" where
  "chain_Get = chain_Get_from errNotFound"

definition chain_Set :: "'w store list \<Rightarrow> 'w \<Rightarrow> string \<Rightarrow> string \<Rightarrow> sec_error option \<times> 'w" where
  "chain_Set ss w path v = (case ss of [] \<Rightarrow> (Some errReadOnly, w) | s # _ \<Rightarrow> st_Set s w path v)"

fun chain_Exists :: "'w store list \<Rightarrow> 'w \<Rightarrow> string \<Rightarrow> (sec_error, bool) result" where
  "chain_Exists [] w path = Inr False"
| "chain_Exists (s # ss) w path =
     (case st_Exists s w path of
        Inl e \<Rightarrow> Inl e
      | Inr True \<Rightarrow> Inr True
      | Inr False \<Rightarrow> chain_Exists ss w path)"

definition Chain :: "'w store list \<Rightarrow> 'w store" where
  "Chain ss = \<lparr>st_Get = chain_Get ss, st_Set = chain_Set ss, st_Exists = chain_Exists ss\<rparr>"

text \<open>A chain of single-shot stores is one.\<close>

definition single_shot :: "'w store \<Rightarrow> bool" where
  "single_shot s \<longleftrightarrow> single_shot_store (st_Get s) (st_Exists s)"

lemma single_shot_env: "single_shot (EnvStore env al)"
  by (simp add: single_shot_def EnvStore_def env_store.single_shot_store_axioms)

lemma single_shot_eq: "single_shot s \<Longrightarrow> st_Exists s w p = presence (st_Get s w p)"
  unfolding single_shot_def by (rule single_shot_store.exists_get)

lemma chain_exists_presence:
  "\<forall>s\<in>set ss. single_shot s \<Longrightarrow> sec_kind_of e = ErrNotFound \<Longrightarrow>
     chain_Exists ss w p = presence (chain_Get_from e ss w p)"
proof (induction ss arbitrary: e)
  case (Cons s ss)
  have s: "st_Exists s w p = presence (st_Get s w p)" using Cons.prems(1) by (simp add: single_shot_eq)
  show ?case
  proof (cases "st_Get s w p")
    case (Inl e')
    then show ?thesis using Cons s by (simp add: presence_def)
  next
    case (Inr v)
    then show ?thesis using s by (simp add: presence_def)
  qed
qed (simp add: presence_def)

lemma single_shot_chain: "\<forall>s\<in>set ss. single_shot s \<Longrightarrow> single_shot (Chain ss)"
  unfolding single_shot_def [of "Chain ss"]
  by unfold_locales (simp add: Chain_def chain_Get_def chain_exists_presence errNotFound_def)

end
