(* ===== verification/Secrets_Cache.thy ===== *)
theory Secrets_Cache
  imports Secrets_Store
begin

text \<open>
  The caching and retrying wrappers of a store (\<^verbatim>\<open>secrets/cached.go\<close>, \<^verbatim>\<open>retry.go\<close>).
\<close>

section \<open>The cache\<close>

text \<open>A cached value with the instant it expires.\<close>

type_synonym cache = "string \<rightharpoonup> string \<times> instant"

definition cache_lookup :: "instant \<Rightarrow> cache \<Rightarrow> string \<Rightarrow> string option" where
  "cache_lookup now c path =
     (case c path of Some (v, expires) \<Rightarrow> if now < expires then Some v else None | None \<Rightarrow> None)"

definition cache_store :: "duration \<Rightarrow> instant \<Rightarrow> string \<Rightarrow> string \<Rightarrow> cache \<Rightarrow> cache" where
  "cache_store ttl now path v c = c(path \<mapsto> (v, now + ttl))"

text \<open>
  \<^verbatim>\<open>Get\<close>: \<open>now\<close> is the clock at the lookup, \<open>now'\<close> when the value is stored; the lock is held for neither
  the read of the inner store nor the time in between.
\<close>

definition cached_Get :: "'w store \<Rightarrow> duration \<Rightarrow> instant \<Rightarrow> instant \<Rightarrow> 'w \<Rightarrow> string \<Rightarrow> cache \<Rightarrow>
    (sec_error, string) result \<times> cache" where
  "cached_Get inner ttl now now' w path c =
     (case cache_lookup now c path of
        Some v \<Rightarrow> (Inr v, c)
      | None \<Rightarrow> (case st_Get inner w path of
          Inl err \<Rightarrow> (Inl err, c)
        | Inr v \<Rightarrow> (Inr v, cache_store ttl now' path v c)))"

definition cached_Set :: "'w store \<Rightarrow> duration \<Rightarrow> instant \<Rightarrow> 'w \<Rightarrow> string \<Rightarrow> string \<Rightarrow> cache \<Rightarrow>
    sec_error option \<times> 'w \<times> cache" where
  "cached_Set inner ttl now w path v c =
     (case st_Set inner w path v of
        (Some err, w') \<Rightarrow> (Some err, w', c)
      | (None, w') \<Rightarrow> (None, w', cache_store ttl now path v c))"

definition cached_Exists :: "'w store \<Rightarrow> instant \<Rightarrow> 'w \<Rightarrow> string \<Rightarrow> cache \<Rightarrow> (sec_error, bool) result" where
  "cached_Exists inner now w path c =
     (if cache_lookup now c path \<noteq> None then Inr True else st_Exists inner w path)"

text \<open>
  A run of a cached store: reads, writes, and changes of the world made elsewhere; the log holds the
  values obtained from or written to the inner store, with the instants they were cached.
\<close>

datatype 'w cache_event =
  CGet instant instant string
| CSet instant string string
| CWorld 'w

fun cached_run :: "'w store \<Rightarrow> duration \<Rightarrow> 'w cache_event list \<Rightarrow> 'w \<Rightarrow> cache \<Rightarrow>
    (instant \<times> string \<times> string) list \<Rightarrow> 'w \<times> cache \<times> (instant \<times> string \<times> string) list" where
  "cached_run inner ttl [] w c log = (w, c, log)"
| "cached_run inner ttl (CGet now now' path # es) w c log =
     (let (r, c') = cached_Get inner ttl now now' w path c
      in cached_run inner ttl es w c'
           (if cache_lookup now c path = None
            then (case r of Inr v \<Rightarrow> (now', path, v) # log | Inl _ \<Rightarrow> log) else log))"
| "cached_run inner ttl (CSet now path v # es) w c log =
     (let (err, w', c') = cached_Set inner ttl now w path v c
      in cached_run inner ttl es w' c' (if err = None then (now, path, v) # log else log))"
| "cached_run inner ttl (CWorld w' # es) w c log = cached_run inner ttl es w' c log"

text \<open>Every entry was obtained or written one time-to-live before it expires.\<close>

definition cache_ok :: "duration \<Rightarrow> cache \<Rightarrow> (instant \<times> string \<times> string) list \<Rightarrow> bool" where
  "cache_ok ttl c log \<longleftrightarrow> (\<forall>p v t. c p = Some (v, t) \<longrightarrow> (t - ttl, p, v) \<in> set log)"

lemma cache_ok_store: "cache_ok ttl c log \<Longrightarrow> cache_ok ttl (cache_store ttl now p v c) ((now, p, v) # log)"
  by (auto simp: cache_ok_def cache_store_def)

lemma cache_ok_more: "cache_ok ttl c log \<Longrightarrow> cache_ok ttl c (x # log)"
  by (auto simp: cache_ok_def)

lemma cached_run_ok:
  "cached_run inner ttl es w c log = (w', c', log') \<Longrightarrow> cache_ok ttl c log \<Longrightarrow> cache_ok ttl c' log'"
proof (induction inner ttl es w c log rule: cached_run.induct)
  case (2 inner ttl now now' path es w c log)
  show ?case
  proof (cases "cache_lookup now c path")
    case None
    then show ?thesis using 2
      by (cases "st_Get inner w path") (auto simp: cached_Get_def cache_ok_store)
  next
    case (Some v)
    then show ?thesis using 2 by (simp add: cached_Get_def)
  qed
next
  case (3 inner ttl now path v es w c log)
  then show ?case
    by (cases "st_Set inner w path v"; cases "fst (st_Set inner w path v)")
       (auto simp: cached_Set_def cache_ok_store)
qed simp_all

section \<open>Retrying\<close>

definition retryable :: "sec_error \<Rightarrow> bool" where
  "retryable e \<longleftrightarrow> sec_kind_of e = ErrNotFound \<or> sec_kind_of e = ErrUnavailable"

text \<open>
  \<^verbatim>\<open>Get\<close>: \<open>view k\<close> is the world at the \<open>k\<close>-th attempt, \<open>ctx k\<close> the context's error if it ends during the wait
  after it. The result comes with the waits; \<open>None\<close> is fuel that ran out.
\<close>

fun retrying_Get :: "'w store \<Rightarrow> duration \<Rightarrow> (nat \<Rightarrow> 'w) \<Rightarrow> (nat \<Rightarrow> string option) \<Rightarrow> string \<Rightarrow> nat \<Rightarrow> duration \<Rightarrow> nat \<Rightarrow>
    ((sec_error, string) result \<times> duration list) option" where
  "retrying_Get inner bmax view ctx path k backoff 0 = None"
| "retrying_Get inner bmax view ctx path k backoff (Suc fuel) =
     (case st_Get inner (view k) path of
        Inr v \<Rightarrow> Some (Inr v, [])
      | Inl err \<Rightarrow>
          if \<not> retryable err then Some (Inl err, [])
          else case ctx k of
              Some ctxErr \<Rightarrow> Some (Inl (SecErr ErrCtx (ctxErr @ '' (last attempt: '' @ sec_msg err @ '')'')), [])
            | None \<Rightarrow>
                (let b = wrap64 (backoff * 2); next = (if b > bmax then bmax else b)
                 in case retrying_Get inner bmax view ctx path (Suc k) next fuel of
                      None \<Rightarrow> None
                    | Some (r, waits) \<Rightarrow> Some (r, backoff # waits)))"

text \<open>The other two operations are handed through at once.\<close>

definition retrying_Set :: "'w store \<Rightarrow> 'w \<Rightarrow> string \<Rightarrow> string \<Rightarrow> sec_error option \<times> 'w" where
  "retrying_Set inner w path v = st_Set inner w path v"

definition retrying_Exists :: "'w store \<Rightarrow> 'w \<Rightarrow> string \<Rightarrow> (sec_error, bool) result" where
  "retrying_Exists inner w path = st_Exists inner w path"

text \<open>The waits: the initial one, then doubled and capped.\<close>

definition backoff_at :: "duration \<Rightarrow> duration \<Rightarrow> nat \<Rightarrow> duration" where
  "backoff_at initial bmax j = (if j = 0 then initial else min (2 ^ j * initial) bmax)"

lemma backoff_step:
  assumes "0 < initial" and "initial \<le> bmax" and "bmax \<le> 2 ^ 61"
  shows "(if wrap64 (backoff_at initial bmax j * 2) > bmax then bmax else wrap64 (backoff_at initial bmax j * 2))
    = backoff_at initial bmax (Suc j)"
proof -
  let ?b = "backoff_at initial bmax j"
  have b: "0 \<le> ?b" "?b \<le> bmax" using assms by (auto simp: backoff_at_def)
  then have "wrap64 (?b * 2) = ?b * 2" using assms(3) by (intro wrap64_id) (simp add: in_int64_def max_int64_def)
  moreover define x where "x = 2 ^ j * initial"
  moreover have "2 ^ Suc j * initial = 2 * x" by (simp add: x_def)
  moreover have "0 < x" using assms(1) by (simp add: x_def)
  ultimately show ?thesis using assms by (cases "j = 0") (auto simp: backoff_at_def min_def)
qed

lemma retrying_Get_runs:
  assumes "0 < initial" and "initial \<le> bmax" and "bmax \<le> 2 ^ 61"
  shows "\<forall>i<n. (\<exists>e. st_Get inner (view (k + i)) path = Inl e \<and> retryable e) \<and> ctx (k + i) = None \<Longrightarrow>
     retrying_Get inner bmax view ctx path k (backoff_at initial bmax k) (n + fuel) =
       (case retrying_Get inner bmax view ctx path (k + n) (backoff_at initial bmax (k + n)) fuel of
          None \<Rightarrow> None | Some (r, waits) \<Rightarrow> Some (r, map (backoff_at initial bmax) [k..<k + n] @ waits))"
proof (induction n arbitrary: k)
  case 0
  then show ?case by (simp split: option.split prod.split)
next
  case (Suc n)
  obtain e where e: "st_Get inner (view k) path = Inl e" "retryable e" "ctx k = None"
    using Suc.prems by (metis Nat.add_0_right zero_less_Suc)
  have "\<forall>i<n. (\<exists>e. st_Get inner (view (Suc k + i)) path = Inl e \<and> retryable e) \<and> ctx (Suc k + i) = None"
    using Suc.prems by (metis add_Suc_shift Suc_less_eq)
  note IH = Suc.IH [OF this]
  have u: "[k..<Suc (k + n)] = k # [Suc k..<Suc (k + n)]" by (rule upt_conv_Cons) simp
  show ?case
    using e IH backoff_step [OF assms, of k] by (simp add: Let_def u del: upt_Suc split: option.split prod.split)
qed

end
