(* ===== verification/Secrets_Remote.thy ===== *)
theory Secrets_Remote
  imports Secrets_Cache Event_Signing
begin

text \<open>
  The remote stores (\<^verbatim>\<open>secrets/vault.go\<close>, \<^verbatim>\<open>kubernetes.go\<close>), base64, the factory (\<^verbatim>\<open>factory.go\<close>) and the
  loading of the event signing key (\<^verbatim>\<open>eventbus/signing_key.go\<close>). What the servers answer is an argument.
\<close>

section \<open>Base64\<close>

text \<open>\<^verbatim>\<open>base64.StdEncoding\<close>: line breaks are skipped, the bits a padded group leaves over are ignored.\<close>

definition b64_alphabet :: string where
  "b64_alphabet = ''ABCDEFGHIJKLMNOPQRSTUVWXYZabcdefghijklmnopqrstuvwxyz0123456789+/''"

definition b64_char :: "nat \<Rightarrow> char" where
  "b64_char n = b64_alphabet ! n"

definition b64_val :: "char \<Rightarrow> nat option" where
  "b64_val c =
     (if is_upper c then Some (of_char c - 65)
      else if is_lower c then Some (of_char c - 71)
      else if is_digit c then Some (of_char c + 4)
      else if c = CHR ''+'' then Some 62 else if c = CHR ''/'' then Some 63 else None)"

fun b64_encode :: "string \<Rightarrow> string" where
  "b64_encode [] = []"
| "b64_encode [a] = (let x = of_char a :: nat in
     [b64_char (x div 4), b64_char ((x mod 4) * 16), CHR ''='', CHR ''=''])"
| "b64_encode [a, b] = (let x = of_char a :: nat; y = of_char b :: nat in
     [b64_char (x div 4), b64_char ((x mod 4) * 16 + y div 16), b64_char ((y mod 16) * 4), CHR ''=''])"
| "b64_encode (a # b # c # r) = (let x = of_char a :: nat; y = of_char b :: nat; z = of_char c :: nat in
     b64_char (x div 4) # b64_char ((x mod 4) * 16 + y div 16) # b64_char ((y mod 16) * 4 + z div 64)
       # b64_char (z mod 64) # b64_encode r)"

definition byte1 :: "nat \<Rightarrow> nat \<Rightarrow> char" where "byte1 p q = char_of (p * 4 + q div 16)"
definition byte2 :: "nat \<Rightarrow> nat \<Rightarrow> char" where "byte2 q r = char_of ((q mod 16) * 16 + r div 4)"
definition byte3 :: "nat \<Rightarrow> nat \<Rightarrow> char" where "byte3 r s = char_of ((r mod 4) * 64 + s)"

fun b64_quads :: "string \<Rightarrow> string option" where
  "b64_quads [] = Some []"
| "b64_quads (a # b # c # d # r) =
     (case (b64_val a, b64_val b) of
        (Some p, Some q) \<Rightarrow>
          if c = CHR ''='' then (if d = CHR ''='' \<and> r = [] then Some [byte1 p q] else None)
          else (case b64_val c of
              None \<Rightarrow> None
            | Some s \<Rightarrow>
                if d = CHR ''='' then (if r = [] then Some [byte1 p q, byte2 q s] else None)
                else (case (b64_val d, b64_quads r) of
                    (Some t, Some bs) \<Rightarrow> Some (byte1 p q # byte2 q s # byte3 s t # bs)
                  | _ \<Rightarrow> None))
      | _ \<Rightarrow> None)"
| "b64_quads _ = None"

definition b64_decode :: "string \<Rightarrow> string option" where
  "b64_decode s = b64_quads (filter (\<lambda>c. c \<noteq> CHR 0x0A \<and> c \<noteq> CHR 0x0D) s)"

lemma b64_table: "list_all (\<lambda>n. b64_val (b64_char n) = Some n \<and> b64_char n \<noteq> CHR ''='' \<and> b64_char n \<noteq> CHR 0x0A
    \<and> b64_char n \<noteq> CHR 0x0D) [0..<64]"
  by code_simp

lemma b64_val_char [simp]: "n < 64 \<Longrightarrow> b64_val (b64_char n) = Some n"
  and b64_char_plain [simp]: "n < 64 \<Longrightarrow> b64_char n \<noteq> CHR ''=''" "n < 64 \<Longrightarrow> b64_char n \<noteq> CHR 0x0A"
    "n < 64 \<Longrightarrow> b64_char n \<noteq> CHR 0x0D"
proof -
  have "n \<in> set [0..<64]" if "n < 64" using that by simp
  then show "n < 64 \<Longrightarrow> b64_val (b64_char n) = Some n" "n < 64 \<Longrightarrow> b64_char n \<noteq> CHR ''=''"
    "n < 64 \<Longrightarrow> b64_char n \<noteq> CHR 0x0A" "n < 64 \<Longrightarrow> b64_char n \<noteq> CHR 0x0D"
    using b64_table unfolding list_all_iff by blast+
qed

lemma byte_div:
  fixes x :: nat
  assumes "x < 256"
  shows "x div 4 < 64" "x div 16 < 16" "x div 64 < 4" "x mod 4 < 4" "x mod 16 < 16" "x mod 64 < 64"
  using assms by (simp_all add: less_mult_imp_div_less)

lemma of_char_div [simp]:
  "(of_char c :: nat) div 4 < 64" "(of_char c :: nat) div 16 < 16" "(of_char c :: nat) div 64 < 4"
  using byte_div [OF nat_of_char_less_256 [of c]] by simp_all

lemma sextets [simp]:
  "(of_char a mod 4) * 16 < (64 :: nat)" "(of_char a mod 4) * 16 + of_char b div 16 < (64 :: nat)"
  "(of_char b mod 16) * 4 < (64 :: nat)" "(of_char b mod 16) * 4 + of_char c div 64 < (64 :: nat)"
proof -
  have "(of_char a :: nat) mod 4 < 4" "(of_char b :: nat) mod 16 < 16" by simp_all
  then show "(of_char a mod 4) * 16 < (64 :: nat)" "(of_char a mod 4) * 16 + of_char b div 16 < (64 :: nat)"
    "(of_char b mod 16) * 4 < (64 :: nat)" "(of_char b mod 16) * 4 + of_char c div 64 < (64 :: nat)"
    using of_char_div [of b] of_char_div [of c] by linarith+
qed

lemma join_div: "0 < k \<Longrightarrow> y < k \<Longrightarrow> (x * k + y) div k = (x :: nat)" and join_mod: "y < k \<Longrightarrow> (x * k + y) mod k = (y :: nat)"
  by simp_all

lemma byte1_eq: "y < 16 \<Longrightarrow> byte1 (of_char a div 4) ((of_char a mod 4) * 16 + y) = a"
  by (simp only: byte1_def join_div zero_less_numeral div_mult_mod_eq char_of_char)

lemma byte2_eq: "z < 4 \<Longrightarrow> byte2 (x * 16 + of_char b div 16) ((of_char b mod 16) * 4 + z) = b"
  by (simp only: byte2_def join_div join_mod of_char_div zero_less_numeral div_mult_mod_eq char_of_char)

lemma byte3_eq: "byte3 (y * 4 + of_char c div 64) (of_char c mod 64) = c"
  by (simp only: byte3_def join_mod of_char_div div_mult_mod_eq char_of_char)

lemma b64_quads_encode: "b64_quads (b64_encode bs) = Some bs"
proof (induction bs rule: b64_encode.induct)
  case (2 a)
  show ?case using byte1_eq [of 0 a] by (simp add: Let_def)
next
  case (3 a b)
  show ?case
    using byte1_eq [of "of_char b div 16" a] byte2_eq [of 0 "of_char a mod 4" b] by (simp add: Let_def)
next
  case (4 a b c r)
  then show ?case
    using byte1_eq [of "of_char b div 16" a] byte2_eq [of "of_char c div 64" "of_char a mod 4" b]
      byte3_eq [of "of_char b mod 16" c] by (simp add: Let_def)
qed simp

lemma b64_encode_plain: "filter (\<lambda>c. c \<noteq> CHR 0x0A \<and> c \<noteq> CHR 0x0D) (b64_encode bs) = b64_encode bs"
proof (induction bs rule: b64_encode.induct)
  case (2 a)
  show ?case by (simp add: Let_def)
next
  case (3 a b)
  show ?case by (simp add: Let_def)
next
  case (4 a b c r)
  then show ?case by (simp add: Let_def)
qed simp

lemma b64_decode_encode [simp]: "b64_decode (b64_encode bs) = Some bs"
  by (simp add: b64_decode_def b64_encode_plain b64_quads_encode)

lemma b64_encode_Nil_iff: "b64_encode bs = [] \<longleftrightarrow> bs = []"
  by (cases bs rule: b64_encode.cases) (simp_all add: Let_def)

section \<open>Status codes\<close>

text \<open>\<^verbatim>\<open>checkStatus\<close> of the two remote stores.\<close>

definition vault_checkStatus :: "int \<Rightarrow> string \<Rightarrow> sec_error option" where
  "vault_checkStatus status path =
     (if status = 200 then None
      else if status = 404 then Some (SecErr ErrNotFound (''vault: '' @ quoted path @ '': secret not found''))
      else if status = 403 then Some (SecErr ErrAccessDenied (''vault: '' @ quoted path
             @ '' (check VAULT_TOKEN and policy): access to secret denied''))
      else if status = 429 \<or> status \<ge> 500
        then Some (SecErr ErrUnavailable (''vault: '' @ quoted path @ '' returned '' @ itoa status
             @ '': secret store unavailable''))
      else Some (SecErr ErrOther (''vault: '' @ quoted path @ '' returned unexpected status '' @ itoa status)))"

definition k8s_checkStatus :: "int \<Rightarrow> string \<Rightarrow> sec_error option" where
  "k8s_checkStatus status path =
     (if status = 200 then None
      else if status = 404 then Some (SecErr ErrNotFound (''kubernetes: '' @ quoted path @ '': secret not found''))
      else if status = 401 \<or> status = 403 then Some (SecErr ErrAccessDenied (''kubernetes: '' @ quoted path @ '' (status ''
             @ itoa status @ ''; ServiceAccount lacks RBAC for this secret): access to secret denied''))
      else if status = 429 \<or> status \<ge> 500
        then Some (SecErr ErrUnavailable (''kubernetes: '' @ quoted path @ '' returned '' @ itoa status
             @ '': secret store unavailable''))
      else Some (SecErr ErrOther (''kubernetes: '' @ quoted path @ '' returned unexpected status '' @ itoa status)))"

section \<open>Vault\<close>

record vault_store =
  va_addr :: string
  va_token :: string
  va_mount :: string
  va_prefix :: string

definition NewVaultStore :: "environ \<Rightarrow> string \<Rightarrow> string \<Rightarrow> string \<Rightarrow> string \<Rightarrow> vault_store" where
  "NewVaultStore e addr token mount pfx = \<lparr>va_addr = trimSuffix addr ''/'', va_token = token,
     va_mount = orElse mount ''secret'', va_prefix = orElse (orElse pfx (getenv e ''SECRETS_VAULT_PREFIX'')) ''app''\<rparr>"

definition NewVaultStoreFromEnv :: "environ \<Rightarrow> (string, vault_store) result" where
  "NewVaultStoreFromEnv e =
     (if getenv e ''VAULT_ADDR'' = [] then Inl ''vault backend requires VAULT_ADDR''
      else if getenv e ''VAULT_TOKEN'' = [] then Inl ''vault backend requires VAULT_TOKEN''
      else Inr (NewVaultStore e (getenv e ''VAULT_ADDR'') (getenv e ''VAULT_TOKEN'')
             (getenv e ''SECRETS_VAULT_MOUNT'') (getenv e ''SECRETS_VAULT_PREFIX'')))"

definition vault_url :: "vault_store \<Rightarrow> string \<Rightarrow> string" where
  "vault_url v path = va_addr v @ ''/v1/'' @ va_mount v @ ''/data/'' @ va_prefix v @ ''/'' @ path"

text \<open>A request fails before it is sent (\<^verbatim>\<open>http.NewRequest\<close>) or in the transport.\<close>

datatype transport_error = RequestInvalid string | TransportFailed string

text \<open>
  What the Vault server does with a read and with a write of a value under a token: the transport's error,
  or the status with, for a read, the decoded \<^verbatim>\<open>data.data\<close> map or the decoder's error.
\<close>

record 'w vault_api =
  vs_read :: "'w \<Rightarrow> string \<Rightarrow> string \<Rightarrow> (transport_error, int \<times> (string, string \<rightharpoonup> string) result) result"
  vs_write :: "'w \<Rightarrow> string \<Rightarrow> string \<Rightarrow> string \<Rightarrow> (transport_error, int) result \<times> 'w"

definition vault_unavailable :: "string \<Rightarrow> string \<Rightarrow> transport_error \<Rightarrow> sec_error" where
  "vault_unavailable verb path err = (case err of
     RequestInvalid m \<Rightarrow> SecErr ErrOther m
   | TransportFailed m \<Rightarrow>
       SecErr ErrUnavailable (''vault: '' @ verb @ '' '' @ path @ '': '' @ m @ '': secret store unavailable''))"

definition vault_Get :: "'w vault_api \<Rightarrow> vault_store \<Rightarrow> 'w \<Rightarrow> string \<Rightarrow> (sec_error, string) result" where
  "vault_Get api v w path =
     (case vs_read api w (vault_url v path) (va_token v) of
        Inl err \<Rightarrow> Inl (vault_unavailable ''GET'' path err)
      | Inr (status, payload) \<Rightarrow>
          (case vault_checkStatus status path of
             Some err \<Rightarrow> Inl err
           | None \<Rightarrow>
               (case payload of
                  Inl err \<Rightarrow> Inl (SecErr ErrOther (''vault: decoding '' @ quoted path @ '': '' @ err))
                | Inr m \<Rightarrow> (case m ''value'' of
                    None \<Rightarrow> Inl (SecErr ErrNotFound (''vault: '' @ quoted path @ '' has no ''
                              @ quoted ''value'' @ '' field: secret not found''))
                  | Some x \<Rightarrow> if x = [] then Inl (SecErr ErrNotFound (''vault: '' @ quoted path @ '' has no ''
                              @ quoted ''value'' @ '' field: secret not found'')) else Inr x))))"

definition vault_Set :: "'w vault_api \<Rightarrow> vault_store \<Rightarrow> 'w \<Rightarrow> string \<Rightarrow> string \<Rightarrow> sec_error option \<times> 'w" where
  "vault_Set api v w path x =
     (case vs_write api w (vault_url v path) (va_token v) x of
        (Inl err, w') \<Rightarrow> (Some (vault_unavailable ''POST'' path err), w')
      | (Inr status, w') \<Rightarrow> (if status = 200 \<or> status = 204 then None else vault_checkStatus status path, w'))"

definition vault_Exists :: "'w vault_api \<Rightarrow> vault_store \<Rightarrow> 'w \<Rightarrow> string \<Rightarrow> (sec_error, bool) result" where
  "vault_Exists api v w path =
     (case vault_Get api v w path of
        Inr _ \<Rightarrow> Inr True
      | Inl err \<Rightarrow> if sec_kind_of err = ErrNotFound then Inr False else Inl err)"

definition VaultStore :: "'w vault_api \<Rightarrow> vault_store \<Rightarrow> 'w store" where
  "VaultStore api v = \<lparr>st_Get = vault_Get api v, st_Set = vault_Set api v, st_Exists = vault_Exists api v\<rparr>"

interpretation vault: single_shot_store "vault_Get api v" "vault_Exists api v"
  for api :: "'w vault_api" and v
  by unfold_locales (simp add: vault_Exists_def presence_def)

section \<open>Kubernetes\<close>

record k8s_store =
  ks_apiURL :: string
  ks_namespace :: string
  ks_token :: string

text \<open>\<open>files\<close> are the projected service account files; \<open>None\<close> for one that cannot be read.\<close>

definition saTokenFile :: string where
  "saTokenFile = ''/var/run/secrets/kubernetes.io/serviceaccount/token''"
definition saNamespaceFile :: string where
  "saNamespaceFile = ''/var/run/secrets/kubernetes.io/serviceaccount/namespace''"

definition NewKubernetesStoreFromEnv :: "environ \<Rightarrow> (string \<Rightarrow> (string, string) result) \<Rightarrow> (string, k8s_store) result" where
  "NewKubernetesStoreFromEnv e files =
     (let apiURL = getenv e ''KUBERNETES_API_URL''; host = getenv e ''KUBERNETES_SERVICE_HOST'';
          port = getenv e ''KUBERNETES_SERVICE_PORT''
      in if apiURL = [] \<and> (host = [] \<or> port = [])
         then Inl ''kubernetes backend requires an in-cluster environment or KUBERNETES_API_URL''
         else let url = (if apiURL = [] then ''https://'' @ host @ '':'' @ port else apiURL);
                  token = (if getenv e ''SECRETS_K8S_TOKEN'' \<noteq> [] then Inr (getenv e ''SECRETS_K8S_TOKEN'')
                    else case files saTokenFile of
                        Inl err \<Rightarrow> Inl (''kubernetes backend: no SECRETS_K8S_TOKEN and no ServiceAccount token ''
                                       @ ''(is automountServiceAccountToken enabled?): '' @ err)
                      | Inr raw \<Rightarrow> Inr (trimSpace raw));
                  namespace = (if getenv e ''SECRETS_K8S_NAMESPACE'' \<noteq> [] then getenv e ''SECRETS_K8S_NAMESPACE''
                    else case files saNamespaceFile of Inr raw \<Rightarrow> trimSpace raw | Inl _ \<Rightarrow> ''default'')
              in case token of
                   Inl err \<Rightarrow> Inl err
                 | Inr t \<Rightarrow> Inr \<lparr>ks_apiURL = trimSuffix url ''/'', ks_namespace = namespace, ks_token = t\<rparr>)"

definition managedByLabel :: "environ \<Rightarrow> string" where
  "managedByLabel e = orElse (getenv e ''SECRETS_MANAGED_BY'') ''secrets-seeder''"

definition k8s_locate :: "string \<Rightarrow> string \<times> string" where
  "k8s_locate path =
     (if hasPrefix path ''service-keys/'' then (''svc-key-'' @ trimPrefix path ''service-keys/'', ''api-key'')
      else if hasPrefix path ''kms/'' then (''kms-material'', trimPrefix path ''kms/'')
      else (replaceChar (CHR ''/'') (CHR ''-'') path, ''value''))"

definition k8s_secretURL :: "k8s_store \<Rightarrow> string \<Rightarrow> string" where
  "k8s_secretURL k secretName =
     (let url = ks_apiURL k @ ''/api/v1/namespaces/'' @ ks_namespace k @ ''/secrets''
      in if secretName \<noteq> [] then url @ ''/'' @ secretName else url)"

text \<open>
  The API server: reading a Secret's data map, merge-patching one key of a Secret, creating a Secret with
  a name, a label and one key.
\<close>

record 'w k8s_api =
  ka_read :: "'w \<Rightarrow> string \<Rightarrow> string \<Rightarrow> (transport_error, int \<times> (string, string \<rightharpoonup> string) result) result"
  ka_patch :: "'w \<Rightarrow> string \<Rightarrow> string \<Rightarrow> string \<times> string \<Rightarrow> (transport_error, int) result \<times> 'w"
  ka_create :: "'w \<Rightarrow> string \<Rightarrow> string \<Rightarrow> string \<times> string \<times> string \<times> string \<Rightarrow> (transport_error, int) result \<times> 'w"

definition k8s_unavailable :: "string \<Rightarrow> string \<Rightarrow> transport_error \<Rightarrow> sec_error" where
  "k8s_unavailable verb url err = (case err of
     RequestInvalid m \<Rightarrow> SecErr ErrOther m
   | TransportFailed m \<Rightarrow>
       SecErr ErrUnavailable (''kubernetes: '' @ verb @ '' '' @ url @ '': '' @ m @ '': secret store unavailable''))"

definition k8s_value :: "string \<Rightarrow> string \<Rightarrow> string option \<Rightarrow> (sec_error, string) result" where
  "k8s_value secretName key encoded =
     (let none = SecErr ErrNotFound (''kubernetes: secret '' @ quoted secretName @ '' has no '' @ quoted key
            @ '' data: secret not found'');
          what = ''kubernetes: secret '' @ quoted secretName @ '' key '' @ quoted key
      in case encoded of
           None \<Rightarrow> Inl none
         | Some enc \<Rightarrow> if enc = [] then Inl none
             else (case b64_decode enc of
                 None \<Rightarrow> Inl (SecErr ErrOther (what @ '' is not valid base64''))
               | Some v \<Rightarrow> if v = [] then Inl (SecErr ErrNotFound (what @ '' is empty: secret not found'')) else Inr v))"

definition k8s_Get :: "'w k8s_api \<Rightarrow> k8s_store \<Rightarrow> 'w \<Rightarrow> string \<Rightarrow> (sec_error, string) result" where
  "k8s_Get api k w path =
     (let (secretName, key) = k8s_locate path; url = k8s_secretURL k secretName
      in case ka_read api w url (ks_token k) of
           Inl err \<Rightarrow> Inl (k8s_unavailable ''GET'' url err)
         | Inr (status, payload) \<Rightarrow>
             (case k8s_checkStatus status path of
                Some err \<Rightarrow> Inl err
              | None \<Rightarrow>
                  (case payload of
                     Inl err \<Rightarrow> Inl (SecErr ErrOther (''kubernetes: decoding secret '' @ quoted secretName @ '': '' @ err))
                   | Inr m \<Rightarrow> k8s_value secretName key (m key))))"

definition k8s_Set :: "environ \<Rightarrow> 'w k8s_api \<Rightarrow> k8s_store \<Rightarrow> 'w \<Rightarrow> string \<Rightarrow> string \<Rightarrow> sec_error option \<times> 'w" where
  "k8s_Set e api k w path v =
     (let (secretName, key) = k8s_locate path; encoded = b64_encode v; url = k8s_secretURL k secretName
      in case ka_patch api w url (ks_token k) (key, encoded) of
           (Inl err, w1) \<Rightarrow> (Some (k8s_unavailable ''PATCH'' url err), w1)
         | (Inr status, w1) \<Rightarrow>
             if status = 200 then (None, w1)
             else if status \<noteq> 404 then (k8s_checkStatus status path, w1)
             else (case ka_create api w1 (k8s_secretURL k []) (ks_token k) (secretName, managedByLabel e, key, encoded) of
                 (Inl err, w2) \<Rightarrow> (Some (k8s_unavailable ''POST'' (k8s_secretURL k []) err), w2)
               | (Inr status2, w2) \<Rightarrow>
                   (if status2 = 201 \<or> status2 = 200 then None else k8s_checkStatus status2 path, w2)))"

definition k8s_Exists :: "'w k8s_api \<Rightarrow> k8s_store \<Rightarrow> 'w \<Rightarrow> string \<Rightarrow> (sec_error, bool) result" where
  "k8s_Exists api k w path =
     (case k8s_Get api k w path of
        Inr _ \<Rightarrow> Inr True
      | Inl err \<Rightarrow> if sec_kind_of err = ErrNotFound then Inr False else Inl err)"

definition KubernetesStore :: "environ \<Rightarrow> 'w k8s_api \<Rightarrow> k8s_store \<Rightarrow> 'w store" where
  "KubernetesStore e api k = \<lparr>st_Get = k8s_Get api k, st_Set = k8s_Set e api k, st_Exists = k8s_Exists api k\<rparr>"

interpretation kubernetes: single_shot_store "k8s_Get api k" "k8s_Exists api k"
  for api :: "'w k8s_api" and k
  by unfold_locales (simp add: k8s_Exists_def presence_def)

lemma single_shot_vault: "single_shot (VaultStore api v)"
  by (simp add: single_shot_def VaultStore_def vault.single_shot_store_axioms)

lemma single_shot_k8s: "single_shot (KubernetesStore e api k)"
  by (simp add: single_shot_def KubernetesStore_def kubernetes.single_shot_store_axioms)

section \<open>The factory\<close>

text \<open>
  The store a service gets: the single-shot store, whether it is wrapped in \<^verbatim>\<open>Retrying\<close> with the default
  backoff, and the time-to-live of the cache around it.
\<close>

record 'w composed_store =
  co_single :: "'w store"
  co_retrying :: bool
  co_ttl :: duration

definition defaultInitialBackoff :: duration where "defaultInitialBackoff = 200 * millisecond"
definition defaultMaxBackoff :: duration where "defaultMaxBackoff = 3 * second"
definition DefaultCacheTTL :: duration where "DefaultCacheTTL = 60 * second"

definition NewWritableFromEnv :: "environ \<Rightarrow> (string \<Rightarrow> (string, string) result) \<Rightarrow> 'w vault_api \<Rightarrow> 'w k8s_api \<Rightarrow>
    (string, 'w store option) result" where
  "NewWritableFromEnv e files vapi kapi =
     (let backend = getenv e ''SECRETS_BACKEND''
      in if backend = [] \<or> backend = ''env'' then Inr None
         else if backend = ''vault'' then (case NewVaultStoreFromEnv e of Inl err \<Rightarrow> Inl err
             | Inr v \<Rightarrow> Inr (Some (VaultStore vapi v)))
         else if backend = ''kubernetes'' then (case NewKubernetesStoreFromEnv e files of Inl err \<Rightarrow> Inl err
             | Inr k \<Rightarrow> Inr (Some (KubernetesStore e kapi k)))
         else Inl (''unknown secrets backend '' @ quoted backend @ '' (valid: env, vault, kubernetes)''))"

definition secrets_NewFromEnv :: "environ \<Rightarrow> (string \<Rightarrow> (string, string) result) \<Rightarrow> ('w \<Rightarrow> environ) \<Rightarrow> 'w vault_api \<Rightarrow>
    'w k8s_api \<Rightarrow> (aliases \<Rightarrow> aliases) list \<Rightarrow> (string, 'w composed_store) result" where
  "secrets_NewFromEnv e files env vapi kapi opts =
     (let backend = orElse (getenv e ''SECRETS_BACKEND'') ''env'';
          raw = getenv e ''SECRETS_CACHE_TTL'';
          envStore = EnvStore env (NewEnvStore opts)
      in case (if raw \<noteq> [] then parseDuration raw else Some DefaultCacheTTL) of
           None \<Rightarrow> Inl (''invalid SECRETS_CACHE_TTL '' @ quoted raw)
         | Some ttl \<Rightarrow>
             if backend = ''env'' then Inr \<lparr>co_single = envStore, co_retrying = False, co_ttl = ttl\<rparr>
             else if backend = ''vault'' \<or> backend = ''kubernetes'' then
               (case NewWritableFromEnv e files vapi kapi of
                  Inl err \<Rightarrow> Inl err
                | Inr None \<Rightarrow> Inl ''nil store''
                | Inr (Some remote) \<Rightarrow>
                    Inr \<lparr>co_single = Chain [remote, envStore], co_retrying = True, co_ttl = ttl\<rparr>)
             else Inl (''unknown secrets backend '' @ quoted backend @ '' (valid: env, vault, kubernetes)''))"

text \<open>One \<^verbatim>\<open>Get\<close> of the composed store on a fresh cache, with the views and context of \<^verbatim>\<open>Retrying\<close>.\<close>

definition composed_Get :: "'w composed_store \<Rightarrow> (nat \<Rightarrow> 'w) \<Rightarrow> (nat \<Rightarrow> string option) \<Rightarrow> string \<Rightarrow> nat \<Rightarrow>
    (sec_error, string) result option" where
  "composed_Get s view ctx path fuel =
     (if co_retrying s
      then map_option fst (retrying_Get (co_single s) defaultMaxBackoff view ctx path 0 defaultInitialBackoff fuel)
      else Some (st_Get (co_single s) (view 0) path))"

text \<open>
  \<^verbatim>\<open>LoadSignatureConfig\<close>: \<open>got\<close> is what the store answers within the ten seconds, \<open>None\<close> when there is no
  store; the length test and the fallback keys.
\<close>

definition LoadSignatureConfig :: "environ \<Rightarrow> (sec_error, string) result option \<Rightarrow> (string, signature_config) result" where
  "LoadSignatureConfig e got =
     (let key0 = (case got of Some (Inr v) \<Rightarrow> v | _ \<Rightarrow> []);
          key1 = orElse key0 (getenv e ''EVENT_SIGNING_KEY'');
          key = orElse key1 ''dev-signing-key-change-in-production''
      in if length key < 16
         then Inl (''event signing key must be at least 16 characters long, got '' @ itoa (int (length key)))
         else Inr \<lparr>sc_SigningKey = key, sc_ExpiryWindow = 30 * minute,
                sc_RequiredClaims = [''id'', ''type'', ''timestamp'', ''source'']\<rparr>)"

end
