(* ===== verification/Secrets_Theorems.thy ===== *)
theory Secrets_Theorems
  imports Secrets_Remote
begin

text \<open>
  Properties of the secret stores: presence, the chain, freshness of the cache, retrying, the Kubernetes
  round trip.
\<close>

section \<open>Presence and the chain\<close>

lemma single_shot_two: "single_shot s \<Longrightarrow> single_shot (Chain [s, EnvStore env al])"
  by (rule single_shot_chain) (simp add: single_shot_env)

lemma single_shot_writable: "NewWritableFromEnv e files vapi kapi = Inr (Some st) \<Longrightarrow> single_shot st"
  by (auto simp: NewWritableFromEnv_def Let_def single_shot_vault single_shot_k8s split: if_split_asm sum.split_asm)

text \<open>Whatever backend \<^verbatim>\<open>NewFromEnv\<close> selects, the store behind the cache answers \<^verbatim>\<open>Exists\<close> by what \<^verbatim>\<open>Get\<close>
  would find: true exactly for a value, false exactly for \<^verbatim>\<open>ErrNotFound\<close>, and otherwise the same error.\<close>

theorem secrets_exists_agrees_with_get:
  assumes "secrets_NewFromEnv e files env vapi kapi opts = Inr s"
  shows "st_Exists (co_single s) w p = presence (st_Get (co_single s) w p)"
  using assms unfolding secrets_NewFromEnv_def Let_def
  by (auto intro!: single_shot_eq simp: single_shot_env single_shot_two single_shot_writable
      split: option.split_asm if_split_asm sum.split_asm)

lemma secrets_exists_agrees_with_get_witness:
  "\<forall>files vapi kapi. st_Exists (co_single (projr (secrets_NewFromEnv (\<lambda>_. None) files (\<lambda>w. w) vapi kapi [])))
     [''SECRET_A'' \<mapsto> ''x''] ''a'' = Inr True"
proof (intro allI)
  fix files :: "string \<Rightarrow> (string, string) result" and vapi :: "environ vault_api" and kapi :: "environ k8s_api"
  have s: "secrets_NewFromEnv (\<lambda>_. None) files (\<lambda>w. w) vapi kapi []
     = Inr \<lparr>co_single = EnvStore (\<lambda>w. w) (NewEnvStore []), co_retrying = False, co_ttl = DefaultCacheTTL\<rparr>"
    by (simp add: secrets_NewFromEnv_def getenv_def orElse_def)
  have "st_Get (EnvStore (\<lambda>w. w) (NewEnvStore [])) [''SECRET_A'' \<mapsto> ''x''] ''a'' = Inr ''x''"
    by code_simp
  then show "st_Exists (co_single (projr (secrets_NewFromEnv (\<lambda>_. None) files (\<lambda>w. w) vapi kapi [])))
     [''SECRET_A'' \<mapsto> ''x''] ''a'' = Inr True"
    using secrets_exists_agrees_with_get [OF s, of "[''SECRET_A'' \<mapsto> ''x'']" "''a''"]
    by (simp add: s presence_def)
qed

section \<open>The chain\<close>

lemma chain_Get_from_value:
  "chain_Get_from e ss w p = Inr v \<longleftrightarrow>
     (\<exists>i<length ss. st_Get (ss ! i) w p = Inr v
        \<and> (\<forall>j<i. \<exists>e'. st_Get (ss ! j) w p = Inl e' \<and> sec_kind_of e' = ErrNotFound))"
proof (induction ss arbitrary: e)
  case (Cons s ss)
  show ?case
  proof (cases "st_Get s w p")
    case (Inr x)
    then show ?thesis by (auto simp: Ex_less_Suc2 less_Suc_eq_0_disj)
  next
    case (Inl e')
    then show ?thesis
      using Cons.IH [of e'] by (cases "sec_kind_of e' = ErrNotFound") (auto simp: Ex_less_Suc2 All_less_Suc2)
  qed
qed simp

section \<open>Retrying\<close>

text \<open>The attempt that ends the loop: a value, a terminal error, or a context that is done.\<close>

definition retry_stops :: "'w store \<Rightarrow> (nat \<Rightarrow> 'w) \<Rightarrow> (nat \<Rightarrow> string option) \<Rightarrow> string \<Rightarrow> nat \<Rightarrow> bool" where
  "retry_stops inner view ctx path m \<longleftrightarrow>
     (case st_Get inner (view m) path of Inr _ \<Rightarrow> True | Inl e \<Rightarrow> \<not> retryable e \<or> ctx m \<noteq> None)"

definition retry_answer :: "'w store \<Rightarrow> (nat \<Rightarrow> 'w) \<Rightarrow> (nat \<Rightarrow> string option) \<Rightarrow> string \<Rightarrow> nat \<Rightarrow>
    (sec_error, string) result" where
  "retry_answer inner view ctx path m =
     (case st_Get inner (view m) path of
        Inr v \<Rightarrow> Inr v
      | Inl e \<Rightarrow> if retryable e
          then Inl (SecErr ErrCtx (the (ctx m) @ '' (last attempt: '' @ sec_msg e @ '')''))
          else Inl e)"

lemma retry_not_stops:
  "\<not> retry_stops inner view ctx path m \<Longrightarrow>
     (\<exists>e. st_Get inner (view m) path = Inl e \<and> retryable e) \<and> ctx m = None"
  by (auto simp: retry_stops_def split: sum.split_asm)

lemma retrying_Get_stops:
  "retry_stops inner view ctx path m \<Longrightarrow>
     retrying_Get inner bmax view ctx path m b (Suc f) = Some (retry_answer inner view ctx path m, [])"
  by (auto simp: retry_stops_def retry_answer_def split: sum.split_asm)

text \<open>C24: Under a context that ends, the retrying store's \<^verbatim>\<open>Get\<close> returns. It stops at the first attempt that has
a value, a terminal error or an ended context, answers by that attempt alone, and its waits before it are the
initial backoff doubled each time and capped.\<close>

theorem retrying_Get_terminates:
  assumes "0 < initial" and "initial \<le> bmax" and "bmax \<le> 2 ^ 61" and "ctx n \<noteq> None"
  shows "\<exists>m\<le>n. retry_stops inner view ctx path m \<and> (\<forall>j<m. \<not> retry_stops inner view ctx path j)
    \<and> (\<forall>fuel>m. retrying_Get inner bmax view ctx path 0 initial fuel
         = Some (retry_answer inner view ctx path m, map (backoff_at initial bmax) [0..<m]))"
proof -
  let ?stops = "retry_stops inner view ctx path"
  have n: "?stops n" using assms(4) by (simp add: retry_stops_def split: sum.split)
  then obtain m where m: "?stops m" "m \<le> n" "\<forall>j<m. \<not> ?stops j"
    using LeastI [of ?stops n] Least_le [of ?stops n] not_less_Least [of _ ?stops] by blast
  have "retrying_Get inner bmax view ctx path 0 initial fuel
     = Some (retry_answer inner view ctx path m, map (backoff_at initial bmax) [0..<m])" if lt: "m < fuel" for fuel
  proof -
    obtain f where f: "fuel = m + Suc f" using less_imp_Suc_add [OF lt] by auto
    have "\<forall>i<m. (\<exists>e. st_Get inner (view (0 + i)) path = Inl e \<and> retryable e) \<and> ctx (0 + i) = None"
      using m(3) by (auto dest!: retry_not_stops)
    from retrying_Get_runs [OF assms(1-3) this, of "Suc f"] show ?thesis
      using retrying_Get_stops [OF m(1)] by (simp add: f backoff_at_def)
  qed
  with m show ?thesis by blast
qed

lemma retrying_Get_terminates_witness:
  "\<exists>m\<le>3. retry_stops (Chain [EnvStore (\<lambda>w. w) (\<lambda>_. [])]) (\<lambda>_ _. None)
       (\<lambda>k. if k = 3 then Some ''context deadline exceeded'' else None) ''a'' m
     \<and> (\<forall>fuel>m. retrying_Get (Chain [EnvStore (\<lambda>w. w) (\<lambda>_. [])]) defaultMaxBackoff (\<lambda>_ _. None)
          (\<lambda>k. if k = 3 then Some ''context deadline exceeded'' else None) ''a'' 0 defaultInitialBackoff fuel \<noteq> None)"
proof -
  have "0 < defaultInitialBackoff" "defaultInitialBackoff \<le> defaultMaxBackoff" "defaultMaxBackoff \<le> 2 ^ 61"
    by (simp_all add: defaultInitialBackoff_def defaultMaxBackoff_def)
  from retrying_Get_terminates [OF this, of "\<lambda>k. if k = 3 then Some ''context deadline exceeded'' else None" 3
      "Chain [EnvStore (\<lambda>w. w) (\<lambda>_. [])]" "\<lambda>_ _. None" "''a''"]
  show ?thesis by fastforce
qed

section \<open>The cache\<close>

text \<open>A cached store never serves a value it did not obtain from, or write to, its inner store less than
one time-to-live ago: after any run from an empty cache, a hit at \<open>now\<close> was cached after \<open>now - ttl\<close>. A miss, and
a failed write, leave nothing behind.\<close>

theorem cached_values_are_fresh:
  assumes "cached_run inner ttl es w Map.empty [] = (w', c, log)"
    and "cached_Get inner ttl now now' w'' path c = (Inr v, c')"
  shows "(\<exists>t. (t, path, v) \<in> set log \<and> now < t + ttl \<and> c' = c)
    \<or> (st_Get inner w'' path = Inr v \<and> c' = c(path \<mapsto> (v, now' + ttl)))"
proof -
  have ok: "cache_ok ttl c log" using cached_run_ok [OF assms(1)] by (simp add: cache_ok_def)
  show ?thesis
  proof (cases "cache_lookup now c path")
    case (Some x)
    then obtain t where "c path = Some (x, t)" "now < t"
      by (auto simp: cache_lookup_def split: option.split_asm if_split_asm prod.split_asm)
    with ok have "(t - ttl, path, x) \<in> set log" "now < (t - ttl) + ttl" by (auto simp: cache_ok_def)
    then show ?thesis using Some assms(2) by (auto simp: cached_Get_def)
  next
    case None
    then show ?thesis using assms(2) by (auto simp: cached_Get_def cache_store_def split: sum.split_asm)
  qed
qed

lemma cached_values_are_fresh_witness:
  "let s = EnvStore (\<lambda>w. w) (NewEnvStore []);
       (w, c, log) = cached_run s 60 [CGet 0 1 ''a'', CWorld [''SECRET_A'' \<mapsto> ''new'']]
         [''SECRET_A'' \<mapsto> ''old''] Map.empty []
   in cached_Get s 60 60 60 w ''a'' c = (Inr ''old'', c) \<and> log = [(1, ''a'', ''old'')]
      \<and> fst (cached_Get s 60 61 61 w ''a'' c) = Inr ''new''"
proof -
  let ?s = "EnvStore (\<lambda>w. w) (NewEnvStore [])"
  let ?c = "[''a'' \<mapsto> (''old'', 61)] :: cache"
  have get: "st_Get ?s [''SECRET_A'' \<mapsto> ''old''] ''a'' = Inr ''old''"
    "st_Get ?s [''SECRET_A'' \<mapsto> ''new''] ''a'' = Inr ''new''"
    by code_simp+
  have r: "cached_run ?s 60 [CGet 0 1 ''a'', CWorld [''SECRET_A'' \<mapsto> ''new'']] [''SECRET_A'' \<mapsto> ''old''] Map.empty []
    = ([''SECRET_A'' \<mapsto> ''new''], ?c, [(1, ''a'', ''old'')])"
    by (simp add: cached_Get_def cache_lookup_def cache_store_def get)
  have hit: "cached_Get ?s 60 60 60 [''SECRET_A'' \<mapsto> ''new''] ''a'' ?c = (Inr ''old'', ?c)"
    by (simp add: cached_Get_def cache_lookup_def)
  have "\<exists>t. (t, ''a'', ''old'') \<in> set [(1, ''a'', ''old'')] \<and> 60 < t + (60 :: int)"
    using cached_values_are_fresh [OF r hit] by (auto simp: get)
  then show ?thesis unfolding r Let_def prod.case using hit
    by (simp add: cached_Get_def cache_lookup_def get)
qed

text \<open>
  The specification of a cached store is the store: over a backend that is written only through the cache,
  and in which a write is read back and leaves the other paths' values alone, a run answers as it would
  without the cache.
\<close>

datatype store_answer = Got "(sec_error, string) result" | Written "sec_error option"

definition write_through :: "'w store \<Rightarrow> bool" where
  "write_through inner \<longleftrightarrow> (\<forall>w p v. case st_Set inner w p v of
     (err, w') \<Rightarrow> (err = None \<longrightarrow> st_Get inner w' p = Inr v)
       \<and> (\<forall>q x. (q \<noteq> p \<or> err \<noteq> None) \<and> st_Get inner w q = Inr x \<longrightarrow> st_Get inner w' q = Inr x))"

fun cached_answers :: "'w store \<Rightarrow> duration \<Rightarrow> 'w cache_event list \<Rightarrow> 'w \<times> cache \<Rightarrow> store_answer list \<times> 'w" where
  "cached_answers inner ttl [] (w, c) = ([], w)"
| "cached_answers inner ttl (CGet now now' path # es) (w, c) =
     (let (r, c') = cached_Get inner ttl now now' w path c; (rs, w') = cached_answers inner ttl es (w, c') in (Got r # rs, w'))"
| "cached_answers inner ttl (CSet now path v # es) (w, c) =
     (let (err, w', c') = cached_Set inner ttl now w path v c; (rs, w'') = cached_answers inner ttl es (w', c')
      in (Written err # rs, w''))"
| "cached_answers inner ttl (CWorld w' # es) (w, c) = cached_answers inner ttl es (w', c)"

fun plain_answers :: "'w store \<Rightarrow> 'w cache_event list \<Rightarrow> 'w \<Rightarrow> store_answer list \<times> 'w" where
  "plain_answers inner [] w = ([], w)"
| "plain_answers inner (CGet now now' path # es) w = (let (rs, w') = plain_answers inner es w in (Got (st_Get inner w path) # rs, w'))"
| "plain_answers inner (CSet now path v # es) w =
     (let (err, w') = st_Set inner w path v; (rs, w'') = plain_answers inner es w' in (Written err # rs, w''))"
| "plain_answers inner (CWorld w' # es) w = plain_answers inner es w'"

fun through_cache :: "'w cache_event \<Rightarrow> bool" where
  "through_cache (CWorld w) = False" | "through_cache _ = True"

text \<open>The relation of the simulation: every cached value is what the backend has.\<close>

definition cache_agrees :: "'w store \<Rightarrow> 'w \<Rightarrow> cache \<Rightarrow> bool" where
  "cache_agrees inner w c \<longleftrightarrow> (\<forall>p v t. c p = Some (v, t) \<longrightarrow> st_Get inner w p = Inr v)"

lemma cached_Get_agrees:
  assumes "cache_agrees inner w c"
  shows "fst (cached_Get inner ttl now now' w path c) = st_Get inner w path"
    and "cache_agrees inner w (snd (cached_Get inner ttl now now' w path c))"
  using assms by (auto simp: cache_agrees_def cached_Get_def cache_lookup_def cache_store_def
      split: option.split sum.split)

lemma cached_Set_agrees:
  assumes "write_through inner" and "cache_agrees inner w c" and "st_Set inner w path v = (err, w')"
  shows "\<exists>c'. cached_Set inner ttl now w path v c = (err, w', c') \<and> cache_agrees inner w' c'"
proof -
  have "(err = None \<longrightarrow> st_Get inner w' path = Inr v)
     \<and> (\<forall>q x. (q \<noteq> path \<or> err \<noteq> None) \<and> st_Get inner w q = Inr x \<longrightarrow> st_Get inner w' q = Inr x)"
    using assms(1) [unfolded write_through_def, THEN spec, THEN spec, THEN spec, of path v w] by (simp add: assms(3))
  then show ?thesis
    using assms(2,3) by (cases err) (auto simp: cached_Set_def cache_agrees_def cache_store_def)
qed


definition map_store :: "(string \<rightharpoonup> string) store" where
  "map_store = \<lparr>st_Get = (\<lambda>w p. case w p of None \<Rightarrow> Inl errNotFound | Some v \<Rightarrow> Inr v),
     st_Set = (\<lambda>w p v. (None, w(p \<mapsto> v))), st_Exists = (\<lambda>w p. Inr (w p \<noteq> None))\<rparr>"


text \<open>
  The lock is released while the inner store is read: a write between the read and the caching of a \<^verbatim>\<open>Get\<close> is
  overwritten by the older value, which then hides the new one for a time-to-live.
\<close>

lemma cached_get_hides_write:
  assumes "st_Get inner w p = Inr old" and "cached_Set inner ttl t1 w p new c = (None, w', c1)"
    and "c2 = cache_store ttl t2 p old c1" and "t3 < t2 + ttl"
  shows "cached_Get inner ttl t3 t4 w' p c2 = (Inr old, c2)"
  using assms by (simp add: cached_Get_def cache_lookup_def cache_store_def)

section \<open>Kubernetes\<close>

text \<open>
  What the API server documents of \<^verbatim>\<open>GET\<close>, merge \<^verbatim>\<open>PATCH\<close> and \<^verbatim>\<open>POST\<close> of Secrets, for a token that may do
  all three and for the names and keys it accepts: \<open>view w\<close> is the data map of each Secret by its URL.
\<close>

definition k8s_server :: "('w \<Rightarrow> string \<Rightarrow> (string \<rightharpoonup> string) option) \<Rightarrow> (string \<Rightarrow> string \<Rightarrow> bool) \<Rightarrow> k8s_store \<Rightarrow>
    'w k8s_api \<Rightarrow> bool" where
  "k8s_server view valid k api \<longleftrightarrow>
     (\<forall>w name. name \<noteq> [] \<longrightarrow> ka_read api w (k8s_secretURL k name) (ks_token k)
        = (case view w (k8s_secretURL k name) of None \<Rightarrow> Inr (404, Inl []) | Some m \<Rightarrow> Inr (200, Inr m)))
     \<and> (\<forall>w name key x. name \<noteq> [] \<and> valid name key \<longrightarrow>
          (case view w (k8s_secretURL k name) of
             None \<Rightarrow> (\<exists>w'. ka_patch api w (k8s_secretURL k name) (ks_token k) (key, x) = (Inr 404, w') \<and> view w' = view w)
           | Some m \<Rightarrow> (\<exists>w'. ka_patch api w (k8s_secretURL k name) (ks_token k) (key, x) = (Inr 200, w')
                \<and> view w' = (view w)(k8s_secretURL k name \<mapsto> m(key \<mapsto> x)))))
     \<and> (\<forall>w name lab key x. name \<noteq> [] \<and> valid name key \<and> view w (k8s_secretURL k name) = None \<longrightarrow>
          (\<exists>w'. ka_create api w (k8s_secretURL k []) (ks_token k) (name, lab, key, x) = (Inr 201, w')
             \<and> view w' = (view w)(k8s_secretURL k name \<mapsto> [key \<mapsto> x])))"

definition k8s_lookup :: "('w \<Rightarrow> string \<Rightarrow> (string \<rightharpoonup> string) option) \<Rightarrow> k8s_store \<Rightarrow> 'w \<Rightarrow> string \<Rightarrow> string option" where
  "k8s_lookup view k w path =
     (let (name, key) = k8s_locate path
      in case view w (k8s_secretURL k name) of None \<Rightarrow> None | Some m \<Rightarrow> m key)"

lemma k8s_secretURL_inj [simp]:
  "n \<noteq> [] \<Longrightarrow> n' \<noteq> [] \<Longrightarrow> k8s_secretURL k n = k8s_secretURL k n' \<longleftrightarrow> n = n'"
  by (simp add: k8s_secretURL_def)

lemma k8s_locate_named: "path \<noteq> [] \<Longrightarrow> fst (k8s_locate path) \<noteq> []"
  by (simp add: k8s_locate_def replaceChar_def)

lemma k8s_value_value:
  "k8s_value name key encoded = Inr v \<longleftrightarrow> (\<exists>enc. encoded = Some enc \<and> b64_decode enc = Some v \<and> enc \<noteq> [] \<and> v \<noteq> [])"
  by (auto simp: k8s_value_def Let_def split: option.split)

lemma k8s_Get_lookup:
  assumes "k8s_server view valid k api" and "path \<noteq> []"
  shows "k8s_Get api k w path = Inr v \<longleftrightarrow>
     (\<exists>enc. k8s_lookup view k w path = Some enc \<and> b64_decode enc = Some v \<and> enc \<noteq> [] \<and> v \<noteq> [])"
proof -
  obtain name key where l: "k8s_locate path = (name, key)" by fastforce
  then have "ka_read api w (k8s_secretURL k name) (ks_token k)
      = (case view w (k8s_secretURL k name) of None \<Rightarrow> Inr (404, Inl []) | Some m \<Rightarrow> Inr (200, Inr m))"
    using assms(1) k8s_locate_named [OF assms(2)] unfolding k8s_server_def by auto
  then show ?thesis
    by (simp add: l k8s_Get_def k8s_lookup_def k8s_checkStatus_def k8s_value_value split: option.split)
qed

definition k8s_put :: "(string \<rightharpoonup> (string \<rightharpoonup> string)) \<Rightarrow> string \<Rightarrow> string \<Rightarrow> string \<Rightarrow> (string \<rightharpoonup> (string \<rightharpoonup> string))" where
  "k8s_put secrets url key x = secrets(url \<mapsto> (case secrets url of None \<Rightarrow> Map.empty | Some m \<Rightarrow> m)(key \<mapsto> x))"

lemma k8s_lookup_put:
  assumes "view w' = k8s_put (view w) (k8s_secretURL k name) key x"
    and "k8s_locate path = (name, key)" and "path \<noteq> []" and "q \<noteq> []"
  shows "k8s_lookup view k w' q = (if k8s_locate q = k8s_locate path then Some x else k8s_lookup view k w q)"
proof -
  obtain n' key' where l: "k8s_locate q = (n', key')" by fastforce
  have "name \<noteq> []" "n' \<noteq> []" using k8s_locate_named assms(2,3,4) l by (metis fst_conv)+
  then show ?thesis
    by (simp add: assms(1,2) l k8s_lookup_def k8s_put_def split: option.split)
qed

lemma k8s_Set_puts:
  assumes "k8s_server view valid k api" and "path \<noteq> []" and l: "k8s_locate path = (name, key)" and "valid name key"
  obtains w' where "k8s_Set e api k w path v = (None, w')"
    and "view w' = k8s_put (view w) (k8s_secretURL k name) key (b64_encode v)"
proof -
  have n: "name \<noteq> []" using k8s_locate_named [OF assms(2)] l by simp
  let ?x = "b64_encode v" and ?u = "k8s_secretURL k name"
  have patch: "case view w ?u of
       None \<Rightarrow> (\<exists>w'. ka_patch api w ?u (ks_token k) (key, ?x) = (Inr 404, w') \<and> view w' = view w)
     | Some m \<Rightarrow> (\<exists>w'. ka_patch api w ?u (ks_token k) (key, ?x) = (Inr 200, w') \<and> view w' = (view w)(?u \<mapsto> m(key \<mapsto> ?x)))"
    using assms(1,4) n unfolding k8s_server_def by blast
  show thesis
  proof (cases "view w ?u")
    case (Some m)
    with patch obtain w' where "ka_patch api w ?u (ks_token k) (key, ?x) = (Inr 200, w')"
      "view w' = (view w)(?u \<mapsto> m(key \<mapsto> ?x))" by auto
    then show thesis using that [of w'] l Some by (simp add: k8s_Set_def Let_def k8s_put_def)
  next
    case None
    with patch obtain w1 where w1: "ka_patch api w ?u (ks_token k) (key, ?x) = (Inr 404, w1)" "view w1 = view w"
      by auto
    have "view w1 ?u = None" using w1 None by simp
    then obtain w' where "ka_create api w1 (k8s_secretURL k []) (ks_token k) (name, managedByLabel e, key, ?x) = (Inr 201, w')"
      "view w' = (view w1)(?u \<mapsto> [key \<mapsto> ?x])"
      using assms(1,4) n unfolding k8s_server_def by blast
    then show thesis using that [of w'] l None w1 by (simp add: k8s_Set_def Let_def k8s_put_def)
  qed
qed


definition plain_k8s_api :: "(string \<rightharpoonup> (string \<rightharpoonup> string)) k8s_api" where
  "plain_k8s_api = \<lparr>
     ka_read = (\<lambda>w url _. case w url of None \<Rightarrow> Inr (404, Inl []) | Some m \<Rightarrow> Inr (200, Inr m)),
     ka_patch = (\<lambda>w url _ (key, x). case w url of None \<Rightarrow> (Inr 404, w) | Some m \<Rightarrow> (Inr 200, w(url \<mapsto> m(key \<mapsto> x)))),
     ka_create = (\<lambda>w url _ (name, _, key, x). (Inr 201, w(url @ ''/'' @ name \<mapsto> [key \<mapsto> x])))\<rparr>"

lemma plain_k8s_server: "k8s_server (\<lambda>w. w) (\<lambda>_ _. True) k plain_k8s_api"
proof -
  have url: "k8s_secretURL k [] @ CHR ''/'' # name = k8s_secretURL k name" if "name \<noteq> []" for name
    using that by (simp add: k8s_secretURL_def)
  show ?thesis by (simp add: k8s_server_def plain_k8s_api_def url split: option.split)
qed


text \<open>Paths that differ only in \<^verbatim>\<open>/\<close> and \<^verbatim>\<open>-\<close> are one Secret: writing one overwrites the other.\<close>

lemma k8s_locate_collides: "k8s_locate ''db/password'' = k8s_locate ''db-password''"
  by code_simp

end
