(* ===== verification/Web_Request.thy ===== *)
theory Web_Request
  imports Http_Trace Json_Canonical
begin

text \<open>
  Requests, their contexts and middleware (\<^verbatim>\<open>middleware/context.go\<close>, \<^verbatim>\<open>cors.go\<close>, \<^verbatim>\<open>tracing.go\<close>), and the
  helpers of \<^verbatim>\<open>httpx/httpx.go\<close>. The Go context is a record with one field per key the packages use; a
  middleware answers a request or passes one on, with headers set on the response.
\<close>

section \<open>Contexts\<close>

record service_key =
  sk_ServiceName :: string
  sk_Scopes :: "string list"
  sk_ExpiresAt :: "instant option"

datatype auth_type = AuthTypeService | AuthTypeUser

record identity =
  id_UserID :: string
  id_Roles :: "string list"

text \<open>A recorded route is a pattern, or an accessor, of which only its answer is seen.\<close>

datatype route_value = RoutePattern string | RouteFunc string

text \<open>
  \<open>cx_service\<close> is the value of \<^verbatim>\<open>keyServiceIdentity\<close>: absent, a nil pointer, or a key; the legacy keys of the
  \<^verbatim>\<open>auth\<close> package follow its identity.
\<close>

record go_context =
  cx_service :: "service_key option option"
  cx_authType :: "auth_type option"
  cx_userID :: "string option"
  cx_route :: "route_value option"
  cx_trace :: "trace_context option"
  cx_identity :: "identity option"
  cx_legacyUser :: "string option"
  cx_legacyRoles :: "string list option"

definition Background :: go_context where
  "Background = \<lparr>cx_service = None, cx_authType = None, cx_userID = None, cx_route = None, cx_trace = None,
     cx_identity = None, cx_legacyUser = None, cx_legacyRoles = None\<rparr>"

definition WithServiceIdentity :: "service_key option \<Rightarrow> go_context \<Rightarrow> go_context" where
  "WithServiceIdentity info cx = cx\<lparr>cx_service := Some info, cx_authType := Some AuthTypeService\<rparr>"

definition ServiceIdentity :: "go_context \<Rightarrow> service_key option" where
  "ServiceIdentity cx = (case cx_service cx of Some info \<Rightarrow> info | None \<Rightarrow> None)"

definition ServiceName :: "go_context \<Rightarrow> string option" where
  "ServiceName cx = (case ServiceIdentity cx of
     None \<Rightarrow> None | Some info \<Rightarrow> if sk_ServiceName info = [] then None else Some (sk_ServiceName info))"

definition ScopeAll :: string where "ScopeAll = ''all''"

definition HasScope :: "go_context \<Rightarrow> string \<Rightarrow> bool" where
  "HasScope cx scope = (case ServiceIdentity cx of
     None \<Rightarrow> False | Some info \<Rightarrow> scope \<in> set (sk_Scopes info) \<or> ScopeAll \<in> set (sk_Scopes info))"

definition IsServiceAuthenticated :: "go_context \<Rightarrow> bool" where
  "IsServiceAuthenticated cx = (case cx_authType cx of
     Some at \<Rightarrow> at = AuthTypeService | None \<Rightarrow> ServiceIdentity cx \<noteq> None)"

definition WithAuthType :: "auth_type \<Rightarrow> go_context \<Rightarrow> go_context" where
  "WithAuthType at cx = cx\<lparr>cx_authType := Some at\<rparr>"

definition WithUserID :: "string \<Rightarrow> go_context \<Rightarrow> go_context" where
  "WithUserID uid cx = cx\<lparr>cx_userID := Some uid\<rparr>"

definition UserID :: "go_context \<Rightarrow> string option" where
  "UserID cx = (case cx_userID cx of None \<Rightarrow> None | Some uid \<Rightarrow> if uid = [] then None else Some uid)"

definition WithRoute :: "string \<Rightarrow> go_context \<Rightarrow> go_context" where
  "WithRoute pattern cx = cx\<lparr>cx_route := Some (RoutePattern pattern)\<rparr>"

definition WithRouteFunc :: "string \<Rightarrow> go_context \<Rightarrow> go_context" where
  "WithRouteFunc resolved cx = cx\<lparr>cx_route := Some (RouteFunc resolved)\<rparr>"

definition ContextWithTrace :: "trace_context \<Rightarrow> go_context \<Rightarrow> go_context" where
  "ContextWithTrace trace cx = cx\<lparr>cx_trace := Some trace\<rparr>"

definition TraceFromContext :: "go_context \<Rightarrow> trace_context option" where
  "TraceFromContext cx = cx_trace cx"

section \<open>Requests\<close>

record web_request =
  wq_Method :: string
  wq_Path :: string
  wq_Headers :: headers
  wq_Query :: "string \<Rightarrow> string"
  wq_RemoteAddr :: string
  wq_Context :: go_context

definition WithContext :: "go_context \<Rightarrow> web_request \<Rightarrow> web_request" where
  "WithContext cx r = r\<lparr>wq_Context := cx\<rparr>"

definition Route :: "web_request \<Rightarrow> string" where
  "Route r = (case cx_route (wq_Context r) of
     None \<Rightarrow> wq_Path r
   | Some (RoutePattern v) \<Rightarrow> if v \<noteq> [] then v else wq_Path r
   | Some (RouteFunc v) \<Rightarrow> if v \<noteq> [] then v else wq_Path r)"

text \<open>\<^verbatim>\<open>net.SplitHostPort\<close>, the host of \<open>host:port\<close> or \<open>[host]:port\<close>; \<open>None\<close> for an error.\<close>

definition splitHostPort :: "string \<Rightarrow> string option" where
  "splitHostPort addr =
     (case strIndex (rev addr) '':'' of
        None \<Rightarrow> None
      | Some k \<Rightarrow>
          (let i = length addr - 1 - k; host = take i addr
           in if hasPrefix addr ''['' then
                (case strIndex addr '']'' of
                   None \<Rightarrow> None
                 | Some e \<Rightarrow> if e + 1 = i \<and> \<not> strContains (tl addr) ''['' \<and> \<not> strContains (drop (e + 1) addr) '']''
                     then Some (take (e - 1) (tl addr)) else None)
              else if strContains host '':'' \<or> strContains addr ''['' \<or> strContains addr '']'' then None
              else Some host))"

definition ClientIP :: "web_request \<Rightarrow> string" where
  "ClientIP r =
     (let fwd = header_get (wq_Headers r) ''X-Forwarded-For'';
          first = (case strCut fwd '','' of Some (a, _) \<Rightarrow> a | None \<Rightarrow> fwd);
          real = trimSpace (header_get (wq_Headers r) ''X-Real-IP'')
      in if fwd \<noteq> [] \<and> trimSpace first \<noteq> [] then trimSpace first
         else if real \<noteq> [] then real
         else case splitHostPort (wq_RemoteAddr r) of Some host \<Rightarrow> host | None \<Rightarrow> wq_RemoteAddr r)"

section \<open>Responses and middleware\<close>

datatype json_body = ErrorBody string string | JsonBody goany | RawBody string

record web_response =
  wp_Status :: int
  wp_Headers :: headers
  wp_Body :: json_body

text \<open>A middleware answers itself, or hands a request to the next handler after setting response headers.\<close>

datatype verdict = Next web_request "(string \<times> string) list" | Reply web_response

type_synonym web_handler = "web_request \<Rightarrow> web_response"
type_synonym middleware = "web_request \<Rightarrow> verdict"

definition serve :: "middleware \<Rightarrow> web_handler \<Rightarrow> web_handler" where
  "serve mw next r = (case mw r of
     Reply resp \<Rightarrow> resp
   | Next r' hs \<Rightarrow> (let resp = next r' in resp\<lparr>wp_Headers := header_set_all hs Map.empty ++ wp_Headers resp\<rparr>))"

text \<open>Two middlewares, the first outermost.\<close>

definition chain_mw :: "middleware \<Rightarrow> middleware \<Rightarrow> middleware" where
  "chain_mw m1 m2 r = (case m1 r of
     Reply resp \<Rightarrow> Reply resp
   | Next r' hs \<Rightarrow> (case m2 r' of
       Reply resp \<Rightarrow> Reply (resp\<lparr>wp_Headers := header_set_all hs Map.empty ++ wp_Headers resp\<rparr>)
     | Next r'' hs' \<Rightarrow> Next r'' (hs @ hs')))"

definition passes :: "middleware \<Rightarrow> web_request \<Rightarrow> bool" where
  "passes mw r = (case mw r of Next _ _ \<Rightarrow> True | Reply _ \<Rightarrow> False)"

definition WriteJSON :: "int \<Rightarrow> json_body \<Rightarrow> web_response" where
  "WriteJSON status v = \<lparr>wp_Status = status,
     wp_Headers = header_set (''Content-Type'', ''application/json; charset=utf-8'') Map.empty, wp_Body = v\<rparr>"

definition WriteError :: "int \<Rightarrow> string \<Rightarrow> web_response" where
  "WriteError status message = WriteJSON status (ErrorBody message [])"

definition WriteErrorCode :: "int \<Rightarrow> string \<Rightarrow> string \<Rightarrow> web_response" where
  "WriteErrorCode status message code = WriteJSON status (ErrorBody message code)"

definition WriteInternalError :: web_response where
  "WriteInternalError = WriteError 500 ''Internal server error''"

lemma chain_passes:
  "passes (chain_mw m1 m2) r \<longleftrightarrow> (\<exists>r' hs. m1 r = Next r' hs \<and> passes m2 r')"
  by (auto simp: passes_def chain_mw_def split: verdict.split)

lemma header_set_all_append: "header_set_all (hs @ hs') h = header_set_all hs' (header_set_all hs h)"
  by (simp add: header_set_all_def)

lemma header_set_all_over: "header_set_all hs h = h ++ header_set_all hs Map.empty"
proof (induction hs rule: rev_induct)
  case (snoc x hs)
  then show ?case by (cases x) (auto simp: header_set_all_def header_set_def fun_eq_iff map_add_def)
qed (simp add: header_set_all_def)

text \<open>Wrapping a handler by one middleware after another is serving under their composition.\<close>

lemma serve_chain: "serve (chain_mw m1 m2) next r = serve m1 (serve m2 next) r"
  by (simp add: serve_def chain_mw_def Let_def header_set_all_append header_set_all_over [of _ "header_set_all _ Map.empty"]
      split: verdict.split)

section \<open>Pagination and decoding\<close>

record page =
  pg_Limit :: int
  pg_Offset :: int

text \<open>\<open>wq_Query r key\<close> is the first value of the query parameter, empty when it is absent.\<close>

definition queryInt :: "web_request \<Rightarrow> string \<Rightarrow> int \<Rightarrow> int" where
  "queryInt r key dflt = (if wq_Query r key = [] then dflt
     else case atoi (wq_Query r key) of None \<Rightarrow> dflt | Some n \<Rightarrow> n)"

definition PaginationWith :: "web_request \<Rightarrow> int \<Rightarrow> int \<Rightarrow> page" where
  "PaginationWith r defaultLimit maxLimit =
     (let limit0 = queryInt r ''limit'' defaultLimit;
          limit1 = (if limit0 < 1 then defaultLimit else limit0);
          limit = (if limit1 > maxLimit then maxLimit else limit1)
      in \<lparr>pg_Limit = limit, pg_Offset = max (queryInt r ''offset'' 0) 0\<rparr>)"

definition Pagination :: "web_request \<Rightarrow> page" where
  "Pagination r = PaginationWith r 20 100"

text \<open>What \<^verbatim>\<open>json.Decoder\<close> does with the body read through \<^verbatim>\<open>http.MaxBytesReader\<close>.\<close>

datatype 'a decoded = TooLarge | Malformed | Decoded 'a bool

definition MaxJSONBody :: int where "MaxJSONBody = 2 ^ 20"

definition DecodeJSON :: "'a decoded \<Rightarrow> (string, 'a) result" where
  "DecodeJSON d = (case d of
     TooLarge \<Rightarrow> Inl (''request body exceeds '' @ itoa MaxJSONBody @ '' bytes'')
   | Malformed \<Rightarrow> Inl ''invalid request body''
   | Decoded v trailing \<Rightarrow> if trailing then Inl ''request body must contain a single JSON object'' else Inr v)"

section \<open>CORS\<close>

record cors_options =
  co_AllowedOrigins :: "string list"
  co_AllowedMethods :: "string list"
  co_AllowedHeaders :: "string list"
  co_AllowCredentials :: bool
  co_MaxAge :: duration

definition DefaultCORSHeaders :: "string list" where
  "DefaultCORSHeaders = [''Content-Type'', ''Content-Length'', ''Accept-Encoding'', ''X-CSRF-Token'',
     ''Authorization'', ''accept'', ''origin'', ''Cache-Control'', ''X-Requested-With'', ''X-Trace-ID'',
     ''X-User-ID'', ''traceparent'']"

definition DefaultCORSMethods :: "string list" where
  "DefaultCORSMethods = [''GET'', ''POST'', ''PUT'', ''DELETE'', ''OPTIONS'']"

definition allowedOrigin :: "string list \<Rightarrow> string \<Rightarrow> string" where
  "allowedOrigin allowed origin =
     (case allowed of [] \<Rightarrow> []
      | first # _ \<Rightarrow>
          if (''*'' \<in> set allowed \<or> origin \<in> set allowed) \<and> origin \<noteq> [] then origin else first)"

definition cors_headers :: "cors_options \<Rightarrow> string \<Rightarrow> (string \<times> string) list" where
  "cors_headers opts origin0 =
     (let methods = (if co_AllowedMethods opts = [] then DefaultCORSMethods else co_AllowedMethods opts);
          hdrs = (if co_AllowedHeaders opts = [] then DefaultCORSHeaders else co_AllowedHeaders opts);
          maxAge = (if co_MaxAge opts = 0 then 12 * 3600 * second else co_MaxAge opts);
          origin = allowedOrigin (co_AllowedOrigins opts) origin0
      in (if origin \<noteq> [] then [(''Access-Control-Allow-Origin'', origin)] else [])
         @ (if co_AllowCredentials opts then [(''Access-Control-Allow-Credentials'', ''true'')] else [])
         @ [(''Access-Control-Allow-Headers'', strJoin hdrs '', ''),
            (''Access-Control-Allow-Methods'', strJoin methods '', ''),
            (''Access-Control-Max-Age'', itoa (go_quot maxAge second))])"

definition CORS :: "cors_options \<Rightarrow> middleware" where
  "CORS opts r =
     (let hs = cors_headers opts (header_get (wq_Headers r) ''Origin'')
      in if wq_Method r = ''OPTIONS''
         then Reply \<lparr>wp_Status = 204, wp_Headers = header_set_all hs Map.empty, wp_Body = RawBody []\<rparr>
         else Next r hs)"

definition CORSWithOrigins :: "string list \<Rightarrow> middleware" where
  "CORSWithOrigins allowedOrigins = CORS \<lparr>co_AllowedOrigins = allowedOrigins, co_AllowedMethods = [],
     co_AllowedHeaders = [], co_AllowCredentials = True, co_MaxAge = 0\<rparr>"

section \<open>Tracing\<close>

text \<open>\<open>draw\<close> are the reads of random bytes: the first for a missing span, the rest for a new trace.\<close>

definition Tracing :: "instant \<Rightarrow> (nat \<Rightarrow> string option) \<Rightarrow> middleware" where
  "Tracing now draw r =
     (let t0 = TraceContextFromHeaders now (draw 0) (wq_Headers r);
          trace = (if tc_TraceID t0 = [] then NewTraceContext now (\<lambda>i. draw (Suc i)) (cx_trace (wq_Context r)) else t0);
          tp = Traceparent (Some trace)
      in Next (WithContext (ContextWithTrace trace (wq_Context r)) r)
           ([(''X-Trace-ID'', tc_TraceID trace), (''X-Request-ID'', tc_RequestID trace)]
            @ (if tp \<noteq> [] then [(''traceparent'', tp)] else [])))"

definition TraceFromRequest :: "web_request \<Rightarrow> trace_context option" where
  "TraceFromRequest r = TraceFromContext (wq_Context r)"

text \<open>A handler behind \<^verbatim>\<open>Tracing\<close> always finds a trace, the one the response names.\<close>

lemma tracing_gives_trace:
  "\<exists>r' hs t. Tracing now draw r = Next r' hs \<and> TraceFromRequest r' = Some t \<and> (''X-Trace-ID'', tc_TraceID t) \<in> set hs"
  by (simp add: Tracing_def Let_def TraceFromRequest_def TraceFromContext_def WithContext_def ContextWithTrace_def)

end
