(* ===== verification/Web_Auth.thy ===== *)
theory Web_Auth
  imports Web_Request
begin

text \<open>
  Authentication middleware: service keys (\<^verbatim>\<open>middleware/serviceauth.go\<close>), bearer tokens and roles
  (\<^verbatim>\<open>auth/middleware.go\<close>), and the JWT manager (\<^verbatim>\<open>auth/jwt.go\<close>) over a token library that is an argument.
\<close>

section \<open>Service keys\<close>

text \<open>A validator answers a key with an error or with a pointer to the key's description, which may be nil.\<close>

type_synonym key_validator = "string \<Rightarrow> (string, service_key option) result"

definition bearer :: "web_request \<Rightarrow> string option" where
  "bearer r = map_option trimSpace (cutPrefix (header_get (wq_Headers r) ''Authorization'') ''Bearer '')"

definition ServiceKeyFromRequest :: "web_request \<Rightarrow> string" where
  "ServiceKeyFromRequest r =
     (let key = header_get (wq_Headers r) ''X-API-Key''
      in if key \<noteq> [] then key else case bearer r of Some token \<Rightarrow> token | None \<Rightarrow> [])"

definition admit_service :: "key_validator \<Rightarrow> string \<Rightarrow> middleware" where
  "admit_service validate apiKey r = (case validate apiKey of
     Inl _ \<Rightarrow> Reply (WriteErrorCode 401 ''Invalid service API key'' ''INVALID_API_KEY'')
   | Inr info \<Rightarrow> Next (WithContext (WithServiceIdentity info (wq_Context r)) r) [])"

definition ServiceAuthRequired :: "key_validator \<Rightarrow> middleware" where
  "ServiceAuthRequired validate r =
     (let apiKey = ServiceKeyFromRequest r
      in if apiKey = [] then Reply (WriteErrorCode 401 ''Service API key is required'' ''MISSING_API_KEY'')
         else admit_service validate apiKey r)"

definition OptionalServiceAuth :: "key_validator \<Rightarrow> middleware" where
  "OptionalServiceAuth validate r =
     (let apiKey = ServiceKeyFromRequest r in if apiKey = [] then Next r [] else admit_service validate apiKey r)"

definition ServiceAuthOrUserAuth :: "key_validator \<Rightarrow> middleware \<Rightarrow> middleware" where
  "ServiceAuthOrUserAuth validate userAuth r =
     (let apiKey = ServiceKeyFromRequest r
      in if apiKey = [] then userAuth (WithContext (WithAuthType AuthTypeUser (wq_Context r)) r)
         else admit_service validate apiKey r)"

definition RequireServiceScope :: "string \<Rightarrow> middleware" where
  "RequireServiceScope scope r =
     (case ServiceIdentity (wq_Context r) of
        None \<Rightarrow> Reply (WriteErrorCode 403 ''Service scopes not found'' ''NO_SERVICE_SCOPES'')
      | Some info \<Rightarrow>
          if \<not> HasScope (wq_Context r) scope
          then Reply (WriteErrorCode 403 (''Service '' @ [CHR 0x27] @ sk_ServiceName info @ [CHR 0x27]
                 @ '' does not have required scope '' @ [CHR 0x27] @ scope @ [CHR 0x27]) ''INSUFFICIENT_SCOPE'')
          else Next r [])"

section \<open>Users\<close>

type_synonym identity_provider = "go_context \<Rightarrow> string \<Rightarrow> (string, identity) result"

definition AdminRole :: string where "AdminRole = ''admin''"

definition HasRole :: "identity \<Rightarrow> string \<Rightarrow> bool" where
  "HasRole i role = (role \<in> set (id_Roles i))"

definition BearerToken :: "web_request \<Rightarrow> string option" where
  "BearerToken r = (if header_get (wq_Headers r) ''Authorization'' = [] then None else bearer r)"

definition WithIdentity :: "identity \<Rightarrow> go_context \<Rightarrow> go_context" where
  "WithIdentity i cx = cx\<lparr>cx_identity := Some i\<rparr>"

definition IdentityFromContext :: "go_context \<Rightarrow> identity option" where
  "IdentityFromContext cx = (case cx_identity cx of
     None \<Rightarrow> None | Some i \<Rightarrow> if id_UserID i = [] then None else Some i)"

definition Authenticate :: "identity_provider \<Rightarrow> middleware" where
  "Authenticate identify r =
     (if header_get (wq_Headers r) ''Authorization'' = []
      then Reply (WriteError 401 ''Authorization header required'')
      else case BearerToken r of
          None \<Rightarrow> Reply (WriteError 401 ''Invalid authorization format'')
        | Some token \<Rightarrow> (case identify (wq_Context r) token of
              Inl _ \<Rightarrow> Reply (WriteError 401 ''Invalid token'')
            | Inr i \<Rightarrow> Next (WithContext (WithIdentity i (wq_Context r)) r) []))"

definition RequireRole :: "string \<Rightarrow> middleware" where
  "RequireRole role r =
     (case IdentityFromContext (wq_Context r) of
        None \<Rightarrow> Reply (WriteError 403 ''No roles found'')
      | Some i \<Rightarrow> if \<not> HasRole i AdminRole \<and> \<not> HasRole i role
          then Reply (WriteError 403 ''Insufficient permissions'') else Next r [])"

definition auth_UserID :: "go_context \<Rightarrow> string option" where
  "auth_UserID cx = map_option id_UserID (IdentityFromContext cx)"

definition auth_Roles :: "go_context \<Rightarrow> string list option" where
  "auth_Roles cx = map_option id_Roles (IdentityFromContext cx)"

definition SetUserContext :: "string \<Rightarrow> string list \<Rightarrow> go_context \<Rightarrow> go_context" where
  "SetUserContext userID roles cx =
     (WithIdentity \<lparr>id_UserID = userID, id_Roles = roles\<rparr> cx)\<lparr>cx_legacyUser := Some userID, cx_legacyRoles := Some roles\<rparr>"

definition GetUserFromContext :: "go_context \<Rightarrow> (string \<times> string list) option" where
  "GetUserFromContext cx = (case IdentityFromContext cx of
     Some i \<Rightarrow> Some (id_UserID i, id_Roles i)
   | None \<Rightarrow> (case (cx_legacyUser cx, cx_legacyRoles cx) of
       (Some u, Some rs) \<Rightarrow> Some (u, rs) | _ \<Rightarrow> None))"

section \<open>Tokens\<close>

record claims =
  cl_UserID :: string
  cl_Roles :: "string list"
  cl_Subject :: string
  cl_IssuedAt :: instant
  cl_ExpiresAt :: instant

text \<open>
  The token library: signing claims with \<^verbatim>\<open>HS256\<close> under a secret, and parsing a token under one, at an
  instant: an error, or the token's validity and claims.
\<close>

record jwt_lib =
  jl_sign :: "string \<Rightarrow> claims \<Rightarrow> (string, string) result"
  jl_parse :: "string \<Rightarrow> instant \<Rightarrow> string \<Rightarrow> (string, bool \<times> claims) result"

record jwt_manager =
  jm_secretKey :: string
  jm_expiry :: duration

definition NewJWTManager :: "string \<Rightarrow> duration \<Rightarrow> jwt_manager" where
  "NewJWTManager secretKey expiry = \<lparr>jm_secretKey = secretKey, jm_expiry = expiry\<rparr>"

definition claims_HasRole :: "claims \<Rightarrow> string \<Rightarrow> bool" where
  "claims_HasRole c role = (role \<in> set (cl_Roles c))"

text \<open>The clock is read twice: for the expiry and for the time of issue.\<close>

definition GenerateToken :: "jwt_lib \<Rightarrow> jwt_manager \<Rightarrow> instant \<Rightarrow> instant \<Rightarrow> string \<Rightarrow> string list \<Rightarrow> (string, string) result" where
  "GenerateToken lib j now now' userID roles = jl_sign lib (jm_secretKey j)
     \<lparr>cl_UserID = userID, cl_Roles = roles, cl_Subject = userID, cl_IssuedAt = now', cl_ExpiresAt = now + jm_expiry j\<rparr>"

definition ValidateToken :: "jwt_lib \<Rightarrow> jwt_manager \<Rightarrow> instant \<Rightarrow> string \<Rightarrow> (string, claims) result" where
  "ValidateToken lib j now token = (case jl_parse lib (jm_secretKey j) now token of
     Inl err \<Rightarrow> Inl err
   | Inr (valid, c) \<Rightarrow> if valid then Inr c else Inl ''invalid token'')"

definition Identify :: "jwt_lib \<Rightarrow> jwt_manager \<Rightarrow> instant \<Rightarrow> identity_provider" where
  "Identify lib j now cx token = (case ValidateToken lib j now token of
     Inl err \<Rightarrow> Inl err | Inr c \<Rightarrow> Inr \<lparr>id_UserID = cl_UserID c, id_Roles = cl_Roles c\<rparr>)"

lemma Identify_roles:
  "Identify lib j now cx token = Inr i \<Longrightarrow>
     \<exists>c. ValidateToken lib j now token = Inr c \<and> id_UserID i = cl_UserID c \<and> (\<forall>role. HasRole i role = claims_HasRole c role)"
  by (auto simp: Identify_def HasRole_def claims_HasRole_def split: sum.split_asm)

end
