(* ===== verification/Rate_Limit.thy ===== *)
theory Rate_Limit
  imports Web_Auth Redis_Client
begin

text \<open>
  The Redis-backed rate limiter (\<^verbatim>\<open>middleware/rate_limiting.go\<close>): the limits, the classification of
  endpoints, the client's bucket, the check, and the middleware. It runs on the cluster client: each
  Redis server is a state of its own behind its client handle.
\<close>

section \<open>Endpoints and limits\<close>

datatype endpoint_type = EpAuth | EpData | EpUpload | EpAdmin | EpPublic | EpInternal | EpHealthy

definition endpoint_name :: "endpoint_type \<Rightarrow> string" where
  "endpoint_name t = (case t of EpAuth \<Rightarrow> ''auth'' | EpData \<Rightarrow> ''data'' | EpUpload \<Rightarrow> ''upload'' | EpAdmin \<Rightarrow> ''admin''
     | EpPublic \<Rightarrow> ''public'' | EpInternal \<Rightarrow> ''internal'' | EpHealthy \<Rightarrow> ''health'')"

record rate_limit_config =
  rl_RequestsPerMinute :: int
  rl_BurstAllowance :: int
  rl_BlockDuration :: duration

definition RateLimitConfigs :: "endpoint_type \<Rightarrow> rate_limit_config" where
  "RateLimitConfigs t = (case t of
     EpAuth \<Rightarrow> \<lparr>rl_RequestsPerMinute = 10, rl_BurstAllowance = 3, rl_BlockDuration = 5 * minute\<rparr>
   | EpData \<Rightarrow> \<lparr>rl_RequestsPerMinute = 60, rl_BurstAllowance = 10, rl_BlockDuration = 1 * minute\<rparr>
   | EpUpload \<Rightarrow> \<lparr>rl_RequestsPerMinute = 20, rl_BurstAllowance = 5, rl_BlockDuration = 2 * minute\<rparr>
   | EpAdmin \<Rightarrow> \<lparr>rl_RequestsPerMinute = 30, rl_BurstAllowance = 5, rl_BlockDuration = 1 * minute\<rparr>
   | EpPublic \<Rightarrow> \<lparr>rl_RequestsPerMinute = 100, rl_BurstAllowance = 20, rl_BlockDuration = 30 * second\<rparr>
   | EpInternal \<Rightarrow> \<lparr>rl_RequestsPerMinute = 200, rl_BurstAllowance = 50, rl_BlockDuration = 30 * second\<rparr>
   | EpHealthy \<Rightarrow> \<lparr>rl_RequestsPerMinute = 0, rl_BurstAllowance = 0, rl_BlockDuration = 0\<rparr>)"

definition ClassifyEndpoint :: "string \<Rightarrow> string \<Rightarrow> endpoint_type" where
  "ClassifyEndpoint path0 method0 =
     (let path = toLower path0; method = toUpper method0; has = (\<lambda>s. strContains path s)
      in if has ''/health'' \<or> has ''/ready'' \<or> has ''/metrics'' then EpHealthy
         else if has ''/internal'' \<or> has ''/service-auth'' then EpInternal
         else if has ''/auth'' \<or> has ''/login'' \<or> has ''/logout'' then EpAuth
         else if method = ''POST'' \<and> (has ''/upload'' \<or> has ''/documents'') then EpUpload
         else if has ''/admin'' \<or> has ''/service-keys'' then EpAdmin
         else if method = ''GET'' \<and> (has ''/public'' \<or> has ''/verify-email'' \<or> has ''/status'') then EpPublic
         else EpData)"

definition ClientIdentifier :: "web_request \<Rightarrow> string" where
  "ClientIdentifier r = (case UserID (wq_Context r) of
     Some userID \<Rightarrow> ''user:'' @ userID
   | None \<Rightarrow> (case ServiceName (wq_Context r) of
       Some serviceName \<Rightarrow> ''service:'' @ serviceName
     | None \<Rightarrow> ''ip:'' @ (if ClientIP r = [] then ''unknown'' else ClientIP r)))"

section \<open>Redis servers behind the cluster client\<close>

datatype redis_value = VNone | VString string | VInt int | VDuration duration

text \<open>
  The store: the adapter, and the state of the server behind each client handle. \<open>apply\<close> is a server
  running a command at an instant. During a command a client fails with an error, having applied the
  command or not; a command tries each client at most once, so faults are by command and client.
\<close>

type_synonym 's redis_server = "instant \<Rightarrow> redis_op \<Rightarrow> 's \<Rightarrow> (redis_value \<times> redis_error option) \<times> 's"

record 's kv_state =
  kv_adapter :: redis_adapter
  kv_servers :: "nat \<Rightarrow> 's"

record kv_net =
  kn_fault :: "nat \<Rightarrow> nat \<Rightarrow> (bool \<times> string) option"
  kn_rand :: "nat \<Rightarrow> nat \<Rightarrow> nat"
  kn_jitter :: "nat \<Rightarrow> nat \<Rightarrow> nat"
  kn_cancel :: "nat \<Rightarrow> nat \<Rightarrow> string option"

definition kv_world :: "'s redis_server \<Rightarrow> kv_net \<Rightarrow> nat \<Rightarrow> instant \<Rightarrow> (nat \<Rightarrow> 's) \<Rightarrow> redis_value redis_world" where
  "kv_world apply net j now servers = \<lparr>
     rw_serve = (\<lambda>x client _. case kn_fault net j client of
        Some (_, m) \<Rightarrow> (VNone, Some (RedisErr m)) | None \<Rightarrow> fst (apply now x (servers client))),
     rw_rand = kn_rand net j, rw_jitter = kn_jitter net j, rw_cancel = kn_cancel net j\<rparr>"

definition kv_applied :: "'s redis_server \<Rightarrow> kv_net \<Rightarrow> nat \<Rightarrow> instant \<Rightarrow> redis_op \<Rightarrow> redis_adapter \<Rightarrow> nat list \<Rightarrow>
    (nat \<Rightarrow> 's) \<Rightarrow> nat \<Rightarrow> 's" where
  "kv_applied apply net j now x a tried servers = (\<lambda>c.
     if (\<exists>i\<in>set tried. rn_client (ra_nodes a ! i) = Some c)
        \<and> (case kn_fault net j c of Some (done, _) \<Rightarrow> done | None \<Rightarrow> True)
     then snd (apply now x (servers c)) else servers c)"

text \<open>The \<open>j\<close>-th command of a check: a method of the client, the command it sends.\<close>

definition kv_do :: "'s redis_server \<Rightarrow> kv_net \<Rightarrow> nat \<Rightarrow> instant \<Rightarrow> redis_op \<Rightarrow>
    (redis_value redis_world \<Rightarrow> redis_adapter \<Rightarrow> (redis_value redis_cmd \<times> nat list) outcome \<times> redis_adapter) \<Rightarrow>
    's kv_state \<Rightarrow> redis_value redis_cmd outcome \<times> 's kv_state" where
  "kv_do apply net j now x call s =
     (let (o1, a') = call (kv_world apply net j now (kv_servers s)) (kv_adapter s)
      in case o1 of
           Panic m \<Rightarrow> (Panic m, s\<lparr>kv_adapter := a'\<rparr>)
         | Block \<Rightarrow> (Block, s\<lparr>kv_adapter := a'\<rparr>)
         | Ret (cmd, tried) \<Rightarrow> (Ret cmd, s\<lparr>kv_adapter := a',
             kv_servers := kv_applied apply net j now x (kv_adapter s) tried (kv_servers s)\<rparr>))"

definition int_val :: "redis_value redis_cmd \<Rightarrow> int" where
  "int_val cmd = (case cmd_val cmd of Some (VInt n) \<Rightarrow> n | _ \<Rightarrow> 0)"

definition string_val :: "redis_value redis_cmd \<Rightarrow> string" where
  "string_val cmd = (case cmd_val cmd of Some (VString v) \<Rightarrow> v | _ \<Rightarrow> [])"

definition duration_val :: "redis_value redis_cmd \<Rightarrow> duration" where
  "duration_val cmd = (case cmd_val cmd of Some (VDuration d) \<Rightarrow> d | _ \<Rightarrow> 0)"

definition err_text :: "redis_error \<Rightarrow> string" where
  "err_text e = (case e of RedisNil \<Rightarrow> ''redis: nil'' | RedisErr m \<Rightarrow> m | CtxErr m \<Rightarrow> m)"

section \<open>The check\<close>

text \<open>\<^verbatim>\<open>time.Truncate(time.Minute)\<close> counts from the zero time; \<open>count\<close> and block keys.\<close>

definition windowStart :: "instant \<Rightarrow> instant" where
  "windowStart now = now - (now - zero_time) mod minute"

definition countKey :: "string \<Rightarrow> string \<Rightarrow> endpoint_type \<Rightarrow> instant \<Rightarrow> string" where
  "countKey service clientID t now = ''rate_limit:'' @ service @ '':'' @ clientID @ '':'' @ endpoint_name t @ '':''
     @ itoa (unix_of (windowStart now))"

definition blockKey :: "string \<Rightarrow> string \<Rightarrow> endpoint_type \<Rightarrow> string" where
  "blockKey service clientID t = ''rate_limit_block:'' @ service @ '':'' @ clientID @ '':'' @ endpoint_name t"

text \<open>\<^verbatim>\<open>strconv.Atoi\<close> with its error ignored: out of range it leaves the nearest integer.\<close>

definition atoi_value :: "string \<Rightarrow> int" where
  "atoi_value s =
     (let neg = hasPrefix s ''-'';
          ds = (if hasPrefix s ''-'' \<or> hasPrefix s ''+'' then drop 1 s else s)
      in if ds = [] \<or> \<not> list_all is_digit ds then 0
         else if neg then max (- digits_val ds) (- (2 ^ 63)) else min (digits_val ds) max_int64)"

text \<open>The pipeline runs \<^verbatim>\<open>INCR\<close> and \<^verbatim>\<open>EXPIRE\<close> on one client; there may be none, a nil interface.\<close>

definition count_request :: "'s redis_server \<Rightarrow> kv_net \<Rightarrow> nat \<Rightarrow> instant \<Rightarrow> string \<Rightarrow> 's kv_state \<Rightarrow>
    string option outcome \<times> 's kv_state" where
  "count_request apply net j now key s =
     (let (o1, a') = client_Pipeline (kn_rand net j 0) (kv_adapter s); s' = s\<lparr>kv_adapter := a'\<rparr>
      in case o1 of
           Panic m \<Rightarrow> (Panic m, s')
         | Block \<Rightarrow> (Block, s')
         | Ret None \<Rightarrow> (Panic ''invalid memory address or nil pointer dereference'', s')
         | Ret (Some c) \<Rightarrow>
             (let ((_, e1), v1) = apply now (OpIncr key) (kv_servers s c);
                  ((_, e2), v2) = apply now (OpExpire key minute) v1;
                  ran = s'\<lparr>kv_servers := (kv_servers s)(c := v2)\<rparr>
              in case kn_fault net j c of
                   Some (done, m) \<Rightarrow> (Ret (Some m), if done then ran else s')
                 | None \<Rightarrow> (Ret (map_option err_text (case e1 of Some e \<Rightarrow> Some e | None \<Rightarrow> e2)), ran)))"

text \<open>Sequencing: a panic or a block ends the handler.\<close>

definition kv_bind :: "'a outcome \<times> 's kv_state \<Rightarrow> ('a \<Rightarrow> 's kv_state \<Rightarrow> 'b outcome \<times> 's kv_state) \<Rightarrow> 'b outcome \<times> 's kv_state" where
  "kv_bind m f = (case m of (Ret x, s) \<Rightarrow> f x s | (Panic e, s) \<Rightarrow> (Panic e, s) | (Block, s) \<Rightarrow> (Block, s))"

text \<open>From the count on: block the client, or count the request.\<close>

definition limit_step :: "'s redis_server \<Rightarrow> kv_net \<Rightarrow> instant \<Rightarrow> rate_limit_config \<Rightarrow> string \<Rightarrow> string \<Rightarrow> string \<Rightarrow>
    's kv_state \<Rightarrow> (string, bool \<times> int) result outcome \<times> 's kv_state" where
  "limit_step apply net now config count_text ck bk s =
     (let currentCount = (if count_text \<noteq> [] then atoi_value count_text else 0);
          limit = rl_RequestsPerMinute config + rl_BurstAllowance config;
          block = rl_BlockDuration config
      in if currentCount \<ge> limit then
           kv_bind (kv_do apply net 3 now (OpSet bk ''1'' block) (\<lambda>w. client_Set w bk ''1'' block) s) (\<lambda>cmd s'.
             (case cmd_err cmd of
                Some err \<Rightarrow> (Ret (Inl (''failed to set block: '' @ err_text err)), s')
              | None \<Rightarrow> (Ret (Inr (False, go_quot block second)), s')))
         else
           kv_bind (count_request apply net 4 now ck s) (\<lambda>err s'.
             (case err of
                Some m \<Rightarrow> (Ret (Inl (''failed to increment counter: '' @ m)), s')
              | None \<Rightarrow> (Ret (Inr (True, 0)), s'))))"

definition IsAllowed :: "'s redis_server \<Rightarrow> kv_net \<Rightarrow> string \<Rightarrow> instant \<Rightarrow> string \<Rightarrow> endpoint_type \<Rightarrow> 's kv_state \<Rightarrow>
    (string, bool \<times> int) result outcome \<times> 's kv_state" where
  "IsAllowed apply net service now clientID t s0 =
     (let config = RateLimitConfigs t; ck = countKey service clientID t now; bk = blockKey service clientID t
      in if rl_RequestsPerMinute config = 0 then (Ret (Inr (True, 0)), s0)
         else kv_bind (kv_do apply net 0 now (OpExists [bk]) (\<lambda>w. client_Exists w [bk]) s0) (\<lambda>blocked s1.
           case cmd_err blocked of
             Some err \<Rightarrow> (Ret (Inl (''failed to check block status: '' @ err_text err)), s1)
           | None \<Rightarrow>
               if int_val blocked > 0 then
                 kv_bind (kv_do apply net 1 now (OpTTL bk) (\<lambda>w. client_TTL w bk) s1) (\<lambda>ttl s2.
                   (Ret (Inr (False, go_quot (duration_val ttl) second)), s2))
               else kv_bind (kv_do apply net 2 now (OpGet ck) (\<lambda>w. client_Get w ck) s1) (\<lambda>got s2.
                 if cmd_err got \<noteq> None \<and> err_text (the (cmd_err got)) \<noteq> ''redis: nil''
                 then (Ret (Inl (''failed to get request count: '' @ err_text (the (cmd_err got)))), s2)
                 else limit_step apply net now config (string_val got) ck bk s2)))"

section \<open>The middleware\<close>

definition RateLimit :: "'s redis_server \<Rightarrow> kv_net \<Rightarrow> string \<Rightarrow> instant \<Rightarrow> web_request \<Rightarrow> 's kv_state \<Rightarrow>
    verdict outcome \<times> 's kv_state" where
  "RateLimit apply net service now r s =
     (let t = ClassifyEndpoint (wq_Path r) (wq_Method r);
          config = RateLimitConfigs t;
          limitHeader = (''X-RateLimit-Limit'', itoa (rl_RequestsPerMinute config))
      in kv_bind (IsAllowed apply net service now (ClientIdentifier r) t s) (\<lambda>res s'.
           (Ret (case res of
              Inl err \<Rightarrow> Next r []
            | Inr (True, _) \<Rightarrow> Next r [limitHeader, (''X-RateLimit-Type'', endpoint_name t)]
            | Inr (False, retryAfter) \<Rightarrow>
                (let resp = WriteJSON 429 (JsonBody (AMap [(''error'', AStr ''Rate limit exceeded''),
                       (''message'', AStr (''Too many requests for '' @ endpoint_name t @ '' endpoints'')),
                       (''retry_after'', ANum (itoa retryAfter)), (''endpoint_type'', AStr (endpoint_name t))]))
                 in Reply (resp\<lparr>wp_Headers := header_set_all [limitHeader, (''X-RateLimit-Reset'', itoa retryAfter),
                      (''Retry-After'', itoa retryAfter)] Map.empty ++ wp_Headers resp\<rparr>))), s')))"

end
