(* ===== verification/Rate_Theorems.thy ===== *)
theory Rate_Theorems
  imports Rate_Limit
begin

text \<open>
  Properties of the rate limiter: exactly the limit per window on one server, no limit at all on a
  sharded cluster, open on errors, and what decides the bucket.
\<close>

section \<open>What a Redis server documents\<close>

text \<open>\<open>look s t k\<close> is the value key \<open>k\<close> will have at instant \<open>t\<close> if nothing is written from state \<open>s\<close> on.\<close>

definition redis_laws :: "('s \<Rightarrow> instant \<Rightarrow> string \<Rightarrow> string option) \<Rightarrow> 's redis_server \<Rightarrow> bool" where
  "redis_laws look apply \<longleftrightarrow>
     (\<forall>now s k. fst (apply now (OpExists [k]) s) = (VInt (if look s now k = None then 0 else 1), None)
        \<and> (\<forall>t\<ge>now. look (snd (apply now (OpExists [k]) s)) t = look s t))
     \<and> (\<forall>now s k. fst (apply now (OpGet k) s)
           = (case look s now k of None \<Rightarrow> (VString [], Some RedisNil) | Some v \<Rightarrow> (VString v, None))
        \<and> (\<forall>t\<ge>now. look (snd (apply now (OpGet k) s)) t = look s t))
     \<and> (\<forall>now s k. (\<exists>d. fst (apply now (OpTTL k) s) = (VDuration d, None))
        \<and> (\<forall>t\<ge>now. look (snd (apply now (OpTTL k) s)) t = look s t))
     \<and> (\<forall>now s k v d. 0 < d \<longrightarrow> snd (fst (apply now (OpSet k v d) s)) = None
        \<and> (\<forall>t\<ge>now. look (snd (apply now (OpSet k v d) s)) t = (look s t)(k := if t < now + d then Some v else None)))
     \<and> (\<forall>now s k n. look s now k = (if n = 0 then None else Some (itoa n)) \<and> 0 \<le> n \<and> n < max_int64 \<longrightarrow>
          (let ((_, e1), s1) = apply now (OpIncr k) s; ((_, e2), s2) = apply now (OpExpire k minute) s1
           in e1 = None \<and> e2 = None
             \<and> (\<forall>t\<ge>now. look s2 t = (look s t)(k := if t < now + minute then Some (itoa (n + 1)) else None))))"

section \<open>Commands on a healthy cluster\<close>

text \<open>No request of a check fails.\<close>

definition faultless :: "kv_net \<Rightarrow> bool" where
  "faultless net \<longleftrightarrow> (\<forall>j c. kn_fault net j c = None)"

lemma client_do_first:
  assumes "redis_selectNode (rw_rand w 0) key a = (Ret (Some i), a1)" and "rn_client (ra_nodes a ! i) = Some c"
    and "0 \<le> rc_MaxRetries (ra_config a)" and "rw_serve w x c 0 = (v, e)" and "e = None \<or> e = Some RedisNil"
  shows "client_do w x args key a = (Ret (\<lparr>cmd_args = args, cmd_val = Some v, cmd_err = e\<rparr>, [i]),
    if e = None then redis_set_node i (\<lambda>n. n\<lparr>rn_opsCount := wrap64 (rn_opsCount n + 1)\<rparr>) a1 else a1)"
proof -
  have k: "nat (rc_MaxRetries (ra_config a) + 1) = Suc (nat (rc_MaxRetries (ra_config a)))" using assms(3) by simp
  have n: "ra_nodes a1 = ra_nodes a" using redis_select_frame(1) [of "rw_rand w 0" key a] assms(1) by simp
  have x: "redis_executeOnNode (client_env w x) 0 (ra_nodes a1 ! i) = (Some v, e)"
    by (simp add: redis_executeOnNode_def n assms(2) client_env_def assms(4))
  have s: "redis_selectNode (re_rand (client_env w x) 0) key a = (Ret (Some i), a1)"
    by (simp add: client_env_def assms(1))
  from assms(5) show ?thesis
    unfolding client_do_def ExecuteWithRetry_def k redis_retry_loop.simps(2) s x
    by (elim disjE) (simp_all add: x)
qed

text \<open>Adapters that differ in counters only; after a command the round-robin counter moved by one at most.\<close>

definition pool_same :: "redis_adapter \<Rightarrow> redis_adapter \<Rightarrow> bool" where
  "pool_same a a' \<longleftrightarrow> ra_config a' = ra_config a \<and> ra_primaryClient a' = ra_primaryClient a \<and> ra_locked a' = ra_locked a
     \<and> map (\<lambda>n. (rn_client n, rn_state n, rn_locked n)) (ra_nodes a') = map (\<lambda>n. (rn_client n, rn_state n, rn_locked n)) (ra_nodes a)"

definition stays :: "redis_adapter \<Rightarrow> redis_adapter \<Rightarrow> bool" where
  "stays a a' \<longleftrightarrow> pool_same a a' \<and> ra_nodeIndex a \<le> ra_nodeIndex a' \<and> ra_nodeIndex a' \<le> ra_nodeIndex a + 1"

lemma pool_same_trans: "pool_same a b \<Longrightarrow> pool_same b c \<Longrightarrow> pool_same a c"
  by (simp add: pool_same_def)

lemma stays_pool: "stays a a' \<Longrightarrow> pool_same a a'"
  by (simp add: stays_def)

lemma map_update_same: "f (g (xs ! i)) = f (xs ! i) \<Longrightarrow> map f (xs[i := g (xs ! i)]) = map f xs"
  by (metis list_update_id map_update)

lemma pool_nth:
  assumes "pool_same a a'"
  shows "length (ra_nodes a') = length (ra_nodes a)"
    and "i < length (ra_nodes a) \<Longrightarrow> rn_client (ra_nodes a' ! i) = rn_client (ra_nodes a ! i)"
    and "i < length (ra_nodes a) \<Longrightarrow> redis_usable (ra_nodes a' ! i) = redis_usable (ra_nodes a ! i)"
    and "i < length (ra_nodes a) \<Longrightarrow> rn_locked (ra_nodes a' ! i) = rn_locked (ra_nodes a ! i)"
proof -
  let ?f = "\<lambda>n. (rn_client n, rn_state n, rn_locked n)"
  have m: "map ?f (ra_nodes a') = map ?f (ra_nodes a)" using assms by (simp add: pool_same_def)
  then show l: "length (ra_nodes a') = length (ra_nodes a)" by (rule map_eq_imp_length_eq)
  have f: "?f (ra_nodes a' ! i) = ?f (ra_nodes a ! i)" if i: "i < length (ra_nodes a)" for i
  proof -
    have "map ?f (ra_nodes a') ! i = map ?f (ra_nodes a) ! i" by (simp only: m)
    then show ?thesis using i l by (simp only: nth_map)
  qed
  show "i < length (ra_nodes a) \<Longrightarrow> rn_client (ra_nodes a' ! i) = rn_client (ra_nodes a ! i)"
    "i < length (ra_nodes a) \<Longrightarrow> redis_usable (ra_nodes a' ! i) = redis_usable (ra_nodes a ! i)"
    "i < length (ra_nodes a) \<Longrightarrow> rn_locked (ra_nodes a' ! i) = rn_locked (ra_nodes a ! i)"
    using f [of i] unfolding redis_usable_def prod.inject by (blast, metis, blast)
qed

lemma pool_positions: "pool_same a a' \<Longrightarrow> positions redis_usable (ra_nodes a') = positions redis_usable (ra_nodes a)"
  unfolding positions_def by (rule filter_cong) (simp_all add: pool_nth)

lemma pool_unlocked: "pool_same a a' \<Longrightarrow> redis_unlocked a' = redis_unlocked a"
  unfolding redis_unlocked_def list_all_length by (simp add: pool_nth) (simp add: pool_same_def)

lemma pool_hash: "pool_same a a' \<Longrightarrow> hash_node key (ra_nodes a') = hash_node key (ra_nodes a)"
  by (simp add: hash_node_def pool_positions)

text \<open>A cluster that answers: nothing is locked, a node is usable, the counter is far from its overflow.\<close>

definition answering :: "int \<Rightarrow> redis_adapter \<Rightarrow> bool" where
  "answering k a \<longleftrightarrow> redis_unlocked a \<and> positions redis_usable (ra_nodes a) \<noteq> [] \<and> length (ra_nodes a) < 2 ^ 32
     \<and> 0 \<le> rc_MaxRetries (ra_config a) \<and> 0 \<le> ra_nodeIndex a \<and> ra_nodeIndex a + k < max_int64"

lemma answering_stays: "answering k a \<Longrightarrow> stays a a' \<Longrightarrow> answering (k - 1) a'"
  using stays_pool [of a a'] unfolding answering_def
  by (auto simp: pool_unlocked pool_positions pool_nth(1)) (simp_all add: stays_def pool_same_def)

lemma answering_less: "answering k a \<Longrightarrow> k' \<le> k \<Longrightarrow> answering k' a"
  by (simp add: answering_def)

lemma select_answering:
  assumes "answering k a" and "0 \<le> k"
  obtains i a1 where "redis_selectNode r key a = (Ret (Some i), a1)" "i < length (ra_nodes a)"
    "redis_usable (ra_nodes a ! i)" "stays a a1"
    "rc_LoadBalanceStrategy (ra_config a) = ''hash'' \<and> key \<noteq> [] \<longrightarrow> i = hash_node key (ra_nodes a)"
proof -
  let ?hs = "positions redis_usable (ra_nodes a)"
  have l: "0 < length ?hs" "length ?hs < 2 ^ 32"
    using assms(1) length_filter_le [of "\<lambda>i. redis_usable (ra_nodes a ! i)" "[0..<length (ra_nodes a)]"]
    by (auto simp: answering_def positions_def)
  obtain o1 idx where b: "balance (rc_LoadBalanceStrategy (ra_config a)) r key (length ?hs) (ra_nodeIndex a) = (o1, idx)"
    by fastforce
  have rr: "rr_next (ra_nodeIndex a) (length ?hs) = (Ret (nat ((ra_nodeIndex a + 1) mod int (length ?hs))), ra_nodeIndex a + 1)"
    using assms l(1) by (intro rr_next_ok) (auto simp: answering_def)
  obtain k where k: "o1 = Ret k" "ra_nodeIndex a \<le> idx" "idx \<le> ra_nodeIndex a + 1"
    using b rr by (auto simp: balance_def split: if_split_asm)
  then have "k < length ?hs" using balance_in_range [OF l] b by (metis fst_conv)
  then have i: "?hs ! k \<in> set ?hs" by (rule nth_mem)
  have s: "redis_selectNode r key a = (Ret (Some (?hs ! k)), a\<lparr>ra_nodeIndex := idx\<rparr>)"
    using assms(1) l(1) b k(1) by (auto simp: redis_selectNode_def redis_healthy_unlocked answering_def)
  show thesis
  proof (rule that [OF s])
    show "?hs ! k < length (ra_nodes a)" "redis_usable (ra_nodes a ! (?hs ! k))" using i by simp_all
    show "stays a (a\<lparr>ra_nodeIndex := idx\<rparr>)" using k by (simp add: stays_def pool_same_def)
    show "rc_LoadBalanceStrategy (ra_config a) = ''hash'' \<and> key \<noteq> [] \<longrightarrow> ?hs ! k = hash_node key (ra_nodes a)"
      using b k(1) by (auto simp: balance_def hash_node_def Let_def)
  qed
qed

text \<open>A command whose server answers without a failure: the value, and the server it ran on.\<close>

lemma kv_do_answering:
  assumes "answering k (kv_adapter s)" and "0 \<le> k" and "faultless net"
    and "\<And>w. call w = client_do w x args key"
    and "\<And>c. snd (fst (apply now x (kv_servers s c))) \<in> {None, Some RedisNil}"
  obtains i c s' where "i < length (ra_nodes (kv_adapter s))" "redis_usable (ra_nodes (kv_adapter s) ! i)"
    "rn_client (ra_nodes (kv_adapter s) ! i) = Some c" "stays (kv_adapter s) (kv_adapter s')"
    "rc_LoadBalanceStrategy (ra_config (kv_adapter s)) = ''hash'' \<and> key \<noteq> [] \<longrightarrow> i = hash_node key (ra_nodes (kv_adapter s))"
    "kv_do apply net j now x call s =
       (Ret \<lparr>cmd_args = args, cmd_val = Some (fst (fst (apply now x (kv_servers s c)))),
             cmd_err = snd (fst (apply now x (kv_servers s c)))\<rparr>, s')"
    "kv_servers s' = (kv_servers s)(c := snd (apply now x (kv_servers s c)))"
proof -
  let ?w = "kv_world apply net j now (kv_servers s)" and ?a = "kv_adapter s"
  obtain i a1 where sel: "redis_selectNode (rw_rand ?w 0) key ?a = (Ret (Some i), a1)" "i < length (ra_nodes ?a)"
    "redis_usable (ra_nodes ?a ! i)" "stays ?a a1"
    "rc_LoadBalanceStrategy (ra_config ?a) = ''hash'' \<and> key \<noteq> [] \<longrightarrow> i = hash_node key (ra_nodes ?a)"
    using select_answering [OF assms(1,2)] by blast
  obtain c where c: "rn_client (ra_nodes ?a ! i) = Some c" using sel(3) by (auto simp: redis_usable_def)
  let ?r = "fst (apply now x (kv_servers s c))"
  have serve: "rw_serve ?w x c 0 = (fst ?r, snd ?r)" using assms(3) by (simp add: kv_world_def faultless_def)
  have e: "snd ?r = None \<or> snd ?r = Some RedisNil" using assms(5) by simp
  have m: "0 \<le> rc_MaxRetries (ra_config ?a)" using assms(1) by (simp add: answering_def)
  define a' where "a' = (if snd ?r = None then redis_set_node i (\<lambda>n. n\<lparr>rn_opsCount := wrap64 (rn_opsCount n + 1)\<rparr>) a1 else a1)"
  have d: "call ?w ?a = (Ret (\<lparr>cmd_args = args, cmd_val = Some (fst ?r), cmd_err = snd ?r\<rparr>, [i]), a')"
    unfolding assms(4) a'_def by (rule client_do_first [OF sel(1) c m serve e])
  have "ra_nodes a1 = ra_nodes ?a" using redis_select_frame(1) [of "rw_rand ?w 0" key ?a] sel(1) by simp
  then have st: "stays ?a a'"
    using sel(4) by (auto simp: a'_def stays_def pool_same_def redis_set_node_def map_update_same)
  have "kv_applied apply net j now x ?a [i] (kv_servers s) = (kv_servers s)(c := snd (apply now x (kv_servers s c)))"
    using assms(3) c by (auto simp: kv_applied_def faultless_def fun_eq_iff)
  then have "kv_do apply net j now x call s =
       (Ret \<lparr>cmd_args = args, cmd_val = Some (fst ?r), cmd_err = snd ?r\<rparr>,
        s\<lparr>kv_adapter := a', kv_servers := (kv_servers s)(c := snd (apply now x (kv_servers s c)))\<rparr>)"
    by (simp add: kv_do_def d)
  from that [OF sel(2,3) c _ sel(5) this] st show thesis by simp
qed

text \<open>Reads: the value, and no change to what any server will answer.\<close>

definition same_looks :: "('s \<Rightarrow> instant \<Rightarrow> string \<Rightarrow> string option) \<Rightarrow> instant \<Rightarrow> 's kv_state \<Rightarrow> 's kv_state \<Rightarrow> bool" where
  "same_looks look now s s' \<longleftrightarrow> (\<forall>c. \<forall>t\<ge>now. look (kv_servers s' c) t = look (kv_servers s c) t)"

lemma kv_exists:
  assumes laws: "redis_laws look apply" and "answering k (kv_adapter s)" and "0 \<le> k" and "faultless net"
  obtains i c s' where "i < length (ra_nodes (kv_adapter s))" "redis_usable (ra_nodes (kv_adapter s) ! i)"
      "rn_client (ra_nodes (kv_adapter s) ! i) = Some c"
    "stays (kv_adapter s) (kv_adapter s')" "same_looks look now s s'"
    "kv_do apply net j now (OpExists [key]) (\<lambda>w. client_Exists w [key]) s =
       (Ret \<lparr>cmd_args = [''exists'', key], cmd_val = Some (VInt (if look (kv_servers s c) now key = None then 0 else 1)),
          cmd_err = None\<rparr>, s')"
proof -
  have law: "fst (apply now (OpExists [key]) x) = (VInt (if look x now key = None then 0 else 1), None)"
    "t \<ge> now \<Longrightarrow> look (snd (apply now (OpExists [key]) x)) t = look x t" for x t
    using laws unfolding redis_laws_def by auto
  have call: "client_Exists w [key] = client_do w (OpExists [key]) [''exists'', key] []" for w :: "redis_value redis_world"
    by (simp add: client_Exists_def)
  obtain i c s' where r: "i < length (ra_nodes (kv_adapter s))" "redis_usable (ra_nodes (kv_adapter s) ! i)"
      "rn_client (ra_nodes (kv_adapter s) ! i) = Some c" "stays (kv_adapter s) (kv_adapter s')"
    "kv_do apply net j now (OpExists [key]) (\<lambda>w. client_Exists w [key]) s =
       (Ret \<lparr>cmd_args = [''exists'', key], cmd_val = Some (VInt (if look (kv_servers s c) now key = None then 0 else 1)),
          cmd_err = None\<rparr>, s')"
    "kv_servers s' = (kv_servers s)(c := snd (apply now (OpExists [key]) (kv_servers s c)))"
    using kv_do_answering [OF assms(2-4) call, of "apply" now j] unfolding law by auto
  show thesis
    by (rule that [OF r(1-4) _ r(5)]) (simp add: same_looks_def r(6) law)
qed

lemma kv_get:
  assumes laws: "redis_laws look apply" and "answering k (kv_adapter s)" and "0 \<le> k" and "faultless net"
  obtains i c s' where "i < length (ra_nodes (kv_adapter s))" "redis_usable (ra_nodes (kv_adapter s) ! i)"
      "rn_client (ra_nodes (kv_adapter s) ! i) = Some c"
      "rc_LoadBalanceStrategy (ra_config (kv_adapter s)) = ''hash'' \<and> key \<noteq> [] \<longrightarrow> i = hash_node key (ra_nodes (kv_adapter s))"
    "stays (kv_adapter s) (kv_adapter s')" "same_looks look now s s'"
    "kv_do apply net j now (OpGet key) (\<lambda>w. client_Get w key) s =
       (Ret (case look (kv_servers s c) now key of
          None \<Rightarrow> \<lparr>cmd_args = [''get'', key], cmd_val = Some (VString []), cmd_err = Some RedisNil\<rparr>
        | Some v \<Rightarrow> \<lparr>cmd_args = [''get'', key], cmd_val = Some (VString v), cmd_err = None\<rparr>), s')"
proof -
  have law: "fst (apply now (OpGet key) x) = (case look x now key of None \<Rightarrow> (VString [], Some RedisNil) | Some v \<Rightarrow> (VString v, None))"
    "t \<ge> now \<Longrightarrow> look (snd (apply now (OpGet key) x)) t = look x t" for x t
    using laws unfolding redis_laws_def by auto
  have call: "client_Get w key = client_do w (OpGet key) [''get'', key] key" for w :: "redis_value redis_world"
    by (simp add: client_Get_def)
  have e: "snd (fst (apply now (OpGet key) (kv_servers s c))) \<in> {None, Some RedisNil}" for c
    by (simp add: law split: option.split)
  obtain i c s' where r: "i < length (ra_nodes (kv_adapter s))" "redis_usable (ra_nodes (kv_adapter s) ! i)"
      "rn_client (ra_nodes (kv_adapter s) ! i) = Some c" "stays (kv_adapter s) (kv_adapter s')"
      "rc_LoadBalanceStrategy (ra_config (kv_adapter s)) = ''hash'' \<and> key \<noteq> [] \<longrightarrow> i = hash_node key (ra_nodes (kv_adapter s))"
    "kv_do apply net j now (OpGet key) (\<lambda>w. client_Get w key) s =
       (Ret \<lparr>cmd_args = [''get'', key], cmd_val = Some (fst (fst (apply now (OpGet key) (kv_servers s c)))),
          cmd_err = snd (fst (apply now (OpGet key) (kv_servers s c)))\<rparr>, s')"
    "kv_servers s' = (kv_servers s)(c := snd (apply now (OpGet key) (kv_servers s c)))"
    by (rule kv_do_answering [OF assms(2-4) call, of "apply" now j, OF e])
  show thesis
  proof (rule that [OF r(1-3,5,4)])
    show "same_looks look now s s'" by (simp add: same_looks_def r(7) law)
    show "kv_do apply net j now (OpGet key) (\<lambda>w. client_Get w key) s =
       (Ret (case look (kv_servers s c) now key of
          None \<Rightarrow> \<lparr>cmd_args = [''get'', key], cmd_val = Some (VString []), cmd_err = Some RedisNil\<rparr>
        | Some v \<Rightarrow> \<lparr>cmd_args = [''get'', key], cmd_val = Some (VString v), cmd_err = None\<rparr>), s')"
      by (simp add: r(6) law split: option.split)
  qed
qed

lemma kv_ttl:
  assumes laws: "redis_laws look apply" and "answering k (kv_adapter s)" and "0 \<le> k" and "faultless net"
  obtains cmd s' where "stays (kv_adapter s) (kv_adapter s')" "same_looks look now s s'"
    "kv_do apply net j now (OpTTL key) (\<lambda>w. client_TTL w key) s = (Ret cmd, s')"
proof -
  have ex: "\<exists>d. fst (apply now (OpTTL key) x) = (VDuration d, None)"
    and law: "t \<ge> now \<Longrightarrow> look (snd (apply now (OpTTL key) x)) t = look x t" for x t
    using laws unfolding redis_laws_def by auto
  have e: "snd (fst (apply now (OpTTL key) (kv_servers s c))) \<in> {None, Some RedisNil}" for c
    using ex [of "kv_servers s c"] by auto
  have call: "client_TTL w key = client_do w (OpTTL key) [''ttl'', key] key" for w :: "redis_value redis_world"
    by (simp add: client_TTL_def)
  show thesis
    by (rule kv_do_answering [OF assms(2-4) call, of "apply" now j, OF e], rule that) (simp_all add: same_looks_def law)
qed

text \<open>Writes: the block on some server, the count on the primary client's.\<close>

lemma kv_block:
  assumes laws: "redis_laws look apply" and "answering k (kv_adapter s)" and "0 \<le> k" and "faultless net" and "0 < d"
  obtains cmd s' where "stays (kv_adapter s) (kv_adapter s')"
    "\<And>c t key'. t \<ge> now \<Longrightarrow> key' \<noteq> key \<Longrightarrow> look (kv_servers s' c) t key' = look (kv_servers s c) t key'"
    "cmd_err cmd = None"
    "kv_do apply net j now (OpSet key v d) (\<lambda>w. client_Set w key v d) s = (Ret cmd, s')"
proof -
  have law: "snd (fst (apply now (OpSet key v d) x)) = None"
    "t \<ge> now \<Longrightarrow> look (snd (apply now (OpSet key v d) x)) t = (look x t)(key := if t < now + d then Some v else None)" for x t
    using laws assms(5) unfolding redis_laws_def by auto
  have e: "snd (fst (apply now (OpSet key v d) (kv_servers s c))) \<in> {None, Some RedisNil}" for c
    by (simp add: law)
  have call: "client_Set w key v d = client_do w (OpSet key v d) [''set'', key, v, ''EX'', seconds_of d] key"
    for w :: "redis_value redis_world" using assms(5) by (simp add: client_Set_def)
  obtain i c s' where r: "stays (kv_adapter s) (kv_adapter s')"
    "kv_do apply net j now (OpSet key v d) (\<lambda>w. client_Set w key v d) s =
       (Ret \<lparr>cmd_args = [''set'', key, v, ''EX'', seconds_of d],
          cmd_val = Some (fst (fst (apply now (OpSet key v d) (kv_servers s c)))),
          cmd_err = snd (fst (apply now (OpSet key v d) (kv_servers s c)))\<rparr>, s')"
    "kv_servers s' = (kv_servers s)(c := snd (apply now (OpSet key v d) (kv_servers s c)))"
    by (rule kv_do_answering [OF assms(2-4) call, of "apply" now j, OF e])
  show thesis
    by (rule that [OF r(1) _ _ r(2)]) (simp_all add: r(3) law)
qed

lemma kv_count:
  assumes "redis_laws look apply" and "ra_primaryClient (kv_adapter s) = Some p" and "faultless net"
    and "look (kv_servers s p) now key = (if n = 0 then None else Some (itoa n))" and "0 \<le> n" and "n < max_int64"
  obtains s' where "kv_adapter s' = kv_adapter s"
    "\<forall>c. c \<noteq> p \<longrightarrow> kv_servers s' c = kv_servers s c"
    "\<forall>t\<ge>now. look (kv_servers s' p) t = (look (kv_servers s p) t)(key := if t < now + minute then Some (itoa (n + 1)) else None)"
    "count_request apply net j now key s = (Ret None, s')"
proof -
  obtain r1 e1 s1 where 1: "apply now (OpIncr key) (kv_servers s p) = ((r1, e1), s1)" by (metis prod.collapse)
  obtain r2 e2 s2 where 2: "apply now (OpExpire key minute) s1 = ((r2, e2), s2)" by (metis prod.collapse)
  have "\<forall>now s k n. look s now k = (if n = 0 then None else Some (itoa n)) \<and> 0 \<le> n \<and> n < max_int64 \<longrightarrow>
          (let ((_, e1), s1) = apply now (OpIncr k) s; ((_, e2), s2) = apply now (OpExpire k minute) s1
           in e1 = None \<and> e2 = None
             \<and> (\<forall>t\<ge>now. look s2 t = (look s t)(k := if t < now + minute then Some (itoa (n + 1)) else None)))"
    using assms(1) unfolding redis_laws_def by (elim conjE)
  from this [rule_format, of "kv_servers s p" now key n] assms(4-6)
  have "e1 = None \<and> e2 = None
     \<and> (\<forall>t\<ge>now. look s2 t = (look (kv_servers s p) t)(key := if t < now + minute then Some (itoa (n + 1)) else None))"
    unfolding 1 2 Let_def prod.case by blast
  then show thesis
    using assms(2,3) 1 2
    by (intro that [of "s\<lparr>kv_servers := (kv_servers s)(p := s2)\<rparr>"])
       (auto simp: count_request_def client_Pipeline_def faultless_def)
qed

section \<open>One check\<close>

lemma windowStart_bounds: "windowStart now \<le> now" "now < windowStart now + minute"
  by (simp_all add: windowStart_def)

lemma keys_differ [simp]: "blockKey sv cid t \<noteq> countKey sv' cid' t' now" "countKey sv' cid' t' now \<noteq> blockKey sv cid t"
  by (simp_all add: blockKey_def countKey_def)

lemma keys_nonempty [simp]: "countKey sv cid t now \<noteq> []" "blockKey sv cid t \<noteq> []"
  by (simp_all add: blockKey_def countKey_def)

lemma limits_positive:
  "t \<noteq> EpHealthy \<Longrightarrow> rl_RequestsPerMinute (RateLimitConfigs t) \<noteq> 0"
  "t \<noteq> EpHealthy \<Longrightarrow> 0 < rl_RequestsPerMinute (RateLimitConfigs t) + rl_BurstAllowance (RateLimitConfigs t)"
  "rl_RequestsPerMinute (RateLimitConfigs t) + rl_BurstAllowance (RateLimitConfigs t) \<le> 250"
  "t \<noteq> EpHealthy \<Longrightarrow> 0 < rl_BlockDuration (RateLimitConfigs t)"
  by (cases t; simp add: RateLimitConfigs_def)+

definition limit_of :: "endpoint_type \<Rightarrow> int" where
  "limit_of t = rl_RequestsPerMinute (RateLimitConfigs t) + rl_BurstAllowance (RateLimitConfigs t)"

lemma atoi_value_itoa: "0 \<le> n \<Longrightarrow> n \<le> max_int64 \<Longrightarrow> atoi_value (itoa n) = n"
proof -
  assume n: "0 \<le> n" "n \<le> max_int64"
  have "\<not> hasPrefix (dec_digits (nat n)) ''-''" "\<not> hasPrefix (dec_digits (nat n)) ''+''"
    using dec_digits_digits [of "nat n"] by (cases "dec_digits (nat n)"; auto simp: is_digit_def)+
  then show ?thesis
    using n dec_digits_digits [of "nat n"] dec_digits_val [of "nat n"] by (simp add: atoi_value_def itoa_def)
qed

lemma itoa_nonempty: "0 \<le> n \<Longrightarrow> itoa n \<noteq> []"
  using dec_digits_digits [of "nat n"] by (simp add: itoa_def)

text \<open>The count a check reads: \<open>n\<close> requests.\<close>

definition counted :: "int \<Rightarrow> string option" where
  "counted n = (if n = 0 then None else Some (itoa n))"

text \<open>The servers a check may reach for a key.\<close>

definition reachable_for :: "redis_adapter \<Rightarrow> string \<Rightarrow> nat \<Rightarrow> bool" where
  "reachable_for a key c \<longleftrightarrow> (\<exists>i<length (ra_nodes a). redis_usable (ra_nodes a ! i) \<and> rn_client (ra_nodes a ! i) = Some c
     \<and> (rc_LoadBalanceStrategy (ra_config a) = ''hash'' \<and> key \<noteq> [] \<longrightarrow> i = hash_node key (ra_nodes a)))"

lemma pool_reachable: "pool_same a a' \<Longrightarrow> reachable_for a' key c = reachable_for a key c"
proof -
  assume p: "pool_same a a'"
  then have c: "ra_config a' = ra_config a" by (simp add: pool_same_def)
  show ?thesis
    unfolding reachable_for_def c pool_hash [OF p] pool_nth(1) [OF p]
    by (intro ex_cong1 conj_cong refl) (simp_all add: pool_nth [OF p])
qed

text \<open>The two reads that lead to the count.\<close>

lemma check_reads:
  assumes "redis_laws look apply" and "answering k (kv_adapter s)" and "1 \<le> k" and "faultless net" and "t \<noteq> EpHealthy"
    and "\<And>c. reachable_for (kv_adapter s) [] c \<Longrightarrow> look (kv_servers s c) now (blockKey sv cid t) = None"
    and "\<And>c. reachable_for (kv_adapter s) (countKey sv cid t now) c \<Longrightarrow>
           look (kv_servers s c) now (countKey sv cid t now) = counted n" and "0 \<le> n" and "n \<le> max_int64"
  obtains s' where "IsAllowed apply net sv now cid t s =
      limit_step apply net now (RateLimitConfigs t) (if n = 0 then [] else itoa n) (countKey sv cid t now) (blockKey sv cid t) s'"
    "answering (k - 2) (kv_adapter s')" "pool_same (kv_adapter s) (kv_adapter s')" "same_looks look now s s'"
proof -
  let ?ck = "countKey sv cid t now" and ?bk = "blockKey sv cid t"
  obtain i c s1 where r1: "i < length (ra_nodes (kv_adapter s))" "redis_usable (ra_nodes (kv_adapter s) ! i)"
      "rn_client (ra_nodes (kv_adapter s) ! i) = Some c" "stays (kv_adapter s) (kv_adapter s1)" "same_looks look now s s1"
      "kv_do apply net 0 now (OpExists [?bk]) (\<lambda>w. client_Exists w [?bk]) s =
       (Ret \<lparr>cmd_args = [''exists'', ?bk], cmd_val = Some (VInt (if look (kv_servers s c) now ?bk = None then 0 else 1)),
          cmd_err = None\<rparr>, s1)"
    by (rule kv_exists [OF assms(1,2) _ assms(4)]) (use assms(3) in simp_all)
  have b: "look (kv_servers s c) now ?bk = None" using r1(1-3) by (intro assms(6)) (auto simp: reachable_for_def)
  have k1: "0 \<le> k - 1" using assms(3) by simp
  have a1: "answering (k - 1) (kv_adapter s1)" by (rule answering_stays [OF assms(2) r1(4)])
  have p1: "pool_same (kv_adapter s) (kv_adapter s1)" by (rule stays_pool [OF r1(4)])
  obtain i2 c2 s2 where r2: "i2 < length (ra_nodes (kv_adapter s1))" "redis_usable (ra_nodes (kv_adapter s1) ! i2)"
      "rn_client (ra_nodes (kv_adapter s1) ! i2) = Some c2"
      "rc_LoadBalanceStrategy (ra_config (kv_adapter s1)) = ''hash'' \<and> ?ck \<noteq> [] \<longrightarrow> i2 = hash_node ?ck (ra_nodes (kv_adapter s1))"
      "stays (kv_adapter s1) (kv_adapter s2)" "same_looks look now s1 s2"
      "kv_do apply net 2 now (OpGet ?ck) (\<lambda>w. client_Get w ?ck) s1 =
       (Ret (case look (kv_servers s1 c2) now ?ck of
          None \<Rightarrow> \<lparr>cmd_args = [''get'', ?ck], cmd_val = Some (VString []), cmd_err = Some RedisNil\<rparr>
        | Some v \<Rightarrow> \<lparr>cmd_args = [''get'', ?ck], cmd_val = Some (VString v), cmd_err = None\<rparr>), s2)"
    by (rule kv_get [OF assms(1) a1 k1 assms(4)])
  have "reachable_for (kv_adapter s1) ?ck c2" using r2(1-4) unfolding reachable_for_def by blast
  then have "look (kv_servers s c2) now ?ck = counted n" unfolding pool_reachable [OF p1] by (rule assms(7))
  then have n: "look (kv_servers s1 c2) now ?ck = counted n" using r1(5) by (simp add: same_looks_def)
  show thesis
  proof (rule that)
    show "IsAllowed apply net sv now cid t s =
        limit_step apply net now (RateLimitConfigs t) (if n = 0 then [] else itoa n) ?ck ?bk s2"
      unfolding IsAllowed_def Let_def r1(6) kv_bind_def using b limits_positive(1) [OF assms(5)]
      by (simp add: int_val_def r2(7) n counted_def string_val_def err_text_def)
    show "answering (k - 2) (kv_adapter s2)" using answering_stays [OF a1 r2(5)] by simp
    show "pool_same (kv_adapter s) (kv_adapter s2)" by (rule pool_same_trans [OF p1 stays_pool [OF r2(5)]])
    show "same_looks look now s s2" using r1(5) r2(6) by (simp add: same_looks_def)
  qed
qed

lemma limit_step_admits:
  assumes "redis_laws look apply" and "faultless net" and "0 \<le> n" and "n < limit_of t"
    and "ra_primaryClient (kv_adapter s) = Some p" and "look (kv_servers s p) now ck = counted m" and "0 \<le> m" and "m < max_int64"
  obtains s' where "limit_step apply net now (RateLimitConfigs t) (if n = 0 then [] else itoa n) ck bk s = (Ret (Inr (True, 0)), s')"
    "kv_adapter s' = kv_adapter s" "\<forall>c. c \<noteq> p \<longrightarrow> kv_servers s' c = kv_servers s c"
    "\<forall>u\<ge>now. look (kv_servers s' p) u = (look (kv_servers s p) u)(ck := if u < now + minute then Some (itoa (m + 1)) else None)"
proof -
  have v: "(if (if n = 0 then [] else itoa n) \<noteq> [] then atoi_value (if n = 0 then [] else itoa n) else 0) = n"
    using assms(3,4) limits_positive(3) [of t] itoa_nonempty [of n]
    by (auto intro!: atoi_value_itoa simp: limit_of_def max_int64_def)
  have nl: "(rl_RequestsPerMinute (RateLimitConfigs t) + rl_BurstAllowance (RateLimitConfigs t) \<le> n) = False"
    using assms(4) by (simp add: limit_of_def)
  obtain s' where "kv_adapter s' = kv_adapter s" "\<forall>c. c \<noteq> p \<longrightarrow> kv_servers s' c = kv_servers s c"
    "\<forall>u\<ge>now. look (kv_servers s' p) u = (look (kv_servers s p) u)(ck := if u < now + minute then Some (itoa (m + 1)) else None)"
    "count_request apply net 4 now ck s = (Ret None, s')"
    using kv_count [OF assms(1,5,2) assms(6) [unfolded counted_def] assms(7,8), of 4] by blast
  then show thesis
    by (intro that [of s']) (simp_all only: limit_step_def Let_def v nl kv_bind_def prod.case outcome.case option.case if_False)
qed

lemma check_admits:
  assumes "redis_laws look apply" and "answering k (kv_adapter s)" and "1 \<le> k" and "faultless net" and "t \<noteq> EpHealthy"
    and "\<And>c. reachable_for (kv_adapter s) [] c \<Longrightarrow> look (kv_servers s c) now (blockKey sv cid t) = None"
    and "\<And>c. reachable_for (kv_adapter s) (countKey sv cid t now) c \<Longrightarrow>
           look (kv_servers s c) now (countKey sv cid t now) = counted n" and "0 \<le> n" and "n < limit_of t"
    and "ra_primaryClient (kv_adapter s) = Some p" and "look (kv_servers s p) now (countKey sv cid t now) = counted m"
    and "0 \<le> m" and "m < max_int64"
  obtains s' where "IsAllowed apply net sv now cid t s = (Ret (Inr (True, 0)), s')"
    "answering (k - 2) (kv_adapter s')" "pool_same (kv_adapter s) (kv_adapter s')"
    "\<forall>c u. now \<le> u \<and> c \<noteq> p \<longrightarrow> look (kv_servers s' c) u = look (kv_servers s c) u"
    "\<forall>u\<ge>now. look (kv_servers s' p) u = (look (kv_servers s p) u)
       (countKey sv cid t now := if u < now + minute then Some (itoa (m + 1)) else None)"
proof -
  have n: "n \<le> max_int64" using assms(9) limits_positive(3) [of t] by (simp add: limit_of_def max_int64_def)
  obtain s1 where s1: "IsAllowed apply net sv now cid t s =
      limit_step apply net now (RateLimitConfigs t) (if n = 0 then [] else itoa n) (countKey sv cid t now) (blockKey sv cid t) s1"
    "answering (k - 2) (kv_adapter s1)" "pool_same (kv_adapter s) (kv_adapter s1)" "same_looks look now s s1"
    by (rule check_reads [OF assms(1-8) n])
  have p: "ra_primaryClient (kv_adapter s1) = Some p" using s1(3) assms(10) by (simp add: pool_same_def)
  have m: "look (kv_servers s1 p) now (countKey sv cid t now) = counted m" using s1(4) assms(11) by (simp add: same_looks_def)
  obtain s' where s': "limit_step apply net now (RateLimitConfigs t) (if n = 0 then [] else itoa n)
       (countKey sv cid t now) (blockKey sv cid t) s1 = (Ret (Inr (True, 0)), s')"
    "kv_adapter s' = kv_adapter s1" "\<forall>c. c \<noteq> p \<longrightarrow> kv_servers s' c = kv_servers s1 c"
    "\<forall>u\<ge>now. look (kv_servers s' p) u = (look (kv_servers s1 p) u)
       (countKey sv cid t now := if u < now + minute then Some (itoa (m + 1)) else None)"
    by (rule limit_step_admits [OF assms(1,4,8,9) p m assms(12,13)])
  show thesis
    by (rule that [of s']) (use s1 s' in \<open>simp_all add: same_looks_def\<close>)
qed

text \<open>Requests of one client in order, each with its own network and clock.\<close>

fun limiter_run :: "'s redis_server \<Rightarrow> string \<Rightarrow> string \<Rightarrow> endpoint_type \<Rightarrow> (kv_net \<times> instant) list \<Rightarrow> 's kv_state \<Rightarrow>
    (string, bool \<times> int) result outcome list \<times> 's kv_state" where
  "limiter_run apply sv cid t [] s = ([], s)"
| "limiter_run apply sv cid t ((net, now) # calls) s =
     (let (r, s1) = IsAllowed apply net sv now cid t s; (rs, s2) = limiter_run apply sv cid t calls s1
      in (r # rs, s2))"

definition admitted :: "(string, bool \<times> int) result outcome \<Rightarrow> bool option" where
  "admitted r = (case r of Ret (Inr (ok, _)) \<Rightarrow> Some ok | _ \<Rightarrow> None)"

lemma admitted_Ret [simp]: "admitted (Ret (Inr (ok, r))) = Some ok"
  by (simp add: admitted_def)

lemma countKey_window: "windowStart now = w \<Longrightarrow> countKey sv cid t now = countKey sv cid t w"
proof -
  have "windowStart (windowStart now) = windowStart now"
  proof -
    define x where "x = now - zero_time"
    have "x - x mod minute = x div minute * minute" by (rule minus_mod_eq_div_mult)
    then have "(x - x mod minute) mod minute = 0" by simp
    then show ?thesis by (simp add: windowStart_def x_def algebra_simps)
  qed
  then show "windowStart now = w \<Longrightarrow> countKey sv cid t now = countKey sv cid t w" by (auto simp: countKey_def)
qed

section \<open>A sharded cluster\<close>

text \<open>
  The count of the window lives on the server of another client than the primary, on which it is
  incremented; no server holds a block.
\<close>

definition split_inv :: "('s \<Rightarrow> instant \<Rightarrow> string \<Rightarrow> string option) \<Rightarrow> string \<Rightarrow> string \<Rightarrow> endpoint_type \<Rightarrow> instant \<Rightarrow> instant \<Rightarrow>
    nat \<Rightarrow> int \<Rightarrow> int \<Rightarrow> 's kv_state \<Rightarrow> bool" where
  "split_inv look sv cid t w now p m k s \<longleftrightarrow>
     answering k (kv_adapter s) \<and> ra_primaryClient (kv_adapter s) = Some p
     \<and> (\<forall>c. reachable_for (kv_adapter s) (countKey sv cid t w) c \<longrightarrow> c \<noteq> p)
     \<and> (\<forall>c u. now \<le> u \<and> u < w + minute \<longrightarrow> look (kv_servers s c) u (blockKey sv cid t) = None
          \<and> look (kv_servers s c) u (countKey sv cid t w) = (if c = p then counted m else None))
     \<and> 0 \<le> m"

lemma split_step:
  assumes "redis_laws look apply" and "faultless net" and "t \<noteq> EpHealthy" and "windowStart now = w"
    and "split_inv look sv cid t w now p m k s" and "2 \<le> k" and "m < max_int64"
  obtains s' where "IsAllowed apply net sv now cid t s = (Ret (Inr (True, 0)), s')"
    "split_inv look sv cid t w now p (m + 1) (k - 2) s'"
proof -
  note ck = countKey_window [OF assms(4), of sv cid t]
  have w: "now < w + minute" "w \<le> now" using windowStart_bounds [of now] assms(4) by auto
  have inv: "answering k (kv_adapter s)" "ra_primaryClient (kv_adapter s) = Some p" "0 \<le> m"
    "\<And>c. reachable_for (kv_adapter s) (countKey sv cid t w) c \<Longrightarrow> c \<noteq> p"
    "\<And>c u. now \<le> u \<Longrightarrow> u < w + minute \<Longrightarrow> look (kv_servers s c) u (blockKey sv cid t) = None"
    "\<And>c u. now \<le> u \<Longrightarrow> u < w + minute \<Longrightarrow>
       look (kv_servers s c) u (countKey sv cid t w) = (if c = p then counted m else None)"
    using assms(5) unfolding split_inv_def by blast+
  have k1: "1 \<le> k" and L: "0 < limit_of t" using assms(6) limits_positive(2) [OF assms(3)] by (simp_all add: limit_of_def)
  obtain s' where s': "IsAllowed apply net sv now cid t s = (Ret (Inr (True, 0)), s')"
    "answering (k - 2) (kv_adapter s')" "pool_same (kv_adapter s) (kv_adapter s')"
    "\<forall>c u. now \<le> u \<and> c \<noteq> p \<longrightarrow> look (kv_servers s' c) u = look (kv_servers s c) u"
    "\<forall>u\<ge>now. look (kv_servers s' p) u = (look (kv_servers s p) u)
       (countKey sv cid t now := if u < now + minute then Some (itoa (m + 1)) else None)"
  proof (rule check_admits [OF assms(1) inv(1) k1 assms(2,3) _ _ order_refl L inv(2) _ inv(3) assms(7)])
    show "look (kv_servers s c) now (blockKey sv cid t) = None" for c using inv(5) w by simp
    show "look (kv_servers s c) now (countKey sv cid t now) = counted 0"
      if "reachable_for (kv_adapter s) (countKey sv cid t now) c" for c
      using inv(4) [of c] inv(6) [of now c] that w by (simp add: ck counted_def)
    show "look (kv_servers s p) now (countKey sv cid t now) = counted m" using inv(6) [of now p] w by (simp add: ck)
  qed
  have c: "counted (m + 1) = Some (itoa (m + 1))" using inv(3) by (simp add: counted_def)
  have "split_inv look sv cid t w now p (m + 1) (k - 2) s'"
    unfolding split_inv_def pool_reachable [OF s'(3)]
  proof (intro conjI allI impI)
    show "answering (k - 2) (kv_adapter s')" by (rule s'(2))
    show "ra_primaryClient (kv_adapter s') = Some p" using s'(3) inv(2) by (simp add: pool_same_def)
    show "c \<noteq> p" if "reachable_for (kv_adapter s) (countKey sv cid t w) c" for c using that by (rule inv(4))
    show "0 \<le> m + 1" using inv(3) by simp
  next
    fix c' u assume u: "now \<le> u \<and> u < w + minute"
    then have e: "u < now + minute" using w by linarith
    show "look (kv_servers s' c') u (blockKey sv cid t) = None"
      using u inv(5) [of u c'] s'(4,5) by (cases "c' = p") auto
    show "look (kv_servers s' c') u (countKey sv cid t w) = (if c' = p then counted (m + 1) else None)"
      using u e inv(6) [of u c'] s'(4,5) by (cases "c' = p") (auto simp: ck c)
  qed
  then show thesis using that s'(1) by blast
qed

text \<open>C13: On a hash-routed cluster whose primary client is not the server that owns the window's counter, the
limiter never limits: checks read the counter on its own server, requests are counted on the primary, and however
many requests one client makes in the window, every one is admitted.\<close>

theorem rate_limit_split_cluster:
  assumes "redis_laws look apply" and "t \<noteq> EpHealthy" and "split_inv look sv cid t w start p 0 k s"
    and "\<forall>(net, now)\<in>set calls. faultless net \<and> windowStart now = w \<and> start \<le> now" and "sorted (map snd calls)"
    and "2 * int (length calls) \<le> k" and "int (length calls) < max_int64"
  shows "map admitted (fst (limiter_run apply sv cid t calls s)) = replicate (length calls) (Some True)"
proof -
  have "map admitted (fst (limiter_run apply sv cid t calls s)) = replicate (length calls) (Some True)"
    if "split_inv look sv cid t w start p m k s"
      "\<forall>(net, now)\<in>set calls. faultless net \<and> windowStart now = w \<and> start \<le> now" "sorted (map snd calls)"
      "2 * int (length calls) \<le> k" "m + int (length calls) < max_int64" for m k s start
    using that
  proof (induction calls arbitrary: m k s start)
    case (Cons call calls)
    obtain net now where c: "call = (net, now)" by fastforce
    have f: "faultless net" "windowStart now = w" "start \<le> now" using Cons.prems(2) c by auto
    have inv: "split_inv look sv cid t w now p m k s" using Cons.prems(1) f(3) unfolding split_inv_def by force
    have k: "2 \<le> k" "m < max_int64" using Cons.prems(4,5) by simp_all
    obtain s' where s': "IsAllowed apply net sv now cid t s = (Ret (Inr (True, 0)), s')"
      "split_inv look sv cid t w now p (m + 1) (k - 2) s'"
      by (rule split_step [OF assms(1) f(1) assms(2) f(2) inv k])
    have "map admitted (fst (limiter_run apply sv cid t calls s')) = replicate (length calls) (Some True)"
      by (rule Cons.IH [OF s'(2)]) (use Cons.prems(2-5) c in auto)
    then show ?case by (simp add: c s'(1) Let_def split_beta)
  qed simp
  from this [OF assms(3-6)] assms(7) show ?thesis by simp
qed

text \<open>A server that keeps the laws, and two small clusters of it.\<close>

type_synonym toy_state = "string \<rightharpoonup> string \<times> instant option"

definition toy_look :: "toy_state \<Rightarrow> instant \<Rightarrow> string \<Rightarrow> string option" where
  "toy_look s t k = (case s k of None \<Rightarrow> None | Some (v, None) \<Rightarrow> Some v
     | Some (v, Some e) \<Rightarrow> if t < e then Some v else None)"

definition toy_apply :: "toy_state redis_server" where
  "toy_apply now x s = (case x of
     OpExists (k # _) \<Rightarrow> ((VInt (if toy_look s now k = None then 0 else 1), None), s)
   | OpGet k \<Rightarrow> ((case toy_look s now k of None \<Rightarrow> (VString [], Some RedisNil) | Some v \<Rightarrow> (VString v, None)), s)
   | OpTTL k \<Rightarrow> ((VDuration 0, None), s)
   | OpSet k v d \<Rightarrow> ((VString ''OK'', None), s(k \<mapsto> (v, Some (now + d))))
   | OpIncr k \<Rightarrow> (case toy_look s now k of
       None \<Rightarrow> ((VInt 1, None), s(k \<mapsto> (''1'', None)))
     | Some v \<Rightarrow> (case atoi v of
         Some n \<Rightarrow> ((VInt (n + 1), None), s(k \<mapsto> (itoa (n + 1), None)))
       | None \<Rightarrow> ((VInt 0, Some (RedisErr ''not an integer'')), s)))
   | OpExpire k d \<Rightarrow> (case s k of
       None \<Rightarrow> ((VInt 0, None), s) | Some (v, _) \<Rightarrow> ((VInt 1, None), s(k \<mapsto> (v, Some (now + d)))))
   | _ \<Rightarrow> ((VNone, Some (RedisErr ''unsupported'')), s))"

lemma itoa_one: "itoa 1 = ''1''"
  by code_simp

lemma toy_laws: "redis_laws toy_look toy_apply"
proof -
  have inc: "let ((_, e1), s1) = toy_apply now (OpIncr k) s; ((_, e2), s2) = toy_apply now (OpExpire k minute) s1
      in e1 = None \<and> e2 = None
        \<and> (\<forall>t\<ge>now. toy_look s2 t = (toy_look s t)(k := if t < now + minute then Some (itoa (n + 1)) else None))"
    if n: "toy_look s now k = (if n = 0 then None else Some (itoa n))" "0 \<le> n" "n < max_int64" for now s k n
  proof -
    have "atoi (itoa n) = Some n" using n(2,3) by (intro atoi_itoa) simp_all
    then show ?thesis using n(1)
      by (cases "n = 0") (auto simp: toy_apply_def toy_look_def fun_eq_iff itoa_one)
  qed
  show ?thesis
    unfolding redis_laws_def
  proof (intro conjI allI impI)
    fix now s k and n :: int
    assume "toy_look s now k = (if n = 0 then None else Some (itoa n)) \<and> 0 \<le> n \<and> n < max_int64"
    then show "let ((_, e1), s1) = toy_apply now (OpIncr k) s; ((_, e2), s2) = toy_apply now (OpExpire k minute) s1
      in e1 = None \<and> e2 = None
        \<and> (\<forall>t\<ge>now. toy_look s2 t = (toy_look s t)(k := if t < now + minute then Some (itoa (n + 1)) else None))"
      by (intro inc) simp_all
  qed (simp_all add: toy_apply_def toy_look_def fun_eq_iff)
qed

definition toy_node :: "nat \<Rightarrow> redis_node" where
  "toy_node c = \<lparr>rn_URL = ''redis://h'', rn_Name = ''n'', rn_client = Some c, rn_state = NodeHealthy, rn_lastError = None,
     rn_lastCheck = 0, rn_lastLatency = 0, rn_opsCount = 0, rn_errorCount = 0, rn_locked = False\<rparr>"

definition toy_store :: "string \<Rightarrow> nat list \<Rightarrow> toy_state kv_state" where
  "toy_store strategy cs = \<lparr>kv_adapter = \<lparr>ra_config = redis_zero_config\<lparr>rc_LoadBalanceStrategy := strategy\<rparr>,
     ra_nodes = map toy_node cs, ra_nodeIndex = 0, ra_primaryClient = Some 0, ra_locked = False\<rparr>,
     kv_servers = (\<lambda>_. Map.empty)\<rparr>"

definition toy_net :: kv_net where
  "toy_net = \<lparr>kn_fault = (\<lambda>_ _. None), kn_rand = (\<lambda>_ _. 0), kn_jitter = (\<lambda>_ _. 0), kn_cancel = (\<lambda>_ _. None)\<rparr>"

lemma toy_answering: "cs \<noteq> [] \<Longrightarrow> length cs < 2 ^ 32 \<Longrightarrow> k < max_int64 \<Longrightarrow> answering k (kv_adapter (toy_store st cs))"
  by (simp add: answering_def toy_store_def redis_unlocked_def list_all_iff toy_node_def redis_zero_config_def
      positions_Nil_iff redis_usable_def)

lemma toy_faultless [simp]: "faultless toy_net"
  by (simp add: faultless_def toy_net_def)

lemma window_zero: "windowStart 5 = 0"
  by (simp add: windowStart_def zero_time_def)

lemma rate_limit_split_cluster_witness:
  "map admitted (fst (limiter_run toy_apply ''api'' ''ip:10.0.0.2'' EpAuth (replicate 50 (toy_net, 5)) (toy_store ''hash'' [0, 1])))
     = replicate 50 (Some True)"
proof -
  let ?s = "toy_store ''hash'' [0, 1]" and ?ck = "countKey ''api'' ''ip:10.0.0.2'' EpAuth 0"
  have h: "hash_node ?ck (ra_nodes (kv_adapter ?s)) = 1" by code_simp
  have "split_inv toy_look ''api'' ''ip:10.0.0.2'' EpAuth 0 5 0 0 100 ?s"
    unfolding split_inv_def
  proof (intro conjI allI impI)
    show "answering 100 (kv_adapter ?s)" by (rule toy_answering) (simp_all add: max_int64_def)
    show "c \<noteq> 0" if "reachable_for (kv_adapter ?s) ?ck c" for c
      using that unfolding reachable_for_def h by (auto simp: toy_store_def toy_node_def redis_zero_config_def)
  qed (simp_all add: toy_store_def toy_look_def counted_def)
  moreover have "int (length (replicate 50 (toy_net, 5 :: instant))) < max_int64" by (simp add: max_int64_def)
  moreover have "\<forall>(net, now)\<in>set (replicate 50 (toy_net, 5 :: instant)). faultless net \<and> windowStart now = 0 \<and> 5 \<le> now"
    by (simp add: window_zero)
  moreover have "sorted (map snd (replicate 50 (toy_net, 5 :: instant)))" by (simp add: sorted_replicate)
  moreover have "2 * int (length (replicate 50 (toy_net, 5 :: instant))) \<le> 100" by simp
  ultimately show ?thesis using rate_limit_split_cluster [OF toy_laws, of EpAuth] by fastforce
qed

section \<open>One server\<close>

definition single_inv :: "('s \<Rightarrow> instant \<Rightarrow> string \<Rightarrow> string option) \<Rightarrow> string \<Rightarrow> string \<Rightarrow> endpoint_type \<Rightarrow> instant \<Rightarrow> instant \<Rightarrow>
    nat \<Rightarrow> int \<Rightarrow> int \<Rightarrow> 's kv_state \<Rightarrow> bool" where
  "single_inv look sv cid t w now p n k s \<longleftrightarrow>
     answering k (kv_adapter s) \<and> ra_primaryClient (kv_adapter s) = Some p
     \<and> (\<forall>c. reachable_for (kv_adapter s) [] c \<longrightarrow> c = p)
     \<and> (\<forall>u. now \<le> u \<and> u < w + minute \<longrightarrow> look (kv_servers s p) u (countKey sv cid t w) = counted n)
     \<and> (n < limit_of t \<longrightarrow> (\<forall>u. now \<le> u \<and> u < w + minute \<longrightarrow> look (kv_servers s p) u (blockKey sv cid t) = None))
     \<and> 0 \<le> n \<and> n \<le> limit_of t"

lemma reachable_any: "reachable_for a key c \<Longrightarrow> reachable_for a [] c"
  by (auto simp: reachable_for_def)

lemma single_admits:
  assumes "redis_laws look apply" and "faultless net" and "t \<noteq> EpHealthy" and "windowStart now = w"
    and inv: "single_inv look sv cid t w now p n k s" and "3 \<le> k" and "n < limit_of t"
  obtains s' where "IsAllowed apply net sv now cid t s = (Ret (Inr (True, 0)), s')"
    "single_inv look sv cid t w now p (n + 1) (k - 3) s'"
proof -
  note ck = countKey_window [OF assms(4), of sv cid t]
  have w: "now < w + minute" "w \<le> now" using windowStart_bounds [of now] assms(4) by auto
  have i: "answering k (kv_adapter s)" "ra_primaryClient (kv_adapter s) = Some p" "0 \<le> n"
    "\<And>c. reachable_for (kv_adapter s) [] c \<Longrightarrow> c = p"
    "\<And>u. now \<le> u \<Longrightarrow> u < w + minute \<Longrightarrow> look (kv_servers s p) u (blockKey sv cid t) = None"
    "\<And>u. now \<le> u \<Longrightarrow> u < w + minute \<Longrightarrow> look (kv_servers s p) u (countKey sv cid t w) = counted n"
    using inv assms(7) unfolding single_inv_def by blast+
  have k1: "1 \<le> k" and m: "n < max_int64"
    using assms(6,7) limits_positive(3) [of t] by (simp_all add: limit_of_def max_int64_def)
  obtain s' where s': "IsAllowed apply net sv now cid t s = (Ret (Inr (True, 0)), s')"
    "answering (k - 2) (kv_adapter s')" "pool_same (kv_adapter s) (kv_adapter s')"
    "\<forall>c u. now \<le> u \<and> c \<noteq> p \<longrightarrow> look (kv_servers s' c) u = look (kv_servers s c) u"
    "\<forall>u\<ge>now. look (kv_servers s' p) u = (look (kv_servers s p) u)
       (countKey sv cid t now := if u < now + minute then Some (itoa (n + 1)) else None)"
  proof (rule check_admits [OF assms(1) i(1) k1 assms(2,3) _ _ i(3) assms(7) i(2) _ i(3) m])
    show "look (kv_servers s c) now (blockKey sv cid t) = None" if "reachable_for (kv_adapter s) [] c" for c
      using i(4) [OF that] i(5) w by simp
    show "look (kv_servers s c) now (countKey sv cid t now) = counted n"
      if "reachable_for (kv_adapter s) (countKey sv cid t now) c" for c
      using i(4) [OF reachable_any [OF that]] i(6) [of now] w by (simp add: ck)
    show "look (kv_servers s p) now (countKey sv cid t now) = counted n" using i(6) [of now] w by (simp add: ck)
  qed
  have "single_inv look sv cid t w now p (n + 1) (k - 3) s'"
    unfolding single_inv_def pool_reachable [OF s'(3)]
  proof (intro conjI allI impI)
    show "answering (k - 3) (kv_adapter s')" using s'(2) by (rule answering_less) simp
    show "ra_primaryClient (kv_adapter s') = Some p" using s'(3) i(2) by (simp add: pool_same_def)
    show "c = p" if "reachable_for (kv_adapter s) [] c" for c using that by (rule i(4))
    show "look (kv_servers s' p) u (countKey sv cid t w) = counted (n + 1)" if "now \<le> u \<and> u < w + minute" for u
      using that s'(5) w i(3) by (simp add: ck counted_def)
    show "look (kv_servers s' p) u (blockKey sv cid t) = None" if "now \<le> u \<and> u < w + minute" for u
      using that s'(5) i(5) by simp
  qed (use i(3) assms(7) in simp_all)
  then show thesis using that s'(1) by blast
qed

lemma single_refuses:
  assumes "redis_laws look apply" and "faultless net" and "t \<noteq> EpHealthy" and "windowStart now = w"
    and inv: "single_inv look sv cid t w now p (limit_of t) k s" and "3 \<le> k"
  obtains s' r where "IsAllowed apply net sv now cid t s = (Ret (Inr (False, r)), s')"
    "single_inv look sv cid t w now p (limit_of t) (k - 3) s'"
proof -
  let ?bk = "blockKey sv cid t" and ?L = "limit_of t"
  note ck = countKey_window [OF assms(4), of sv cid t]
  have w: "now < w + minute" "w \<le> now" using windowStart_bounds [of now] assms(4) by auto
  have i: "answering k (kv_adapter s)" "ra_primaryClient (kv_adapter s) = Some p"
    "\<And>c. reachable_for (kv_adapter s) [] c \<Longrightarrow> c = p"
    "\<And>u. now \<le> u \<Longrightarrow> u < w + minute \<Longrightarrow> look (kv_servers s p) u (countKey sv cid t w) = counted ?L"
    using inv unfolding single_inv_def by blast+
  have L: "0 < ?L" "?L \<le> max_int64"
    using limits_positive(2) [OF assms(3)] limits_positive(3) [of t] by (simp_all add: limit_of_def max_int64_def)
  have keep: "single_inv look sv cid t w now p ?L (k - 3) s'"
    if "answering (k - 3) (kv_adapter s')" "pool_same (kv_adapter s) (kv_adapter s')"
      "\<And>u. now \<le> u \<Longrightarrow> look (kv_servers s' p) u (countKey sv cid t w) = look (kv_servers s p) u (countKey sv cid t w)" for s'
    using that i L unfolding single_inv_def pool_reachable [OF that(2)] by (auto simp: pool_same_def)
  show thesis
  proof (cases "look (kv_servers s p) now ?bk")
    case (Some v)
    obtain j c s1 where r1: "j < length (ra_nodes (kv_adapter s))" "redis_usable (ra_nodes (kv_adapter s) ! j)"
        "rn_client (ra_nodes (kv_adapter s) ! j) = Some c" "stays (kv_adapter s) (kv_adapter s1)" "same_looks look now s s1"
        "kv_do apply net 0 now (OpExists [?bk]) (\<lambda>w. client_Exists w [?bk]) s =
         (Ret \<lparr>cmd_args = [''exists'', ?bk], cmd_val = Some (VInt (if look (kv_servers s c) now ?bk = None then 0 else 1)),
            cmd_err = None\<rparr>, s1)"
      by (rule kv_exists [OF assms(1) i(1) _ assms(2)]) (use assms(6) in simp_all)
    have "c = p" using r1(1-3) by (intro i(3)) (auto simp: reachable_for_def)
    have a1: "answering (k - 1) (kv_adapter s1)" by (rule answering_stays [OF i(1) r1(4)])
    have k1: "0 \<le> k - 1" using assms(6) by simp
    obtain cmd s2 where r2: "stays (kv_adapter s1) (kv_adapter s2)" "same_looks look now s1 s2"
        "kv_do apply net 1 now (OpTTL ?bk) (\<lambda>w. client_TTL w ?bk) s1 = (Ret cmd, s2)"
      by (rule kv_ttl [OF assms(1) a1 k1 assms(2)])
    have "IsAllowed apply net sv now cid t s = (Ret (Inr (False, go_quot (duration_val cmd) second)), s2)"
      unfolding IsAllowed_def Let_def r1(6) kv_bind_def using limits_positive(1) [OF assms(3)] Some \<open>c = p\<close>
      by (simp add: int_val_def r2(3) [unfolded One_nat_def])
    moreover have "single_inv look sv cid t w now p ?L (k - 3) s2"
    proof (rule keep)
      show "answering (k - 3) (kv_adapter s2)"
        using answering_stays [OF a1 r2(1)] by (rule answering_less) simp
      show "pool_same (kv_adapter s) (kv_adapter s2)"
        using r1(4) r2(1) by (blast intro: pool_same_trans stays_pool)
    qed (use r1(5) r2(2) in \<open>simp add: same_looks_def\<close>)
    ultimately show thesis using that by blast
  next
    case None
    have k1: "1 \<le> k" using assms(6) by simp
    obtain s1 where s1: "IsAllowed apply net sv now cid t s =
        limit_step apply net now (RateLimitConfigs t) (if ?L = 0 then [] else itoa ?L) (countKey sv cid t now) ?bk s1"
      "answering (k - 2) (kv_adapter s1)" "pool_same (kv_adapter s) (kv_adapter s1)" "same_looks look now s s1"
    proof (rule check_reads [OF assms(1) i(1) k1 assms(2,3) _ _ _ L(2)])
      show "look (kv_servers s c) now ?bk = None" if "reachable_for (kv_adapter s) [] c" for c
        using i(3) [OF that] None by simp
      show "look (kv_servers s c) now (countKey sv cid t now) = counted ?L"
        if "reachable_for (kv_adapter s) (countKey sv cid t now) c" for c
        using i(3) [OF reachable_any [OF that]] i(4) [of now] w by (simp add: ck)
    qed (use L in simp_all)
    have k2: "0 \<le> k - 2" using assms(6) by simp
    obtain cmd s2 where s2: "stays (kv_adapter s1) (kv_adapter s2)"
      "\<And>c u key'. u \<ge> now \<Longrightarrow> key' \<noteq> ?bk \<Longrightarrow> look (kv_servers s2 c) u key' = look (kv_servers s1 c) u key'"
      "cmd_err cmd = None"
      "kv_do apply net 3 now (OpSet ?bk ''1'' (rl_BlockDuration (RateLimitConfigs t)))
         (\<lambda>w. client_Set w ?bk ''1'' (rl_BlockDuration (RateLimitConfigs t))) s1 = (Ret cmd, s2)"
      by (rule kv_block [OF assms(1) s1(2) k2 assms(2) limits_positive(4) [OF assms(3)]]) blast
    have v: "atoi_value (itoa ?L) = ?L" "itoa ?L \<noteq> []" using L atoi_value_itoa itoa_nonempty by simp_all
    have "IsAllowed apply net sv now cid t s =
        (Ret (Inr (False, go_quot (rl_BlockDuration (RateLimitConfigs t)) second)), s2)"
      using L(1) v s2(3) unfolding s1(1) limit_step_def Let_def kv_bind_def
      by (simp add: s2(4)) (simp add: limit_of_def)
    moreover have "single_inv look sv cid t w now p ?L (k - 3) s2"
    proof (rule keep)
      show "answering (k - 3) (kv_adapter s2)" using answering_stays [OF s1(2) s2(1)] by simp
      show "pool_same (kv_adapter s) (kv_adapter s2)" by (rule pool_same_trans [OF s1(3) stays_pool [OF s2(1)]])
      show "look (kv_servers s2 p) u (countKey sv cid t w) = look (kv_servers s p) u (countKey sv cid t w)" if "now \<le> u" for u
        using that s1(4) s2(2) by (simp add: same_looks_def)
    qed
    ultimately show thesis using that by blast
  qed
qed

text \<open>C10: Over one Redis server the limiter enforces its limit exactly: of the requests one client makes in one
window, in order and none before, the first \<open>RequestsPerMinute + BurstAllowance\<close> are admitted and every later
one is refused, whether the block it set is still there or has expired within the window.\<close>

theorem rate_limit_exact:
  assumes "redis_laws look apply" and "t \<noteq> EpHealthy" and "single_inv look sv cid t w start p 0 k s"
    and "\<forall>(net, now)\<in>set calls. faultless net \<and> windowStart now = w \<and> start \<le> now" and "sorted (map snd calls)"
    and "3 * int (length calls) \<le> k"
  shows "map admitted (fst (limiter_run apply sv cid t calls s))
    = map (\<lambda>i. Some (int i < limit_of t)) [0..<length calls]"
proof -
  have "map admitted (fst (limiter_run apply sv cid t calls s))
      = map (\<lambda>i. Some (n + int i < limit_of t)) [0..<length calls]"
    if "single_inv look sv cid t w start p (min n (limit_of t)) k s" "0 \<le> n"
      "\<forall>(net, now)\<in>set calls. faultless net \<and> windowStart now = w \<and> start \<le> now" "sorted (map snd calls)"
      "3 * int (length calls) \<le> k" for n k s start
    using that
  proof (induction calls arbitrary: n k s start)
    case (Cons call calls)
    obtain net now where c: "call = (net, now)" by fastforce
    have f: "faultless net" "windowStart now = w" "start \<le> now" using Cons.prems(3) c by auto
    have inv: "single_inv look sv cid t w now p (min n (limit_of t)) k s"
      using Cons.prems(1) f(3) unfolding single_inv_def by force
    have k: "3 \<le> k" using Cons.prems(5) by simp
    obtain r s' where s': "IsAllowed apply net sv now cid t s = (Ret (Inr (n < limit_of t, r)), s')"
      "single_inv look sv cid t w now p (min (n + 1) (limit_of t)) (k - 3) s'"
    proof (cases "n < limit_of t")
      case True
      then have m: "min n (limit_of t) = n" "min (n + 1) (limit_of t) = n + 1" by simp_all
      show thesis
        by (rule single_admits [OF assms(1) f(1) assms(2) f(2) inv k])
           (use True that m in simp_all)
    next
      case False
      then have m: "min n (limit_of t) = limit_of t" "min (n + 1) (limit_of t) = limit_of t" by simp_all
      show thesis
        by (rule single_refuses [OF assms(1) f(1) assms(2) f(2) inv [unfolded m] k])
           (use False that m in simp_all)
    qed
    have IH: "map admitted (fst (limiter_run apply sv cid t calls s'))
        = map (\<lambda>i. Some (n + 1 + int i < limit_of t)) [0..<length calls]"
      by (rule Cons.IH [OF s'(2)]) (use Cons.prems(2-5) c in auto)
    have u: "[0..<Suc (length calls)] = 0 # map Suc [0..<length calls]" by (simp only: map_Suc_upt upt_conv_Cons zero_less_Suc)
    show ?case
      by (simp add: c s'(1) Let_def split_beta IH u algebra_simps del: upt_Suc)
  qed simp
  from this [of start 0 k s] assms(2-6) limits_positive(2) [of t] show ?thesis by (simp add: limit_of_def min_def)
qed

lemma rate_limit_exact_witness:
  "map admitted (fst (limiter_run toy_apply ''api'' ''ip:10.0.0.2'' EpAuth (replicate 16 (toy_net, 5)) (toy_store [] [0])))
     = replicate 13 (Some True) @ replicate 3 (Some False)"
proof -
  let ?s = "toy_store [] [0]"
  have "single_inv toy_look ''api'' ''ip:10.0.0.2'' EpAuth 0 5 0 0 100 ?s"
    unfolding single_inv_def
  proof (intro conjI allI impI)
    show "answering 100 (kv_adapter ?s)" by (rule toy_answering) (simp_all add: max_int64_def)
    show "c = 0" if "reachable_for (kv_adapter ?s) [] c" for c
      using that unfolding reachable_for_def by (auto simp: toy_store_def toy_node_def)
  qed (simp_all add: toy_store_def toy_look_def counted_def limit_of_def RateLimitConfigs_def)
  moreover have "\<forall>(net, now)\<in>set (replicate 16 (toy_net, 5 :: instant)). faultless net \<and> windowStart now = 0 \<and> 5 \<le> now"
    by (simp add: window_zero)
  moreover have "sorted (map snd (replicate 16 (toy_net, 5 :: instant)))" by (simp add: sorted_replicate)
  moreover have "3 * int (length (replicate 16 (toy_net, 5 :: instant))) \<le> 100" by simp
  moreover have "EpAuth \<noteq> EpHealthy" by simp
  ultimately have "map admitted (fst (limiter_run toy_apply ''api'' ''ip:10.0.0.2'' EpAuth (replicate 16 (toy_net, 5)) ?s))
     = map (\<lambda>i. Some (int i < limit_of EpAuth)) [0..<length (replicate 16 (toy_net, 5 :: instant))]"
    by (intro rate_limit_exact [OF toy_laws])
  also have "\<dots> = replicate 13 (Some True) @ replicate 3 (Some False)" by code_simp
  finally show ?thesis .
qed

section \<open>Errors and buckets\<close>

text \<open>A check that fails lets the request through unchanged; the limiter answers with 429 or not at all.\<close>

lemma rate_limit_fails_open:
  assumes "IsAllowed apply net sv now (ClientIdentifier r) (ClassifyEndpoint (wq_Path r) (wq_Method r)) s = (Ret (Inl err), s')"
  shows "RateLimit apply net sv now r s = (Ret (Next r []), s')"
  by (simp add: RateLimit_def Let_def kv_bind_def assms)

lemma rate_limit_reply_429:
  assumes "RateLimit apply net sv now r s = (Ret (Reply resp), s')"
  shows "wp_Status resp = 429"
  using assms by (auto simp: RateLimit_def Let_def kv_bind_def WriteJSON_def split: outcome.splits prod.splits sum.splits if_splits bool.splits)

text \<open>Any path that contains \<^verbatim>\<open>/health\<close>, \<^verbatim>\<open>/ready\<close> or \<^verbatim>\<open>/metrics\<close> is outside every limit, whatever it serves.\<close>

lemma classify_health:
  "strContains (toLower path) ''/health'' \<Longrightarrow> fst (IsAllowed apply net sv now cid (ClassifyEndpoint path method) s) = Ret (Inr (True, 0))"
  by (simp add: ClassifyEndpoint_def Let_def IsAllowed_def RateLimitConfigs_def)

lemma classify_examples:
  "ClassifyEndpoint ''/api/v1/health-records/7'' ''GET'' = EpHealthy"
  "ClassifyEndpoint ''/login/../metrics'' ''POST'' = EpHealthy"
  by code_simp+

text \<open>The address bucket is what the caller writes into \<^verbatim>\<open>X-Forwarded-For\<close>.\<close>

lemma forged_bucket:
  assumes "UserID (wq_Context r) = None" and "ServiceName (wq_Context r) = None"
    and "wq_Headers r (canonicalKey ''X-Forwarded-For'') = Some ip" and "ip \<noteq> []"
    and "CHR '','' \<notin> set ip" and "trimSpace ip = ip"
  shows "ClientIdentifier r = ''ip:'' @ ip"
proof -
  have "strIndex ip '','' = None" using assms(5) by (induction ip) auto
  then have "strCut ip '','' = None" by (simp add: strCut_def)
  then show ?thesis
    using assms by (simp add: ClientIdentifier_def ClientIP_def header_get_def Let_def)
qed

end
