(* ===== verification/Web_Theorems.thy ===== *)
theory Web_Theorems
  imports Rate_Limit
begin

text \<open>
  Properties of the middleware: what reaches a protected handler, who may authenticate how, which origins
  CORS names, the bounds of pagination, and the trace a request is given.
\<close>

section \<open>Roles\<close>

text \<open>C20: Behind \<^verbatim>\<open>Authenticate\<close> and \<^verbatim>\<open>RequireRole\<close> a handler runs exactly for a request whose Authorization
header is a bearer token the provider turns into an identity with a user id and with the role or the admin role,
and it sees that identity; every other request is answered 401 or 403.\<close>

theorem role_gate:
  "case chain_mw (Authenticate identify) (RequireRole role) r of
     Next r' hs \<Rightarrow> (\<exists>token i. BearerToken r = Some token \<and> identify (wq_Context r) token = Inr i
        \<and> id_UserID i \<noteq> [] \<and> (HasRole i AdminRole \<or> HasRole i role)
        \<and> IdentityFromContext (wq_Context r') = Some i \<and> r' = r\<lparr>wq_Context := wq_Context r'\<rparr>)
   | Reply resp \<Rightarrow> wp_Status resp \<in> {401, 403}
        \<and> \<not> (\<exists>token i. BearerToken r = Some token \<and> identify (wq_Context r) token = Inr i
              \<and> id_UserID i \<noteq> [] \<and> (HasRole i AdminRole \<or> HasRole i role))"
proof -
  have auth: "Authenticate identify r = (case BearerToken r of
      None \<Rightarrow> Reply (WriteError 401 (if header_get (wq_Headers r) ''Authorization'' = []
        then ''Authorization header required'' else ''Invalid authorization format''))
    | Some token \<Rightarrow> (case identify (wq_Context r) token of
        Inl _ \<Rightarrow> Reply (WriteError 401 ''Invalid token'')
      | Inr i \<Rightarrow> Next (WithContext (WithIdentity i (wq_Context r)) r) []))"
    by (auto simp: Authenticate_def BearerToken_def split: option.split)
  have role: "RequireRole role (r\<lparr>wq_Context := cx\<lparr>cx_identity := Some i\<rparr>\<rparr>) =
      (if id_UserID i = [] then Reply (WriteError 403 ''No roles found'')
       else if \<not> HasRole i AdminRole \<and> \<not> HasRole i role then Reply (WriteError 403 ''Insufficient permissions'')
       else Next (r\<lparr>wq_Context := cx\<lparr>cx_identity := Some i\<rparr>\<rparr>) [])" for i cx
    by (simp add: RequireRole_def IdentityFromContext_def)
  show ?thesis
    by (auto simp: chain_mw_def auth role WriteError_def WriteJSON_def WithContext_def WithIdentity_def
        IdentityFromContext_def split: option.split sum.split if_split)
qed

section \<open>Services or users\<close>

lemma bearer_is_key: "BearerToken r = Some token \<Longrightarrow> token \<noteq> [] \<Longrightarrow> ServiceKeyFromRequest r \<noteq> []"
  by (auto simp: BearerToken_def ServiceKeyFromRequest_def Let_def split: if_split_asm option.split)

text \<open>C21: Composed with this library's own \<^verbatim>\<open>Authenticate\<close>, \<^verbatim>\<open>ServiceAuthOrUserAuth\<close> admits no user: a bearer token
is taken for a service key, so a request gets through only if the key validator accepts that token or the key in
the header, as long as the provider rejects the empty token.\<close>

theorem user_tokens_never_accepted:
  assumes "\<And>cx. \<exists>err. identify cx [] = Inl err"
    and "passes (ServiceAuthOrUserAuth validate (Authenticate identify)) r"
  shows "\<exists>info. validate (ServiceKeyFromRequest r) = Inr info"
proof (cases "ServiceKeyFromRequest r = []")
  case True
  let ?r = "WithContext (WithAuthType AuthTypeUser (wq_Context r)) r"
  have b: "BearerToken ?r = BearerToken r" by (simp add: BearerToken_def bearer_def WithContext_def)
  have "passes (Authenticate identify) ?r" using assms(2) True by (simp add: passes_def ServiceAuthOrUserAuth_def)
  then obtain token i where "BearerToken ?r = Some token" "identify (wq_Context ?r) token = Inr i"
    by (auto simp: passes_def Authenticate_def split: option.split_asm sum.split_asm if_split_asm)
  moreover from this(1) have "token = []" using bearer_is_key [of r token] True b by auto
  ultimately show ?thesis using assms(1) [of "wq_Context ?r"] by auto
next
  case False
  then show ?thesis
    using assms(2) by (auto simp: passes_def ServiceAuthOrUserAuth_def admit_service_def split: sum.split_asm)
qed

definition bearer_request :: "string \<Rightarrow> web_request" where
  "bearer_request token = \<lparr>wq_Method = ''GET'', wq_Path = ''/'', wq_Headers = [''Authorization'' \<mapsto> ''Bearer '' @ token],
     wq_Query = (\<lambda>_. []), wq_RemoteAddr = ''10.0.0.2:4711'', wq_Context = Background\<rparr>"

lemma user_tokens_never_accepted_witness:
  "\<not> passes (ServiceAuthOrUserAuth (\<lambda>k. if k = ''sk_1'' then Inr None else Inl ''unknown'')
       (Authenticate (\<lambda>_ token. if token = ''jwt'' then Inr \<lparr>id_UserID = ''u'', id_Roles = []\<rparr> else Inl ''bad'')))
     (bearer_request ''jwt'')
   \<and> passes (Authenticate (\<lambda>_ token. if token = ''jwt'' then Inr \<lparr>id_UserID = ''u'', id_Roles = []\<rparr> else Inl ''bad''))
       (bearer_request ''jwt'')"
proof -
  have "ServiceKeyFromRequest (bearer_request ''jwt'') = ''jwt''" "BearerToken (bearer_request ''jwt'') = Some ''jwt''"
    "header_get (wq_Headers (bearer_request ''jwt'')) ''Authorization'' \<noteq> []" by code_simp+
  then show ?thesis
    using user_tokens_never_accepted [of "\<lambda>_ token. if token = ''jwt'' then Inr \<lparr>id_UserID = ''u'', id_Roles = []\<rparr> else Inl ''bad''"
        "\<lambda>k. if k = ''sk_1'' then Inr None else Inl ''unknown''" "bearer_request ''jwt''"]
    by (auto simp: passes_def Authenticate_def)
qed

section \<open>Scopes\<close>

text \<open>Behind \<^verbatim>\<open>ServiceAuthRequired\<close> and \<^verbatim>\<open>RequireServiceScope\<close> a handler runs exactly for a request whose key the
validator describes by a key holding the scope or the wildcard, and it sees that service's name.\<close>

theorem scope_gate:
  "passes (chain_mw (ServiceAuthRequired validate) (RequireServiceScope scope)) r \<longleftrightarrow>
     ServiceKeyFromRequest r \<noteq> [] \<and>
     (\<exists>info. validate (ServiceKeyFromRequest r) = Inr (Some info) \<and> (scope \<in> set (sk_Scopes info) \<or> ''all'' \<in> set (sk_Scopes info)))"
  unfolding chain_passes
  by (auto simp: ServiceAuthRequired_def admit_service_def Let_def passes_def RequireServiceScope_def
      WithContext_def WithServiceIdentity_def ServiceIdentity_def HasScope_def ScopeAll_def
      split: sum.split option.split)

section \<open>Buckets of authenticated users\<close>

text \<open>The identity \<^verbatim>\<open>auth.Authenticate\<close> publishes is not the one the rate limiter and \<^verbatim>\<open>middleware.UserID\<close>
read: a request it lets through is limited by the bucket it had before, so all users behind one address share one.\<close>

theorem authenticated_users_share_bucket:
  assumes "Authenticate identify r = Next r' hs"
  shows "ClientIdentifier r' = ClientIdentifier r \<and> UserID (wq_Context r') = UserID (wq_Context r)"
proof -
  obtain i where "r' = WithContext (WithIdentity i (wq_Context r)) r"
    using assms unfolding Authenticate_def by (auto split: if_split_asm option.split_asm sum.split_asm)
  moreover have "ClientIP (r\<lparr>wq_Context := cx\<rparr>) = ClientIP r" for cx by (simp add: ClientIP_def Let_def cong: option.case_cong)
  moreover have "ServiceName (cx\<lparr>cx_identity := j\<rparr>) = ServiceName cx" "UserID (cx\<lparr>cx_identity := j\<rparr>) = UserID cx" for cx j
    by (simp_all add: ServiceName_def ServiceIdentity_def UserID_def)
  ultimately show ?thesis
    by (simp add: WithContext_def WithIdentity_def ClientIdentifier_def cong: option.case_cong)
qed

lemma authenticated_users_share_bucket_witness:
  "\<exists>r'. Authenticate (\<lambda>_ token. Inr \<lparr>id_UserID = token, id_Roles = []\<rparr>) (bearer_request ''alice'') = Next r' []
     \<and> auth_UserID (wq_Context r') = Some ''alice'' \<and> ClientIdentifier r' = ''ip:10.0.0.2''"
proof -
  let ?r = "bearer_request ''alice''" and ?i = "\<lparr>id_UserID = ''alice'', id_Roles = []\<rparr>"
  have b: "BearerToken ?r = Some ''alice''" "header_get (wq_Headers ?r) ''Authorization'' \<noteq> []" by code_simp+
  have a: "Authenticate (\<lambda>_ token. Inr \<lparr>id_UserID = token, id_Roles = []\<rparr>) ?r =
      Next (WithContext (WithIdentity ?i (wq_Context ?r)) ?r) []" by (simp add: Authenticate_def b)
  have c: "ClientIdentifier ?r = ''ip:10.0.0.2''" by code_simp
  show ?thesis
    using authenticated_users_share_bucket [OF a] a c
    by (simp add: auth_UserID_def IdentityFromContext_def WithContext_def WithIdentity_def)
qed

section \<open>CORS\<close>

text \<open>Without the wildcard an origin that is not listed is never named in the response: the header is the
request's origin when it is listed, otherwise the first listed one, and absent only for an empty list.\<close>

theorem cors_names_listed_origins:
  assumes "''*'' \<notin> set (co_AllowedOrigins opts)" and "[] \<notin> set (co_AllowedOrigins opts)"
  shows "case CORS opts r of
     Next r' hs \<Rightarrow> r' = r \<and> (\<forall>v. (''Access-Control-Allow-Origin'', v) \<in> set hs \<longrightarrow> v \<in> set (co_AllowedOrigins opts)
        \<and> (header_get (wq_Headers r) ''Origin'' \<in> set (co_AllowedOrigins opts) \<longrightarrow> v = header_get (wq_Headers r) ''Origin''))
   | Reply resp \<Rightarrow> wq_Method r = ''OPTIONS'' \<and> wp_Status resp = 204"
  using assms
  by (auto simp: CORS_def cors_headers_def allowedOrigin_def Let_def split: list.split_asm if_split_asm)

definition origin_request :: "string \<Rightarrow> web_request" where
  "origin_request origin = (bearer_request [])\<lparr>wq_Headers := [''Origin'' \<mapsto> origin]\<rparr>"

lemma cors_names_listed_origins_witness:
  "\<forall>v hs r'. CORSWithOrigins [''https://a'', ''https://b''] (origin_request ''https://evil'') = Next r' hs
     \<and> (''Access-Control-Allow-Origin'', v) \<in> set hs \<longrightarrow> v \<in> {''https://a'', ''https://b''}"
  using cors_names_listed_origins [of "\<lparr>co_AllowedOrigins = [''https://a'', ''https://b''], co_AllowedMethods = [],
     co_AllowedHeaders = [], co_AllowCredentials = True, co_MaxAge = 0\<rparr>" "origin_request ''https://evil''"]
  by (auto simp: CORSWithOrigins_def)

text \<open>With the wildcard in the list \<^verbatim>\<open>CORSWithOrigins\<close> allows credentials to every origin by name.\<close>

lemma cors_wildcard_credentials:
  assumes "''*'' \<in> set allowed" and "header_get (wq_Headers r) ''Origin'' = origin" and "origin \<noteq> []" and "wq_Method r \<noteq> ''OPTIONS''"
  shows "\<exists>hs. CORSWithOrigins allowed r = Next r hs \<and> (''Access-Control-Allow-Origin'', origin) \<in> set hs
    \<and> (''Access-Control-Allow-Credentials'', ''true'') \<in> set hs"
  using assms by (cases allowed) (auto simp: CORSWithOrigins_def CORS_def cors_headers_def allowedOrigin_def Let_def)

section \<open>Pagination\<close>

text \<open>Whatever the query says, the default page has a limit between 1 and 100 and a non-negative offset, and
both are the query's numbers when these are in range.\<close>

theorem pagination_bounds:
  "1 \<le> pg_Limit (Pagination r) \<and> pg_Limit (Pagination r) \<le> 100 \<and> 0 \<le> pg_Offset (Pagination r)
   \<and> (case atoi (wq_Query r ''limit'') of Some n \<Rightarrow> 1 \<le> n \<and> n \<le> 100 \<longrightarrow> pg_Limit (Pagination r) = n | None \<Rightarrow> pg_Limit (Pagination r) = 20)
   \<and> (case atoi (wq_Query r ''offset'') of Some n \<Rightarrow> pg_Offset (Pagination r) = max n 0 | None \<Rightarrow> pg_Offset (Pagination r) = 0)"
  by (auto simp: Pagination_def PaginationWith_def queryInt_def Let_def split: option.split)

text \<open>A custom default above the maximum is clamped; a default below 1 is not raised.\<close>

lemma pagination_bad_default:
  "atoi (wq_Query r ''limit'') = None \<Longrightarrow> d0 < 1 \<Longrightarrow> d0 \<le> m \<Longrightarrow> pg_Limit (PaginationWith r d0 m) = d0"
  by (auto simp: PaginationWith_def queryInt_def Let_def)

end
