(* ===== verification/Audit_Client.thy ===== *)
theory Audit_Client
  imports Event_Signing
begin

text \<open>
  The audit client (\<^verbatim>\<open>audit/client.go\<close>). The options a caller passes are a pointer the client writes through,
  and their metadata a map it writes into: every method returns the options as it leaves them. \<open>None\<close> is a nil
  pointer or a nil map.
\<close>

section \<open>Options and records\<close>

type_synonym meta = "(string \<times> goany) list"

text \<open>Setting a key of a map, given by its entries.\<close>

fun meta_put :: "string \<Rightarrow> goany \<Rightarrow> meta \<Rightarrow> meta" where
  "meta_put k v [] = [(k, v)]"
| "meta_put k v ((k', v') # m) = (if k = k' then (k, v) # m else (k', v') # meta_put k v m)"

record log_options =
  lo_TraceID :: string
  lo_SessionID :: string
  lo_IPAddress :: string
  lo_UserAgent :: string
  lo_Location :: string
  lo_Platform :: string
  lo_Duration :: duration
  lo_StatusCode :: int
  lo_ErrorMsg :: string
  lo_Sensitivity :: string
  lo_LegalBasis :: string
  lo_Purpose :: string
  lo_Metadata :: "meta option"
  lo_Changes :: "meta option"

definition no_options :: log_options where
  "no_options = \<lparr>lo_TraceID = [], lo_SessionID = [], lo_IPAddress = [], lo_UserAgent = [], lo_Location = [],
     lo_Platform = [], lo_Duration = 0, lo_StatusCode = 0, lo_ErrorMsg = [], lo_Sensitivity = [],
     lo_LegalBasis = [], lo_Purpose = [], lo_Metadata = None, lo_Changes = None\<rparr>"

record audit_data =
  ad_EventID :: string
  ad_TraceID :: string
  ad_EventType :: string
  ad_Version :: string
  ad_ActorType :: string
  ad_ActorID :: string
  ad_ActorName :: string
  ad_Action :: string
  ad_Resource :: string
  ad_ResourceID :: string
  ad_SessionID :: string
  ad_IPAddress :: string
  ad_UserAgent :: string
  ad_Location :: string
  ad_Platform :: string
  ad_Status :: string
  ad_StatusCode :: int
  ad_ErrorMsg :: string
  ad_Duration :: int
  ad_Sensitivity :: string
  ad_LegalBasis :: string
  ad_Purpose :: string
  ad_Metadata :: "meta option"
  ad_Changes :: "meta option"

text \<open>The JSON object of a record, by its tags: \<^verbatim>\<open>omitempty\<close> drops the zero values.\<close>

definition opt_str :: "string \<Rightarrow> string \<Rightarrow> meta" where
  "opt_str k v = (if v = [] then [] else [(k, AStr v)])"

definition opt_int :: "string \<Rightarrow> int \<Rightarrow> meta" where
  "opt_int k v = (if v = 0 then [] else [(k, ANum (itoa v))])"

definition opt_map :: "string \<Rightarrow> meta option \<Rightarrow> meta" where
  "opt_map k m = (case m of None \<Rightarrow> [] | Some kvs \<Rightarrow> if kvs = [] then [] else [(k, AMap kvs)])"

definition audit_json :: "audit_data \<Rightarrow> goany" where
  "audit_json d = AMap ([(''event_id'', AStr (ad_EventID d))] @ opt_str ''trace_id'' (ad_TraceID d)
     @ [(''event_type'', AStr (ad_EventType d)), (''version'', AStr (ad_Version d)), (''actor_type'', AStr (ad_ActorType d))]
     @ opt_str ''actor_id'' (ad_ActorID d) @ opt_str ''actor_name'' (ad_ActorName d)
     @ [(''action'', AStr (ad_Action d)), (''resource'', AStr (ad_Resource d))] @ opt_str ''resource_id'' (ad_ResourceID d)
     @ opt_str ''session_id'' (ad_SessionID d) @ opt_str ''ip_address'' (ad_IPAddress d)
     @ opt_str ''user_agent'' (ad_UserAgent d) @ opt_str ''location'' (ad_Location d) @ opt_str ''platform'' (ad_Platform d)
     @ [(''status'', AStr (ad_Status d))] @ opt_int ''status_code'' (ad_StatusCode d)
     @ opt_str ''error_message'' (ad_ErrorMsg d) @ opt_int ''duration_ms'' (ad_Duration d)
     @ opt_str ''sensitivity'' (ad_Sensitivity d) @ opt_str ''legal_basis'' (ad_LegalBasis d)
     @ opt_str ''purpose'' (ad_Purpose d) @ opt_map ''metadata'' (ad_Metadata d) @ opt_map ''changes'' (ad_Changes d))"

section \<open>Logging\<close>

definition extractResourceID :: "meta option \<Rightarrow> string" where
  "extractResourceID metadata = (case metadata of
     None \<Rightarrow> []
   | Some m \<Rightarrow> (case map_of m ''resource_id'' of
       Some (AStr i) \<Rightarrow> i
     | _ \<Rightarrow> (case map_of m ''id'' of Some (AStr i) \<Rightarrow> i | _ \<Rightarrow> [])))"

text \<open>
  A client publishes through \<open>publish\<close>, over the publisher's state; the environment of a call gives the
  new UUID, the clock as an instant and as \<^verbatim>\<open>time.Time\<close> is written in JSON, and the bytes of the event's id.
\<close>

record 'p audit_client =
  au_publish :: "base_event \<Rightarrow> 'p \<Rightarrow> string option \<times> 'p"
  au_serviceName :: string

record audit_env =
  ae_uuid :: string
  ae_now :: instant
  ae_stamp :: string
  ae_random :: "nat list"

definition audit_record :: "audit_env \<Rightarrow> string \<Rightarrow> string \<Rightarrow> string \<Rightarrow> string \<Rightarrow> string \<Rightarrow> string \<Rightarrow> log_options \<Rightarrow> audit_data" where
  "audit_record env eventType actorType actorID action resource status opts = \<lparr>
     ad_EventID = ae_uuid env, ad_TraceID = lo_TraceID opts, ad_EventType = eventType, ad_Version = ''1.0'',
     ad_ActorType = actorType, ad_ActorID = actorID, ad_ActorName = [], ad_Action = action, ad_Resource = resource,
     ad_ResourceID = extractResourceID (lo_Metadata opts), ad_SessionID = lo_SessionID opts,
     ad_IPAddress = lo_IPAddress opts, ad_UserAgent = lo_UserAgent opts, ad_Location = lo_Location opts,
     ad_Platform = lo_Platform opts, ad_Status = status, ad_StatusCode = lo_StatusCode opts,
     ad_ErrorMsg = lo_ErrorMsg opts, ad_Duration = go_quot (lo_Duration opts) millisecond,
     ad_Sensitivity = lo_Sensitivity opts, ad_LegalBasis = lo_LegalBasis opts, ad_Purpose = lo_Purpose opts,
     ad_Metadata = lo_Metadata opts, ad_Changes = lo_Changes opts\<rparr>"

definition audit_event :: "audit_env \<Rightarrow> string \<Rightarrow> audit_data \<Rightarrow> base_event" where
  "audit_event env service d =
     (let e = NewEvent (ae_now env) (ae_random env) ''audit.log'' service
            (Some [(''audit_data'', audit_json d), (''timestamp'', AStr (ae_stamp env)), (''source'', AStr service)])
      in if ad_ActorType d = ''user'' \<and> ad_ActorID d \<noteq> [] then SetUserID (ad_ActorID d) e else e)"

definition audit_failed :: "string \<Rightarrow> string" where
  "audit_failed e = ''failed to publish audit event: '' @ e"

definition audit_Log :: "audit_env \<Rightarrow> 'p audit_client option \<Rightarrow> string \<Rightarrow> string \<Rightarrow> string \<Rightarrow> string \<Rightarrow> string \<Rightarrow> string \<Rightarrow>
    log_options option \<Rightarrow> 'p \<Rightarrow> string option \<times> 'p" where
  "audit_Log env client eventType actorType actorID action resource status opts p =
     (case client of
        None \<Rightarrow> (None, p)
      | Some c \<Rightarrow>
          (let o' = (case opts of Some x \<Rightarrow> x | None \<Rightarrow> no_options);
               d = audit_record env eventType actorType actorID action resource status o';
               (err, p') = au_publish c (audit_event env (au_serviceName c) d) p
           in (map_option audit_failed err, p')))"

definition meta_of :: "log_options \<Rightarrow> meta" where
  "meta_of opts = (case lo_Metadata opts of Some m \<Rightarrow> m | None \<Rightarrow> [])"

text \<open>The methods on a client that is there: the error, the publisher, and the options left behind.\<close>

definition LogUserAction :: "audit_env \<Rightarrow> 'p audit_client option \<Rightarrow> string \<Rightarrow> string \<Rightarrow> string \<Rightarrow> string \<Rightarrow> string \<Rightarrow>
    log_options option \<Rightarrow> 'p \<Rightarrow> (string option \<times> 'p) \<times> log_options option" where
  "LogUserAction env client userID userName action resource status opts p =
     (if client = None then ((None, p), opts)
      else
        (let o0 = (case opts of Some x \<Rightarrow> x | None \<Rightarrow> no_options);
             o1 = (if userName \<noteq> [] then o0\<lparr>lo_Metadata := Some (meta_put ''actor_name'' (AStr userName) (meta_of o0))\<rparr> else o0)
         in (audit_Log env client ''user_action'' ''user'' userID action resource status (Some o1) p,
             map_option (\<lambda>_. o1) opts)))"

definition LogServiceAction :: "audit_env \<Rightarrow> 'p audit_client option \<Rightarrow> string \<Rightarrow> string \<Rightarrow> string \<Rightarrow>
    log_options option \<Rightarrow> 'p \<Rightarrow> (string option \<times> 'p) \<times> log_options option" where
  "LogServiceAction env client action resource status opts p =
     (case client of
        None \<Rightarrow> ((None, p), opts)
      | Some c \<Rightarrow> (audit_Log env client ''system_event'' ''service'' (au_serviceName c) action resource status opts p, opts))"

definition LogSecurityEvent :: "audit_env \<Rightarrow> 'p audit_client option \<Rightarrow> string \<Rightarrow> string \<Rightarrow> string \<Rightarrow> string \<Rightarrow> string \<Rightarrow>
    log_options option \<Rightarrow> 'p \<Rightarrow> (string option \<times> 'p) \<times> log_options option" where
  "LogSecurityEvent env client actorType actorID action resource status opts p =
     (if client = None then ((None, p), opts)
      else
        (let o0 = (case opts of Some x \<Rightarrow> x | None \<Rightarrow> no_options);
             o1 = (if lo_Sensitivity o0 = [] then o0\<lparr>lo_Sensitivity := ''restricted''\<rparr> else o0)
         in (audit_Log env client ''security_event'' actorType actorID action resource status (Some o1) p,
             map_option (\<lambda>_. o1) opts)))"

definition LogDataAccess :: "audit_env \<Rightarrow> 'p audit_client option \<Rightarrow> string \<Rightarrow> string \<Rightarrow> string \<Rightarrow>
    log_options option \<Rightarrow> 'p \<Rightarrow> (string option \<times> 'p) \<times> log_options option" where
  "LogDataAccess env client userID resource resourceID opts p =
     (if client = None then ((None, p), opts)
      else
        (let o0 = (case opts of Some x \<Rightarrow> x | None \<Rightarrow> no_options);
             o1 = o0\<lparr>lo_Metadata := Some (meta_put ''resource_id'' (AStr resourceID) (meta_of o0))\<rparr>;
             (r, o2) = LogUserAction env client userID [] ''read'' resource ''success'' (Some o1) p
         in (r, if opts = None then None else o2)))"

definition LogDataModification :: "audit_env \<Rightarrow> 'p audit_client option \<Rightarrow> string \<Rightarrow> string \<Rightarrow> string \<Rightarrow> string \<Rightarrow> meta option \<Rightarrow>
    log_options option \<Rightarrow> 'p \<Rightarrow> (string option \<times> 'p) \<times> log_options option" where
  "LogDataModification env client userID action resource resourceID changes opts p =
     (if client = None then ((None, p), opts)
      else
        (let o0 = (case opts of Some x \<Rightarrow> x | None \<Rightarrow> no_options);
             o1 = o0\<lparr>lo_Changes := changes, lo_Metadata := Some (meta_put ''resource_id'' (AStr resourceID) (meta_of o0))\<rparr>;
             (r, o2) = LogUserAction env client userID [] action resource ''success'' (Some o1) p
         in (r, if opts = None then None else o2)))"

section \<open>Facts\<close>

lemma meta_put_same [simp]: "map_of (meta_put k v m) k = Some v"
  by (induction m) auto

lemma meta_put_other [simp]: "k' \<noteq> k \<Longrightarrow> map_of (meta_put k v m) k' = map_of m k'"
  by (induction m) auto

lemma resource_id_put [simp]: "extractResourceID (Some (meta_put ''resource_id'' (AStr i) m)) = i"
  by (simp add: extractResourceID_def)

text \<open>The name of the actor is in the record's metadata, never in its \<^verbatim>\<open>actor_name\<close>.\<close>

lemma audit_actor_name: "ad_ActorName (audit_record env et aty aid ac re st opts) = []"
  by (simp add: audit_record_def)

lemma audit_event_data: "ev_Data (audit_event env sv d) =
    Some [(''audit_data'', audit_json d), (''timestamp'', AStr (ae_stamp env)), (''source'', AStr sv)]"
  by (simp add: audit_event_def Let_def NewEvent_def SetUserID_def)

lemma audit_event_user: "ad_ActorType d = ''user'' \<Longrightarrow> ev_UserID (audit_event env sv d) = ad_ActorID d"
  by (auto simp: audit_event_def Let_def NewEvent_def SetUserID_def)

text \<open>Options used for two calls mix their users up: after an action logged for a named user, the same
options make the next data access of another user publish an event under the second user's id whose metadata
names the first, while its resource id is the second's.\<close>

theorem audit_options_leak:
  assumes "userName \<noteq> []"
    and "LogUserAction env (Some c) u1 userName ac re st (Some opts) p = (r1, Some opts1)"
  shows "\<exists>d opts2. LogDataAccess env' (Some c) u2 re' rid (Some opts1) p' =
      (case au_publish c (audit_event env' (au_serviceName c) d) p' of
         (err, p'') \<Rightarrow> ((map_option audit_failed err, p''), opts2))
    \<and> ev_UserID (audit_event env' (au_serviceName c) d) = u2 \<and> ad_ActorID d = u2 \<and> ad_ResourceID d = rid
    \<and> map_of (the (ad_Metadata d)) ''actor_name'' = Some (AStr userName)"
proof -
  have o1: "lo_Metadata opts1 = Some (meta_put ''actor_name'' (AStr userName) (meta_of opts))"
    using assms by (auto simp: LogUserAction_def Let_def)
  let ?o2 = "opts1\<lparr>lo_Metadata := Some (meta_put ''resource_id'' (AStr rid) (meta_of opts1))\<rparr>"
  let ?d = "audit_record env' ''user_action'' ''user'' u2 ''read'' re' ''success'' ?o2"
  have "LogDataAccess env' (Some c) u2 re' rid (Some opts1) p' =
      (audit_Log env' (Some c) ''user_action'' ''user'' u2 ''read'' re' ''success'' (Some ?o2) p', Some ?o2)"
    by (simp add: LogDataAccess_def LogUserAction_def Let_def)
  moreover have "ev_UserID (audit_event env' (au_serviceName c) ?d) = u2" "ad_ActorID ?d = u2" "ad_ResourceID ?d = rid"
    "map_of (the (ad_Metadata ?d)) ''actor_name'' = Some (AStr userName)"
    by (simp_all add: audit_event_user audit_record_def meta_of_def o1)
  ultimately show ?thesis
    by (intro exI [of _ ?d] exI [of _ "Some ?o2"]) (simp add: audit_Log_def Let_def split: prod.split)
qed

lemma audit_options_leak_witness:
  "let c = \<lparr>au_publish = (\<lambda>e es. (None, es @ [e])), au_serviceName = ''orders''\<rparr>;
       env = \<lparr>ae_uuid = ''u'', ae_now = 0, ae_stamp = ''t'', ae_random = []\<rparr>;
       (_, opts1) = LogUserAction env (Some c) ''1'' ''Alice'' ''create'' ''form'' ''success'' (Some no_options) []
   in \<exists>e. snd (fst (LogDataAccess env (Some c) ''2'' ''form'' ''7'' opts1 [])) = [e] \<and> ev_UserID e = ''2''"
proof -
  let ?c = "\<lparr>au_publish = (\<lambda>e es. (None, es @ [e])), au_serviceName = ''orders''\<rparr>"
  let ?env = "\<lparr>ae_uuid = ''u'', ae_now = 0, ae_stamp = ''t'', ae_random = []\<rparr>"
  obtain r1 opts1 where l: "LogUserAction ?env (Some ?c) ''1'' ''Alice'' ''create'' ''form'' ''success'' (Some no_options) []
      = (r1, Some opts1)" by (simp add: LogUserAction_def Let_def)
  have "''Alice'' \<noteq> []" by simp
  from audit_options_leak [OF this l, of ?env "''2''" "''form''" "''7''" "[]"] show ?thesis
    unfolding Let_def l prod.case by auto
qed

text \<open>The metadata of a security event marks it restricted only when the caller said nothing.\<close>

lemma security_event_sensitivity:
  "lo_Sensitivity opts \<noteq> [] \<Longrightarrow> LogSecurityEvent env (Some c) aty aid ac re st (Some opts) p =
     (audit_Log env (Some c) ''security_event'' aty aid ac re st (Some opts) p, Some opts)"
  by (simp add: LogSecurityEvent_def Let_def)

text \<open>A client that is off does nothing.\<close>

lemma audit_off:
  "audit_Log env None ety aty aid ac re st opts p = (None, p)"
  "LogUserAction env None u n ac re st opts p = ((None, p), opts)"
  "LogServiceAction env None ac re st opts p = ((None, p), opts)"
  "LogSecurityEvent env None aty aid ac re st opts p = ((None, p), opts)"
  "LogDataAccess env None u re rid opts p = ((None, p), opts)"
  "LogDataModification env None u ac re rid ch opts p = ((None, p), opts)"
  by (simp_all add: audit_Log_def LogUserAction_def LogServiceAction_def LogSecurityEvent_def LogDataAccess_def
      LogDataModification_def)

end
