(* ===== verification/Service_Health.thy ===== *)
theory Service_Health
  imports Web_Request Amqp_Events Redis_Cluster
begin

text \<open>
  Health reporting: the checks and the two probes of \<^verbatim>\<open>middleware/health.go\<close>, and the report over a
  service's dependencies of \<^verbatim>\<open>health/health.go\<close>. What a check does (a ping) is a value: its error, or
  \<open>None\<close>. A report that has to take a lock of a cluster that is held blocks, and so is an \<open>outcome\<close>.
\<close>

section \<open>Checks\<close>

definition StatusHealthy :: string where "StatusHealthy = ''healthy''"
definition StatusUnhealthy :: string where "StatusUnhealthy = ''unhealthy''"

text \<open>A checker's answer: its name, status and message.\<close>

record check =
  ck_Name :: string
  ck_Status :: string
  ck_Message :: string

record check_result =
  cr_Status :: string
  cr_Message :: string
  cr_LastChecked :: int
  cr_Duration :: string

definition DatabaseHealthChecker :: "string \<Rightarrow> string option \<Rightarrow> check" where
  "DatabaseHealthChecker name ping = (case ping of
     Some err \<Rightarrow> \<lparr>ck_Name = name, ck_Status = StatusUnhealthy, ck_Message = ''Database connection failed: '' @ err\<rparr>
   | None \<Rightarrow> \<lparr>ck_Name = name, ck_Status = StatusHealthy, ck_Message = ''Database connection successful''\<rparr>)"

definition EventBusHealthChecker :: "string \<Rightarrow> string option \<Rightarrow> check" where
  "EventBusHealthChecker name ping = (case ping of
     Some err \<Rightarrow> \<lparr>ck_Name = name, ck_Status = StatusUnhealthy, ck_Message = ''Event bus connection failed: '' @ err\<rparr>
   | None \<Rightarrow> \<lparr>ck_Name = name, ck_Status = StatusHealthy, ck_Message = ''Event bus connection successful''\<rparr>)"

definition ServiceHealthChecker :: "string \<Rightarrow> string \<Rightarrow> string option \<Rightarrow> check" where
  "ServiceHealthChecker name url checker = (case checker of
     Some err \<Rightarrow> \<lparr>ck_Name = name, ck_Status = StatusUnhealthy,
                    ck_Message = ''Service unavailable at '' @ url @ '': '' @ err\<rparr>
   | None \<Rightarrow> \<lparr>ck_Name = name, ck_Status = StatusHealthy, ck_Message = ''Service available at '' @ url\<rparr>)"

text \<open>
  The loop over the checks, each with the time it took as \<^verbatim>\<open>Duration.String\<close> prints it. The results are
  a map by name: of two checks with one name the later one is kept.
\<close>

fun run_checks_loop :: "instant \<Rightarrow> (check \<times> string) list \<Rightarrow> (string \<rightharpoonup> check_result) \<Rightarrow> bool \<Rightarrow>
    (string \<rightharpoonup> check_result) \<times> bool" where
  "run_checks_loop now [] results allHealthy = (results, allHealthy)"
| "run_checks_loop now ((c, took) # cs) results allHealthy =
     run_checks_loop now cs
       (results(ck_Name c \<mapsto> \<lparr>cr_Status = ck_Status c, cr_Message = ck_Message c,
                                cr_LastChecked = unix_of now, cr_Duration = took\<rparr>))
       (allHealthy \<and> ck_Status c = StatusHealthy)"

definition runChecks :: "instant \<Rightarrow> (check \<times> string) list \<Rightarrow> (string \<rightharpoonup> check_result) \<times> bool" where
  "runChecks now checks = run_checks_loop now checks Map.empty True"

definition healthStatusCode :: "bool \<Rightarrow> int" where
  "healthStatusCode ok = (if ok then 200 else 503)"

definition statusWord :: "bool \<Rightarrow> string \<Rightarrow> string \<Rightarrow> string" where
  "statusWord ok whenTrue whenFalse = (if ok then whenTrue else whenFalse)"

text \<open>The bodies of the two probes; \<open>json_results\<close> lists the map the way it is encoded, by name.\<close>

definition json_result :: "check_result \<Rightarrow> goany" where
  "json_result c = AMap ([(''status'', AStr (cr_Status c))]
     @ (if cr_Message c = [] then [] else [(''message'', AStr (cr_Message c))])
     @ [(''last_checked'', ANum (itoa (cr_LastChecked c)))]
     @ (if cr_Duration c = [] then [] else [(''duration'', AStr (cr_Duration c))]))"

definition json_results :: "(check \<times> string) list \<Rightarrow> (string \<rightharpoonup> check_result) \<Rightarrow> (string \<times> goany) list" where
  "json_results checks results =
     map (\<lambda>k. (k, json_result (the (results k)))) (sort (remdups (map (ck_Name \<circ> fst) checks)))"

definition HealthHandler :: "string \<Rightarrow> instant \<Rightarrow> instant \<Rightarrow> (check \<times> string) list \<Rightarrow> web_response" where
  "HealthHandler serviceName startTime now checks =
     (let (results, allHealthy) = runChecks now checks
      in WriteJSON (healthStatusCode allHealthy) (JsonBody (AMap (
           [(''status'', AStr (statusWord allHealthy ''healthy'' ''unhealthy'')), (''service'', AStr serviceName),
            (''timestamp'', ANum (itoa (unix_of now))), (''uptime'', ANum (itoa (go_quot (now - startTime) second)))]
           @ (if checks = [] then [] else [(''checks'', AMap (json_results checks results))])))))"

definition ReadinessHandler :: "string \<Rightarrow> instant \<Rightarrow> (check \<times> string) list \<Rightarrow> web_response" where
  "ReadinessHandler serviceName now checks =
     (let (results, allReady) = runChecks now checks
      in WriteJSON (healthStatusCode allReady) (JsonBody (AMap
           [(''status'', AStr (statusWord allReady ''ready'' ''not_ready'')), (''service'', AStr serviceName),
            (''timestamp'', ANum (itoa (unix_of now))), (''checks'', AMap (json_results checks results))])))"

section \<open>The report of a service\<close>

text \<open>The dependencies a checker was given; a database or a single Redis by what its ping within two seconds says.\<close>

record health_deps =
  hd_serviceName :: string
  hd_version :: string
  hd_startTime :: instant
  hd_db :: "string option option"
  hd_redis :: "string option option"
  hd_redisCluster :: "redis_adapter option"
  hd_rabbitPublisher :: "cluster_publisher option"
  hd_rabbitSubscriber :: "cluster_subscriber option"

definition NewHealthChecker :: "build_info \<Rightarrow> instant \<Rightarrow> string \<Rightarrow> health_deps" where
  "NewHealthChecker build now serviceName = \<lparr>hd_serviceName = serviceName, hd_version = GetVersionString build,
     hd_startTime = now, hd_db = None, hd_redis = None, hd_redisCluster = None, hd_rabbitPublisher = None,
     hd_rabbitSubscriber = None\<rparr>"

record service_health =
  sh_Status :: string
  sh_Version :: string
  sh_Uptime :: int
  sh_Timestamp :: string
  sh_Service :: string
  sh_Dependencies :: "string \<rightharpoonup> bool"
  sh_Metrics :: "string \<rightharpoonup> goany"

definition node_metrics :: "nat \<Rightarrow> nat \<Rightarrow> goany" where
  "node_metrics nodes healthy = AMap [(''total'', ANum (itoa (int nodes))), (''healthy'', ANum (itoa (int healthy)))]"

definition rabbit_metrics :: "publisher_stats \<Rightarrow> goany" where
  "rabbit_metrics stats = AMap [(''service_name'', AStr (ps_ServiceName stats)),
     (''exchange'', AStr (ps_Exchange stats)), (''total_nodes'', ANum (itoa (int (ps_TotalNodes stats)))),
     (''healthy_nodes'', ANum (itoa (int (ps_HealthyNodes stats))))]"

definition SetDatabase :: "string option option \<Rightarrow> health_deps \<Rightarrow> health_deps" where
  "SetDatabase db h = h\<lparr>hd_db := db\<rparr>"

definition SetRedis :: "string option option \<Rightarrow> health_deps \<Rightarrow> health_deps" where
  "SetRedis redis h = h\<lparr>hd_redis := redis\<rparr>"

definition SetRedisCluster :: "redis_adapter option \<Rightarrow> health_deps \<Rightarrow> health_deps" where
  "SetRedisCluster cluster h = h\<lparr>hd_redisCluster := cluster\<rparr>"

definition SetRabbitMQPublisher :: "cluster_publisher option \<Rightarrow> health_deps \<Rightarrow> health_deps" where
  "SetRabbitMQPublisher publisher h = h\<lparr>hd_rabbitPublisher := publisher\<rparr>"

definition SetRabbitMQSubscriber :: "cluster_subscriber option \<Rightarrow> health_deps \<Rightarrow> health_deps" where
  "SetRabbitMQSubscriber subscriber h = h\<lparr>hd_rabbitSubscriber := subscriber\<rparr>"

text \<open>A dependency recorded, and the status it leaves.\<close>

definition depend :: "string \<Rightarrow> bool \<Rightarrow> service_health \<Rightarrow> service_health" where
  "depend name ok h = h\<lparr>sh_Dependencies := (sh_Dependencies h)(name \<mapsto> ok),
     sh_Status := (if ok then sh_Status h else ''degraded'')\<rparr>"

definition checkPostgres :: "string option option \<Rightarrow> bool" where
  "checkPostgres db = (case db of None \<Rightarrow> False | Some (Some err) \<Rightarrow> False | Some None \<Rightarrow> True)"

definition checkRedis :: "string option option \<Rightarrow> bool" where
  "checkRedis redis = (case redis of None \<Rightarrow> False | Some (Some err) \<Rightarrow> False | Some None \<Rightarrow> True)"

definition checkPing :: "string \<Rightarrow> (string option option \<Rightarrow> bool) \<Rightarrow> string option option \<Rightarrow> service_health \<Rightarrow> service_health" where
  "checkPing name check dep h = (if dep = None then h else depend name (check dep) h)"

definition checkRedisCluster :: "redis_adapter option \<Rightarrow> service_health \<Rightarrow> service_health outcome" where
  "checkRedisCluster dep h = (case dep of
     None \<Rightarrow> Ret h
   | Some a \<Rightarrow> bind_outcome (redis_GetClusterHealth a) (\<lambda>(_, nodes, healthy).
       Ret (h\<lparr>sh_Dependencies := (sh_Dependencies h)(''redis_cluster'' \<mapsto> healthy > 0),
              sh_Metrics := (sh_Metrics h)(''redis_cluster_nodes'' \<mapsto> node_metrics nodes healthy),
              sh_Status := (if healthy = 0 then ''unhealthy'' else if healthy < nodes then ''degraded'' else sh_Status h)\<rparr>)))"

definition checkPublisher :: "cluster_publisher option \<Rightarrow> service_health \<Rightarrow> service_health outcome" where
  "checkPublisher dep h = (case dep of
     None \<Rightarrow> Ret h
   | Some cp \<Rightarrow> bind_outcome (cp_TestConnection cp) (\<lambda>err.
       bind_outcome (cp_GetStats cp) (\<lambda>stats.
         let h' = depend ''rabbitmq_publisher'' (err = None) h
         in Ret (h'\<lparr>sh_Metrics := (sh_Metrics h')(''rabbitmq_publisher'' \<mapsto> rabbit_metrics stats)\<rparr>))))"

definition checkSubscriber :: "cluster_subscriber option \<Rightarrow> service_health \<Rightarrow> service_health outcome" where
  "checkSubscriber dep h = (case dep of
     None \<Rightarrow> Ret h
   | Some cs \<Rightarrow> bind_outcome (cs_GetStats cs) (\<lambda>stats.
       let h' = depend ''rabbitmq_subscriber'' (ps_HealthyNodes stats > 0) h
       in Ret (h'\<lparr>sh_Metrics := (sh_Metrics h')(''rabbitmq_subscriber'' \<mapsto> rabbit_metrics stats)\<rparr>)))"

text \<open>\<open>runtime\<close> are the figures \<^verbatim>\<open>addRuntimeMetrics\<close> reads from the Go runtime.\<close>

definition addRuntimeMetrics :: "(string \<rightharpoonup> goany) \<Rightarrow> service_health \<Rightarrow> service_health" where
  "addRuntimeMetrics runtime h = h\<lparr>sh_Metrics := sh_Metrics h ++ runtime\<rparr>"

definition CheckHealth :: "instant \<Rightarrow> string \<Rightarrow> (string \<rightharpoonup> goany) \<Rightarrow> health_deps \<Rightarrow> service_health outcome" where
  "CheckHealth now stamp runtime d =
     (let h0 = \<lparr>sh_Status = ''healthy'', sh_Version = hd_version d,
                sh_Uptime = go_quot (now - hd_startTime d) second, sh_Timestamp = stamp,
                sh_Service = hd_serviceName d, sh_Dependencies = Map.empty, sh_Metrics = Map.empty\<rparr>;
          h1 = checkPing ''redis'' checkRedis (hd_redis d) (checkPing ''postgres'' checkPostgres (hd_db d) h0)
      in bind_outcome (checkRedisCluster (hd_redisCluster d) h1) (\<lambda>h2.
           bind_outcome (checkPublisher (hd_rabbitPublisher d) h2) (\<lambda>h3.
             bind_outcome (checkSubscriber (hd_rabbitSubscriber d) h3) (\<lambda>h4.
               Ret (addRuntimeMetrics runtime h4)))))"

text \<open>The two endpoints; the body of the detailed one is the report.\<close>

definition SimpleHealthHandler :: web_response where
  "SimpleHealthHandler = \<lparr>wp_Status = 200, wp_Headers = header_set (''Content-Type'', ''application/json'') Map.empty,
     wp_Body = JsonBody (AMap [(''status'', AStr ''ok'')])\<rparr>"

definition DetailedHealthHandler :: "instant \<Rightarrow> string \<Rightarrow> (string \<rightharpoonup> goany) \<Rightarrow> health_deps \<Rightarrow>
    (int \<times> service_health) outcome" where
  "DetailedHealthHandler now stamp runtime d =
     bind_outcome (CheckHealth now stamp runtime d) (\<lambda>h.
       Ret (if sh_Status h = ''degraded'' \<or> sh_Status h = ''unhealthy'' then 503 else 200, h))"

section \<open>The checker interface\<close>

text \<open>
  \<^verbatim>\<open>HealthChecker\<close>: a checker has one name and is healthy when what it looks at answers. The verdict of a run is
  the conjunction of its checks, and a check that is the last of its name is the one reported.
\<close>

lemma run_checks_loop_snd: "snd (run_checks_loop now cs m ok) \<longleftrightarrow> ok \<and> list_all (\<lambda>(c, _). ck_Status c = StatusHealthy) cs"
  by (induction cs arbitrary: m ok) auto

lemma runChecks_ok: "snd (runChecks now cs) \<longleftrightarrow> list_all (\<lambda>(c, _). ck_Status c = StatusHealthy) cs"
  by (simp add: runChecks_def run_checks_loop_snd)

lemma run_checks_loop_append:
  "run_checks_loop now (cs @ ds) m ok = (case run_checks_loop now cs m ok of (m', ok') \<Rightarrow> run_checks_loop now ds m' ok')"
  by (induction cs arbitrary: m ok) auto

lemma run_checks_other_names:
  "n \<notin> ck_Name ` fst ` set cs \<Longrightarrow> fst (run_checks_loop now cs m ok) n = m n"
proof (induction cs arbitrary: m ok)
  case (Cons c cs)
  then show ?case by (cases c) auto
qed simp

lemma statuses_differ [simp]: "StatusUnhealthy \<noteq> StatusHealthy"
  by (simp add: StatusHealthy_def StatusUnhealthy_def)

locale health_checker =
  fixes name :: string and answer :: "string option \<Rightarrow> check"
  assumes answer_name: "ck_Name (answer ping) = name"
    and answer_status: "ck_Status (answer ping) = (if ping = None then StatusHealthy else StatusUnhealthy)"
begin

lemma healthy_iff: "ck_Status (answer ping) = StatusHealthy \<longleftrightarrow> ping = None"
  by (simp add: answer_status)

lemma gates: "snd (runChecks now (cs @ (answer ping, took) # ds)) \<longleftrightarrow> ping = None \<and> snd (runChecks now (cs @ ds))"
  by (auto simp: runChecks_ok healthy_iff)

lemma reported:
  assumes "name \<notin> ck_Name ` fst ` set ds"
  shows "\<exists>r. fst (runChecks now (cs @ (answer ping, took) # ds)) name = Some r
    \<and> (cr_Status r = StatusHealthy \<longleftrightarrow> ping = None)"
  using assms
  by (simp add: runChecks_def run_checks_loop_append split_beta run_checks_other_names answer_name healthy_iff)

end

interpretation database: health_checker name "DatabaseHealthChecker name" for name
  by unfold_locales (simp_all add: DatabaseHealthChecker_def split: option.split)

interpretation event_bus: health_checker name "EventBusHealthChecker name" for name
  by unfold_locales (simp_all add: EventBusHealthChecker_def split: option.split)

interpretation service: health_checker name "ServiceHealthChecker name url" for name url
  by unfold_locales (simp_all add: ServiceHealthChecker_def split: option.split)

end
