(* ===== verification/Service_Logging.thy ===== *)
theory Service_Logging
  imports Web_Request
begin

text \<open>
  Logging (\<^verbatim>\<open>logging/handler.go\<close>, \<^verbatim>\<open>logging/logging.go\<close>), the profiling switch (\<^verbatim>\<open>debug/pprof.go\<close>), and what the
  middleware records of a finished request (\<^verbatim>\<open>middleware/logging.go\<close>, \<^verbatim>\<open>metrics.go\<close>, \<^verbatim>\<open>recorder.go\<close>). A line is the
  string the handler writes; attribute values are given as \<^verbatim>\<open>%v\<close> prints them, a time as its format prints it.
\<close>

section \<open>Levels\<close>

definition LevelDebug :: int where "LevelDebug = -4"
definition LevelInfo :: int where "LevelInfo = 0"
definition LevelWarn :: int where "LevelWarn = 4"
definition LevelError :: int where "LevelError = 8"

definition LevelFromEnv :: "environ \<Rightarrow> int" where
  "LevelFromEnv e =
     (let v = toUpper (getenv e ''LOG_LEVEL'')
      in if v = ''DEBUG'' then LevelDebug
         else if v = ''WARN'' \<or> v = ''WARNING'' then LevelWarn
         else if v = ''ERROR'' \<or> v = ''FATAL'' then LevelError
         else LevelInfo)"

definition levelName :: "int \<Rightarrow> string" where
  "levelName l = (if l < LevelInfo then ''DEBUG'' else if l < LevelWarn then ''INFO''
     else if l < LevelError then ''WARN'' else ''ERROR'')"

definition ansi :: "string \<Rightarrow> string" where
  "ansi code = CHR 0x1B # ''['' @ code @ ''m''"

definition levelColor :: "int \<Rightarrow> string" where
  "levelColor l = (if l < LevelInfo then ansi ''36'' else if l < LevelWarn then ansi ''32''
     else if l < LevelError then ansi ''33'' else ansi ''31'')"

text \<open>\<^verbatim>\<open>strings.EqualFold\<close> on ASCII.\<close>

definition equalFold :: "string \<Rightarrow> string \<Rightarrow> bool" where
  "equalFold a b = (toLower a = toLower b)"

text \<open>\<^verbatim>\<open>debug.Enabled\<close>.\<close>

definition debug_Enabled :: "environ \<Rightarrow> bool" where
  "debug_Enabled e = equalFold (getenv e ''LOG_LEVEL'') ''debug''"

definition debug_Prefix :: string where "debug_Prefix = ''/debug/pprof/''"

section \<open>Lines\<close>

type_synonym attrs = "(string \<times> string) list"

record log_handler =
  lh_Service :: string
  lh_Level :: int
  lh_Colors :: bool
  lh_attrs :: attrs

text \<open>\<^verbatim>\<open>New\<close>: \<open>None\<close> is slog's own JSON handler.\<close>

definition logging_New :: "environ \<Rightarrow> string \<Rightarrow> log_handler option" where
  "logging_New e service =
     (if equalFold (getenv e ''LOG_FORMAT'') ''json'' then None
      else Some \<lparr>lh_Service = service, lh_Level = LevelFromEnv e,
             lh_Colors = (getenv e ''NO_COLOR'' = [] \<and> getenv e ''LOG_NO_COLOR'' = []), lh_attrs = []\<rparr>)"

text \<open>A record: \<open>lr_Source\<close> is the file and line of its program counter, \<open>None\<close> when there is none.\<close>

record log_record =
  lr_Level :: int
  lr_Time :: string
  lr_Source :: "(string \<times> int) option"
  lr_Message :: string
  lr_Attrs :: attrs

definition log_enabled :: "log_handler \<Rightarrow> int \<Rightarrow> bool" where
  "log_enabled h level \<longleftrightarrow> level \<ge> lh_Level h"

definition shortPath :: "string \<Rightarrow> string" where
  "shortPath file =
     (let parts = strSplit file ''/''
      in if length parts \<ge> 2 then parts ! (length parts - 2) @ ''/'' @ parts ! (length parts - 1)
         else parts ! (length parts - 1))"

definition log_caller :: "log_record \<Rightarrow> string" where
  "log_caller r = (case lr_Source r of
     Some (file, line) \<Rightarrow> if file = [] then ''unknown'' else shortPath file @ '':'' @ itoa line
   | None \<Rightarrow> ''unknown'')"

definition newline :: string where "newline = [CHR 0x0A]"

definition log_fields :: "attrs \<Rightarrow> string" where
  "log_fields as = (if as = [] then [] else '' | '' @ strJoin (map (\<lambda>(k, v). k @ ''='' @ v) as) '' '')"

definition log_prefix :: "log_handler \<Rightarrow> log_record \<Rightarrow> string" where
  "log_prefix h r =
     (let level = levelName (lr_Level r); color = levelColor (lr_Level r); reset = ansi ''0''
      in if lh_Colors h
         then color @ lr_Time r @ reset @ '' ['' @ color @ level @ reset @ ''] ['' @ lh_Service h @ ''] ''
              @ log_caller r @ '' - ''
         else lr_Time r @ '' ['' @ level @ ''] ['' @ lh_Service h @ ''] '' @ log_caller r @ '' - '')"

text \<open>\<^verbatim>\<open>Handle\<close>: what it writes, in one call.\<close>

definition Handle :: "log_handler \<Rightarrow> log_record \<Rightarrow> string" where
  "Handle h r = log_prefix h r @ lr_Message r @ log_fields (lh_attrs h @ lr_Attrs r) @ newline"

definition WithAttrs :: "attrs \<Rightarrow> log_handler \<Rightarrow> log_handler" where
  "WithAttrs as h = h\<lparr>lh_attrs := lh_attrs h @ as\<rparr>"

definition WithGroup :: "string \<Rightarrow> log_handler \<Rightarrow> log_handler" where
  "WithGroup name h = h\<lparr>lh_attrs := lh_attrs h @ [(''group'', name)]\<rparr>"

text \<open>\<^verbatim>\<open>logAt\<close>: nothing below the level.\<close>

definition logAt :: "log_handler \<Rightarrow> string \<Rightarrow> (string \<times> int) option \<Rightarrow> int \<Rightarrow> string \<Rightarrow> string option" where
  "logAt h now src level msg =
     (if \<not> log_enabled h level then None
      else Some (Handle h \<lparr>lr_Level = level, lr_Time = now, lr_Source = src, lr_Message = msg, lr_Attrs = []\<rparr>))"

section \<open>What a handler wrote\<close>

text \<open>A handler's calls on its writer; \<open>n\<close> is how many bytes of a write the writer accepts.\<close>

datatype write_op = WriteHeader int | Write nat

record recorder =
  rc_status :: int
  rc_written :: int

definition newRecorder :: recorder where
  "newRecorder = \<lparr>rc_status = 200, rc_written = 0\<rparr>"

fun rec_op :: "write_op \<Rightarrow> recorder \<Rightarrow> recorder" where
  "rec_op (WriteHeader st) rc = rc\<lparr>rc_status := st\<rparr>"
| "rec_op (Write n) rc = rc\<lparr>rc_written := rc_written rc + int n\<rparr>"

definition rec_run :: "write_op list \<Rightarrow> recorder" where
  "rec_run ops = fold rec_op ops newRecorder"

text \<open>
  The status \<^verbatim>\<open>net/http\<close> sends: the first header written, apart from an informational one, and 200 with the
  first write before it or when nothing is written.
\<close>

definition informational :: "int \<Rightarrow> bool" where
  "informational st \<longleftrightarrow> 100 \<le> st \<and> st \<le> 199 \<and> st \<noteq> 101"

fun sent_status :: "write_op list \<Rightarrow> int" where
  "sent_status [] = 200"
| "sent_status (WriteHeader st # ops) = (if informational st then sent_status ops else st)"
| "sent_status (Write n # ops) = 200"

section \<open>Request logging\<close>

definition MetricsPath :: string where "MetricsPath = ''/metrics''"

definition IsOperationalPath :: "string \<Rightarrow> bool" where
  "IsOperationalPath path \<longleftrightarrow>
     path \<in> set [''/health'', ''/healthz'', ''/ready'', ''/readyz'', ''/live'', ''/livez'', MetricsPath]
     \<or> hasPrefix path debug_Prefix"

definition QuietSuccessfulProbes :: "web_request \<Rightarrow> int \<Rightarrow> bool" where
  "QuietSuccessfulProbes r status \<longleftrightarrow> status < 400 \<and> IsOperationalPath (wq_Path r)"

text \<open>The service of \<^verbatim>\<open>LoggingOptions\<close>, the logger it resolves to, and \<open>quiet\<close>; the line is \<open>None\<close> below the level.\<close>

record logging_options =
  lg_ServiceName :: string
  lg_Logger :: log_handler
  lg_Quiet :: "(web_request \<Rightarrow> int \<Rightarrow> bool) option"

definition request_attrs :: "string \<Rightarrow> string \<Rightarrow> web_request \<Rightarrow> recorder \<Rightarrow> attrs" where
  "request_attrs service took r rc = [(''service'', service), (''method'', wq_Method r), (''route'', Route r),
     (''path'', wq_Path r), (''status'', itoa (rc_status rc)), (''bytes'', itoa (rc_written rc)),
     (''duration'', took), (''client_ip'', ClientIP r)]"

definition request_level :: "logging_options \<Rightarrow> web_request \<Rightarrow> int \<Rightarrow> int" where
  "request_level opts r status =
     (let quiet = (case lg_Quiet opts of Some q \<Rightarrow> q | None \<Rightarrow> QuietSuccessfulProbes)
      in if quiet r status then LevelDebug else LevelInfo)"

definition RequestLoggingWith :: "logging_options \<Rightarrow> string \<Rightarrow> (string \<times> int) option \<Rightarrow> string \<Rightarrow> web_request \<Rightarrow>
    write_op list \<Rightarrow> string option" where
  "RequestLoggingWith opts now src took r ops =
     (let rc = rec_run ops; level = request_level opts r (rc_status rc)
      in if \<not> log_enabled (lg_Logger opts) level then None
         else Some (Handle (lg_Logger opts) \<lparr>lr_Level = level, lr_Time = now, lr_Source = src,
                lr_Message = ''http request'', lr_Attrs = request_attrs (lg_ServiceName opts) took r rc\<rparr>))"

definition RequestLogging :: "log_handler \<Rightarrow> string \<Rightarrow> string \<Rightarrow> (string \<times> int) option \<Rightarrow> string \<Rightarrow> web_request \<Rightarrow>
    write_op list \<Rightarrow> string option" where
  "RequestLogging logger serviceName = RequestLoggingWith \<lparr>lg_ServiceName = serviceName, lg_Logger = logger, lg_Quiet = None\<rparr>"

section \<open>Metrics\<close>

text \<open>
  The changes of the series around a handler: the gauge goes up, the request is observed when the handler
  returns, and the deferred function brings the gauge down even when it panics.
\<close>

datatype metric = InFlight string int | Observed string string string int

definition ObserveRequest :: "string \<Rightarrow> string \<Rightarrow> string \<Rightarrow> int \<Rightarrow> metric list" where
  "ObserveRequest service verb route status = [Observed service verb route status]"

definition TrackInFlight :: "string \<Rightarrow> metric list \<times> metric list" where
  "TrackInFlight service = ([InFlight service 1], [InFlight service (-1)])"

definition Metrics :: "string \<Rightarrow> web_request \<Rightarrow> write_op list outcome \<Rightarrow> metric list" where
  "Metrics service r handler =
     (if wq_Path r = MetricsPath then []
      else let (up, done') = TrackInFlight service
           in up @ (case handler of
                Ret ops \<Rightarrow> ObserveRequest service (wq_Method r) (Route r) (rc_status (rec_run ops)) @ done'
              | Panic _ \<Rightarrow> done'
              | Block \<Rightarrow> []))"

end
