(* ===== verification/Service_App.thy ===== *)
theory Service_App
  imports Service_Health Service_Logging Pg_Cluster Secrets_Remote Amqp_Config
begin

text \<open>
  The service runtime (\<^verbatim>\<open>app/app.go\<close>) over the components it wires, and the goroutine manager it runs on
  (\<^verbatim>\<open>lifecycle/manager.go\<close>). A service starts in a \<open>boot\<close>: its environment, what the secret store answers,
  and what dialling the databases and brokers gives. \<open>'w\<close> is the world the service's own checks look at.
\<close>

section \<open>Options\<close>

record 'w app_options =
  op_wantDB :: bool
  op_migrate :: "(nat option \<Rightarrow> string option) option"
  op_wantPub :: bool
  op_pubOptional :: bool
  op_wantSub :: bool
  op_subOptional :: bool
  op_wantAudit :: bool
  op_auditOptional :: bool
  op_extraChecks :: "('w \<Rightarrow> check) list"

datatype 'w app_option =
  WithDatabase
| WithMigration "(nat option \<Rightarrow> string option) option"
| WithEventPublisher
| WithOptionalEventPublisher
| WithEventSubscriber
| WithOptionalEventSubscriber
| WithAudit
| WithOptionalAudit
| WithHealthCheck "'w \<Rightarrow> check"

definition zero_options :: "'w app_options" where
  "zero_options = \<lparr>op_wantDB = False, op_migrate = None, op_wantPub = False, op_pubOptional = False,
     op_wantSub = False, op_subOptional = False, op_wantAudit = False, op_auditOptional = False, op_extraChecks = []\<rparr>"

fun apply_option :: "'w app_option \<Rightarrow> 'w app_options \<Rightarrow> 'w app_options" where
  "apply_option WithDatabase os = os\<lparr>op_wantDB := True\<rparr>"
| "apply_option (WithMigration f) os = os\<lparr>op_wantDB := True, op_migrate := f\<rparr>"
| "apply_option WithEventPublisher os = os\<lparr>op_wantPub := True\<rparr>"
| "apply_option WithOptionalEventPublisher os = os\<lparr>op_wantPub := True, op_pubOptional := True\<rparr>"
| "apply_option WithEventSubscriber os = os\<lparr>op_wantSub := True\<rparr>"
| "apply_option WithOptionalEventSubscriber os = os\<lparr>op_wantSub := True, op_subOptional := True\<rparr>"
| "apply_option WithAudit os = os\<lparr>op_wantAudit := True\<rparr>"
| "apply_option WithOptionalAudit os = os\<lparr>op_wantAudit := True, op_auditOptional := True\<rparr>"
| "apply_option (WithHealthCheck ck) os = os\<lparr>op_extraChecks := op_extraChecks os @ [ck]\<rparr>"

definition app_options_of :: "'w app_option list \<Rightarrow> 'w app_options" where
  "app_options_of opts = fold apply_option opts zero_options"

definition messagingAllOptional :: "'w app_options \<Rightarrow> bool" where
  "messagingAllOptional os =
     (if op_wantPub os \<and> \<not> op_pubOptional os then False
      else if op_wantSub os \<and> \<not> op_subOptional os then False
      else \<not> op_wantAudit os \<or> op_auditOptional os)"

section \<open>Wiring\<close>

record boot =
  bo_env :: environ
  bo_secret :: "(sec_error, string) result option"
  bo_build :: build_info
  bo_now :: instant
  bo_pg :: "pg_dial list"
  bo_exchange :: string
  bo_pub :: "amqp_dial list"
  bo_pub_declare :: "nat \<Rightarrow> string option"
  bo_sub :: "amqp_dial list"
  bo_audit :: "amqp_dial list"
  bo_audit_declare :: "nat \<Rightarrow> string option"

text \<open>
  What an app can own. \<open>ap_closers\<close> are the resources whose closing function was recorded, in that order;
  \<open>ap_closed\<close> those whose function has run. The health checker holds the writer pool and the publisher
  themselves, so it is the two flags saying whether they were handed to it.
\<close>

datatype resource = DatabaseCluster | EventPublisher | EventSubscriber | AuditPublisher

record 'w app =
  ap_Name :: string
  ap_Port :: string
  ap_Signing :: "signature_config option"
  ap_DBManager :: "pg_cluster option"
  ap_RabbitNodes :: "string list"
  ap_EventPub :: "cluster_publisher option"
  ap_EventSub :: "cluster_subscriber option"
  ap_Audit :: "cluster_publisher option"
  ap_Health :: health_deps
  ap_healthDB :: bool
  ap_healthPub :: bool
  ap_pubRequired :: bool
  ap_extraChecks :: "('w \<Rightarrow> check) list"
  ap_sqlDB :: "nat option"
  ap_closers :: "resource list"
  ap_closed :: "resource list"

definition setupDatabase :: "boot \<Rightarrow> string \<Rightarrow> (nat option \<Rightarrow> string option) option \<Rightarrow> 'w app \<Rightarrow>
    (string option \<times> 'w app) outcome" where
  "setupDatabase b name migrate a =
     (case pg_LoadConfigFromEnv (bo_env b) name of
        Inl err \<Rightarrow> Ret (Some (''failed to load database cluster configuration: '' @ err), a)
      | Inr dbConfig \<Rightarrow>
          bind_outcome (pg_NewClusterManager (bo_pg b) dbConfig) (\<lambda>r. case r of
            Inl err \<Rightarrow> Ret (Some (''failed to create database cluster manager: '' @ err), a)
          | Inr manager \<Rightarrow>
              (let (w, manager') = pg_Writer (bo_now b) manager;
                   a1 = a\<lparr>ap_DBManager := Some manager', ap_closers := ap_closers a @ [DatabaseCluster]\<rparr>
               in bind_outcome w (\<lambda>r. case r of
                    Inl err \<Rightarrow> Ret (Some (''failed to get writer database: '' @ err), a1)
                  | Inr sqlDB \<Rightarrow>
                      (let a2 = a1\<lparr>ap_sqlDB := sqlDB, ap_healthDB := True\<rparr>
                       in Ret (case migrate of
                            None \<Rightarrow> (None, a2)
                          | Some f \<Rightarrow> (map_option (\<lambda>err. ''failed to migrate database: '' @ err) (f sqlDB), a2)))))))"

definition setup_publisher :: "boot \<Rightarrow> string \<Rightarrow> string list \<Rightarrow> 'w app_options \<Rightarrow> 'w app \<Rightarrow> (string option \<times> 'w app) outcome" where
  "setup_publisher b name nodes os a =
     (if \<not> op_wantPub os then Ret (None, a)
      else bind_outcome (NewClusterPublisher (bo_now b) (bo_pub b) (bo_pub_declare b) (bo_exchange b) nodes name (ap_Signing a))
        (\<lambda>r. Ret (case r of
           Inl err \<Rightarrow> (if op_pubOptional os then None
             else Some (''failed to initialize cluster event publisher: '' @ err), a)
         | Inr pub \<Rightarrow> (None, a\<lparr>ap_EventPub := Some pub, ap_healthPub := True,
             ap_closers := ap_closers a @ [EventPublisher]\<rparr>))))"

definition setup_subscriber :: "boot \<Rightarrow> string \<Rightarrow> string list \<Rightarrow> 'w app_options \<Rightarrow> 'w app \<Rightarrow> (string option \<times> 'w app) outcome" where
  "setup_subscriber b name nodes os a =
     (if \<not> op_wantSub os then Ret (None, a)
      else bind_outcome (NewClusterSubscriber (bo_now b) (bo_sub b) (bo_exchange b) nodes name (ap_Signing a))
        (\<lambda>r. Ret (case r of
           Inl err \<Rightarrow> (if op_subOptional os then None
             else Some (''failed to initialize cluster event subscriber: '' @ err), a)
         | Inr sub \<Rightarrow> (None, a\<lparr>ap_EventSub := Some sub, ap_closers := ap_closers a @ [EventSubscriber]\<rparr>))))"

text \<open>\<^verbatim>\<open>audit.NewClusterAuditClient\<close> makes a publisher of its own.\<close>

definition NewClusterAuditClient :: "boot \<Rightarrow> string list \<Rightarrow> string \<Rightarrow> signature_config option \<Rightarrow>
    (string, cluster_publisher) result outcome" where
  "NewClusterAuditClient b nodes serviceName signing =
     bind_outcome (NewClusterPublisher (bo_now b) (bo_audit b) (bo_audit_declare b) (bo_exchange b) nodes serviceName signing)
       (\<lambda>r. Ret (case r of Inl err \<Rightarrow> Inl (''failed to create cluster event publisher: '' @ err) | Inr pub \<Rightarrow> Inr pub))"

definition setup_audit :: "boot \<Rightarrow> string \<Rightarrow> string list \<Rightarrow> 'w app_options \<Rightarrow> 'w app \<Rightarrow> (string option \<times> 'w app) outcome" where
  "setup_audit b name nodes os a =
     (if \<not> op_wantAudit os then Ret (None, a)
      else bind_outcome (NewClusterAuditClient b nodes name (ap_Signing a))
        (\<lambda>r. Ret (case r of
           Inl err \<Rightarrow> (if op_auditOptional os then None
             else Some (''failed to initialize audit client: '' @ err), a)
         | Inr client \<Rightarrow> (None, a\<lparr>ap_Audit := Some client\<rparr>))))"

text \<open>One step after another, the first error ending the sequence.\<close>

definition and_then :: "(string option \<times> 'w app) outcome \<Rightarrow> ('w app \<Rightarrow> (string option \<times> 'w app) outcome) \<Rightarrow>
    (string option \<times> 'w app) outcome" where
  "and_then x f = bind_outcome x (\<lambda>(err, a). case err of Some e \<Rightarrow> Ret (Some e, a) | None \<Rightarrow> f a)"

definition setupMessaging :: "boot \<Rightarrow> string \<Rightarrow> 'w app_options \<Rightarrow> 'w app \<Rightarrow> (string option \<times> 'w app) outcome" where
  "setupMessaging b name os a =
     (case amqp_LoadConfigFromEnv (bo_env b) name of
        Inl err \<Rightarrow> Ret (if messagingAllOptional os then None
          else Some (''failed to load RabbitMQ cluster configuration: '' @ err), a)
      | Inr cfg \<Rightarrow>
          (let nodes = ac_Nodes cfg
           in and_then (and_then (setup_publisher b name nodes os (a\<lparr>ap_RabbitNodes := nodes\<rparr>))
                (setup_subscriber b name nodes os)) (setup_audit b name nodes os)))"

definition app_Close :: "'w app \<Rightarrow> 'w app" where
  "app_Close a = a\<lparr>ap_closed := ap_closed a @ rev (ap_closers a), ap_closers := []\<rparr>"

definition close_on_error :: "(string option \<times> 'w app) outcome \<Rightarrow> (string option \<times> 'w app) outcome" where
  "close_on_error x = bind_outcome x (\<lambda>(err, a). Ret (err, if err = None then a else app_Close a))"

definition app_start :: "boot \<Rightarrow> string \<Rightarrow> 'w app_options \<Rightarrow> 'w app" where
  "app_start b name os = \<lparr>ap_Name = name,
     ap_Port = env_String (bo_env b) ''PORT'' (env_String (bo_env b) ''SERVICE_PORT'' ''8080''),
     ap_Signing = None, ap_DBManager = None, ap_RabbitNodes = [], ap_EventPub = None, ap_EventSub = None,
     ap_Audit = None, ap_Health = NewHealthChecker (bo_build b) (bo_now b) name, ap_healthDB = False, ap_healthPub = False,
     ap_pubRequired = (op_wantPub os \<and> \<not> op_pubOptional os), ap_extraChecks = op_extraChecks os, ap_sqlDB = None,
     ap_closers = [], ap_closed = []\<rparr>"

text \<open>\<^verbatim>\<open>New\<close>: the error, and the app; with an error the caller gets nil, and the app is what is left behind.\<close>

definition app_New :: "boot \<Rightarrow> string \<Rightarrow> 'w app_option list \<Rightarrow> (string option \<times> 'w app) outcome" where
  "app_New b name opts =
     (let os = app_options_of opts; a = app_start b name os
      in case LoadSignatureConfig (bo_env b) (bo_secret b) of
           Inl err \<Rightarrow> Ret (Some (''failed to load event signing key: '' @ err), a)
         | Inr signing \<Rightarrow>
             and_then
               (if op_wantDB os then close_on_error (setupDatabase b name (op_migrate os) (a\<lparr>ap_Signing := Some signing\<rparr>))
                else Ret (None, a\<lparr>ap_Signing := Some signing\<rparr>))
               (\<lambda>a1. if op_wantPub os \<or> op_wantSub os \<or> op_wantAudit os
                  then close_on_error (setupMessaging b name os a1) else Ret (None, a1)))"

section \<open>Reports\<close>

text \<open>The answers of the checks of \<^verbatim>\<open>HealthCheckers\<close> and \<^verbatim>\<open>ReadinessCheckers\<close>, run in order; \<open>ping\<close> pings a pool.\<close>

definition database_check :: "(nat \<Rightarrow> string option) \<Rightarrow> 'w app \<Rightarrow> check list" where
  "database_check ping a = (case ap_sqlDB a of
     None \<Rightarrow> [] | Some db \<Rightarrow> [DatabaseHealthChecker ''postgresql'' (ping db)])"

definition event_bus_check :: "cluster_publisher option \<Rightarrow> check list outcome" where
  "event_bus_check pub = (case pub of
     None \<Rightarrow> Ret []
   | Some cp \<Rightarrow> bind_outcome (cp_TestConnection cp) (\<lambda>err. Ret [EventBusHealthChecker ''rabbitmq'' err]))"

definition HealthCheckers :: "(nat \<Rightarrow> string option) \<Rightarrow> 'w \<Rightarrow> 'w app \<Rightarrow> check list outcome" where
  "HealthCheckers ping w a = bind_outcome (event_bus_check (ap_EventPub a)) (\<lambda>bus.
     Ret (database_check ping a @ bus @ map (\<lambda>ck. ck w) (ap_extraChecks a)))"

definition ReadinessCheckers :: "(nat \<Rightarrow> string option) \<Rightarrow> 'w app \<Rightarrow> check list outcome" where
  "ReadinessCheckers ping a =
     bind_outcome (event_bus_check (if ap_pubRequired a then ap_EventPub a else None)) (\<lambda>bus.
       Ret (database_check ping a @ bus))"

definition app_DetailedHealth :: "instant \<Rightarrow> string \<Rightarrow> (string \<rightharpoonup> goany) \<Rightarrow> (nat \<Rightarrow> string option) \<Rightarrow> 'w app \<Rightarrow>
    (int \<times> service_health) outcome" where
  "app_DetailedHealth now stamp runtime ping a =
     DetailedHealthHandler now stamp runtime ((ap_Health a)\<lparr>
       hd_db := (if ap_healthDB a then map_option ping (ap_sqlDB a) else None),
       hd_rabbitPublisher := (if ap_healthPub a then ap_EventPub a else None)\<rparr>)"

section \<open>Serving\<close>

text \<open>
  \<^verbatim>\<open>http.ServeMux\<close> on the patterns the runtime registers. A path is cleaned, except for \<^verbatim>\<open>CONNECT\<close>, and a
  request for another spelling is redirected; \<^verbatim>\<open>GET\<close> patterns also take \<^verbatim>\<open>HEAD\<close>; a pattern ending in a slash
  takes the paths below it and redirects its own name without the slash. Paths are taken without escaped
  slashes or dots.
\<close>

fun clean_parts :: "string list \<Rightarrow> string list \<Rightarrow> string list" where
  "clean_parts acc [] = rev acc"
| "clean_parts acc (p # ps) =
     (if p = [] \<or> p = ''.'' then clean_parts acc ps
      else if p = ''..'' then clean_parts (tl acc) ps
      else clean_parts (p # acc) ps)"

definition cleanPath :: "string \<Rightarrow> string" where
  "cleanPath p =
     (if p = [] then ''/''
      else let q = (if hd p = CHR ''/'' then p else CHR ''/'' # p);
               np = CHR ''/'' # strJoin (clean_parts [] (strSplit q ''/'')) ''/''
           in if last q = CHR ''/'' \<and> np \<noteq> ''/'' then np @ ''/'' else np)"

datatype route = ToHealth | ToReady | ToMetrics | ToPprof | ToRoutes | RedirectTo string

definition mux_route :: "bool \<Rightarrow> string \<Rightarrow> string \<Rightarrow> route" where
  "mux_route profiling verb path =
     (let p = (if verb = ''CONNECT'' then path else cleanPath path); get = (verb = ''GET'' \<or> verb = ''HEAD'')
      in if profiling \<and> p @ ''/'' = debug_Prefix then RedirectTo (p @ ''/'')
         else if p \<noteq> path then RedirectTo p
         else if get \<and> p = ''/health'' then ToHealth
         else if get \<and> p = ''/ready'' then ToReady
         else if get \<and> p = MetricsPath then ToMetrics
         else if profiling \<and> hasPrefix p debug_Prefix then ToPprof
         else ToRoutes)"

text \<open>What a request meets: clock, random draws, timings, the handlers of Prometheus and pprof, the world.\<close>

record 'w serving =
  sv_now :: instant
  sv_start :: instant
  sv_draw :: "nat \<Rightarrow> string option"
  sv_took :: "nat \<Rightarrow> string"
  sv_time :: string
  sv_source :: "(string \<times> int) option"
  sv_logger :: log_handler
  sv_ping :: "nat \<Rightarrow> string option"
  sv_world :: 'w
  sv_prometheus :: web_handler
  sv_pprof :: web_handler
  sv_size :: "json_body \<Rightarrow> nat"

definition timed :: "(nat \<Rightarrow> string) \<Rightarrow> check list \<Rightarrow> (check \<times> string) list" where
  "timed took cs = map (\<lambda>(i, c). (c, took i)) (enumerate 0 cs)"

definition app_mux :: "'w serving \<Rightarrow> bool \<Rightarrow> 'w app \<Rightarrow> web_handler \<Rightarrow> web_request \<Rightarrow> web_response outcome" where
  "app_mux s profiling a routes r =
     (case mux_route profiling (wq_Method r) (wq_Path r) of
        ToHealth \<Rightarrow> bind_outcome (HealthCheckers (sv_ping s) (sv_world s) a) (\<lambda>cs.
          Ret (HealthHandler (ap_Name a) (sv_start s) (sv_now s) (timed (sv_took s) cs)))
      | ToReady \<Rightarrow> bind_outcome (ReadinessCheckers (sv_ping s) a) (\<lambda>cs.
          Ret (ReadinessHandler (ap_Name a) (sv_now s) (timed (sv_took s) cs)))
      | ToMetrics \<Rightarrow> Ret (sv_prometheus s r)
      | ToPprof \<Rightarrow> (let resp = sv_pprof s r
          in Ret (resp\<lparr>wp_Headers := header_set (''X-Debug-Mode'', ''enabled'') Map.empty ++ wp_Headers resp\<rparr>))
      | ToRoutes \<Rightarrow> Ret (routes r)
      | RedirectTo p \<Rightarrow> Ret \<lparr>wp_Status = 301, wp_Headers = header_set (''Location'', p) Map.empty, wp_Body = RawBody []\<rparr>)"

text \<open>The response, the access log line and the changes of the metrics.\<close>

record served =
  se_response :: web_response
  se_log :: "string option"
  se_metrics :: "metric list"

definition app_Handler :: "'w serving \<Rightarrow> bool \<Rightarrow> 'w app \<Rightarrow> web_handler \<Rightarrow> web_request \<Rightarrow> served outcome" where
  "app_Handler s profiling a routes r =
     (case Tracing (sv_now s) (sv_draw s) r of
        Reply resp \<Rightarrow> Ret \<lparr>se_response = resp, se_log = None, se_metrics = []\<rparr>
      | Next r' hs \<Rightarrow>
          bind_outcome (app_mux s profiling a routes r') (\<lambda>resp.
            let ops = [WriteHeader (wp_Status resp), Write (sv_size s (wp_Body resp))]
            in Ret \<lparr>se_response = resp\<lparr>wp_Headers := header_set_all hs Map.empty ++ wp_Headers resp\<rparr>,
                 se_log = RequestLogging (sv_logger s) (ap_Name a) (sv_time s) (sv_source s) (sv_took s 0) r' ops,
                 se_metrics = Metrics (ap_Name a) r' (Ret ops)\<rparr>))"

section \<open>Goroutines and shutdown\<close>

text \<open>\<^verbatim>\<open>tomb.Tomb\<close> is an argument; a goroutine handed to it is named by what it returns.\<close>

record 't tomb_lib =
  tb_Go :: "string option outcome \<Rightarrow> 't \<Rightarrow> 't"
  tb_Kill :: "string option \<Rightarrow> 't \<Rightarrow> 't"
  tb_Wait :: "'t \<Rightarrow> string option outcome"

record 't manager =
  mg_tomb :: 't
  mg_started :: bool

definition NewManager :: "'t \<Rightarrow> 't manager" where
  "NewManager t = \<lparr>mg_tomb = t, mg_started = False\<rparr>"

definition manager_Go :: "'t tomb_lib \<Rightarrow> string option outcome \<Rightarrow> 't manager \<Rightarrow> 't manager" where
  "manager_Go lib f m = m\<lparr>mg_started := True, mg_tomb := tb_Go lib f (mg_tomb m)\<rparr>"

definition manager_Kill :: "'t tomb_lib \<Rightarrow> string option \<Rightarrow> 't manager \<Rightarrow> 't manager" where
  "manager_Kill lib reason m = m\<lparr>mg_tomb := tb_Kill lib reason (mg_tomb m)\<rparr>"

definition manager_Wait :: "'t tomb_lib \<Rightarrow> 't manager \<Rightarrow> string option outcome" where
  "manager_Wait lib m = (if \<not> mg_started m then Ret None else tb_Wait lib (mg_tomb m))"

text \<open>\<open>listening\<close> is what \<^verbatim>\<open>ListenAndServe\<close> returns.\<close>

definition StartHTTPServer :: "'t tomb_lib \<Rightarrow> string option outcome \<Rightarrow> 't manager \<Rightarrow> 't manager" where
  "StartHTTPServer lib listening m =
     manager_Go lib (bind_outcome listening (\<lambda>err. Ret (if err = Some ''http: Server closed'' then None else err))) m"

text \<open>The task loop over what its \<^verbatim>\<open>select\<close> takes: a tick with the task's error, or the dying tomb.\<close>

datatype task_event = Tick "string option" | Dying

fun runPeriodicTask :: "task_event list \<Rightarrow> nat \<Rightarrow> nat \<times> string option option" where
  "runPeriodicTask [] calls = (calls, None)"
| "runPeriodicTask (Dying # evs) calls = (calls, Some None)"
| "runPeriodicTask (Tick err # evs) calls = runPeriodicTask evs (Suc calls)"

text \<open>Shutdown: what was done, in order, with the errors that are only logged.\<close>

datatype shutdown_step = Killed | ServerShutdown "string option" | CleanedUp nat "string option" | Waited "string option"

definition WaitForShutdownSignal :: "'t tomb_lib \<Rightarrow> bool \<Rightarrow> string option option \<Rightarrow> string option list \<Rightarrow> 't manager \<Rightarrow>
    shutdown_step list outcome" where
  "WaitForShutdownSignal lib signalled server cleanups m =
     (if \<not> signalled then Block
      else bind_outcome (manager_Wait lib (manager_Kill lib None m)) (\<lambda>err.
        Ret ([Killed] @ (case server of None \<Rightarrow> [] | Some e \<Rightarrow> [ServerShutdown e])
             @ map (\<lambda>(i, e). CleanedUp i e) (enumerate 0 cleanups) @ [Waited err])))"

definition app_Run :: "'t tomb_lib \<Rightarrow> string option outcome \<Rightarrow> bool \<Rightarrow> string option \<Rightarrow> string option list \<Rightarrow> 't manager \<Rightarrow>
    shutdown_step list outcome" where
  "app_Run lib listening signalled shutdown cleanups m =
     WaitForShutdownSignal lib signalled (Some shutdown) cleanups (StartHTTPServer lib listening m)"

end
