(* ===== verification/Serving_Theorems.thy ===== *)
theory Serving_Theorems
  imports Service_App
begin

text \<open>
  Properties of what a service answers, logs and counts: the operational endpoints and the profiling switch,
  the recorded status, access log lines, and the in-flight gauge.
\<close>

section \<open>Levels\<close>

lemma char_case [simp]: "char_upper (char_lower c) = char_upper c" "char_lower (char_upper c) = char_lower c"
  by (auto simp: char_upper_def char_lower_def is_upper_def is_lower_def)

lemma string_case [simp]: "toUpper (toLower s) = toUpper s" "toLower (toUpper s) = toLower s"
  by (simp_all add: toUpper_def toLower_def comp_def)

lemma equalFold_upper: "equalFold a b \<longleftrightarrow> toUpper a = toUpper b"
  unfolding equalFold_def by (metis string_case)

text \<open>The two readers of \<^verbatim>\<open>LOG_LEVEL\<close> agree.\<close>

lemma debug_level_iff: "debug_Enabled e \<longleftrightarrow> LevelFromEnv e = LevelDebug"
proof -
  have "toUpper ''debug'' = ''DEBUG''" by code_simp
  then show ?thesis
    by (auto simp: debug_Enabled_def LevelFromEnv_def equalFold_upper Let_def LevelDebug_def LevelInfo_def LevelWarn_def LevelError_def)
qed

section \<open>Dispatch\<close>

text \<open>A service's routes see exactly the requests the runtime does not answer itself, health, readiness, metrics,
  profiling and redirects to clean paths; on those its answer is that of the routes behind the tracing middleware.\<close>

theorem app_Handler_dispatch:
  "if mux_route profiling (wq_Method r) (wq_Path r) = ToRoutes
   then \<exists>sv. app_Handler s profiling a routes r = Ret sv
      \<and> se_response sv = serve (Tracing (sv_now s) (sv_draw s)) routes r
   else \<forall>routes'. app_Handler s profiling a routes' r = app_Handler s profiling a routes r"
  by (auto simp: app_Handler_def app_mux_def Tracing_def WithContext_def serve_def Let_def split: route.split)

text \<open>Which requests these are.\<close>

lemma operational_routes:
  "verb = ''GET'' \<or> verb = ''HEAD'' \<Longrightarrow> mux_route p verb ''/health'' = ToHealth"
  "verb = ''GET'' \<or> verb = ''HEAD'' \<Longrightarrow> mux_route p verb ''/ready'' = ToReady"
  "verb = ''GET'' \<or> verb = ''HEAD'' \<Longrightarrow> mux_route p verb ''/metrics'' = ToMetrics"
  "verb \<noteq> ''GET'' \<Longrightarrow> verb \<noteq> ''HEAD'' \<Longrightarrow> mux_route p verb ''/health'' = ToRoutes"
proof -
  have c: "cleanPath ''/health'' = ''/health''" "cleanPath ''/ready'' = ''/ready''" "cleanPath ''/metrics'' = ''/metrics''"
    by code_simp+
  have d: "\<not> hasPrefix ''/health'' debug_Prefix" "debug_Prefix \<noteq> ''/health/''" "debug_Prefix \<noteq> ''/ready/''" "debug_Prefix \<noteq> ''/metrics/''"
    by code_simp+
  show "verb = ''GET'' \<or> verb = ''HEAD'' \<Longrightarrow> mux_route p verb ''/health'' = ToHealth"
    "verb = ''GET'' \<or> verb = ''HEAD'' \<Longrightarrow> mux_route p verb ''/ready'' = ToReady"
    "verb = ''GET'' \<or> verb = ''HEAD'' \<Longrightarrow> mux_route p verb ''/metrics'' = ToMetrics"
    "verb \<noteq> ''GET'' \<Longrightarrow> verb \<noteq> ''HEAD'' \<Longrightarrow> mux_route p verb ''/health'' = ToRoutes"
    using d by (auto simp: mux_route_def Let_def c MetricsPath_def)
qed

text \<open>The profiling handler is out of reach of every request unless \<^verbatim>\<open>LOG_LEVEL\<close> sets the debug level.\<close>

theorem profiling_only_at_debug:
  assumes "LevelFromEnv e \<noteq> LevelDebug"
  shows "app_Handler (s\<lparr>sv_pprof := h\<rparr>) (debug_Enabled e) a routes r = app_Handler s (debug_Enabled e) a routes r"
proof -
  have "\<not> debug_Enabled e" using assms debug_level_iff by blast
  moreover have "mux_route False verb path \<noteq> ToPprof" for verb path by (simp add: mux_route_def Let_def)
  ultimately show ?thesis
    by (auto simp: app_Handler_def app_mux_def Tracing_def WithContext_def Let_def split: route.split)
qed

definition demo_serving :: "unit serving" where
  "demo_serving = \<lparr>sv_now = 0, sv_start = 0, sv_draw = (\<lambda>_. None), sv_took = (\<lambda>_. ''1s''), sv_time = ''t'', sv_source = None,
     sv_logger = \<lparr>lh_Service = ''orders'', lh_Level = LevelInfo, lh_Colors = False, lh_attrs = []\<rparr>,
     sv_ping = (\<lambda>_. None), sv_world = (), sv_prometheus = (\<lambda>_. WriteJSON 200 (RawBody [])),
     sv_pprof = (\<lambda>_. WriteJSON 200 (RawBody ''profile'')), sv_size = (\<lambda>_. 0)\<rparr>"

definition demo_request :: "string \<Rightarrow> web_request" where
  "demo_request path = \<lparr>wq_Method = ''GET'', wq_Path = path, wq_Headers = Map.empty, wq_Query = (\<lambda>_. []),
     wq_RemoteAddr = ''10.0.0.1:7'', wq_Context = Background\<rparr>"

theorem profiling_only_at_debug_witness:
  "\<forall>a routes r h. app_Handler (demo_serving\<lparr>sv_pprof := h\<rparr>) (debug_Enabled [''LOG_LEVEL'' \<mapsto> ''trace'']) a routes r =
     app_Handler demo_serving (debug_Enabled [''LOG_LEVEL'' \<mapsto> ''trace'']) a routes r"
proof -
  have "LevelFromEnv [''LOG_LEVEL'' \<mapsto> ''trace''] \<noteq> LevelDebug" by code_simp
  from profiling_only_at_debug [OF this] show ?thesis by blast
qed

section \<open>The recorded status\<close>

text \<open>
  A handler that writes its header at most once, after informational ones and before the body, and the body
  after a header or without one.
\<close>

definition info_op :: "write_op \<Rightarrow> bool" where
  "info_op x = (case x of WriteHeader st \<Rightarrow> informational st | Write n \<Rightarrow> False)"

definition body_op :: "write_op \<Rightarrow> bool" where
  "body_op x = (case x of WriteHeader st \<Rightarrow> False | Write n \<Rightarrow> True)"

definition header_once :: "write_op list \<Rightarrow> bool" where
  "header_once ops = (case dropWhile info_op ops of
     WriteHeader st # rest \<Rightarrow> list_all body_op rest
   | _ \<Rightarrow> list_all body_op ops)"

lemma rec_body: "list_all body_op ops \<Longrightarrow> rc_status (fold rec_op ops rc) = rc_status rc"
  by (induction ops arbitrary: rc) (auto simp: body_op_def split: write_op.splits)

lemma sent_body: "list_all body_op ops \<Longrightarrow> sent_status ops = 200"
  by (cases ops rule: sent_status.cases) (auto simp: body_op_def)

lemma recorded_after_info:
  "dropWhile info_op ops = WriteHeader st # rest \<Longrightarrow> list_all body_op rest \<Longrightarrow>
     rc_status (fold rec_op ops rc) = st \<and> sent_status ops = st"
proof (induction ops arbitrary: rc)
  case (Cons x ops)
  then show ?case by (cases x) (auto simp: info_op_def rec_body split: if_splits)
qed simp

text \<open>For a handler that writes its header at most once the recorded status, which the log and the metrics
  show, is the status that is sent, and the recorded size the number of bytes written.\<close>

theorem recorded_status_sent:
  assumes "header_once ops"
  shows "rc_status (rec_run ops) = sent_status ops \<and> rc_written (rec_run ops) = (\<Sum>x\<leftarrow>ops. case x of Write n \<Rightarrow> int n | _ \<Rightarrow> 0)"
proof
  show "rc_status (rec_run ops) = sent_status ops"
  proof (cases "\<exists>st rest. dropWhile info_op ops = WriteHeader st # rest")
    case True
    then show ?thesis using assms recorded_after_info by (fastforce simp: header_once_def rec_run_def)
  next
    case False
    then have "list_all body_op ops"
      using assms by (auto simp: header_once_def split: list.splits write_op.splits)
    then show ?thesis by (simp add: rec_run_def rec_body sent_body newRecorder_def)
  qed
  have "rc_written (fold rec_op ops rc) = rc_written rc + (\<Sum>x\<leftarrow>ops. case x of Write n \<Rightarrow> int n | _ \<Rightarrow> 0)" for rc
    by (induction ops arbitrary: rc) (auto split: write_op.split)
  then show "rc_written (rec_run ops) = (\<Sum>x\<leftarrow>ops. case x of Write n \<Rightarrow> int n | _ \<Rightarrow> 0)"
    by (simp add: rec_run_def newRecorder_def)
qed

theorem recorded_status_sent_witness:
  "header_once [WriteHeader 103, WriteHeader 404, Write 9]
   \<and> rc_status (rec_run [WriteHeader 103, WriteHeader 404, Write 9]) = 404"
proof -
  have "header_once [WriteHeader 103, WriteHeader 404, Write 9]"
    by (simp add: header_once_def info_op_def informational_def body_op_def)
  with recorded_status_sent [OF this] show ?thesis by (simp add: informational_def)
qed

text \<open>A handler that writes a body and then an error status is recorded as failing although 200 was sent, and one that
  sends only early hints before its body is recorded with their status.\<close>

lemma recorded_status_differs:
  "rc_status (rec_run [Write n, WriteHeader 500]) = 500 \<and> sent_status [Write n, WriteHeader 500] = 200"
  "rc_status (rec_run [WriteHeader 103, Write n]) = 103 \<and> sent_status [WriteHeader 103, Write n] = 200"
  by (simp_all add: rec_run_def newRecorder_def informational_def)

section \<open>Access logs\<close>

text \<open>A client can put any line into the access log: a path that decodes to a line break, any handler's line and
  the rest makes the log contain that line, because the handler writes attribute values as they are.\<close>

theorem access_log_forgeable:
  assumes "wq_Path r = p @ newline @ Handle h' forged @ q"
    and "RequestLogging h service now src took r ops = Some out"
  shows "\<exists>before after. out = before @ newline @ Handle h' forged @ after"
proof -
  let ?rec = "\<lparr>lr_Level = request_level \<lparr>lg_ServiceName = service, lg_Logger = h, lg_Quiet = None\<rparr> r (rc_status (rec_run ops)),
     lr_Time = now, lr_Source = src, lr_Message = ''http request'', lr_Attrs = request_attrs service took r (rec_run ops)\<rparr>"
  have out: "out = Handle h ?rec"
    using assms(2) by (simp add: RequestLogging_def RequestLoggingWith_def Let_def split: if_splits)
  have mem: "(''path'', wq_Path r) \<in> set (lh_attrs h @ request_attrs service took r (rec_run ops))"
    by (simp add: request_attrs_def)
  have join: "\<exists>x y. strJoin vs sep = x @ v @ y" if "v \<in> set vs" for v :: string and vs sep
    using that
  proof (induction vs sep rule: strJoin.induct)
    case (3 w w' vs sep)
    show ?case
    proof (cases "v = w")
      case True
      then have "strJoin (w # w' # vs) sep = [] @ v @ sep @ strJoin (w' # vs) sep" by simp
      then show ?thesis by blast
    next
      case False
      with 3 obtain x y where "strJoin (w' # vs) sep = x @ v @ y" by auto
      then have "strJoin (w # w' # vs) sep = (w @ sep @ x) @ v @ y" by simp
      then show ?thesis by blast
    qed
  qed (auto intro: exI [of _ "[]"])
  obtain x y where "log_fields (lh_attrs h @ lr_Attrs ?rec) = x @ (''path'' @ ''='' @ wq_Path r) @ y"
  proof -
    let ?as = "lh_attrs h @ request_attrs service took r (rec_run ops)"
    have "''path'' @ ''='' @ wq_Path r \<in> set (map (\<lambda>(k, v). k @ ''='' @ v) ?as)"
      using mem by (force simp: image_iff)
    from join [OF this, of "'' ''"] obtain x y where
      "strJoin (map (\<lambda>(k, v). k @ ''='' @ v) ?as) '' '' = x @ (''path'' @ ''='' @ wq_Path r) @ y" by blast
    moreover have "?as \<noteq> []" by (simp add: request_attrs_def)
    ultimately have "log_fields (lh_attrs h @ lr_Attrs ?rec) = ('' | '' @ x) @ (''path'' @ ''='' @ wq_Path r) @ y"
      by (simp add: log_fields_def)
    then show ?thesis by (rule that)
  qed
  then have "out = (log_prefix h ?rec @ ''http request'' @ x @ ''path='' @ p) @ newline @ Handle h' forged @ (q @ y @ newline)"
    by (simp add: out Handle_def [of h] assms(1))
  then show ?thesis by blast
qed

lemma demo_log: "\<exists>out. RequestLogging (sv_logger demo_serving) ''orders'' ''t'' None ''1s'' (demo_request path) [] = Some out"
  if "\<not> IsOperationalPath path"
  using that by (simp add: RequestLogging_def RequestLoggingWith_def Let_def rec_run_def newRecorder_def request_level_def
      QuietSuccessfulProbes_def demo_request_def log_enabled_def demo_serving_def)

theorem access_log_forgeable_witness:
  "\<exists>out before after. RequestLogging (sv_logger demo_serving) ''orders'' ''t'' None ''1s''
       (demo_request (''/x'' @ newline @ Handle (sv_logger demo_serving) \<lparr>lr_Level = LevelError, lr_Time = ''t'', lr_Source = None,
          lr_Message = ''forged'', lr_Attrs = []\<rparr> @ [])) [] = Some out
     \<and> out = before @ newline @ Handle (sv_logger demo_serving) \<lparr>lr_Level = LevelError, lr_Time = ''t'', lr_Source = None,
          lr_Message = ''forged'', lr_Attrs = []\<rparr> @ after"
proof -
  let ?line = "Handle (sv_logger demo_serving) \<lparr>lr_Level = LevelError, lr_Time = ''t'', lr_Source = None,
          lr_Message = ''forged'', lr_Attrs = []\<rparr>"
  let ?path = "''/x'' @ newline @ ?line @ []"
  have "\<not> IsOperationalPath ?path"
    by (simp add: IsOperationalPath_def MetricsPath_def debug_Prefix_def newline_def)
  from demo_log [OF this] obtain out where
    out: "RequestLogging (sv_logger demo_serving) ''orders'' ''t'' None ''1s'' (demo_request ?path) [] = Some out" by blast
  have "wq_Path (demo_request ?path) = ''/x'' @ newline @ ?line @ []" by (simp add: demo_request_def)
  from access_log_forgeable [OF this out] out show ?thesis by blast
qed

section \<open>Probes and metrics\<close>

lemma mux_probe: "mux_route profiling verb path \<in> {ToHealth, ToReady} \<Longrightarrow> path = ''/health'' \<or> path = ''/ready''"
  by (auto simp: mux_route_def Let_def split: if_splits)

lemma probe_codes:
  "wp_Status (HealthHandler name start now cs) \<in> {200, 503}" "wp_Status (ReadinessHandler name now cs) \<in> {200, 503}"
  by (simp_all add: HealthHandler_def ReadinessHandler_def WriteJSON_def healthStatusCode_def Let_def split_beta)

text \<open>At the info level a health or readiness probe leaves a line in the access log exactly when it fails.\<close>

theorem probe_logged_iff_failing:
  assumes "mux_route profiling (wq_Method r) (wq_Path r) \<in> {ToHealth, ToReady}"
    and "lh_Level (sv_logger s) = LevelInfo" and "app_Handler s profiling a routes r = Ret sv"
  shows "se_log sv = None \<longleftrightarrow> wp_Status (se_response sv) = 200"
proof -
  have path: "IsOperationalPath (wq_Path r)"
    using mux_probe [OF assms(1)] by (auto simp: IsOperationalPath_def)
  obtain r' hs where t: "Tracing (sv_now s) (sv_draw s) r = Next r' hs" "wq_Path r' = wq_Path r" "wq_Method r' = wq_Method r"
    by (simp add: Tracing_def WithContext_def Let_def)
  then obtain resp where resp: "app_mux s profiling a routes r' = Ret resp"
    and sv: "wp_Status (se_response sv) = wp_Status resp"
    "se_log sv = RequestLogging (sv_logger s) (ap_Name a) (sv_time s) (sv_source s) (sv_took s 0) r'
        [WriteHeader (wp_Status resp), Write (sv_size s (wp_Body resp))]"
    using assms(3) by (auto simp: app_Handler_def bind_outcome_Ret_iff Let_def)
  consider "mux_route profiling (wq_Method r') (wq_Path r') = ToHealth" | "mux_route profiling (wq_Method r') (wq_Path r') = ToReady"
    using assms(1) t by auto
  then have "wp_Status resp \<in> {200, 503}"
  proof cases
    case 1
    with resp show ?thesis using probe_codes(1) by (force simp: app_mux_def bind_outcome_Ret_iff simp del: insert_iff)
  next
    case 2
    with resp show ?thesis using probe_codes(2) by (force simp: app_mux_def bind_outcome_Ret_iff simp del: insert_iff)
  qed
  then show ?thesis
    using path assms(2) unfolding sv
    by (auto simp: RequestLogging_def RequestLoggingWith_def request_level_def QuietSuccessfulProbes_def Let_def t
        rec_run_def newRecorder_def log_enabled_def LevelInfo_def LevelDebug_def)
qed

text \<open>The gauge of requests in flight returns to where it was whatever the handler does, unless it never ends.\<close>

fun gauge :: "metric \<Rightarrow> int" where
  "gauge (InFlight _ d) = d"
| "gauge (Observed _ _ _ _) = 0"

lemma in_flight_balanced: "handler \<noteq> Block \<Longrightarrow> (\<Sum>m\<leftarrow>Metrics service r handler. gauge m) = 0"
  by (cases handler) (simp_all add: Metrics_def TrackInFlight_def ObserveRequest_def)

text \<open>A group is an attribute of its own, not a prefix of later keys.\<close>

lemma group_is_attribute:
  "lh_attrs (WithAttrs [(k, v)] (WithGroup g h)) = lh_attrs h @ [(''group'', g), (k, v)]"
  by (simp add: WithAttrs_def WithGroup_def)

section \<open>Goroutines and shutdown\<close>

text \<open>A manager that started nothing does not wait for its tomb, and one that started something does.\<close>

lemma manager_Wait_unstarted: "manager_Wait lib (manager_Kill lib reason (NewManager t)) = Ret None"
  by (simp add: manager_Wait_def manager_Kill_def NewManager_def)

lemma manager_Wait_started: "manager_Wait lib (manager_Go lib f m) = tb_Wait lib (tb_Go lib f (mg_tomb m))"
  by (simp add: manager_Wait_def manager_Go_def)

text \<open>A server that fails to listen does not end \<^verbatim>\<open>Run\<close>: without a signal it waits on.\<close>

lemma run_ignores_server_failure: "app_Run lib (Ret (Some err)) False shutdown cleanups m = Block"
  by (simp add: app_Run_def WaitForShutdownSignal_def)

text \<open>A periodic task runs once per tick until the tomb is dying, whatever the errors of the task.\<close>

lemma periodic_task_survives_errors:
  "runPeriodicTask (map Tick errs @ Dying # evs) n = (n + length errs, Some None)"
  by (induction errs arbitrary: n) simp_all

end
