(* ===== verification/Cluster_Tasks.thy ===== *)
theory Cluster_Tasks
  imports Pg_Monitor Amqp_Events Redis_Cluster
begin

text \<open>
  Background work of the clusters: the task managers of \<^verbatim>\<open>pgcluster/tomb.go\<close>, \<^verbatim>\<open>amqpcluster/tomb.go\<close> and
  \<^verbatim>\<open>rediscluster/tomb.go\<close>, which differ in their log lines only, and the tasks the clusters start on them. The
  goroutines interleave, so a manager is a step relation: a step is one goroutine moving, or a caller starting
  or stopping work.
\<close>

section \<open>Tasks\<close>

text \<open>
  What the packages start: health monitoring over a number of nodes, writer detection, and the subscriber loop.
  A task is in its \<^verbatim>\<open>select\<close>, inside the work of one round, waiting for the context after a failed round, stuck in a
  round that never returns, or over.
\<close>

datatype task_kind = Monitor nat | Detector | SubscriberLoop

datatype phase = Selecting | Working | Waiting | Hung | Over

text \<open>Writer detection works once before its loop.\<close>

definition first_phase :: "task_kind \<Rightarrow> phase" where
  "first_phase k = (case k of Detector \<Rightarrow> Working | _ \<Rightarrow> Selecting)"

text \<open>
  \<open>task_step k cancelled ph ph' n\<close>: the task moves, starting \<open>n\<close> check goroutines. A ticker that has fired and
  a context that is done are both ready, and \<^verbatim>\<open>select\<close> takes either; the subscriber loop looks at the context
  first. A panic in the work ends the task, because it is recovered outside the loop.
\<close>

inductive task_step :: "task_kind \<Rightarrow> bool \<Rightarrow> phase \<Rightarrow> phase \<Rightarrow> nat \<Rightarrow> bool" where
  tick_monitor: "task_step (Monitor n) c Selecting Selecting n"
| tick_detector: "task_step Detector c Selecting Working 0"
| subscribe: "task_step SubscriberLoop False Selecting Working 0"
| cancelled: "task_step k True Selecting Over 0"
| round_done: "task_step k c Working Selecting 0"
| round_failed: "task_step SubscriberLoop c Working Waiting 0"
| waited: "task_step k True Waiting Over 0"
| panicked: "task_step k c Working Over 0"
| stuck: "task_step k c Working Hung 0"

inductive_simps task_step_simps [simp]:
  "task_step k c Over ph n" "task_step k c Hung ph n" "task_step k False Waiting ph n"

section \<open>The manager\<close>

text \<open>
  The context's state, the wait group, the tasks started so far, and the check goroutines still running, which
  are in no wait group. \<open>closing\<close> is where a call of \<^verbatim>\<open>Shutdown\<close> is.
\<close>

datatype closing = NotClosing | ShuttingDown | Stopped

record tomb =
  tm_cancelled :: bool
  tm_wg :: nat
  tm_tasks :: "(task_kind \<times> phase) list"
  tm_checks :: nat
  tm_closing :: closing

definition NewTombManager :: tomb where
  "NewTombManager = \<lparr>tm_cancelled = False, tm_wg = 0, tm_tasks = [], tm_checks = 0, tm_closing = NotClosing\<rparr>"

definition StartBackgroundTask :: "task_kind \<Rightarrow> tomb \<Rightarrow> tomb" where
  "StartBackgroundTask k t = t\<lparr>tm_wg := tm_wg t + 1, tm_tasks := tm_tasks t @ [(k, first_phase k)]\<rparr>"

definition run_task :: "nat \<Rightarrow> phase \<Rightarrow> nat \<Rightarrow> tomb \<Rightarrow> tomb" where
  "run_task i ph n t = t\<lparr>tm_tasks := (tm_tasks t)[i := (fst (tm_tasks t ! i), ph)],
     tm_wg := (if ph = Over then tm_wg t - 1 else tm_wg t), tm_checks := tm_checks t + n\<rparr>"

definition tomb_cancel :: "tomb \<Rightarrow> tomb" where
  "tomb_cancel t = t\<lparr>tm_cancelled := True, tm_closing := ShuttingDown\<rparr>"

definition IsShuttingDown :: "tomb \<Rightarrow> bool" where
  "IsShuttingDown t = tm_cancelled t"

text \<open>
  \<^verbatim>\<open>Shutdown\<close> is two steps, the cancellation and the return of \<^verbatim>\<open>wg.Wait\<close>; \<^verbatim>\<open>ForceHealthCheck\<close> starts check
  goroutines without a task.
\<close>

inductive tomb_step :: "tomb \<Rightarrow> tomb \<Rightarrow> bool" where
  start: "tomb_step t (StartBackgroundTask k t)"
| run: "i < length (tm_tasks t) \<Longrightarrow> tm_tasks t ! i = (k, ph) \<Longrightarrow> task_step k (tm_cancelled t) ph ph' n \<Longrightarrow>
    tomb_step t (run_task i ph' n t)"
| forced: "tomb_step t (t\<lparr>tm_checks := tm_checks t + n\<rparr>)"
| check_done: "0 < tm_checks t \<Longrightarrow> tomb_step t (t\<lparr>tm_checks := tm_checks t - 1\<rparr>)"
| shutdown: "tm_closing t = NotClosing \<Longrightarrow> tomb_step t (tomb_cancel t)"
| stopped: "tm_closing t = ShuttingDown \<Longrightarrow> tm_wg t = 0 \<Longrightarrow> tomb_step t (t\<lparr>tm_closing := Stopped\<rparr>)"

definition tomb_reachable :: "tomb \<Rightarrow> bool" where
  "tomb_reachable t \<longleftrightarrow> tomb_step\<^sup>*\<^sup>* NewTombManager t"

text \<open>What the three clusters start when they are created.\<close>

definition pg_startHealthMonitoring :: "pg_cluster \<Rightarrow> tomb \<Rightarrow> tomb" where
  "pg_startHealthMonitoring c = StartBackgroundTask (Monitor (length (cm_nodes c)))"

definition pg_startWriterDetection :: "pg_cluster \<Rightarrow> tomb \<Rightarrow> tomb" where
  "pg_startWriterDetection c t =
     (if pc_WriterDetectionStrategy (cm_config c) = StrategyConfig then t else StartBackgroundTask Detector t)"

definition amqp_startHealthMonitoring :: "amqp_adapter \<Rightarrow> tomb \<Rightarrow> tomb" where
  "amqp_startHealthMonitoring a = StartBackgroundTask (Monitor (length (aa_nodes a)))"

definition redis_startHealthMonitoring :: "redis_adapter \<Rightarrow> tomb \<Rightarrow> tomb" where
  "redis_startHealthMonitoring a = StartBackgroundTask (Monitor (length (ra_nodes a)))"

definition amqp_StartEventSubscriber :: "tomb \<Rightarrow> tomb" where
  "amqp_StartEventSubscriber = StartBackgroundTask SubscriberLoop"

section \<open>The wait group counts the tasks\<close>

definition live_tasks :: "tomb \<Rightarrow> nat" where
  "live_tasks t = length (filter (\<lambda>(k, ph). ph \<noteq> Over) (tm_tasks t))"

definition tomb_ok :: "tomb \<Rightarrow> bool" where
  "tomb_ok t \<longleftrightarrow> tm_wg t = live_tasks t \<and> (tm_closing t = NotClosing \<longleftrightarrow> \<not> tm_cancelled t)"

lemma filter_update:
  "i < length xs \<Longrightarrow> length (filter P (xs[i := y])) + (if P (xs ! i) then 1 else 0)
     = length (filter P xs) + (if P y then 1 else 0)"
proof (induction xs arbitrary: i)
  case (Cons x xs)
  then show ?case by (cases i) auto
qed simp

lemma live_run:
  assumes "i < length (tm_tasks t)" "tm_tasks t ! i = (k, ph)" "ph \<noteq> Over"
  shows "live_tasks (run_task i ph' n t) = (if ph' = Over then live_tasks t - 1 else live_tasks t)"
  using filter_update [OF assms(1), of "\<lambda>(k, ph). ph \<noteq> Over" "(k, ph')"] assms(2,3)
  by (auto simp: live_tasks_def run_task_def split: if_splits)

lemma tomb_step_ok: "tomb_step t t' \<Longrightarrow> tomb_ok t \<Longrightarrow> tomb_ok t'"
proof (induction rule: tomb_step.induct)
  case (run i t k ph ph' n)
  then have "ph \<noteq> Over" by auto
  with run show ?case using live_run [of i t k ph ph' n]
    by (auto simp: tomb_ok_def run_task_def)
qed (auto simp: tomb_ok_def StartBackgroundTask_def live_tasks_def first_phase_def tomb_cancel_def split: task_kind.split)

interpretation tasks: preserved tomb_step tomb_ok
  by unfold_locales (rule tomb_step_ok)

lemma new_tomb_ok: "tomb_ok NewTombManager"
  by (simp add: tomb_ok_def NewTombManager_def live_tasks_def)

lemma tomb_reachable_ok: "tomb_reachable t \<Longrightarrow> tomb_ok t"
  using tasks.good_steps new_tomb_ok by (auto simp: tomb_reachable_def)

end
