(* ===== verification/Cluster_Shutdown.thy ===== *)
theory Cluster_Shutdown
  imports Cluster_Tasks Pg_Theorems Amqp_Theorems Redis_Theorems
begin

text \<open>
  What stopping a cluster guarantees: when \<^verbatim>\<open>Shutdown\<close> can return and what still runs when it has, and that a
  node whose mutex is held for ever keeps \<^verbatim>\<open>Close\<close> from returning. The latter is one contract, a locale, of the
  three cluster packages.
\<close>

section \<open>When Shutdown returns\<close>

definition all_over :: "tomb \<Rightarrow> bool" where
  "all_over t \<longleftrightarrow> (\<forall>(k, ph) \<in> set (tm_tasks t). ph = Over)"

definition hung :: "tomb \<Rightarrow> bool" where
  "hung t \<longleftrightarrow> Hung \<in> snd ` set (tm_tasks t)"

lemma live_none: "live_tasks t = 0 \<longleftrightarrow> all_over t"
  by (auto simp: live_tasks_def all_over_def filter_empty_conv)

lemma hung_live: "hung t \<Longrightarrow> 0 < live_tasks t"
  by (auto simp: live_tasks_def hung_def filter_empty_conv)

lemma hung_step: "tomb_step t t' \<Longrightarrow> hung t \<Longrightarrow> hung t'"
proof (induction rule: tomb_step.induct)
  case (run i t k ph ph' n)
  obtain k' where k': "(k', Hung) \<in> set (tm_tasks t)" using run(4) by (auto simp: hung_def)
  then obtain j where j: "j < length (tm_tasks t)" "tm_tasks t ! j = (k', Hung)" by (metis in_set_conv_nth)
  have "j \<noteq> i" using run j by auto
  then have "(k', Hung) \<in> set (tm_tasks (run_task i ph' n t))"
    using j by (auto simp: run_task_def in_set_conv_nth intro!: exI [of _ j])
  then show ?case by (force simp: hung_def)
qed (auto simp: hung_def StartBackgroundTask_def tomb_cancel_def)

text \<open>A manager that waits for a hung task.\<close>

definition waiting_hung :: "tomb \<Rightarrow> bool" where
  "waiting_hung t \<longleftrightarrow> tomb_ok t \<and> hung t \<and> tm_closing t \<noteq> Stopped"

interpretation hanging: preserved tomb_step waiting_hung
proof
  fix t t' assume s: "tomb_step t t'" and t: "waiting_hung t"
  then have wg: "0 < tm_wg t" using hung_live by (simp add: waiting_hung_def tomb_ok_def)
  have "tm_closing t' \<noteq> Stopped" using s t wg
    by (cases rule: tomb_step.cases) (auto simp: waiting_hung_def StartBackgroundTask_def run_task_def tomb_cancel_def)
  then show "waiting_hung t'" using t tomb_step_ok [OF s] hung_step [OF s] by (simp add: waiting_hung_def)
qed

text \<open>One task that has not hung can be over two moves after the cancellation.\<close>

lemma run_to_over:
  assumes "tm_cancelled t" and "i < length (tm_tasks t)" and "tm_tasks t ! i = (k, ph)" and "ph \<noteq> Hung"
    and "ph \<noteq> Over"
  shows "tomb_step t (run_task i Over 0 t)"
proof -
  have "task_step k (tm_cancelled t) ph Over 0"
    using assms(1,4,5) by (cases ph) (auto intro: task_step.intros)
  then show ?thesis by (rule tomb_step.run [OF assms(2,3)])
qed

text \<open>The moves that end tasks, and the manager they are made in.\<close>

definition ending :: "tomb \<Rightarrow> tomb \<Rightarrow> bool" where
  "ending t t' \<longleftrightarrow> (\<exists>i<length (tm_tasks t). snd (tm_tasks t ! i) \<notin> {Hung, Over} \<and> t' = run_task i Over 0 t)"

definition can_end :: "tomb \<Rightarrow> bool" where
  "can_end t \<longleftrightarrow> tomb_ok t \<and> tm_cancelled t \<and> \<not> hung t \<and> tm_closing t = ShuttingDown"

lemma ending_step: "ending t t' \<Longrightarrow> can_end t \<Longrightarrow> tomb_step t t'"
  unfolding ending_def can_end_def by (metis insertCI run_to_over surj_pair snd_conv)

interpretation endings: draining ending can_end live_tasks
proof
  fix t t' assume e: "ending t t'" and t: "can_end t"
  then obtain i where i: "i < length (tm_tasks t)" "snd (tm_tasks t ! i) \<notin> {Hung, Over}" "t' = run_task i Over 0 t"
    by (auto simp: ending_def)
  have n: "tm_tasks t ! i = (fst (tm_tasks t ! i), snd (tm_tasks t ! i))" by simp
  have "tm_tasks t ! i \<in> set (filter (\<lambda>(k, ph). ph \<noteq> Over) (tm_tasks t))" using i by (auto simp: in_set_conv_nth)
  then have "0 < live_tasks t" unfolding live_tasks_def by (metis length_greater_0_conv length_pos_if_in_set)
  then show "live_tasks t' < live_tasks t" using live_run [OF i(1) n, of Over 0] i(2,3) by simp
  show "can_end t'" using t tomb_step_ok [OF ending_step [OF e t]] i(3)
    by (auto simp: can_end_def hung_def run_task_def dest!: subsetD [OF set_update_subset_insert])
qed

lemma all_can_end:
  assumes "can_end t"
  shows "\<exists>t'. tomb_step\<^sup>*\<^sup>* t t' \<and> tm_closing t' = Stopped"
proof -
  obtain u where u: "ending\<^sup>*\<^sup>* t u" "can_end u" "\<nexists>v. ending u v" using endings.comes_to_rest [OF assms] by blast
  have "tomb_step\<^sup>*\<^sup>* t u \<and> can_end u" using u(1)
  proof (induction rule: rtranclp_induct)
    case (step v w)
    then show ?case using ending_step [OF step(2)] endings.good_step [OF step(2)]
      by (meson rtranclp.rtrancl_into_rtrancl)
  qed (simp add: assms)
  moreover have "all_over u"
    using u(2,3) by (fastforce simp: all_over_def ending_def can_end_def hung_def in_set_conv_nth image_iff)
  then have "tomb_step u (u\<lparr>tm_closing := Stopped\<rparr>)"
    using u(2) by (intro tomb_step.stopped) (auto simp: can_end_def tomb_ok_def live_none)
  ultimately have "tomb_step\<^sup>*\<^sup>* t (u\<lparr>tm_closing := Stopped\<rparr>)" by (meson rtranclp.rtrancl_into_rtrancl)
  then show ?thesis by (intro exI [of _ "u\<lparr>tm_closing := Stopped\<rparr>"]) simp
qed

text \<open>C28: A shutdown under way can return exactly when no task is stuck in its work; a single stuck round keeps
  \<^verbatim>\<open>Shutdown\<close>, and with it the cluster's \<^verbatim>\<open>Close\<close>, waiting for ever.\<close>

theorem shutdown_returns_iff:
  assumes "tomb_reachable t" and "tm_closing t = ShuttingDown"
  shows "(\<exists>t'. tomb_step\<^sup>*\<^sup>* t t' \<and> tm_closing t' = Stopped) \<longleftrightarrow> Hung \<notin> snd ` set (tm_tasks t)"
proof -
  have ok: "tomb_ok t" by (rule tomb_reachable_ok [OF assms(1)])
  then have c: "tm_cancelled t" using assms(2) by (simp add: tomb_ok_def)
  have "tm_closing t' \<noteq> Stopped" if "hung t" "tomb_step\<^sup>*\<^sup>* t t'" for t'
    using hanging.good_steps [OF that(2)] that(1) ok assms(2) by (simp add: waiting_hung_def)
  moreover have "\<exists>t'. tomb_step\<^sup>*\<^sup>* t t' \<and> tm_closing t' = Stopped" if "\<not> hung t"
    using all_can_end [of t] that ok c assms(2) by (simp add: can_end_def)
  ultimately show ?thesis unfolding hung_def by blast
qed

text \<open>When \<^verbatim>\<open>Shutdown\<close> returns, every task started on the manager is over: nothing it counts still runs.\<close>

theorem shutdown_waits_for_tasks:
  assumes "tomb_reachable t" and "tomb_step t t'" and "tm_closing t \<noteq> Stopped" and "tm_closing t' = Stopped"
    and "(k, ph) \<in> set (tm_tasks t')"
  shows "ph = Over"
proof -
  have ok: "tomb_ok t" by (rule tomb_reachable_ok [OF assms(1)])
  from assms(2-4) have "tm_wg t = 0 \<and> t' = t\<lparr>tm_closing := Stopped\<rparr>"
    by (cases rule: tomb_step.cases) (auto simp: StartBackgroundTask_def run_task_def tomb_cancel_def)
  then have "all_over t'" using ok by (simp add: tomb_ok_def live_none all_over_def)
  then show ?thesis using assms(5) by (auto simp: all_over_def)
qed

section \<open>What outlives it\<close>

abbreviation monitored :: "nat \<Rightarrow> nat \<Rightarrow> phase \<Rightarrow> closing \<Rightarrow> tomb" where
  "monitored n checks ph cl \<equiv> \<lparr>tm_cancelled = (cl \<noteq> NotClosing), tm_wg = (if ph = Over then 0 else 1),
     tm_tasks = [(Monitor n, ph)], tm_checks = checks, tm_closing = cl\<rparr>"

lemma monitored_start: "StartBackgroundTask (Monitor n) NewTombManager = monitored n 0 Selecting NotClosing"
  by (simp add: StartBackgroundTask_def NewTombManager_def first_phase_def)

lemma monitored_tick: "tomb_step (monitored n c Selecting NotClosing) (monitored n (c + n) Selecting NotClosing)"
  using tomb_step.run [of 0 "monitored n c Selecting NotClosing" "Monitor n" Selecting Selecting n]
  by (simp add: run_task_def tick_monitor)

lemma monitored_rounds:
  "tomb_step\<^sup>*\<^sup>* (monitored n 0 Selecting NotClosing) (monitored n (r * n) Selecting NotClosing)"
proof (induction r)
  case (Suc r)
  then show ?case using monitored_tick [of n "r * n"] by (simp add: add.commute)
qed simp

lemma monitored_stops: "tomb_step\<^sup>*\<^sup>* (monitored n c Selecting NotClosing) (monitored n c Over Stopped)"
proof -
  have "tomb_step (monitored n c Selecting NotClosing) (monitored n c Selecting ShuttingDown)"
    using tomb_step.shutdown [of "monitored n c Selecting NotClosing"] by (simp add: tomb_cancel_def)
  moreover have "tomb_step (monitored n c Selecting ShuttingDown) (monitored n c Over ShuttingDown)"
    using tomb_step.run [of 0 "monitored n c Selecting ShuttingDown" "Monitor n" Selecting Over 0]
    by (simp add: run_task_def cancelled)
  moreover have "tomb_step (monitored n c Over ShuttingDown) (monitored n c Over Stopped)"
    using tomb_step.stopped [of "monitored n c Over ShuttingDown"] by simp
  ultimately show ?thesis by (meson converse_rtranclp_into_rtranclp rtranclp.rtrancl_refl)
qed

text \<open>Health checks are in no wait group: after \<open>r\<close> monitoring rounds of a Postgres cluster, \<^verbatim>\<open>Shutdown\<close> can return
  while all the check goroutines they started, one per node and round, still run, and \<^verbatim>\<open>Close\<close> goes on to close the
  pools they use.\<close>

theorem shutdown_leaves_checks:
  "\<exists>t. tomb_step\<^sup>*\<^sup>* (pg_startHealthMonitoring c NewTombManager) t \<and> tm_closing t = Stopped
     \<and> tm_checks t = r * length (cm_nodes c)"
proof -
  let ?n = "length (cm_nodes c)"
  have "tomb_step\<^sup>*\<^sup>* (pg_startHealthMonitoring c NewTombManager) (monitored ?n (r * ?n) Over Stopped)"
    using rtranclp_trans [OF monitored_rounds monitored_stops]
    by (simp add: pg_startHealthMonitoring_def monitored_start)
  then show ?thesis by (intro exI [of _ "monitored ?n (r * ?n) Over Stopped"]) simp
qed

section \<open>Writer detection at a dead node\<close>

text \<open>A round of writer detection, as the phase it leaves the detector's task in.\<close>

definition pg_detection_round :: "pg_detection_env \<Rightarrow> pg_cluster \<Rightarrow> phase" where
  "pg_detection_round env c =
     (case fst (pg_detectWriter env c) of Ret _ \<Rightarrow> Selecting | Panic _ \<Rightarrow> Over | Block \<Rightarrow> Hung)"

lemma pg_assign_blocks:
  "n \<in> set ns \<Longrightarrow> nd_locked n \<Longrightarrow> pg_extractIPFromURL (nd_URL n) \<noteq> [] \<Longrightarrow> fst (pg_assign_writer ip ns) = Block"
  by (induction ns) (auto simp: Let_def split_beta)

lemma pg_round_hangs:
  assumes "n \<in> set (cm_nodes c)" and "nd_locked n" and "pg_extractIPFromURL (nd_URL n) \<noteq> []"
    and "pc_WriterDetectionStrategy (cm_config c) = StrategyDNS" and "pc_WriterDNSName (cm_config c) \<noteq> []"
    and "de_lookup env = Inr (ip # ips)"
  shows "pg_detection_round env c = Hung"
  using pg_assign_blocks [OF assms(1-3), of ip] assms(4-6)
  by (simp add: pg_detection_round_def pg_detectWriter_def pg_detectWriterByDNS_def pg_updateWriterByIP_def split_beta)

text \<open>The check \<open>p\<close> of node \<open>i\<close> that deadlocks: the node has failed, and was last checked ten seconds ago.\<close>

definition pg_dead_check :: "pg_probe \<Rightarrow> nat \<Rightarrow> pg_cluster \<Rightarrow> bool" where
  "pg_dead_check p i c \<longleftrightarrow> pg_reachable c \<and> i < length (cm_nodes c) \<and> nd_Health (cm_nodes c ! i) = HealthFailed
     \<and> \<not> nd_locked (cm_nodes c ! i) \<and> 10 * second \<le> pr_now p - nd_lastCheck (cm_nodes c ! i)"

definition pg_after_check :: "pg_probe \<Rightarrow> nat \<Rightarrow> pg_cluster \<Rightarrow> pg_cluster" where
  "pg_after_check p i c = pg_set_node i (\<lambda>n. snd (pg_checkNodeHealth (cm_config c) p n)) c"

lemma pg_dead_check_locks:
  assumes "pg_dead_check p i c" and "pg_step\<^sup>*\<^sup>* (pg_after_check p i c) c'"
  shows "i < length (cm_nodes c') \<and> nd_locked (cm_nodes c' ! i) \<and> nd_URL (cm_nodes c' ! i) = nd_URL (cm_nodes c ! i)
    \<and> cm_config c' = cm_config c"
proof -
  let ?n = "cm_nodes c ! i"
  note d = assms(1) [unfolded pg_dead_check_def]
  have "pg_node_ok ?n" using pg_reachable_ok d by (simp add: list_all_length)
  then have "nd_sqlDB ?n = None" using d by (simp add: pg_node_ok_def)
  then have ch: "nd_locked (snd (pg_checkNodeHealth (cm_config c) p ?n))"
    "nd_URL (snd (pg_checkNodeHealth (cm_config c) p ?n)) = nd_URL ?n"
    using pg_check_no_pool [of ?n p] d by simp_all
  have "cm_config c' = cm_config (pg_after_check p i c)"
    using pg_moves_steps [OF assms(2)] by (simp add: pg_moves_def)
  then show ?thesis
    using pg_moves_nth [OF pg_moves_steps [OF assms(2)], of i] ch d
    by (auto simp: pg_evolves_def pg_after_check_def pg_set_node_def)
qed

text \<open>A round of writer detection by DNS that runs after the check of a failed node has deadlocked hangs, and from
  then on \<^verbatim>\<open>Shutdown\<close>, the first thing \<^verbatim>\<open>Close\<close> calls, never returns, whatever tasks start, run or stop.\<close>

theorem pg_dead_node_hangs_shutdown:
  assumes "tomb_reachable t" and "tm_closing t \<noteq> Stopped"
    and "j < length (tm_tasks t)" and "tm_tasks t ! j = (Detector, Working)"
    and "pg_dead_check p i c" and "pg_step\<^sup>*\<^sup>* (pg_after_check p i c) c'"
    and "pg_extractIPFromURL (nd_URL (cm_nodes c ! i)) \<noteq> []"
    and "pc_WriterDetectionStrategy (cm_config c) = StrategyDNS" and "pc_WriterDNSName (cm_config c) \<noteq> []"
    and "de_lookup env = Inr (ip # ips)"
    and "tomb_step\<^sup>*\<^sup>* (run_task j (pg_detection_round env c') 0 t) t'"
  shows "tm_closing t' \<noteq> Stopped"
proof -
  note n = pg_dead_check_locks [OF assms(5,6)]
  have h: "pg_detection_round env c' = Hung"
    by (rule pg_round_hangs [of "cm_nodes c' ! i" c' env ip ips]) (use n assms(7-10) in auto)
  let ?t = "run_task j Hung 0 t"
  have "tomb_ok ?t"
    using tomb_reachable_ok [OF assms(1)] tomb_step_ok tomb_step.run [OF assms(3,4) task_step.stuck] by blast
  moreover have "(fst (tm_tasks t ! j), Hung) \<in> set (tm_tasks ?t)"
    using assms(3) by (simp add: run_task_def set_update_memI)
  then have "hung ?t" by (force simp: hung_def)
  moreover have "tm_closing ?t \<noteq> Stopped" using assms(2) by (simp add: run_task_def)
  ultimately show ?thesis using hanging.good_steps assms(11) unfolding h waiting_hung_def by blast
qed

section \<open>Closing a cluster with a dead node\<close>

text \<open>The contract of the three clusters: a mutex that is never released stays held, and \<^verbatim>\<open>Close\<close> takes every mutex.\<close>

locale guarded_nodes = preserved step stuck
  for step :: "'s \<Rightarrow> 's \<Rightarrow> bool" and stuck :: "'s \<Rightarrow> bool" +
  fixes close :: "'c \<Rightarrow> 's \<Rightarrow> 'r outcome"
  assumes close_stuck: "stuck s \<Longrightarrow> close h s = Block"
begin

lemma close_hangs: "step\<^sup>*\<^sup>* s s' \<Longrightarrow> stuck s \<Longrightarrow> close h s' = Block"
  using good_steps close_stuck by blast

end

lemma pg_close_stuck: "list_ex nd_locked ns \<Longrightarrow> pg_close_nodes e ns = Block"
  by (induction ns) auto

lemma redis_close_stuck: "list_ex rn_locked ns \<Longrightarrow> redis_close_nodes e ns = Block"
  by (induction ns) auto

interpretation pg_guard: guarded_nodes pg_step "\<lambda>c. list_ex nd_locked (cm_nodes c)" pg_Close
proof
  show "list_ex nd_locked (cm_nodes c')" if "pg_step c c'" "list_ex nd_locked (cm_nodes c)" for c c'
    using that pg_moves_locked [OF pg_moves_step [OF that(1)]] by (auto simp: list_ex_length)
qed (simp add: pg_Close_def pg_close_stuck)

interpretation amqp_guard: guarded_nodes amqp_step
  "\<lambda>a. list_ex an_locked (aa_nodes a) \<and> length (aa_nodes a) < 2 ^ 32" "\<lambda>(e, cl). amqp_Close e cl"
proof
  fix a a' assume s: "amqp_step a a'" "list_ex an_locked (aa_nodes a) \<and> length (aa_nodes a) < 2 ^ 32"
  then show "list_ex an_locked (aa_nodes a') \<and> length (aa_nodes a') < 2 ^ 32"
    using amqp_moves_locked [OF amqp_moves_step [OF s(1)]] amqp_step_length [OF s(1)] by (auto simp: list_ex_length)
qed (auto simp: amqp_Close_def)

text \<open>A check of a Redis node leaves every other node alone.\<close>

lemma redis_other_node [simp]:
  "j \<noteq> i \<Longrightarrow> ra_nodes (redis_set_node i f a) ! j = ra_nodes a ! j"
  "length (ra_nodes (redis_set_node i f a)) = length (ra_nodes a)"
  by (simp_all add: redis_set_node_def)

lemma redis_updatePrimary_nodes [simp]: "ra_nodes (snd (redis_updatePrimaryClient me a)) = ra_nodes a"
  by (simp add: redis_updatePrimaryClient_def split: outcome.split bool.split)

lemma redis_check_other:
  assumes "j \<noteq> i"
  shows "ra_nodes (snd (redis_checkNodeHealth p i a)) ! j = ra_nodes a ! j
    \<and> length (ra_nodes (snd (redis_checkNodeHealth p i a))) = length (ra_nodes a)"
proof -
  have t: "ra_nodes (snd (case redis_updatePrimaryClient i b of
      (Ret _, a') \<Rightarrow> (Ret (), a') | (Panic m, a') \<Rightarrow> (Panic m, a')
    | (Block, a') \<Rightarrow> (Block, redis_set_node i f a'))) ! j = ra_nodes b ! j
    \<and> length (ra_nodes (snd (case redis_updatePrimaryClient i b of
      (Ret _, a') \<Rightarrow> (Ret (), a') | (Panic m, a') \<Rightarrow> (Panic m, a')
    | (Block, a') \<Rightarrow> (Block, redis_set_node i f a')))) = length (ra_nodes b)" for b f
    using assms redis_updatePrimary_nodes [of i b]
    by (cases "redis_updatePrimaryClient i b"; cases "fst (redis_updatePrimaryClient i b)") simp_all
  have r: "ra_nodes (snd (case redis_connectToNode d n of
      (Ret _, n') \<Rightarrow> (Ret (), redis_set_node i (\<lambda>_. f n') a)
    | (Panic m, n') \<Rightarrow> (Panic m, redis_set_node i (\<lambda>_. f n') a)
    | (Block, n') \<Rightarrow> (Block, redis_set_node i (\<lambda>_. n') a))) ! j = ra_nodes a ! j
    \<and> length (ra_nodes (snd (case redis_connectToNode d n of
      (Ret _, n') \<Rightarrow> (Ret (), redis_set_node i (\<lambda>_. f n') a)
    | (Panic m, n') \<Rightarrow> (Panic m, redis_set_node i (\<lambda>_. f n') a)
    | (Block, n') \<Rightarrow> (Block, redis_set_node i (\<lambda>_. n') a)))) = length (ra_nodes a)" for d n f
    using assms by (cases "redis_connectToNode d n"; cases "fst (redis_connectToNode d n)") simp_all
  show ?thesis
    using assms t r by (simp add: redis_checkNodeHealth_def Let_def split: option.split NodeState.split)
qed

lemma redis_stuck_step:
  assumes "redis_step a b" and "list_ex rn_locked (ra_nodes a) \<and> 0 \<le> rc_MaxRetries (ra_config a)"
  shows "list_ex rn_locked (ra_nodes b) \<and> 0 \<le> rc_MaxRetries (ra_config b)"
proof -
  obtain j where j: "j < length (ra_nodes a)" "rn_locked (ra_nodes a ! j)" using assms(2) by (auto simp: list_ex_length)
  then have l: "\<not> redis_unlocked a" by (auto simp: redis_unlocked_def list_all_length)
  have c: "0 \<le> rc_MaxRetries (ra_config b)" using redis_step_locked [OF assms(1)] l assms(2) by blast
  show ?thesis using assms(1)
  proof (cases rule: redis_step.cases)
    case (check_node i p)
    show ?thesis
    proof (cases "i = j")
      case True
      then show ?thesis using check_node j(2) assms(2) by (simp add: redis_checkNodeHealth_def)
    next
      case False
      then show ?thesis using check_node j c redis_check_other [of j i p a] by (auto simp: list_ex_length)
    qed
  next
    case (mark_failed url)
    then have "b = a \<or> (\<exists>i. b = redis_set_node i (\<lambda>n. n\<lparr>rn_state := NodeFailed\<rparr>) a)"
      by (auto simp: redis_MarkNodeFailed_def split: option.split)
    then show ?thesis
    proof
      assume "\<exists>i. b = redis_set_node i (\<lambda>n. n\<lparr>rn_state := NodeFailed\<rparr>) a"
      then obtain i where "b = redis_set_node i (\<lambda>n. n\<lparr>rn_state := NodeFailed\<rparr>) a" by blast
      then have "rn_locked (ra_nodes b ! j)" "length (ra_nodes b) = length (ra_nodes a)"
        using j by (cases "i = j"; simp add: redis_set_node_def)+
      then show ?thesis using j c by (auto simp: list_ex_length)
    qed (use assms(2) in simp)
  qed (use assms(2) l in \<open>auto simp: redis_locked_execute redis_GetNodeByKey_def redis_select_locked\<close>)
qed

lemma redis_check_keeps_lock:
  assumes "i < length (ra_nodes a)" and "\<not> rn_locked (ra_nodes a ! i)"
    and "10 * second \<le> rp_now p - rn_lastCheck (ra_nodes a ! i)"
    and "rn_client (ra_nodes a ! i) = None \<or> rp_ping p \<noteq> None"
  shows "list_ex rn_locked (ra_nodes (snd (redis_checkNodeHealth p i a)))"
proof -
  have l: "list_ex rn_locked (ra_nodes (redis_set_node i (\<lambda>_. n) a))" if "rn_locked n" for n
    using that assms(1) by (auto simp: redis_set_node_def list_ex_length intro!: exI [of _ i])
  have c: "redis_connectToNode d (n\<lparr>rn_locked := True\<rparr>) = (Block, n\<lparr>rn_locked := True\<rparr>)" for d n
    by (simp add: redis_connectToNode_def)
  show ?thesis
    using assms(2-4) l by (auto simp: redis_checkNodeHealth_def c Let_def split: option.split)
qed

interpretation redis_guard: guarded_nodes redis_step
  "\<lambda>a. list_ex rn_locked (ra_nodes a) \<and> 0 \<le> rc_MaxRetries (ra_config a)" client_Close
proof
  show "list_ex rn_locked (ra_nodes b) \<and> 0 \<le> rc_MaxRetries (ra_config b)"
    if "redis_step a b" "list_ex rn_locked (ra_nodes a) \<and> 0 \<le> rc_MaxRetries (ra_config a)" for a b
    using redis_stuck_step that by blast
qed (simp add: client_Close_def redis_close_stuck)

text \<open>Closing a Postgres cluster whose health check has met a failed node never returns.\<close>

theorem pg_dead_node_hangs_Close:
  assumes "pg_dead_check p i c" and "pg_step\<^sup>*\<^sup>* (pg_after_check p i c) c'"
  shows "pg_Close closeErr c' = Block"
proof (rule pg_guard.close_hangs [OF assms(2)])
  show "list_ex nd_locked (cm_nodes (pg_after_check p i c))"
    using pg_dead_check_locks [OF assms(1) rtranclp.rtrancl_refl] by (auto simp: list_ex_length)
qed

lemma pg_demo_dead: "pg_dead_check pg_demo_probe 1 (pg_demo [pg_demo_writer, pg_demo_down])"
  unfolding pg_dead_check_def using pg_demo_reachable(2)
  by (simp add: pg_demo_simps pg_demo_probe_def zero_time_def)

theorem pg_dead_node_hangs_Close_witness:
  "pg_Close (\<lambda>_. None) (pg_after_check pg_demo_probe 1 (pg_demo [pg_demo_writer, pg_demo_down])) = Block"
  by (rule pg_dead_node_hangs_Close [OF pg_demo_dead rtranclp.rtrancl_refl])

text \<open>Closing a RabbitMQ cluster whose health check has found a connection missing or closed never returns: one
  connection closed by a broker makes the service unable to stop.\<close>

theorem amqp_dead_node_hangs_Close:
  assumes "i < length (aa_nodes a)" and "length (aa_nodes a) < 2 ^ 32"
    and "an_conn (aa_nodes a ! i) = None \<or> ap_closed p" and "\<not> an_locked (aa_nodes a ! i)"
    and "10 * second \<le> ap_now p - an_lastCheck (aa_nodes a ! i)"
    and "amqp_step\<^sup>*\<^sup>* (amqp_set_node i (\<lambda>n. snd (amqp_checkNodeHealth p n)) a) a'"
  shows "amqp_Close closeErr isClosed a' = Block"
proof -
  let ?a = "amqp_set_node i (\<lambda>n. snd (amqp_checkNodeHealth p n)) a"
  have "an_locked (aa_nodes ?a ! i)" using assms(1) amqp_check_deadlock [OF assms(4,5,3)] by (simp add: amqp_set_node_def)
  then have "list_ex an_locked (aa_nodes ?a) \<and> length (aa_nodes ?a) < 2 ^ 32"
    using assms(1,2) by (auto simp: list_ex_length amqp_set_node_def)
  from amqp_guard.close_hangs [OF assms(6) this, of "(closeErr, isClosed)"] show ?thesis by simp
qed

theorem amqp_dead_node_hangs_Close_witness:
  "amqp_Close (\<lambda>_. None) (\<lambda>_. True) (amqp_set_node 1 (\<lambda>n. snd (amqp_checkNodeHealth amqp_demo_probe n)) amqp_demo) = Block"
  by (rule amqp_dead_node_hangs_Close [OF _ _ _ _ _ rtranclp.rtrancl_refl]) (simp_all add: amqp_demo_probe_def)

text \<open>Closing a Redis cluster whose health check has met a node without client, or one that does not answer,
  never returns.\<close>

theorem redis_dead_node_hangs_Close:
  assumes "i < length (ra_nodes a)" and "\<not> rn_locked (ra_nodes a ! i)"
    and "10 * second \<le> rp_now p - rn_lastCheck (ra_nodes a ! i)"
    and "rn_client (ra_nodes a ! i) = None \<or> rp_ping p \<noteq> None"
    and "0 \<le> rc_MaxRetries (ra_config a)"
    and "redis_step\<^sup>*\<^sup>* (snd (redis_checkNodeHealth p i a)) b"
  shows "client_Close closeErr b = Block"
proof (rule redis_guard.close_hangs [OF assms(6)])
  show "list_ex rn_locked (ra_nodes (snd (redis_checkNodeHealth p i a))) \<and>
      0 \<le> rc_MaxRetries (ra_config (snd (redis_checkNodeHealth p i a)))"
    using redis_check_keeps_lock [OF assms(1-4)] assms(5) by (simp add: redis_check_config)
qed

theorem redis_dead_node_hangs_Close_witness:
  "client_Close (\<lambda>_. None) (snd (redis_checkNodeHealth redis_demo_probe 1 (redis_demo ''hash''))) = Block"
proof -
  have "1 < length (ra_nodes (redis_demo ''hash''))" "\<not> rn_locked (ra_nodes (redis_demo ''hash'') ! 1)"
    "10 * second \<le> rp_now redis_demo_probe - rn_lastCheck (ra_nodes (redis_demo ''hash'') ! 1)"
    "rn_client (ra_nodes (redis_demo ''hash'') ! 1) = None \<or> rp_ping redis_demo_probe \<noteq> None"
    "0 \<le> rc_MaxRetries (ra_config (redis_demo ''hash''))"
    by code_simp+
  from redis_dead_node_hangs_Close [OF this rtranclp.rtrancl_refl] show ?thesis .
qed

section \<open>Concrete runs of a manager\<close>

definition detecting :: tomb where
  "detecting = pg_startWriterDetection (pg_demo [pg_demo_writer, pg_demo_down]) NewTombManager"

lemma detecting_eq: "detecting = \<lparr>tm_cancelled = False, tm_wg = 1, tm_tasks = [(Detector, Working)], tm_checks = 0,
    tm_closing = NotClosing\<rparr>"
  by (simp add: detecting_def pg_startWriterDetection_def pg_demo_def pg_setDefaults_def pg_demo_config_def
      StartBackgroundTask_def NewTombManager_def first_phase_def)

lemma detecting_reachable: "tomb_reachable detecting"
  unfolding tomb_reachable_def detecting_eq
  using tomb_step.start [of NewTombManager Detector]
  by (auto simp: StartBackgroundTask_def NewTombManager_def first_phase_def)

lemma detecting_cancelled: "tomb_reachable (tomb_cancel detecting)"
  using detecting_reachable tomb_step.shutdown [of detecting] unfolding tomb_reachable_def detecting_eq
  by (simp add: rtranclp.rtrancl_into_rtrancl)

theorem shutdown_returns_iff_witness: "\<exists>t'. tomb_step\<^sup>*\<^sup>* (tomb_cancel detecting) t' \<and> tm_closing t' = Stopped"
  using shutdown_returns_iff [OF detecting_cancelled] by (simp add: tomb_cancel_def detecting_eq)

definition detector_over :: tomb where
  "detector_over = run_task 0 Over 0 (tomb_cancel detecting)"

lemma detector_over_eq: "detector_over = \<lparr>tm_cancelled = True, tm_wg = 0, tm_tasks = [(Detector, Over)], tm_checks = 0,
    tm_closing = ShuttingDown\<rparr>"
  by (simp add: detector_over_def run_task_def tomb_cancel_def detecting_eq)

theorem shutdown_waits_for_tasks_witness:
  "\<forall>(k, ph) \<in> set (tm_tasks (detector_over\<lparr>tm_closing := Stopped\<rparr>)). ph = Over"
proof -
  have "tomb_step (tomb_cancel detecting) detector_over"
    unfolding detector_over_def
    by (rule tomb_step.run [where k = Detector and ph = Working]) (simp_all add: tomb_cancel_def detecting_eq panicked)
  then have r: "tomb_reachable detector_over"
    using detecting_cancelled unfolding tomb_reachable_def by (simp add: rtranclp.rtrancl_into_rtrancl)
  have s: "tomb_step detector_over (detector_over\<lparr>tm_closing := Stopped\<rparr>)"
    by (rule tomb_step.stopped) (simp_all add: detector_over_eq)
  show ?thesis using shutdown_waits_for_tasks [OF r s] by (auto simp: detector_over_eq)
qed

theorem pg_dead_node_hangs_shutdown_witness:
  "tm_closing (tomb_cancel (run_task 0 (pg_detection_round \<lparr>de_lookup = Inr [''10.0.0.1''], de_answers = \<lambda>_. Inr True,
      de_begins = \<lambda>_. Inr ()\<rparr> (pg_after_check pg_demo_probe 1 (pg_demo [pg_demo_writer, pg_demo_down]))) 0 detecting))
     \<noteq> Stopped"
proof -
  let ?c = "pg_demo [pg_demo_writer, pg_demo_down]"
  let ?e = "\<lparr>de_lookup = Inr [''10.0.0.1''], de_answers = \<lambda>_. Inr True, de_begins = \<lambda>_. Inr ()\<rparr>"
  let ?t = "run_task 0 (pg_detection_round ?e (pg_after_check pg_demo_probe 1 ?c)) 0 detecting"
  have u: "pg_extractIPFromURL (nd_URL (cm_nodes ?c ! 1)) \<noteq> []" by code_simp
  have t: "tm_closing detecting \<noteq> Stopped" "0 < length (tm_tasks detecting)" "tm_tasks detecting ! 0 = (Detector, Working)"
    by (simp_all add: detecting_eq)
  have s: "tomb_step\<^sup>*\<^sup>* ?t (tomb_cancel ?t)"
    by (rule r_into_rtranclp, rule tomb_step.shutdown) (simp add: run_task_def detecting_eq)
  have c: "pc_WriterDetectionStrategy (cm_config ?c) = StrategyDNS" "pc_WriterDNSName (cm_config ?c) \<noteq> []"
    by (simp_all add: pg_demo_def pg_setDefaults_def pg_demo_config_def)
  show ?thesis
    by (rule pg_dead_node_hangs_shutdown [OF detecting_reachable t pg_demo_dead rtranclp.rtrancl_refl u c _ s])
       simp
qed

end
