(* ===== verification/Amqp_Delivery.thy ===== *)
theory Amqp_Delivery
  imports Cluster_Tasks Event_Theorems
begin

text \<open>
  What runs behind a subscription of a RabbitMQ cluster: one goroutine per node that forwards its deliveries
  into a channel of a hundred (\<^verbatim>\<open>Subscribe\<close> of \<^verbatim>\<open>amqpcluster/adapter.go\<close>), the goroutine that takes them out and handles
  them, and \<^verbatim>\<open>Close\<close> (\<^verbatim>\<open>amqpcluster/subscriber.go\<close>). The goroutines interleave, so a subscription is a step relation.
\<close>

section \<open>A subscription\<close>

datatype 'm forwarder = Receiving | Sending 'm | Ended

text \<open>
  A node's side: the deliveries the client library has for the consumer, whether its channel is still open, and the
  forwarding goroutine. \<open>fd_arrived\<close> is the history of what the broker delivered.
\<close>

record 'm feed =
  fd_arrived :: "'m list"
  fd_stream :: "'m list"
  fd_open :: bool
  fd_forwarder :: "'m forwarder"

text \<open>The processing goroutine is in its \<^verbatim>\<open>select\<close>, handles a delivery, or is over.\<close>

datatype 'm worker = Idle | Handling "nat \<times> 'm" | Left

text \<open>\<open>pl_handled\<close> is the history of what was handled, with the node it came from.\<close>

record 'm pipeline =
  pl_feeds :: "'m feed list"
  pl_buffer :: "(nat \<times> 'm) list"
  pl_worker :: "'m worker"
  pl_handled :: "(nat \<times> 'm) list"
  pl_closing :: closing

definition new_feed :: "'m feed" where
  "new_feed = \<lparr>fd_arrived = [], fd_stream = [], fd_open = True, fd_forwarder = Receiving\<rparr>"

definition subscribed :: "nat \<Rightarrow> 'm pipeline" where
  "subscribed n = \<lparr>pl_feeds = replicate n new_feed, pl_buffer = [], pl_worker = Idle, pl_handled = [], pl_closing = NotClosing\<rparr>"

definition multiplexed_cap :: nat where
  "multiplexed_cap = 100"

definition on_feed :: "nat \<Rightarrow> ('m feed \<Rightarrow> 'm feed) \<Rightarrow> 'm pipeline \<Rightarrow> 'm pipeline" where
  "on_feed i f p = p\<lparr>pl_feeds := (pl_feeds p)[i := f (pl_feeds p ! i)]\<rparr>"

text \<open>
  A step: the broker delivers; a node's channel closes, which may drop deliveries not yet taken; a forwarder receives,
  sends once there is room, or ends with its channel; the processing goroutine takes a delivery, finishes it, or sees
  the context done, which it may prefer to a delivery or not; \<^verbatim>\<open>Close\<close> cancels, and goes on to close the cluster once the
  processing goroutine is over.
\<close>

inductive pipe_step :: "'m pipeline \<Rightarrow> 'm pipeline \<Rightarrow> bool" where
  arrive: "i < length (pl_feeds p) \<Longrightarrow> fd_open (pl_feeds p ! i) \<Longrightarrow>
    pipe_step p (on_feed i (\<lambda>f. f\<lparr>fd_arrived := fd_arrived f @ [m], fd_stream := fd_stream f @ [m]\<rparr>) p)"
| drop_node: "i < length (pl_feeds p) \<Longrightarrow>
    pipe_step p (on_feed i (\<lambda>f. f\<lparr>fd_stream := take k (fd_stream f), fd_open := False\<rparr>) p)"
| receive: "i < length (pl_feeds p) \<Longrightarrow> fd_forwarder (pl_feeds p ! i) = Receiving \<Longrightarrow> fd_stream (pl_feeds p ! i) = m # ms \<Longrightarrow>
    pipe_step p (on_feed i (\<lambda>f. f\<lparr>fd_stream := ms, fd_forwarder := Sending m\<rparr>) p)"
| send: "i < length (pl_feeds p) \<Longrightarrow> fd_forwarder (pl_feeds p ! i) = Sending m \<Longrightarrow> length (pl_buffer p) < multiplexed_cap \<Longrightarrow>
    pipe_step p (on_feed i (\<lambda>f. f\<lparr>fd_forwarder := Receiving\<rparr>) (p\<lparr>pl_buffer := pl_buffer p @ [(i, m)]\<rparr>))"
| forwarder_end: "i < length (pl_feeds p) \<Longrightarrow> fd_forwarder (pl_feeds p ! i) = Receiving \<Longrightarrow> fd_stream (pl_feeds p ! i) = [] \<Longrightarrow>
    \<not> fd_open (pl_feeds p ! i) \<Longrightarrow> pipe_step p (on_feed i (\<lambda>f. f\<lparr>fd_forwarder := Ended\<rparr>) p)"
| take_one: "pl_worker p = Idle \<Longrightarrow> pl_buffer p = x # xs \<Longrightarrow> pipe_step p (p\<lparr>pl_buffer := xs, pl_worker := Handling x\<rparr>)"
| finish: "pl_worker p = Handling x \<Longrightarrow> pipe_step p (p\<lparr>pl_worker := Idle, pl_handled := pl_handled p @ [x]\<rparr>)"
| leave: "pl_worker p = Idle \<Longrightarrow> pl_closing p \<noteq> NotClosing \<Longrightarrow> pipe_step p (p\<lparr>pl_worker := Left\<rparr>)"
| cancel: "pl_closing p = NotClosing \<Longrightarrow> pipe_step p (p\<lparr>pl_closing := ShuttingDown\<rparr>)"
| closed: "pl_closing p = ShuttingDown \<Longrightarrow> pl_worker p = Left \<Longrightarrow>
    pipe_step p (p\<lparr>pl_closing := Stopped, pl_feeds := map (\<lambda>f. f\<lparr>fd_open := False\<rparr>) (pl_feeds p)\<rparr>)"

definition pipe_reachable :: "nat \<Rightarrow> 'm pipeline \<Rightarrow> bool" where
  "pipe_reachable n p \<longleftrightarrow> pipe_step\<^sup>*\<^sup>* (subscribed n) p"

section \<open>Where a delivery is\<close>

definition from_node :: "nat \<Rightarrow> (nat \<times> 'm) list \<Rightarrow> 'm list" where
  "from_node i xs = map snd (filter (\<lambda>x. fst x = i) xs)"

lemma from_node_simps [simp]:
  "from_node i [] = []" "from_node i (xs @ ys) = from_node i xs @ from_node i ys"
  "from_node i (x # xs) = (if fst x = i then [snd x] else []) @ from_node i xs"
  by (simp_all add: from_node_def)

definition in_hand :: "'m forwarder \<Rightarrow> 'm list" where
  "in_hand f = (case f of Sending m \<Rightarrow> [m] | _ \<Rightarrow> [])"

definition at_work :: "'m worker \<Rightarrow> (nat \<times> 'm) list" where
  "at_work w = (case w of Handling x \<Rightarrow> [x] | _ \<Rightarrow> [])"

lemma in_hand_simps [simp]: "in_hand Receiving = []" "in_hand (Sending m) = [m]" "in_hand Ended = []"
  by (simp_all add: in_hand_def)

lemma at_work_simps [simp]: "at_work Idle = []" "at_work (Handling x) = [x]" "at_work Left = []"
  by (simp_all add: at_work_def)

text \<open>What has left the node's channel, in the order it is or will be handled.\<close>

definition out_of :: "nat \<Rightarrow> 'm pipeline \<Rightarrow> 'm list" where
  "out_of i p = from_node i (pl_handled p @ at_work (pl_worker p) @ pl_buffer p)"

definition in_order :: "nat \<Rightarrow> 'm pipeline \<Rightarrow> bool" where
  "in_order i p \<longleftrightarrow> (let f = pl_feeds p ! i in
     \<exists>lost. out_of i p @ in_hand (fd_forwarder f) @ fd_stream f @ lost = fd_arrived f \<and> (fd_open f \<longrightarrow> lost = []))"

definition pipe_ok :: "'m pipeline \<Rightarrow> bool" where
  "pipe_ok p \<longleftrightarrow> (\<forall>i<length (pl_feeds p). in_order i p) \<and> length (pl_buffer p) \<le> multiplexed_cap"

lemma on_feed_simps [simp]:
  "length (pl_feeds (on_feed i g p)) = length (pl_feeds p)" "pl_buffer (on_feed i g p) = pl_buffer p"
  "pl_worker (on_feed i g p) = pl_worker p" "pl_handled (on_feed i g p) = pl_handled p" "pl_closing (on_feed i g p) = pl_closing p"
  "i < length (pl_feeds p) \<Longrightarrow> pl_feeds (on_feed i g p) ! i = g (pl_feeds p ! i)"
  "j \<noteq> i \<Longrightarrow> pl_feeds (on_feed i g p) ! j = pl_feeds p ! j"
  by (simp_all add: on_feed_def)

text \<open>A step at one node: the invariant of the others is untouched, its own is what \<open>own\<close> shows.\<close>

lemma on_feed_ok:
  assumes "pipe_ok p" and "i < length (pl_feeds p)" and own: "in_order i p \<Longrightarrow> in_order i (on_feed i g p)"
  shows "pipe_ok (on_feed i g p)"
  unfolding pipe_ok_def
proof (intro conjI allI impI)
  fix j assume j: "j < length (pl_feeds (on_feed i g p))"
  show "in_order j (on_feed i g p)"
  proof (cases "j = i")
    case True
    then show ?thesis using assms by (simp add: pipe_ok_def)
  next
    case False
    then show ?thesis using assms(1) j by (simp add: pipe_ok_def in_order_def out_of_def)
  qed
qed (use assms(1) in \<open>simp add: pipe_ok_def\<close>)

lemma pipe_step_ok: "pipe_step p p' \<Longrightarrow> pipe_ok p \<Longrightarrow> pipe_ok p'"
proof (induction rule: pipe_step.induct)
  case (arrive i p m)
  then show ?case by (intro on_feed_ok) (auto simp: in_order_def out_of_def Let_def)
next
  case (drop_node i p k)
  then show ?case
  proof (intro on_feed_ok)
    assume "in_order i p"
    then obtain lost where "out_of i p @ in_hand (fd_forwarder (pl_feeds p ! i)) @ fd_stream (pl_feeds p ! i) @ lost
        = fd_arrived (pl_feeds p ! i)" by (auto simp: in_order_def Let_def)
    then have "out_of i p @ in_hand (fd_forwarder (pl_feeds p ! i)) @ take k (fd_stream (pl_feeds p ! i))
        @ (drop k (fd_stream (pl_feeds p ! i)) @ lost) = fd_arrived (pl_feeds p ! i)"
      by (simp add: append_assoc [symmetric] del: append_assoc)
    then show "in_order i (on_feed i (\<lambda>f. f\<lparr>fd_stream := take k (fd_stream f), fd_open := False\<rparr>) p)"
      using drop_node(1) by (auto simp: in_order_def out_of_def Let_def)
  qed
next
  case (receive i p m ms)
  then show ?case by (intro on_feed_ok) (auto simp: in_order_def out_of_def Let_def)
next
  case (send i p m)
  let ?p = "p\<lparr>pl_buffer := pl_buffer p @ [(i, m)]\<rparr>" and ?g = "\<lambda>f. f\<lparr>fd_forwarder := Receiving\<rparr>"
  have "in_order j (on_feed i ?g ?p)" if "j < length (pl_feeds p)" for j
  proof (cases "j = i")
    case True
    have "in_order i p" using send(4) that True by (simp add: pipe_ok_def)
    then show ?thesis using send(1,2) by (auto simp: True in_order_def out_of_def Let_def)
  next
    case False
    then show ?thesis using send(4) that by (simp add: pipe_ok_def in_order_def out_of_def)
  qed
  then show ?case using send(3) by (simp add: pipe_ok_def)
next
  case (forwarder_end i p)
  then show ?case by (intro on_feed_ok) (auto simp: in_order_def out_of_def Let_def)
next
  case (closed p)
  then show ?case by (auto simp: pipe_ok_def in_order_def out_of_def Let_def)
qed (auto simp: pipe_ok_def in_order_def out_of_def Let_def)

lemma pipe_step_feeds: "pipe_step p p' \<Longrightarrow> length (pl_feeds p') = length (pl_feeds p)"
  by (induction rule: pipe_step.induct) simp_all

interpretation pipe_shape: frozen pipe_step pipe_ok "\<lambda>p. length (pl_feeds p)"
  by unfold_locales (rule pipe_step_ok, assumption+, rule pipe_step_feeds)

lemma subscribed_ok: "pipe_ok (subscribed n)"
  by (auto simp: pipe_ok_def in_order_def out_of_def subscribed_def new_feed_def Let_def)

lemma pipe_reachable_ok: "pipe_reachable n p \<Longrightarrow> pipe_ok p \<and> length (pl_feeds p) = n"
  using pipe_shape.good_steps [OF _ subscribed_ok] pipe_shape.view_steps [OF _ subscribed_ok, of n p]
  by (simp add: pipe_reachable_def) (simp add: subscribed_def)

section \<open>Once the processing goroutine is over\<close>

lemma left_step:
  "pipe_step p p' \<Longrightarrow> pl_worker p = Left \<Longrightarrow> pl_worker p' = Left \<and> pl_handled p' = pl_handled p"
  by (induction rule: pipe_step.induct) simp_all

interpretation gone: frozen pipe_step "\<lambda>p. pl_worker p = Left" pl_handled
  by unfold_locales (simp_all add: left_step)

text \<open>A forwarder that sends into a full channel nobody takes from.\<close>

definition leaked :: "nat \<Rightarrow> 'm \<Rightarrow> 'm pipeline \<Rightarrow> bool" where
  "leaked i m p \<longleftrightarrow> i < length (pl_feeds p) \<and> pl_worker p = Left \<and> length (pl_buffer p) = multiplexed_cap
     \<and> fd_forwarder (pl_feeds p ! i) = Sending m"

lemma leaked_on_feed:
  assumes "leaked i m p" and "j < length (pl_feeds p)"
    and "j = i \<Longrightarrow> fd_forwarder (g (pl_feeds p ! i)) = Sending m"
  shows "leaked i m (on_feed j g p)"
  using assms by (cases "j = i") (auto simp: leaked_def)

lemma leaked_step: "pipe_step p p' \<Longrightarrow> leaked i m p \<Longrightarrow> leaked i m p'"
proof (induction rule: pipe_step.induct)
  case (send j p m')
  then show ?case by (simp add: leaked_def)
next
  case (forwarder_end j p)
  then show ?case by (intro leaked_on_feed) (auto simp: leaked_def)
next
  case (receive j p m' ms)
  then show ?case by (intro leaked_on_feed) (auto simp: leaked_def)
next
  case (arrive j p m')
  then show ?case by (intro leaked_on_feed) (auto simp: leaked_def)
next
  case (drop_node j p k)
  then show ?case by (intro leaked_on_feed) (auto simp: leaked_def)
qed (auto simp: leaked_def)

interpretation leak: preserved pipe_step "leaked i m" for i m
  by unfold_locales (rule leaked_step)

text \<open>A subscription whose forwarders are all over and that has nothing left to handle.\<close>

definition dead :: "'m pipeline \<Rightarrow> bool" where
  "dead p \<longleftrightarrow> (\<forall>i<length (pl_feeds p). fd_forwarder (pl_feeds p ! i) = Ended) \<and> pl_buffer p = []
    \<and> (pl_worker p = Idle \<or> pl_worker p = Left \<and> pl_closing p \<noteq> NotClosing)"

lemma dead_on_feed: "dead p \<Longrightarrow> fd_forwarder (g (pl_feeds p ! i)) = Ended \<Longrightarrow> dead (on_feed i g p)"
  by (simp add: dead_def) (metis on_feed_simps(6,7))

lemma dead_step: "pipe_step p p' \<Longrightarrow> dead p \<Longrightarrow> dead p' \<and> pl_handled p' = pl_handled p"
proof (induction rule: pipe_step.induct)
  case (arrive i p m)
  then show ?case using dead_on_feed [of p _ i] by (simp add: dead_def)
next
  case (drop_node i p k)
  then show ?case using dead_on_feed [of p _ i] by (simp add: dead_def)
qed (auto simp: dead_def)

interpretation silent: frozen pipe_step dead pl_handled
  by unfold_locales (simp_all add: dead_step)

text \<open>The channel filled by the first node while the processing goroutine has not yet moved.\<close>

definition filled :: "nat \<Rightarrow> 'm list \<Rightarrow> 'm list \<Rightarrow> 'm list \<Rightarrow> 'm forwarder \<Rightarrow> 'm pipeline" where
  "filled n ms arrived stream f = \<lparr>pl_feeds =
       \<lparr>fd_arrived = arrived, fd_stream = stream, fd_open = True, fd_forwarder = f\<rparr> # replicate n new_feed,
     pl_buffer = map (Pair 0) ms, pl_worker = Idle, pl_handled = [], pl_closing = NotClosing\<rparr>"

lemma filled_simps [simp]:
  "pl_buffer (filled n ms a st f) = map (Pair 0) ms" "pl_worker (filled n ms a st f) = Idle"
  "pl_handled (filled n ms a st f) = []" "pl_closing (filled n ms a st f) = NotClosing"
  "length (pl_feeds (filled n ms a st f)) = Suc n"
  "pl_feeds (filled n ms a st f) ! 0 = \<lparr>fd_arrived = a, fd_stream = st, fd_open = True, fd_forwarder = f\<rparr>"
  by (simp_all add: filled_def)

lemma filled_on_feed:
  "on_feed 0 g (filled n ms a st f) = (filled n ms a st f)\<lparr>pl_feeds :=
     g \<lparr>fd_arrived = a, fd_stream = st, fd_open = True, fd_forwarder = f\<rparr> # replicate n new_feed\<rparr>"
  by (simp add: on_feed_def filled_def)

lemma filled_taken: "pipe_step\<^sup>*\<^sup>* (filled n ms arrived [] Receiving) (filled n ms (arrived @ [m]) [] (Sending m))"
proof -
  have "pipe_step (filled n ms arrived [] Receiving) (filled n ms (arrived @ [m]) [m] Receiving)"
    using pipe_step.arrive [of 0 "filled n ms arrived [] Receiving" m]
    unfolding filled_on_feed by (simp add: filled_def)
  moreover have "pipe_step (filled n ms (arrived @ [m]) [m] Receiving) (filled n ms (arrived @ [m]) [] (Sending m))"
    using pipe_step.receive [of 0 "filled n ms (arrived @ [m]) [m] Receiving" m "[]"]
    unfolding filled_on_feed by (simp add: filled_def)
  ultimately show ?thesis by (rule converse_rtranclp_into_rtranclp [OF _ r_into_rtranclp])
qed

lemma filled_sent:
  assumes "length ms < multiplexed_cap"
  shows "pipe_step (filled n ms arrived [] (Sending m)) (filled n (ms @ [m]) arrived [] Receiving)"
proof -
  have "pipe_step (filled n ms arrived [] (Sending m)) (on_feed 0 (\<lambda>f. f\<lparr>fd_forwarder := Receiving\<rparr>)
      ((filled n ms arrived [] (Sending m))\<lparr>pl_buffer := map (Pair 0) ms @ [(0, m)]\<rparr>))"
    using pipe_step.send [of 0 "filled n ms arrived [] (Sending m)" m] assms by simp
  moreover have "on_feed 0 (\<lambda>f. f\<lparr>fd_forwarder := Receiving\<rparr>)
      ((filled n ms arrived [] (Sending m))\<lparr>pl_buffer := map (Pair 0) ms @ [(0, m)]\<rparr>) = filled n (ms @ [m]) arrived [] Receiving"
    by (simp add: filled_def on_feed_def)
  ultimately show ?thesis by simp
qed

lemma filled_reachable: "length ms \<le> multiplexed_cap \<Longrightarrow> pipe_reachable (Suc n) (filled n ms ms [] Receiving)"
proof (induction ms rule: rev_induct)
  case Nil
  have "filled n [] [] [] Receiving = subscribed (Suc n)" by (simp add: filled_def subscribed_def new_feed_def)
  then show ?case unfolding pipe_reachable_def by (metis rtranclp.rtrancl_refl)
next
  case (snoc m ms)
  then have "pipe_reachable (Suc n) (filled n ms ms [] Receiving)" by simp
  then have "pipe_step\<^sup>*\<^sup>* (subscribed (Suc n)) (filled n ms (ms @ [m]) [] (Sending m))"
    unfolding pipe_reachable_def by (rule rtranclp_trans [OF _ filled_taken])
  moreover have "length ms < multiplexed_cap" using snoc(2) by simp
  then have "pipe_step (filled n ms (ms @ [m]) [] (Sending m)) (filled n (ms @ [m]) (ms @ [m]) [] Receiving)"
    by (rule filled_sent)
  ultimately show ?case unfolding pipe_reachable_def by (rule rtranclp.rtrancl_into_rtrancl)
qed

section \<open>Left to run\<close>

text \<open>
  The moves the subscription makes by itself while the broker is silent and nobody closes anything: a forwarder receives
  or sends, the processing goroutine takes a delivery or finishes one.
\<close>

inductive pipe_move :: "'m pipeline \<Rightarrow> 'm pipeline \<Rightarrow> bool" where
  receives: "i < length (pl_feeds p) \<Longrightarrow> fd_forwarder (pl_feeds p ! i) = Receiving \<Longrightarrow> fd_stream (pl_feeds p ! i) = m # ms \<Longrightarrow>
    pipe_move p (on_feed i (\<lambda>f. f\<lparr>fd_stream := ms, fd_forwarder := Sending m\<rparr>) p)"
| sends: "i < length (pl_feeds p) \<Longrightarrow> fd_forwarder (pl_feeds p ! i) = Sending m \<Longrightarrow> length (pl_buffer p) < multiplexed_cap \<Longrightarrow>
    pipe_move p (on_feed i (\<lambda>f. f\<lparr>fd_forwarder := Receiving\<rparr>) (p\<lparr>pl_buffer := pl_buffer p @ [(i, m)]\<rparr>))"
| takes: "pl_worker p = Idle \<Longrightarrow> pl_buffer p = x # xs \<Longrightarrow> pipe_move p (p\<lparr>pl_buffer := xs, pl_worker := Handling x\<rparr>)"
| finishes: "pl_worker p = Handling x \<Longrightarrow> pipe_move p (p\<lparr>pl_worker := Idle, pl_handled := pl_handled p @ [x]\<rparr>)"

lemma pipe_move_step: "pipe_move p p' \<Longrightarrow> pipe_step p p'"
  by (induction rule: pipe_move.induct) (auto intro: pipe_step.intros)

lemma pipe_moves_steps: "pipe_move\<^sup>*\<^sup>* p p' \<Longrightarrow> pipe_step\<^sup>*\<^sup>* p p'"
  by (induction rule: rtranclp_induct) (auto intro: rtranclp.rtrancl_into_rtrancl pipe_move_step)

text \<open>How many moves a delivery is away from being handled.\<close>

definition feed_load :: "'m feed \<Rightarrow> nat" where
  "feed_load f = 4 * length (fd_stream f) + 3 * length (in_hand (fd_forwarder f))"

definition pipe_load :: "'m pipeline \<Rightarrow> nat" where
  "pipe_load p = sum_list (map feed_load (pl_feeds p)) + 2 * length (pl_buffer p) + length (at_work (pl_worker p))"

lemma feeds_load:
  "i < length (pl_feeds p) \<Longrightarrow> sum_list (map feed_load (pl_feeds (on_feed i g p))) + feed_load (pl_feeds p ! i)
     = sum_list (map feed_load (pl_feeds p)) + feed_load (g (pl_feeds p ! i))"
  using elem_le_sum_list [of i "map feed_load (pl_feeds p)"]
  by (simp add: on_feed_def map_update sum_list_update)

lemma pipe_move_load: "pipe_move p p' \<Longrightarrow> pipe_load p' < pipe_load p"
proof (induction rule: pipe_move.induct)
  case (receives i p m ms)
  then show ?case using feeds_load [of i p "\<lambda>f. f\<lparr>fd_stream := ms, fd_forwarder := Sending m\<rparr>"] by (simp add: pipe_load_def feed_load_def)
next
  case (sends i p m)
  then show ?case using feeds_load [of i "p\<lparr>pl_buffer := pl_buffer p @ [(i, m)]\<rparr>" "\<lambda>f. f\<lparr>fd_forwarder := Receiving\<rparr>"] by (simp add: pipe_load_def feed_load_def)
qed (simp_all add: pipe_load_def)

text \<open>A forwarder is over only when its node has nothing left and will get nothing more.\<close>

definition ended_ok :: "'m pipeline \<Rightarrow> bool" where
  "ended_ok p \<longleftrightarrow> (\<forall>i<length (pl_feeds p). fd_forwarder (pl_feeds p ! i) = Ended \<longrightarrow>
     fd_stream (pl_feeds p ! i) = [] \<and> \<not> fd_open (pl_feeds p ! i))"

lemma ended_on_feed:
  assumes "ended_ok p" and "i < length (pl_feeds p)"
    and "fd_forwarder (g (pl_feeds p ! i)) = Ended \<Longrightarrow> fd_stream (g (pl_feeds p ! i)) = [] \<and> \<not> fd_open (g (pl_feeds p ! i))"
  shows "ended_ok (on_feed i g p)"
  unfolding ended_ok_def
proof (intro allI impI)
  fix j assume "j < length (pl_feeds (on_feed i g p))" "fd_forwarder (pl_feeds (on_feed i g p) ! j) = Ended"
  then show "fd_stream (pl_feeds (on_feed i g p) ! j) = [] \<and> \<not> fd_open (pl_feeds (on_feed i g p) ! j)"
    using assms by (cases "j = i") (simp_all add: ended_ok_def)
qed

lemma ended_step: "pipe_step p p' \<Longrightarrow> ended_ok p \<Longrightarrow> ended_ok p'"
proof (induction rule: pipe_step.induct)
  case (arrive i p m)
  then show ?case by (intro ended_on_feed) (auto simp: ended_ok_def)
next
  case (drop_node i p k)
  then show ?case by (intro ended_on_feed) (auto simp: ended_ok_def)
next
  case (receive i p m ms)
  then show ?case by (intro ended_on_feed) auto
next
  case (send i p m)
  then show ?case by (intro ended_on_feed) (auto simp: ended_ok_def)
next
  case (forwarder_end i p)
  then show ?case by (intro ended_on_feed) auto
qed (auto simp: ended_ok_def)

interpretation ended: preserved pipe_step ended_ok
  by unfold_locales (rule ended_step)

text \<open>The moves keep what arrived, and the processing goroutine in its loop.\<close>

definition running :: "'m pipeline \<Rightarrow> bool" where
  "running p \<longleftrightarrow> pipe_ok p \<and> ended_ok p \<and> pl_worker p \<noteq> Left"

interpretation moves: draining pipe_move running pipe_load
  by unfold_locales
     (auto simp: running_def intro: pipe_step_ok ended_step pipe_move_step pipe_move_load elim: pipe_move.cases)

definition arrivals :: "'m pipeline \<Rightarrow> ('m list \<times> bool) list" where
  "arrivals p = map (\<lambda>f. (fd_arrived f, fd_open f)) (pl_feeds p)"

lemma arrivals_on_feed:
  "i < length (pl_feeds p) \<Longrightarrow> fd_arrived (g (pl_feeds p ! i)) = fd_arrived (pl_feeds p ! i) \<Longrightarrow>
     fd_open (g (pl_feeds p ! i)) = fd_open (pl_feeds p ! i) \<Longrightarrow> arrivals (on_feed i g p) = arrivals p"
  by (simp add: arrivals_def on_feed_def map_update list_update_same_conv)

lemma arrivals_move: "pipe_move p p' \<Longrightarrow> arrivals p' = arrivals p"
proof (induction rule: pipe_move.induct)
  case (sends i p m)
  then show ?case using arrivals_on_feed [of i "p\<lparr>pl_buffer := pl_buffer p @ [(i, m)]\<rparr>"] by (simp add: arrivals_def)
qed (auto intro: arrivals_on_feed, simp_all add: arrivals_def)

interpretation arrived: frozen pipe_move "\<lambda>_. True" arrivals
  by unfold_locales (simp_all add: arrivals_move)

lemma at_rest:
  assumes "running p" and "\<nexists>q. pipe_move p q" and "i < length (pl_feeds p)"
  shows "pl_worker p = Idle \<and> pl_buffer p = [] \<and> in_hand (fd_forwarder (pl_feeds p ! i)) = [] \<and> fd_stream (pl_feeds p ! i) = []"
proof -
  have w: "pl_worker p = Idle" using assms(1,2) pipe_move.finishes [of p] by (cases "pl_worker p") (auto simp: running_def)
  then have b: "pl_buffer p = []" using assms(2) pipe_move.takes [of p] by (cases "pl_buffer p") auto
  have "fd_forwarder (pl_feeds p ! i) \<noteq> Sending m" for m
    using assms(2,3) b pipe_move.sends [of i p m] by (auto simp: multiplexed_cap_def)
  moreover have "fd_stream (pl_feeds p ! i) = []"
  proof (cases "fd_forwarder (pl_feeds p ! i)")
    case Receiving
    then show ?thesis using assms(2,3) pipe_move.receives [of i p] by (cases "fd_stream (pl_feeds p ! i)") auto
  next
    case Ended
    then show ?thesis using assms(1,3) by (simp add: running_def ended_ok_def)
  qed (use calculation in simp)
  ultimately show ?thesis using w b by (cases "fd_forwarder (pl_feeds p ! i)") auto
qed

lemma reachable_running: "pipe_reachable n p \<Longrightarrow> pl_worker p \<noteq> Left \<Longrightarrow> running p"
proof -
  assume r: "pipe_reachable n p" and w: "pl_worker p \<noteq> Left"
  have "ended_ok (subscribed n)" by (simp add: ended_ok_def subscribed_def new_feed_def)
  then have "ended_ok p" using ended.good_steps r by (auto simp: pipe_reachable_def)
  then show ?thesis using pipe_reachable_ok [OF r] w by (simp add: running_def)
qed

section \<open>Properties\<close>

text \<open>C7: Deliveries keep the order of their node, and none is doubled: what was handled, is being handled, waits in the
  channel, is held by the node's forwarder or waits at the node is, in this order, what the broker delivered there, up to
  what a closed connection lost. At most a hundred wait in the channel.\<close>

theorem deliveries_in_order:
  assumes "pipe_reachable n p" and "i < n"
  shows "(\<exists>lost. from_node i (pl_handled p @ at_work (pl_worker p) @ pl_buffer p) @ in_hand (fd_forwarder (pl_feeds p ! i))
       @ fd_stream (pl_feeds p ! i) @ lost = fd_arrived (pl_feeds p ! i) \<and> (fd_open (pl_feeds p ! i) \<longrightarrow> lost = []))
    \<and> length (pl_buffer p) \<le> 100"
  using pipe_reachable_ok [OF assms(1)] assms(2)
  by (auto simp: pipe_ok_def in_order_def out_of_def multiplexed_cap_def Let_def)

theorem deliveries_in_order_witness:
  "\<exists>lost. from_node 0 [(0, 7), (0, 8)] @ in_hand Receiving @ [] @ lost = [7, 8 :: nat]
     \<and> length (pl_buffer (filled 0 [7, 8] [7, 8 :: nat] [] Receiving)) \<le> 100"
proof -
  have "pipe_reachable (Suc 0) (filled 0 [7, 8] [7, 8 :: nat] [] Receiving)"
    by (rule filled_reachable) (simp add: multiplexed_cap_def)
  from deliveries_in_order [OF this, of 0] show ?thesis by simp
qed


definition demo_delivery :: amqp_msg where
  "demo_delivery = \<lparr>ms_Exchange = ''events'', ms_RoutingKey = ''t'', ms_Headers = Map.empty, ms_Body = WireBad ''syntax'', ms_MessageId = ''1'',
     ms_Type = ''t'', ms_AppId = ''svc'', ms_Timestamp = 0\<rparr>"


text \<open>C36: A subscription left to run comes to rest: no run of its own moves is endless, and in the state where none
  is possible every delivery that had arrived is handled, up to what closed connections lost, whatever the order the
  goroutines moved in. Handling a delivery is one move: each call of the handler is taken to return. The processing
  goroutine has not left; nothing else can be in the way.\<close>

theorem deliveries_get_handled:
  assumes "pipe_reachable n p" and "pl_worker p \<noteq> Left"
  shows "(\<forall>f. f 0 = p \<longrightarrow> (\<exists>k. \<not> pipe_move (f k) (f (Suc k))))
    \<and> (\<forall>p'. pipe_move\<^sup>*\<^sup>* p p' \<and> (\<nexists>q. pipe_move p' q) \<longrightarrow> (\<forall>i<n. \<exists>lost.
         from_node i (pl_handled p') @ lost = fd_arrived (pl_feeds p ! i) \<and> (fd_open (pl_feeds p ! i) \<longrightarrow> lost = [])))"
proof (intro conjI allI impI)
  have r: "running p" by (rule reachable_running [OF assms])
  show "\<exists>k. \<not> pipe_move (f k) (f (Suc k))" if "f 0 = p" for f
    using moves.no_endless_run [of f] r that by simp
  fix p' i assume p': "pipe_move\<^sup>*\<^sup>* p p' \<and> (\<nexists>q. pipe_move p' q)" and i: "i < n"
  then have n: "pipe_reachable n p'" using assms(1) pipe_moves_steps unfolding pipe_reachable_def by (meson rtranclp_trans)
  have len: "length (pl_feeds p) = n" "length (pl_feeds p') = n" using pipe_reachable_ok n assms(1) by blast+
  have "arrivals p' ! i = arrivals p ! i" using arrived.view_steps p' by metis
  then have a: "fd_arrived (pl_feeds p' ! i) = fd_arrived (pl_feeds p ! i)" "fd_open (pl_feeds p' ! i) = fd_open (pl_feeds p ! i)"
    using i len by (simp_all add: arrivals_def)
  have "running p'" using moves.good_steps p' r by blast
  from at_rest [OF this] p' i len pipe_reachable_ok [OF n]
  show "\<exists>lost. from_node i (pl_handled p') @ lost = fd_arrived (pl_feeds p ! i) \<and> (fd_open (pl_feeds p ! i) \<longrightarrow> lost = [])"
    unfolding a [symmetric] by (auto simp: pipe_ok_def in_order_def out_of_def Let_def)
qed

theorem deliveries_get_handled_witness:
  "\<exists>p' :: nat pipeline. pipe_move\<^sup>*\<^sup>* (filled 0 [7, 8] [7, 8] [] Receiving) p' \<and> from_node 0 (pl_handled p') = [7, 8]"
proof -
  let ?p = "filled 0 [7, 8 :: nat] [7, 8] [] Receiving"
  have r: "pipe_reachable (Suc 0) ?p" by (rule filled_reachable) (simp add: multiplexed_cap_def)
  obtain p' where p': "pipe_move\<^sup>*\<^sup>* ?p p'" "\<nexists>q. pipe_move p' q"
    using moves.comes_to_rest [OF reachable_running [OF r]] by auto
  have "\<exists>lost. from_node 0 (pl_handled p') @ lost = [7, 8] \<and> lost = []"
    using deliveries_get_handled [OF r] p' by auto
  then show ?thesis using p'(1) by auto
qed

text \<open>C30: \<^verbatim>\<open>Close\<close> abandons what the channel holds: a hundred deliveries taken from the broker, and the one its forwarder
  holds, may be unhandled when it has returned. None is handled from then on, and the forwarder never ends.\<close>

theorem close_abandons_deliveries:
  assumes "length ms = 100"
  shows "\<exists>p. pipe_reachable (Suc n) p \<and> pl_closing p = Stopped \<and> fd_arrived (pl_feeds p ! 0) = ms @ [m]
    \<and> fd_stream (pl_feeds p ! 0) = []
    \<and> (\<forall>p'. pipe_step\<^sup>*\<^sup>* p p' \<longrightarrow> pl_handled p' = [] \<and> fd_forwarder (pl_feeds p' ! 0) = Sending m)"
proof -
  have len: "length ms = multiplexed_cap" using assms by (simp add: multiplexed_cap_def)
  let ?p = "filled n ms (ms @ [m]) [] (Sending m)"
  let ?q = "?p\<lparr>pl_closing := ShuttingDown\<rparr>" let ?r = "?q\<lparr>pl_worker := Left\<rparr>"
  let ?s = "?r\<lparr>pl_closing := Stopped, pl_feeds := map (\<lambda>f. f\<lparr>fd_open := False\<rparr>) (pl_feeds ?r)\<rparr>"
  have "pipe_step\<^sup>*\<^sup>* (subscribed (Suc n)) (filled n ms ms [] Receiving)"
    using filled_reachable [of ms n] len by (simp add: pipe_reachable_def)
  then have "pipe_step\<^sup>*\<^sup>* (subscribed (Suc n)) ?p" by (rule rtranclp_trans [OF _ filled_taken])
  moreover have "pipe_step ?p ?q" by (rule pipe_step.cancel) simp
  moreover have "pipe_step ?q ?r" by (rule pipe_step.leave) simp_all
  moreover have "pipe_step ?r ?s" by (rule pipe_step.closed) simp_all
  ultimately have "pipe_step\<^sup>*\<^sup>* (subscribed (Suc n)) ?s"
    by (rule rtranclp.rtrancl_into_rtrancl [OF rtranclp.rtrancl_into_rtrancl [OF rtranclp.rtrancl_into_rtrancl]])
  moreover have l: "leaked 0 m ?s" using len by (simp add: leaked_def)
  have "pl_handled p' = [] \<and> fd_forwarder (pl_feeds p' ! 0) = Sending m" if "pipe_step\<^sup>*\<^sup>* ?s p'" for p'
    using gone.view_steps [OF that] leak.good_steps [OF that l] by (simp add: leaked_def)
  ultimately show ?thesis by (intro exI [of _ ?s]) (simp add: pipe_reachable_def)
qed

theorem close_abandons_deliveries_witness:
  "\<exists>p. pipe_reachable (Suc 2) p \<and> pl_closing p = Stopped \<and> fd_arrived (pl_feeds p ! 0) = replicate 100 True @ [False]
    \<and> fd_stream (pl_feeds p ! 0) = []
    \<and> (\<forall>p'. pipe_step\<^sup>*\<^sup>* p p' \<longrightarrow> pl_handled p' = [] \<and> fd_forwarder (pl_feeds p' ! 0) = Sending False)"
  by (rule close_abandons_deliveries) simp



end
