(* ===== verification/Metric_Series.thy ===== *)
theory Metric_Series
  imports Complex_Main Go_Std
begin

text \<open>
  What the packages hand to the Prometheus library: descriptions of series, and the changes a call makes to them.
  The library panics when a change names a number of label values other than that of the series' labels, when two
  series of one name and one set of constant labels are registered, and when the buckets of a histogram do not
  increase; \<open>fits\<close>, \<open>registrable\<close> and \<open>sorted_buckets\<close> say that a package gives it no reason to.
\<close>

datatype metric_kind = Counter | Gauge | Histogram "real list"

record series =
  sr_Name :: string
  sr_Kind :: metric_kind
  sr_Labels :: "string list"
  sr_ConstLabels :: "(string \<times> string) list"

datatype metric_op =
  Inc series "string list"
| Dec series "string list"
| SetTo series "string list" real
| Observe series "string list" real

fun on_series :: "metric_op \<Rightarrow> series" where
  "on_series (Inc s ls) = s"
| "on_series (Dec s ls) = s"
| "on_series (SetTo s ls v) = s"
| "on_series (Observe s ls v) = s"

fun label_values :: "metric_op \<Rightarrow> string list" where
  "label_values (Inc s ls) = ls"
| "label_values (Dec s ls) = ls"
| "label_values (SetTo s ls v) = ls"
| "label_values (Observe s ls v) = ls"

fun kind_allows :: "metric_op \<Rightarrow> bool" where
  "kind_allows (Inc s ls) = (sr_Kind s = Counter \<or> sr_Kind s = Gauge)"
| "kind_allows (Dec s ls) = (sr_Kind s = Gauge)"
| "kind_allows (SetTo s ls v) = (sr_Kind s = Gauge)"
| "kind_allows (Observe s ls v) = (case sr_Kind s of Histogram bs \<Rightarrow> True | _ \<Rightarrow> False)"

definition fits :: "metric_op \<Rightarrow> bool" where
  "fits x \<longleftrightarrow> length (label_values x) = length (sr_Labels (on_series x)) \<and> kind_allows x"

fun sorted_buckets :: "metric_kind \<Rightarrow> bool" where
  "sorted_buckets (Histogram bs) = sorted_wrt (<) bs"
| "sorted_buckets k = True"

definition registrable :: "series list \<Rightarrow> bool" where
  "registrable ss \<longleftrightarrow> distinct (map (\<lambda>s. (sr_Name s, sr_ConstLabels s)) ss) \<and> (\<forall>s \<in> set ss. sorted_buckets (sr_Kind s))"

text \<open>How often a series is counted up, in all and for given label values.\<close>

definition ups :: "series \<Rightarrow> metric_op list \<Rightarrow> nat" where
  "ups s xs = length (filter (\<lambda>x. case x of Inc s' ls \<Rightarrow> sr_Name s' = sr_Name s | _ \<Rightarrow> False) xs)"

definition ups_at :: "series \<Rightarrow> string list \<Rightarrow> metric_op list \<Rightarrow> nat" where
  "ups_at s ls xs = length (filter (\<lambda>x. case x of Inc s' ls' \<Rightarrow> sr_Name s' = sr_Name s \<and> ls' = ls | _ \<Rightarrow> False) xs)"

lemma ups_simps [simp]:
  "ups s [] = 0" "ups s (xs @ ys) = ups s xs + ups s ys"
  "ups s (Inc s' ls # xs) = (if sr_Name s' = sr_Name s then Suc (ups s xs) else ups s xs)"
  "ups s (Dec s' ls # xs) = ups s xs" "ups s (SetTo s' ls v # xs) = ups s xs" "ups s (Observe s' ls v # xs) = ups s xs"
  by (simp_all add: ups_def)

lemma ups_at_simps [simp]:
  "ups_at s l [] = 0" "ups_at s l (xs @ ys) = ups_at s l xs + ups_at s l ys"
  "ups_at s l (Inc s' ls # xs) = (if sr_Name s' = sr_Name s \<and> ls = l then Suc (ups_at s l xs) else ups_at s l xs)"
  "ups_at s l (Dec s' ls # xs) = ups_at s l xs" "ups_at s l (SetTo s' ls v # xs) = ups_at s l xs"
  "ups_at s l (Observe s' ls v # xs) = ups_at s l xs"
  by (simp_all add: ups_at_def)

definition counter :: "string \<Rightarrow> string list \<Rightarrow> series" where
  "counter name labels = \<lparr>sr_Name = name, sr_Kind = Counter, sr_Labels = labels, sr_ConstLabels = []\<rparr>"

definition gauge :: "string \<Rightarrow> string list \<Rightarrow> series" where
  "gauge name labels = \<lparr>sr_Name = name, sr_Kind = Gauge, sr_Labels = labels, sr_ConstLabels = []\<rparr>"

definition histogram :: "string \<Rightarrow> real list \<Rightarrow> string list \<Rightarrow> series" where
  "histogram name buckets labels = \<lparr>sr_Name = name, sr_Kind = Histogram buckets, sr_Labels = labels, sr_ConstLabels = []\<rparr>"

definition Seconds :: "duration \<Rightarrow> real" where
  "Seconds d = of_int d / 1000000000"

lemmas series_defs = counter_def gauge_def histogram_def

end
