(* ===== verification/Event_Metrics.thy ===== *)
theory Event_Metrics
  imports Event_Bus Metric_Series
begin

text \<open>
  The series of \<^verbatim>\<open>eventbus/metrics.go\<close>, what publishing, consuming and dispatching record in them
  (\<^verbatim>\<open>publisher.go\<close>, \<^verbatim>\<open>dispatcher.go\<close>), and opening and closing publishers and subscribers, which set the
  connection gauge.
\<close>

section \<open>Series\<close>

definition event_buckets :: "real list" where
  "event_buckets = [0.001, 0.005, 0.01, 0.025, 0.05, 0.1, 0.25, 0.5, 1, 2.5, 5, 10]"

definition EventsPublished :: series where
  "EventsPublished = counter ''rabbitmq_events_published_total'' [''event_type'', ''service'', ''status'']"

definition EventsReceived :: series where
  "EventsReceived = counter ''rabbitmq_events_received_total'' [''event_type'', ''service'', ''queue'']"

definition EventsProcessed :: series where
  "EventsProcessed = counter ''rabbitmq_events_processed_total'' [''event_type'', ''service'', ''queue'', ''status'']"

definition EventProcessingDuration :: series where
  "EventProcessingDuration = histogram ''rabbitmq_event_processing_duration_seconds'' event_buckets
     [''event_type'', ''service'', ''queue'']"

definition EventsInDLQ :: series where
  "EventsInDLQ = counter ''rabbitmq_events_dlq_total'' [''event_type'', ''service'', ''queue'', ''reason'']"

definition EventsRequeued :: series where
  "EventsRequeued = counter ''rabbitmq_events_requeued_total'' [''event_type'', ''service'', ''queue'']"

definition EventsAcknowledged :: series where
  "EventsAcknowledged = counter ''rabbitmq_events_acknowledged_total'' [''event_type'', ''service'', ''queue'']"

definition QueueDepth :: series where
  "QueueDepth = gauge ''rabbitmq_queue_depth'' [''queue'', ''service'']"

definition ConnectionStatus :: series where
  "ConnectionStatus = gauge ''rabbitmq_connection_status'' [''service'', ''connection_type'']"

definition RecordEventPublished :: "string \<Rightarrow> string \<Rightarrow> string \<Rightarrow> metric_op" where
  "RecordEventPublished eventType service status = Inc EventsPublished [eventType, service, status]"

definition RecordEventReceived :: "string \<Rightarrow> string \<Rightarrow> string \<Rightarrow> metric_op" where
  "RecordEventReceived eventType service queue = Inc EventsReceived [eventType, service, queue]"

definition RecordEventProcessed :: "string \<Rightarrow> string \<Rightarrow> string \<Rightarrow> string \<Rightarrow> metric_op" where
  "RecordEventProcessed eventType service queue status = Inc EventsProcessed [eventType, service, queue, status]"

definition RecordEventDLQ :: "string \<Rightarrow> string \<Rightarrow> string \<Rightarrow> string \<Rightarrow> metric_op" where
  "RecordEventDLQ eventType service queue reason = Inc EventsInDLQ [eventType, service, queue, reason]"

definition RecordEventRequeued :: "string \<Rightarrow> string \<Rightarrow> string \<Rightarrow> metric_op" where
  "RecordEventRequeued eventType service queue = Inc EventsRequeued [eventType, service, queue]"

definition RecordEventAcknowledged :: "string \<Rightarrow> string \<Rightarrow> string \<Rightarrow> metric_op" where
  "RecordEventAcknowledged eventType service queue = Inc EventsAcknowledged [eventType, service, queue]"

definition UpdateQueueDepth :: "string \<Rightarrow> string \<Rightarrow> real \<Rightarrow> metric_op" where
  "UpdateQueueDepth queue service depth = SetTo QueueDepth [queue, service] depth"

definition UpdateConnectionStatus :: "string \<Rightarrow> string \<Rightarrow> bool \<Rightarrow> metric_op" where
  "UpdateConnectionStatus service connectionType up =
     SetTo ConnectionStatus [service, connectionType] (if up then 1 else 0)"

lemmas event_series_defs = EventsPublished_def EventsReceived_def EventsProcessed_def EventProcessingDuration_def
  EventsInDLQ_def EventsRequeued_def EventsAcknowledged_def QueueDepth_def ConnectionStatus_def

lemmas event_record_defs = RecordEventPublished_def RecordEventReceived_def RecordEventProcessed_def RecordEventDLQ_def
  RecordEventRequeued_def RecordEventAcknowledged_def UpdateQueueDepth_def UpdateConnectionStatus_def

section \<open>Opening and closing\<close>

text \<open>
  \<^verbatim>\<open>Close\<close> of a publisher or subscriber: the gauge is set first, then the channel and the connection, if any, are
  closed; the errors are joined.
\<close>

definition close_both :: "string option option \<Rightarrow> string option option \<Rightarrow> string list" where
  "close_both channel conn =
     (case channel of Some (Some err) \<Rightarrow> [''closing channel: '' @ err] | _ \<Rightarrow> []) @
     (case conn of Some (Some err) \<Rightarrow> [''closing connection: '' @ err] | _ \<Rightarrow> [])"

definition eb_publisher_Close :: "string option option \<Rightarrow> string option option \<Rightarrow> eb_publisher \<Rightarrow>
    string list \<times> metric_op list" where
  "eb_publisher_Close channel conn p =
     (close_both channel conn, [UpdateConnectionStatus (pb_serviceName p) ''publisher'' False])"

definition eb_subscriber_Close :: "string option option \<Rightarrow> string option option \<Rightarrow> eb_subscriber \<Rightarrow>
    string list \<times> metric_op list" where
  "eb_subscriber_Close channel conn s =
     (close_both channel conn, [UpdateConnectionStatus (sb_serviceName s) ''subscriber'' False])"

definition NewPublisherWithService :: "environ \<Rightarrow> (nat \<Rightarrow> string option) \<Rightarrow> string \<Rightarrow> (string, eb_publisher) result" where
  "NewPublisherWithService e steps serviceName = NewPublisherWithSigning e steps serviceName None False"

definition NewPublisher :: "environ \<Rightarrow> (nat \<Rightarrow> string option) \<Rightarrow> (string, eb_publisher) result" where
  "NewPublisher e steps = NewPublisherWithService e steps ''unknown''"

definition NewSubscriberWithService :: "environ \<Rightarrow> (nat \<Rightarrow> string option) \<Rightarrow> string \<Rightarrow> (string, eb_subscriber) result" where
  "NewSubscriberWithService e steps serviceName = NewSubscriberWithSigning e steps serviceName None False"

definition NewSubscriber :: "environ \<Rightarrow> (nat \<Rightarrow> string option) \<Rightarrow> (string, eb_subscriber) result" where
  "NewSubscriber e steps = NewSubscriberWithService e steps ''unknown''"

section \<open>What a delivery records\<close>

text \<open>The label an event is counted under when it could not be parsed, or its signature is wrong.\<close>

definition rejected_type :: "amqp_msg \<Rightarrow> string \<Rightarrow> string" where
  "rejected_type d reason =
     (if reason = ''invalid_signature''
      then (case decode_signed (ms_Body d) of
              Inr se \<Rightarrow> (case se_Event se of Some event \<Rightarrow> ev_Type event | None \<Rightarrow> [])
            | Inl err \<Rightarrow> [])
      else ''unknown'')"

text \<open>
  \<open>inner\<close> is what the handler itself records, and whether it returns an error or panics; \<open>took\<close> is the time
  it takes. The order is that of the code.
\<close>

definition eb_handle_ops :: "(string \<Rightarrow> string \<Rightarrow> string) \<Rightarrow> instant \<Rightarrow> eb_subscriber \<Rightarrow> string \<Rightarrow> duration \<Rightarrow>
    event_handler \<Rightarrow> (base_event \<Rightarrow> metric_op list) \<Rightarrow> amqp_msg \<Rightarrow> metric_op list" where
  "eb_handle_ops mac now s queue took handler inner d =
     (case eb_parse mac now s d of
        Panic m \<Rightarrow> []
      | Block \<Rightarrow> []
      | Ret (Inl reason) \<Rightarrow> [RecordEventDLQ (rejected_type d reason) (sb_serviceName s) queue reason]
      | Ret (Inr event) \<Rightarrow>
          (let ty = ev_Type event; service = sb_serviceName s;
               timed = Observe EventProcessingDuration [ty, service, queue] (Seconds took)
           in [RecordEventReceived ty service queue] @ inner event @
              (case handler event of
                 Ret None \<Rightarrow> [timed, RecordEventAcknowledged ty service queue,
                   RecordEventProcessed ty service queue ''success'']
               | Ret (Some err) \<Rightarrow> timed #
                   (if eb_isRetryableError err
                    then [RecordEventRequeued ty service queue, RecordEventProcessed ty service queue ''requeued'']
                    else [RecordEventDLQ ty service queue ''processing_error'', RecordEventProcessed ty service queue ''error''])
               | Panic m \<Rightarrow> []
               | Block \<Rightarrow> [])))"

definition di_ops :: "duration \<Rightarrow> dispatcher \<Rightarrow> base_event \<Rightarrow> metric_op list" where
  "di_ops took d event =
     (let status = (\<lambda>st. RecordEventProcessed (ev_Type event) (di_service d) (di_queue d) st)
      in case (case di_handlers d (ev_Type event) of Some f \<Rightarrow> Some f | None \<Rightarrow> di_fallback d) of
           None \<Rightarrow> [status ''unhandled'']
         | Some f \<Rightarrow>
             (case f event of
                Ret err \<Rightarrow> [status (if err = None then ''success'' else ''error''),
                  Observe EventProcessingDuration [ev_Type event, di_service d, di_queue d] (Seconds took)]
              | Panic m \<Rightarrow> []
              | Block \<Rightarrow> []))"

text \<open>A publish is counted under the status \<open>eb_Publish\<close> and \<open>PublishSigned\<close> give, unless there is none.\<close>

definition publish_ops :: "eb_publisher \<Rightarrow> base_event \<Rightarrow> string option \<times> amqp_msg list \<times> string \<Rightarrow> metric_op list" where
  "publish_ops p event r = (case r of (err, sent, status) \<Rightarrow>
     if status = [] then [] else [RecordEventPublished (ev_Type event) (pb_serviceName p) status])"

section \<open>Facts\<close>

lemma event_series_registrable:
  "registrable [EventsPublished, EventsReceived, EventsProcessed, EventProcessingDuration, EventsInDLQ, EventsRequeued,
     EventsAcknowledged, QueueDepth, ConnectionStatus]"
  by (simp add: registrable_def event_series_defs series_defs event_buckets_def)

lemma event_records_fit:
  "fits (RecordEventPublished a b c)" "fits (RecordEventReceived a b c)" "fits (RecordEventProcessed a b c d)"
  "fits (RecordEventDLQ a b c d)" "fits (RecordEventRequeued a b c)" "fits (RecordEventAcknowledged a b c)"
  "fits (UpdateQueueDepth a b v)" "fits (UpdateConnectionStatus a b up)" "fits (Observe EventProcessingDuration [a, b, c] v)"
  by (simp_all add: fits_def event_record_defs event_series_defs series_defs)

lemma ups_records [simp]:
  "ups s (RecordEventReceived a b c # xs) = (if sr_Name s = sr_Name EventsReceived then Suc (ups s xs) else ups s xs)"
  "ups s (RecordEventProcessed a b c e # xs) = (if sr_Name s = sr_Name EventsProcessed then Suc (ups s xs) else ups s xs)"
  "ups s (RecordEventDLQ a b c e # xs) = (if sr_Name s = sr_Name EventsInDLQ then Suc (ups s xs) else ups s xs)"
  "ups s (RecordEventRequeued a b c # xs) = (if sr_Name s = sr_Name EventsRequeued then Suc (ups s xs) else ups s xs)"
  "ups s (RecordEventAcknowledged a b c # xs) = (if sr_Name s = sr_Name EventsAcknowledged then Suc (ups s xs) else ups s xs)"
  by (auto simp: event_record_defs)

lemma event_names [simp]:
  "sr_Name EventsReceived = ''rabbitmq_events_received_total''" "sr_Name EventsProcessed = ''rabbitmq_events_processed_total''"
  "sr_Name EventsInDLQ = ''rabbitmq_events_dlq_total''" "sr_Name EventsRequeued = ''rabbitmq_events_requeued_total''"
  "sr_Name EventsAcknowledged = ''rabbitmq_events_acknowledged_total''"
  by (simp_all add: event_series_defs series_defs)

lemma ups_at_records [simp]:
  "ups_at s l (RecordEventReceived a b c # xs) = (if sr_Name s = sr_Name EventsReceived \<and> [a, b, c] = l then Suc (ups_at s l xs) else ups_at s l xs)"
  "ups_at s l (RecordEventProcessed a b c e # xs) = (if sr_Name s = sr_Name EventsProcessed \<and> [a, b, c, e] = l then Suc (ups_at s l xs) else ups_at s l xs)"
  "ups_at s l (RecordEventDLQ a b c e # xs) = (if sr_Name s = sr_Name EventsInDLQ \<and> [a, b, c, e] = l then Suc (ups_at s l xs) else ups_at s l xs)"
  "ups_at s l (RecordEventRequeued a b c # xs) = (if sr_Name s = sr_Name EventsRequeued \<and> [a, b, c] = l then Suc (ups_at s l xs) else ups_at s l xs)"
  "ups_at s l (RecordEventAcknowledged a b c # xs) = (if sr_Name s = sr_Name EventsAcknowledged \<and> [a, b, c] = l then Suc (ups_at s l xs) else ups_at s l xs)"
  by (auto simp: event_record_defs)

lemma di_ops_fit: "list_all fits (di_ops took d event)"
  by (simp add: di_ops_def Let_def event_records_fit split: option.split outcome.split)

lemma publish_ops_fit: "list_all fits (publish_ops p event r)"
  by (simp add: publish_ops_def event_records_fit split: prod.split)

lemma eb_handle_ops_fit:
  assumes "\<And>e. list_all fits (inner e)"
  shows "list_all fits (eb_handle_ops mac now s queue took handler inner d)"
  using assms by (simp add: eb_handle_ops_def Let_def event_records_fit split: option.split outcome.split sum.split)

text \<open>The counters of a subscriber agree with what it does to a delivery: acknowledged, requeued and dead-lettered
  deliveries are each counted once in their own series and in no other, except that a delivery dead-lettered because
  the handler or the verification panicked is counted nowhere.\<close>

theorem delivery_counters_match:
  assumes "\<And>e. inner e = []" and "fst (eb_handle mac now s handler d) \<noteq> Block"
  shows "let ops = eb_handle_ops mac now s queue took handler inner d; o1 = fst (eb_handle mac now s handler d)
    in ups EventsAcknowledged ops = of_bool (o1 = Ret Acked) \<and> ups EventsRequeued ops = of_bool (o1 = Ret Requeued)
     \<and> ups EventsInDLQ ops = of_bool (o1 = Ret DeadLettered)
     \<and> (fst (eb_deliver mac now s handler d) = [DeadLettered] \<longleftrightarrow> o1 = Ret DeadLettered \<or> (\<exists>m. o1 = Panic m))"
  using assms
  by (auto simp: eb_handle_ops_def eb_handle_def eb_deliver_def recover_settlement_def Let_def split_beta
      split: outcome.split sum.split option.split)


theorem delivery_counters_match_witness:
  "ups EventsInDLQ (eb_handle_ops (\<lambda>_ k. k) 0 \<lparr>sb_serviceName = ''api'', sb_verifier = None, sb_requireSigning = False\<rparr>
     ''q'' 0 (\<lambda>e. Panic ''boom'') (\<lambda>e. []) (eb_message 0 ''events'' zero_event Map.empty (WireEvent zero_event))) = 0"
proof -
  let ?s = "\<lparr>sb_serviceName = ''api'', sb_verifier = None, sb_requireSigning = False\<rparr>"
  let ?d = "eb_message 0 ''events'' zero_event Map.empty (WireEvent zero_event)"
  have h: "fst (eb_handle (\<lambda>_ k. k) 0 ?s (\<lambda>e. Panic ''boom'') ?d) = Panic ''boom''"
    by (simp add: eb_handle_def eb_parse_def signed_header_def eb_message_def FromJSON_def)
  from delivery_counters_match [of "\<lambda>e. []" "\<lambda>_ k. k" 0 ?s "\<lambda>e. Panic ''boom''" ?d "''q''" 0]
  show ?thesis by (simp add: h Let_def)
qed

text \<open>C32: A dispatcher handed to \<^verbatim>\<open>Subscribe\<close> with the subscriber's service and queue, as its documentation shows, counts
  every event twice in \<^verbatim>\<open>rabbitmq_events_processed_total\<close>, a handled one twice as a success.\<close>

theorem dispatched_events_counted_twice:
  assumes "di_service d = sb_serviceName s" and "di_queue d = queue" and "eb_parse mac now s m = Ret (Inr event)"
    and "fst (di_Handle d event) = Ret r"
  shows "ups EventsProcessed (eb_handle_ops mac now s queue took (\<lambda>e. fst (di_Handle d e)) (di_ops took' d) m) = 2
    \<and> (snd (di_Handle d event) = [''success''] \<longrightarrow>
        ups_at EventsProcessed [ev_Type event, sb_serviceName s, queue, ''success'']
          (eb_handle_ops mac now s queue took (\<lambda>e. fst (di_Handle d e)) (di_ops took' d) m) = 2)"
  using assms
  by (auto simp: eb_handle_ops_def di_ops_def di_Handle_def Let_def split: option.splits outcome.splits if_splits)

theorem dispatched_events_counted_twice_witness:
  "let d = di_Register [] (\<lambda>e. Ret None) (NewDispatcher ''api'' ''q'') in
   ups_at EventsProcessed [[], ''api'', ''q'', ''success''] (eb_handle_ops (\<lambda>_ k. k) 0
     \<lparr>sb_serviceName = ''api'', sb_verifier = None, sb_requireSigning = False\<rparr> ''q'' 0 (\<lambda>e. fst (di_Handle d e)) (di_ops 0 d)
     (eb_message 0 ''events'' zero_event Map.empty (WireEvent zero_event))) = 2"
proof -
  let ?s = "\<lparr>sb_serviceName = ''api'', sb_verifier = None, sb_requireSigning = False\<rparr>"
  let ?d = "di_Register [] (\<lambda>e. Ret None) (NewDispatcher ''api'' ''q'')"
  let ?m = "eb_message 0 ''events'' zero_event Map.empty (WireEvent zero_event)"
  have ty: "ev_Type zero_event = []" by (simp add: zero_event_def)
  have p: "eb_parse (\<lambda>_ k. k) 0 ?s ?m = Ret (Inr zero_event)"
    by (simp add: eb_parse_def signed_header_def eb_message_def FromJSON_def)
  have h: "di_Handle ?d zero_event = (Ret None, [''success''])"
    by (simp add: di_Handle_def di_Register_def NewDispatcher_def ty)
  have sq: "di_service ?d = sb_serviceName ?s" "di_queue ?d = ''q''" by (simp_all add: di_Register_def NewDispatcher_def)
  from dispatched_events_counted_twice [OF sq p, of None 0 0]
  show ?thesis by (simp add: h ty Let_def)
qed

end
