(* ===== verification/Event_Broadcast.thy ===== *)
theory Event_Broadcast
  imports Event_Metrics
begin

text \<open>
  Broadcasts (\<^verbatim>\<open>eventbus/broadcast.go\<close>): opening a subscriber and a publisher, the queue of an instance, the
  envelope its handler finds in the context (\<^verbatim>\<open>context.go\<close>), and the loop over the deliveries, which ends at a
  panic of the handler, because nothing recovers it.
\<close>

section \<open>Contexts of handlers\<close>

record broadcast_event =
  be_BaseEvent :: base_event
  be_Exchange :: string
  be_InstanceID :: string
  be_Headers :: "string \<rightharpoonup> string"

text \<open>The two values the package attaches; a broadcast envelope may be a nil pointer.\<close>

record bus_context =
  bx_userID :: "string option"
  bx_broadcast :: "broadcast_event option option"

definition bus_Background :: bus_context where
  "bus_Background = \<lparr>bx_userID = None, bx_broadcast = None\<rparr>"

definition bus_WithUserID :: "string \<Rightarrow> bus_context \<Rightarrow> bus_context" where
  "bus_WithUserID userID cx = cx\<lparr>bx_userID := Some userID\<rparr>"

definition bus_UserID :: "bus_context \<Rightarrow> string \<times> bool" where
  "bus_UserID cx = (case bx_userID cx of None \<Rightarrow> ([], False) | Some userID \<Rightarrow> (userID, userID \<noteq> []))"

definition WithBroadcast :: "broadcast_event option \<Rightarrow> bus_context \<Rightarrow> bus_context" where
  "WithBroadcast event cx = cx\<lparr>bx_broadcast := Some event\<rparr>"

definition Broadcast :: "bus_context \<Rightarrow> broadcast_event option \<times> bool" where
  "Broadcast cx = (case bx_broadcast cx of None \<Rightarrow> (None, False) | Some event \<Rightarrow> (event, event \<noteq> None))"

section \<open>Opening\<close>

record broadcast_config =
  bf_ExchangeName :: string
  bf_ServiceName :: string
  bf_InstanceID :: string
  bf_MessageTTL :: duration
  bf_MaxRetries :: int

record broadcast_subscriber =
  bs_Subscriber :: eb_subscriber
  bs_instanceID :: string

definition NewBroadcastSubscriber :: "environ \<Rightarrow> (nat \<Rightarrow> string option) \<Rightarrow> broadcast_config \<Rightarrow>
    (string, broadcast_subscriber) result" where
  "NewBroadcastSubscriber e steps config =
     (case NewSubscriberWithService e steps (bf_ServiceName config) of
        Inl err \<Rightarrow> Inl (''failed to create base subscriber: '' @ err)
      | Inr s \<Rightarrow> Inr \<lparr>bs_Subscriber = s, bs_instanceID = bf_InstanceID config\<rparr>)"

definition NewBroadcastPublisher :: "environ \<Rightarrow> (nat \<Rightarrow> string option) \<Rightarrow> string \<Rightarrow> (string, eb_publisher) result" where
  "NewBroadcastPublisher e steps serviceName =
     (case NewPublisherWithService e steps serviceName of
        Inl err \<Rightarrow> Inl (''failed to create base publisher: '' @ err)
      | Inr p \<Rightarrow> Inr p)"

definition bp_ServiceName :: "eb_publisher \<Rightarrow> string" where
  "bp_ServiceName p = pb_serviceName p"

text \<open>
  The channel operations of \<^verbatim>\<open>SubscribeBroadcast\<close>: a durable fanout exchange; a temporary queue, deleted when unused
  and exclusive, with its message TTL in milliseconds; its binding; an exclusive consumer. They run up to the first
  error, which is wrapped.
\<close>

datatype broadcast_op =
  FanoutDeclare string
| TempQueueDeclare string int
| FanoutBind string string
| ConsumeAs string string

definition broadcast_ops :: "broadcast_subscriber \<Rightarrow> string \<Rightarrow> (broadcast_op \<times> string) list" where
  "broadcast_ops bs exchangeName =
     (let queueName = bc_queue_name exchangeName (sb_serviceName (bs_Subscriber bs)) (bs_instanceID bs)
      in [(FanoutDeclare exchangeName, ''failed to declare broadcast exchange: ''),
          (TempQueueDeclare queueName 300000, ''failed to declare broadcast queue: ''),
          (FanoutBind queueName exchangeName, ''failed to bind broadcast queue: ''),
          (ConsumeAs queueName (bs_instanceID bs), ''failed to register broadcast consumer: '')])"

fun run_wrapped :: "('o \<Rightarrow> string option) \<Rightarrow> ('o \<times> string) list \<Rightarrow> string option \<times> 'o list" where
  "run_wrapped exec [] = (None, [])"
| "run_wrapped exec ((x, what) # xs) =
     (case exec x of
        Some err \<Rightarrow> (Some (what @ err), [])
      | None \<Rightarrow> (let (r, ran) = run_wrapped exec xs in (r, x # ran)))"

definition SubscribeBroadcast :: "(broadcast_op \<Rightarrow> string option) \<Rightarrow> broadcast_subscriber \<Rightarrow> string \<Rightarrow>
    string option \<times> broadcast_op list" where
  "SubscribeBroadcast exec bs exchangeName = run_wrapped exec (broadcast_ops bs exchangeName)"

definition BroadcastExchanges :: "string list" where
  "BroadcastExchanges = [''certificate.broadcast'', ''security.broadcast'', ''system.broadcast'']"

definition CertificateEventTypes :: "string list" where
  "CertificateEventTypes = [''certificate.revoked'', ''certificate.expiring'', ''ca.compromised'',
     ''certificate.emergency.renewal'', ''certificate.provisioned'']"

section \<open>The deliveries of an instance\<close>

definition bc_envelope :: "string \<Rightarrow> string \<Rightarrow> amqp_msg \<Rightarrow> base_event \<Rightarrow> broadcast_event" where
  "bc_envelope exchangeName instanceID msg event = \<lparr>be_BaseEvent = event, be_Exchange = exchangeName,
     be_InstanceID = instanceID, be_Headers = bc_headers exchangeName instanceID (ms_Headers msg)\<rparr>"

type_synonym ctx_handler = "bus_context \<Rightarrow> base_event \<Rightarrow> string option outcome"

definition bc_step :: "string \<Rightarrow> string \<Rightarrow> ctx_handler \<Rightarrow> amqp_msg \<Rightarrow> settlement outcome" where
  "bc_step exchangeName instanceID handler msg =
     bc_process (\<lambda>event. handler (WithBroadcast (Some (bc_envelope exchangeName instanceID msg event)) bus_Background) event) msg"

fun processBroadcastMessages :: "string \<Rightarrow> string \<Rightarrow> ctx_handler \<Rightarrow> amqp_msg list \<Rightarrow> settlement list outcome" where
  "processBroadcastMessages exchangeName instanceID handler [] = Ret []"
| "processBroadcastMessages exchangeName instanceID handler (msg # msgs) =
     bind_outcome (bc_step exchangeName instanceID handler msg) (\<lambda>s.
       bind_outcome (processBroadcastMessages exchangeName instanceID handler msgs) (\<lambda>ss. Ret (s # ss)))"

text \<open>\<^verbatim>\<open>ack\<close> and \<^verbatim>\<open>nack\<close>: an error of the channel is logged only.\<close>

definition ack_delivery :: "string option \<Rightarrow> settlement \<times> string list" where
  "ack_delivery err = (Acked, case err of None \<Rightarrow> [] | Some e \<Rightarrow>
     [''Failed to ack message (it will be redelivered): '' @ e])"

definition nack_delivery :: "bool \<Rightarrow> string option \<Rightarrow> settlement \<times> string list" where
  "nack_delivery requeue err = (if requeue then Requeued else DeadLettered, case err of None \<Rightarrow> [] | Some e \<Rightarrow>
     [''Failed to nack message (it will be redelivered): '' @ e])"

text \<open>The four methods of the logger broadcasts use; \<open>printed\<close> is the formatted text.\<close>

definition simpleLogger :: "string \<Rightarrow> string \<Rightarrow> string" where
  "simpleLogger level printed = ''['' @ level @ ''] '' @ printed"

section \<open>Properties\<close>

text \<open>An event published to a broadcast exchange reaches the handler of every instance as it was published, with an
  envelope in its context that names the exchange and the instance and carries the publisher's text headers.\<close>

theorem broadcast_roundtrip:
  assumes "PublishBroadcast now rfc3339 steps send p x event = (None, [m])"
  shows "bc_step x inst handler m = bc_process (\<lambda>_. handler (WithBroadcast (Some \<lparr>be_BaseEvent = event, be_Exchange = x,
      be_InstanceID = inst, be_Headers = [''published_at'' \<mapsto> rfc3339, ''source'' \<mapsto> ev_Source event,
        ''event_type'' \<mapsto> ev_Type event, ''event_id'' \<mapsto> ev_ID event, ''broadcast'' \<mapsto> ''true'', ''exchange'' \<mapsto> x,
        ''instance_id'' \<mapsto> inst]\<rparr>) bus_Background) event) m
    \<and> FromJSON (ms_Body m) = Inr event"
proof -
  have m: "FromJSON (ms_Body m) = Inr event" "ms_Headers m = [''broadcast'' \<mapsto> HBool True, ''published_at'' \<mapsto> HStr rfc3339,
      ''source'' \<mapsto> HStr (ev_Source event), ''event_type'' \<mapsto> HStr (ev_Type event), ''event_id'' \<mapsto> HStr (ev_ID event)]"
    using assms by (auto simp: PublishBroadcast_def ToJSON_def FromJSON_def Let_def split: option.split_asm sum.split_asm)
  have "bc_headers x inst (ms_Headers m) = [''published_at'' \<mapsto> rfc3339, ''source'' \<mapsto> ev_Source event,
        ''event_type'' \<mapsto> ev_Type event, ''event_id'' \<mapsto> ev_ID event, ''broadcast'' \<mapsto> ''true'', ''exchange'' \<mapsto> x,
        ''instance_id'' \<mapsto> inst]"
    by (rule ext) (simp add: bc_headers_def m(2))
  then show ?thesis by (simp add: bc_step_def bc_process_def m(1) bc_envelope_def WithBroadcast_def)
qed

definition demo_broadcaster :: eb_publisher where
  "demo_broadcaster = \<lparr>pb_serviceName = ''ca'', pb_signer = None, pb_requireSigning = False\<rparr>"

lemma demo_broadcast: "PublishBroadcast 0 ''now'' (\<lambda>_. None) (\<lambda>_. None) demo_broadcaster ''x'' zero_event =
   (None, [hd (snd (PublishBroadcast 0 ''now'' (\<lambda>_. None) (\<lambda>_. None) demo_broadcaster ''x'' zero_event))])"
proof -
  have "ToJSON zero_event = Inr (WireEvent zero_event)"
    by (simp add: ToJSON_def zero_event_def data_value_def normalizeDataStructure_def)
  then show ?thesis by (simp add: PublishBroadcast_def Let_def)
qed

theorem broadcast_roundtrip_witness:
  "bc_step ''x'' ''i1'' (\<lambda>cx e. Ret (if fst (Broadcast cx) = None then Some ''bare'' else None))
     (hd (snd (PublishBroadcast 0 ''now'' (\<lambda>_. None) (\<lambda>_. None) demo_broadcaster ''x'' zero_event))) = Ret Acked"
  using broadcast_roundtrip [OF demo_broadcast, of "''i1''"]
  by (simp add: bc_process_def Broadcast_def WithBroadcast_def)

text \<open>A panic of a broadcast handler ends the loop: no later delivery is settled, while the subscriber of
  \<^verbatim>\<open>Subscribe\<close> settles the panicking delivery and goes on.\<close>

theorem broadcast_panic_ends_loop:
  assumes "m \<in> set msgs" and "FromJSON (ms_Body m) = Inr event" and "\<And>cx. handler cx event = Panic err"
  shows "\<forall>ss. processBroadcastMessages x inst handler msgs \<noteq> Ret ss"
    and "length (concat (map (\<lambda>d. fst (eb_deliver mac now s (handler cx) d)) msgs)) = length msgs"
proof -
  have "bc_step x inst handler m = Panic err" by (simp add: bc_step_def bc_process_def assms(2,3))
  with assms(1) show "\<forall>ss. processBroadcastMessages x inst handler msgs \<noteq> Ret ss"
    by (induction msgs) (auto simp: bind_outcome_Ret_iff)
  show "length (concat (map (\<lambda>d. fst (eb_deliver mac now s (handler cx) d)) msgs)) = length msgs"
    by (rule eb_consumer.settles_stream)
qed

theorem broadcast_panic_ends_loop_witness:
  "\<forall>ss. processBroadcastMessages ''x'' ''i1'' (\<lambda>cx e. Panic ''boom'')
     [hd (snd (PublishBroadcast 0 ''now'' (\<lambda>_. None) (\<lambda>_. None) demo_broadcaster ''x'' zero_event))] \<noteq> Ret ss"
  by (rule broadcast_panic_ends_loop(1)) (use broadcast_roundtrip [OF demo_broadcast] in auto)

text \<open>The configured lifetime and retries change nothing.\<close>

lemma broadcast_config_ignored:
  "NewBroadcastSubscriber e steps (config\<lparr>bf_MessageTTL := ttl, bf_MaxRetries := n, bf_ExchangeName := x\<rparr>)
     = NewBroadcastSubscriber e steps config"
  by (simp add: NewBroadcastSubscriber_def cong: sum.case_cong)

lemma broadcast_never_verified:
  "NewBroadcastSubscriber e steps config = Inr bs \<Longrightarrow> sb_verifier (bs_Subscriber bs) = None"
  "NewBroadcastPublisher e steps sv = Inr p \<Longrightarrow> pb_signer p = None"
  by (auto simp: NewBroadcastSubscriber_def NewSubscriberWithService_def NewSubscriberWithSigning_def
      NewBroadcastPublisher_def NewPublisherWithService_def NewPublisherWithSigning_def
      split: sum.split_asm option.split_asm)

end
