(* ===== verification/Service_Metrics.thy ===== *)
theory Service_Metrics
  imports Metric_Series Http_Client Rate_Limit Service_Logging
begin

text \<open>
  The series of the HTTP client (\<^verbatim>\<open>httpclient/client.go\<close>), the rate limiter (\<^verbatim>\<open>middleware/rate_limiting.go\<close>), the
  server and its database (\<^verbatim>\<open>middleware/metrics.go\<close>), and what a call, a check and a request record in them.
\<close>

definition http_buckets :: "real list" where
  "http_buckets = [0.001, 0.005, 0.01, 0.025, 0.05, 0.1, 0.25, 0.5, 1, 2.5, 5, 10]"

section \<open>The HTTP client\<close>

definition httpRequestDuration :: series where
  "httpRequestDuration = histogram ''http_client_request_duration_seconds'' http_buckets
     [''service'', ''method'', ''status_code'', ''target_service'']"

definition httpRequestsTotal :: series where
  "httpRequestsTotal = counter ''http_client_requests_total'' [''service'', ''method'', ''status_code'', ''target_service'']"

definition httpCircuitBreakerState :: series where
  "httpCircuitBreakerState = gauge ''http_client_circuit_breaker_state'' [''service'', ''target_service'']"

definition httpRetryAttemptsTotal :: series where
  "httpRetryAttemptsTotal = counter ''http_client_retry_attempts_total'' [''service'', ''target_service'', ''reason'']"

definition httpErrorsTotal :: series where
  "httpErrorsTotal = counter ''http_client_errors_total'' [''service'', ''target_service'', ''error_type'']"

record http_metrics =
  hm_serviceName :: string
  hm_targetService :: string

definition NewHTTPClientMetrics :: "string \<Rightarrow> string \<Rightarrow> http_metrics" where
  "NewHTTPClientMetrics serviceName targetService = \<lparr>hm_serviceName = serviceName, hm_targetService = targetService\<rparr>"

text \<open>The receiver may be nil, in which case nothing is recorded.\<close>

definition RecordRequest :: "http_metrics option \<Rightarrow> string \<Rightarrow> int \<Rightarrow> duration \<Rightarrow> metric_op list" where
  "RecordRequest m verb statusCode d = (case m of None \<Rightarrow> [] | Some h \<Rightarrow>
     (let labels = [hm_serviceName h, verb, itoa statusCode, hm_targetService h]
      in [Observe httpRequestDuration labels (Seconds d), Inc httpRequestsTotal labels]))"

definition breaker_number :: "CircuitBreakerState \<Rightarrow> real" where
  "breaker_number st = (case st of CircuitClosed \<Rightarrow> 0 | CircuitOpen \<Rightarrow> 1 | CircuitHalfOpen \<Rightarrow> 2)"

definition RecordCircuitBreakerState :: "http_metrics option \<Rightarrow> CircuitBreakerState \<Rightarrow> metric_op list" where
  "RecordCircuitBreakerState m st = (case m of None \<Rightarrow> [] | Some h \<Rightarrow>
     [SetTo httpCircuitBreakerState [hm_serviceName h, hm_targetService h] (breaker_number st)])"

definition RecordRetryAttempt :: "http_metrics option \<Rightarrow> string \<Rightarrow> metric_op list" where
  "RecordRetryAttempt m reason = (case m of None \<Rightarrow> [] | Some h \<Rightarrow>
     [Inc httpRetryAttemptsTotal [hm_serviceName h, hm_targetService h, reason]])"

definition RecordError :: "http_metrics option \<Rightarrow> string \<Rightarrow> metric_op list" where
  "RecordError m errorType = (case m of None \<Rightarrow> [] | Some h \<Rightarrow>
     [Inc httpErrorsTotal [hm_serviceName h, hm_targetService h, errorType]])"

text \<open>
  What a run of \<^verbatim>\<open>Do\<close> records; \<open>took\<close> is the time since the run began at each response. \<^verbatim>\<open>NewClient\<close> makes the
  metrics and sets the gauge.
\<close>

fun event_ops :: "http_metrics option \<Rightarrow> duration \<Rightarrow> http_event \<Rightarrow> metric_op list" where
  "event_ops m took (RetryAttempt reason) = RecordRetryAttempt m reason"
| "event_ops m took (ErrorMetric e) = RecordError m e"
| "event_ops m took (RequestMetric verb code) = RecordRequest m verb code took"
| "event_ops m took (BreakerMetric st) = RecordCircuitBreakerState m st"
| "event_ops m took (Sent w) = []"
| "event_ops m took (Waited d) = []"

definition client_metrics :: "http_client \<Rightarrow> http_metrics option" where
  "client_metrics c = Some (NewHTTPClientMetrics (hl_serviceName c) (hl_targetService c))"

definition NewClient_ops :: "http_client \<Rightarrow> metric_op list" where
  "NewClient_ops c = RecordCircuitBreakerState (client_metrics c) (cb_state (hl_circuitBreaker c))"

definition run_ops_of :: "http_client \<Rightarrow> (nat \<Rightarrow> duration) \<Rightarrow> http_event list \<Rightarrow> metric_op list" where
  "run_ops_of c took evs = concat (map (\<lambda>(i, e). event_ops (client_metrics c) (took i) e) (enumerate 0 evs))"

section \<open>The rate limiter\<close>

definition rateLimitChecks :: series where
  "rateLimitChecks = counter ''rate_limit_checks_total'' [''service'', ''endpoint_type'', ''result'']"

definition rateLimitExceeded :: series where
  "rateLimitExceeded = counter ''rate_limit_exceeded_total'' [''service'', ''endpoint_type'', ''client_type'']"

definition rateLimitErrors :: series where
  "rateLimitErrors = counter ''rate_limit_errors_total'' [''service'', ''endpoint_type'', ''error'']"

definition RecordRateLimitCheck :: "string \<Rightarrow> string \<Rightarrow> string \<Rightarrow> metric_op" where
  "RecordRateLimitCheck serviceName endpointType outcome = Inc rateLimitChecks [serviceName, endpointType, outcome]"

definition client_type :: "string \<Rightarrow> string" where
  "client_type clientID =
     (if hasPrefix clientID ''user:'' then ''user''
      else if hasPrefix clientID ''service:'' then ''service''
      else if hasPrefix clientID ''ip:'' then ''ip''
      else ''unknown'')"

definition RecordRateLimitExceeded :: "string \<Rightarrow> string \<Rightarrow> string \<Rightarrow> metric_op" where
  "RecordRateLimitExceeded serviceName endpointType clientID =
     Inc rateLimitExceeded [serviceName, endpointType, client_type clientID]"

definition RecordRateLimitError :: "string \<Rightarrow> string \<Rightarrow> string \<Rightarrow> metric_op" where
  "RecordRateLimitError serviceName endpointType errorMsg = Inc rateLimitErrors [serviceName, endpointType, errorMsg]"

text \<open>Whether the check found the client blocked already, which it records nothing of.\<close>

definition found_blocked :: "'s redis_server \<Rightarrow> kv_net \<Rightarrow> string \<Rightarrow> instant \<Rightarrow> string \<Rightarrow> endpoint_type \<Rightarrow> 's kv_state \<Rightarrow> bool" where
  "found_blocked apply net service now clientID t s =
     (let bk = blockKey service clientID t
      in case fst (kv_do apply net 0 now (OpExists [bk]) (\<lambda>w. client_Exists w [bk]) s) of
           Ret cmd \<Rightarrow> cmd_err cmd = None \<and> int_val cmd > 0
         | _ \<Rightarrow> False)"

definition IsAllowed_ops :: "'s redis_server \<Rightarrow> kv_net \<Rightarrow> string \<Rightarrow> instant \<Rightarrow> string \<Rightarrow> endpoint_type \<Rightarrow> 's kv_state \<Rightarrow>
    metric_op list" where
  "IsAllowed_ops apply net service now clientID t s =
     (if rl_RequestsPerMinute (RateLimitConfigs t) = 0 then []
      else case fst (IsAllowed apply net service now clientID t s) of
          Ret (Inr (True, _)) \<Rightarrow> [RecordRateLimitCheck service (endpoint_name t) ''allowed'']
        | Ret (Inr (False, _)) \<Rightarrow>
            if found_blocked apply net service now clientID t s then []
            else [RecordRateLimitExceeded service (endpoint_name t) clientID]
        | _ \<Rightarrow> [])"

definition RateLimit_ops :: "'s redis_server \<Rightarrow> kv_net \<Rightarrow> string \<Rightarrow> instant \<Rightarrow> web_request \<Rightarrow> 's kv_state \<Rightarrow> metric_op list" where
  "RateLimit_ops apply net service now r s =
     (let t = ClassifyEndpoint (wq_Path r) (wq_Method r); clientID = ClientIdentifier r
      in IsAllowed_ops apply net service now clientID t s @
         (case fst (IsAllowed apply net service now clientID t s) of
            Ret (Inl err) \<Rightarrow> [RecordRateLimitError service (endpoint_name t) err]
          | Ret (Inr (False, _)) \<Rightarrow> [RecordRateLimitCheck service (endpoint_name t) ''blocked'']
          | _ \<Rightarrow> []))"

section \<open>The server\<close>

definition httpDuration :: series where
  "httpDuration = histogram ''http_request_duration_seconds'' http_buckets [''service'', ''method'', ''path'', ''status_code'']"

definition httpRequests :: series where
  "httpRequests = counter ''http_requests_total'' [''service'', ''method'', ''path'', ''status_code'']"

definition httpInFlight :: series where
  "httpInFlight = gauge ''http_requests_in_flight'' [''service'']"

text \<open>The changes \<^verbatim>\<open>Metrics\<close> makes, as changes of the three series.\<close>

fun server_op :: "duration \<Rightarrow> metric \<Rightarrow> metric_op list" where
  "server_op took (InFlight service n) = (if n = 1 then [Inc httpInFlight [service]] else [Dec httpInFlight [service]])"
| "server_op took (Observed service verb route status) =
     [Observe httpDuration [service, verb, route, itoa status] (Seconds took),
      Inc httpRequests [service, verb, route, itoa status]]"

definition Metrics_ops :: "duration \<Rightarrow> string \<Rightarrow> web_request \<Rightarrow> write_op list outcome \<Rightarrow> metric_op list" where
  "Metrics_ops took service r handler = concat (map (server_op took) (Metrics service r handler))"

text \<open>The active connections, the queries and their duration; the service is a constant label.\<close>

record database_metrics =
  dm_ConnectionsActive :: series
  dm_QueriesTotal :: series
  dm_QueryDuration :: series

definition NewDatabaseMetrics :: "string \<Rightarrow> database_metrics" where
  "NewDatabaseMetrics serviceName = \<lparr>
     dm_ConnectionsActive = (gauge ''database_connections_active'' [])\<lparr>sr_ConstLabels := [(''service'', serviceName)]\<rparr>,
     dm_QueriesTotal = (counter ''database_queries_total'' [''operation'', ''table'', ''status''])
       \<lparr>sr_ConstLabels := [(''service'', serviceName)]\<rparr>,
     dm_QueryDuration = (histogram ''database_query_duration_seconds'' [0.001, 0.005, 0.01, 0.025, 0.05, 0.1, 0.25, 0.5, 1, 2.5, 5]
       [''operation'', ''table''])\<lparr>sr_ConstLabels := [(''service'', serviceName)]\<rparr>\<rparr>"

definition database_series :: "database_metrics \<Rightarrow> series list" where
  "database_series m = [dm_ConnectionsActive m, dm_QueriesTotal m, dm_QueryDuration m]"

lemmas server_series_defs = httpRequestDuration_def httpRequestsTotal_def httpCircuitBreakerState_def
  httpRetryAttemptsTotal_def httpErrorsTotal_def rateLimitChecks_def rateLimitExceeded_def rateLimitErrors_def
  httpDuration_def httpRequests_def httpInFlight_def series_defs

end
