(* ===== verification/Metrics_Theorems.thy ===== *)
theory Metrics_Theorems
  imports Event_Metrics Service_Metrics Http_Theorems Rate_Theorems
begin

text \<open>
  Properties of the metrics over all packages: the library is given no reason to panic, and what the counters and
  gauges say of the runs they record.
\<close>

section \<open>Registration and labels\<close>

definition package_series :: "series list" where
  "package_series = [EventsPublished, EventsReceived, EventsProcessed, EventProcessingDuration, EventsInDLQ,
     EventsRequeued, EventsAcknowledged, QueueDepth, ConnectionStatus, httpRequestDuration, httpRequestsTotal,
     httpCircuitBreakerState, httpRetryAttemptsTotal, httpErrorsTotal, rateLimitChecks, rateLimitExceeded,
     rateLimitErrors, httpDuration, httpRequests, httpInFlight]"

abbreviation sr_key :: "series \<Rightarrow> string \<times> (string \<times> string) list" where
  "sr_key s \<equiv> (sr_Name s, sr_ConstLabels s)"

lemma package_keys:
  "distinct (map sr_key package_series)" "\<forall>s \<in> set package_series. sorted_buckets (sr_Kind s) \<and> sr_ConstLabels s = []"
  by (simp_all add: package_series_def event_series_defs server_series_defs event_buckets_def http_buckets_def)

lemma database_keys:
  "map sr_key (database_series (NewDatabaseMetrics sv)) =
     [(''database_connections_active'', [(''service'', sv)]), (''database_queries_total'', [(''service'', sv)]),
      (''database_query_duration_seconds'', [(''service'', sv)])]"
  "\<forall>s \<in> set (database_series (NewDatabaseMetrics sv)). sorted_buckets (sr_Kind s)"
  by (simp_all add: database_series_def NewDatabaseMetrics_def series_defs)

lemma database_key_service:
  "k \<in> set (map sr_key (database_series (NewDatabaseMetrics sv))) \<Longrightarrow> snd k = [(''service'', sv)]"
  unfolding database_keys by auto

lemma distinct_concat_tagged:
  assumes "\<And>x. distinct (f x) \<and> f x \<noteq> []" and "\<And>x k. k \<in> set (f x) \<Longrightarrow> tag k = x"
  shows "distinct (concat (map f xs)) \<longleftrightarrow> distinct xs"
proof (induction xs)
  case (Cons x xs)
  have "set (f x) \<inter> set (concat (map f xs)) = {} \<longleftrightarrow> x \<notin> set xs"
  proof
    obtain k where k: "k \<in> set (f x)" using assms(1) [of x] by (meson hd_in_set)
    assume "set (f x) \<inter> set (concat (map f xs)) = {}"
    with k show "x \<notin> set xs" by auto
  next
    assume "x \<notin> set xs"
    then show "set (f x) \<inter> set (concat (map f xs)) = {}" by (auto dest: assms(2))
  qed
  then show ?case using Cons assms(1) [of x] by auto
qed simp

lemma database_all_keys:
  "distinct (map sr_key (concat (map (\<lambda>sv. database_series (NewDatabaseMetrics sv)) services))) \<longleftrightarrow> distinct services"
proof -
  have "distinct (concat (map (\<lambda>sv. map sr_key (database_series (NewDatabaseMetrics sv))) services)) \<longleftrightarrow> distinct services"
  proof (rule distinct_concat_tagged [where tag = "\<lambda>k. snd (hd (snd k))"])
    show "distinct (map sr_key (database_series (NewDatabaseMetrics sv))) \<and> map sr_key (database_series (NewDatabaseMetrics sv)) \<noteq> []" for sv
      unfolding database_keys by simp
    show "snd (hd (snd k)) = sv" if "k \<in> set (map sr_key (database_series (NewDatabaseMetrics sv)))" for k sv
      using database_key_service [OF that] by simp
  qed
  then show ?thesis by (simp add: map_concat comp_def)
qed

text \<open>The series of all packages, together with the database metrics of any services, can be registered exactly
  when no service is named twice: a second \<^verbatim>\<open>NewDatabaseMetrics\<close> for one service makes the registration panic.\<close>

theorem series_registrable_iff:
  "registrable (package_series @ concat (map (\<lambda>sv. database_series (NewDatabaseMetrics sv)) services))
     \<longleftrightarrow> distinct services"
proof -
  let ?db = "concat (map (\<lambda>sv. database_series (NewDatabaseMetrics sv)) services)"
  have "sr_ConstLabels s \<noteq> []" if "s \<in> set ?db" for s
  proof -
    from that obtain sv where "s \<in> set (database_series (NewDatabaseMetrics sv))" by auto
    then show ?thesis using database_key_service [of "sr_key s" sv] by auto
  qed
  then have "set (map sr_key package_series) \<inter> set (map sr_key ?db) = {}"
    using package_keys(2) by fastforce
  moreover have "\<forall>s \<in> set ?db. sorted_buckets (sr_Kind s)" using database_keys(2) by auto
  ultimately show ?thesis
    unfolding registrable_def using package_keys database_all_keys [of services] by auto
qed

lemma client_ops_fit: "list_all fits (event_ops m took e)"
  by (cases e) (simp_all add: RecordRequest_def RecordCircuitBreakerState_def RecordRetryAttempt_def RecordError_def
      server_series_defs fits_def Let_def split: option.split)

lemma run_ops_fit: "list_all fits (run_ops_of c took evs)"
  unfolding run_ops_of_def list_all_iff using client_ops_fit by (fastforce simp: list_all_iff)

lemma RateLimit_ops_fit: "list_all fits (RateLimit_ops apply net service now r s)"
  by (simp add: RateLimit_ops_def IsAllowed_ops_def RecordRateLimitCheck_def RecordRateLimitExceeded_def
      RecordRateLimitError_def fits_def server_series_defs Let_def split: outcome.split sum.split bool.split)

lemma Metrics_ops_fit: "list_all fits (Metrics_ops took service r handler)"
  by (simp add: Metrics_ops_def Metrics_def TrackInFlight_def ObserveRequest_def fits_def server_series_defs
      split: outcome.split)


section \<open>What the gauges say\<close>

lemma http_loop_no_breaker: "BreakerMetric st \<notin> set (snd (http_loop env c req attempt wait lastErr k))"
proof (induction k arbitrary: attempt wait lastErr)
  case (Suc k)
  then show ?case
    by (auto simp: Let_def split_beta split: option.split sum.split)
qed simp

text \<open>The breaker gauge of the HTTP client never shows 2, which its help text gives for half-open: no call records that
  state, although every breaker that lets a call through after its timeout is in it.\<close>

theorem breaker_gauge_never_half_open:
  assumes "breaker_ok (hl_circuitBreaker c)" and "cb_failureCount (hl_circuitBreaker c) < max_int64"
  shows "SetTo httpCircuitBreakerState ls 2 \<notin> set (run_ops_of c took0 (snd (snd (http_Do start finish env req c))))"
proof
  let ?evs = "snd (snd (http_Do start finish env req c))"
  assume a3: "SetTo httpCircuitBreakerState ls 2 \<in> set (run_ops_of c took0 ?evs)"
  have "SetTo httpCircuitBreakerState ls v \<in> set (event_ops m t e) \<Longrightarrow> \<exists>st. e = BreakerMetric st \<and> v = breaker_number st" for m t e v
    by (cases e) (auto simp: RecordRequest_def RecordCircuitBreakerState_def RecordRetryAttempt_def RecordError_def
        Let_def split: option.split_asm)
  moreover obtain i where "i < length ?evs" "SetTo httpCircuitBreakerState ls 2 \<in> set (event_ops (client_metrics c) (took0 i) (?evs ! i))"
    using a3 unfolding run_ops_of_def by (auto simp: in_set_enumerate_eq)
  ultimately obtain st where st: "BreakerMetric st \<in> set ?evs" "2 = breaker_number st" by (metis nth_mem)
  obtain b cb where k: "CanExecute start (hl_circuitBreaker c) = (b, cb)" by fastforce
  then have cb: "breaker_ok cb" "cb_failureCount cb < max_int64"
    using breaker_ok_admit [OF assms(1), of start] assms(2)
    by (auto simp: CanExecute_def split: CircuitBreakerState.split_asm if_split_asm)
  obtain e evs where l: "http_loop env (c\<lparr>hl_circuitBreaker := cb\<rparr>) req 0 (rt_InitialWait (hl_retryConfig c)) None
      (nat (rt_MaxRetries (hl_retryConfig c) + 1)) = (e, evs)" by fastforce
  have n: "BreakerMetric st \<notin> set evs" for st using http_loop_no_breaker [of st env "c\<lparr>hl_circuitBreaker := cb\<rparr>" req 0] l
    by (metis snd_conv)
  have "st = CircuitClosed \<or> st = cb_state (RecordFailure finish cb)"
    using st(1) n unfolding http_Do_def k Let_def
    by (auto simp: l split: if_split_asm loop_end.split_asm bool.split_asm)
  moreover have "cb_state (RecordFailure finish cb) \<noteq> CircuitHalfOpen"
  proof -
    have c1: "wrap64 (cb_failureCount cb + 1) = cb_failureCount cb + 1"
      using cb by (simp add: breaker_ok_def wrap64_id in_int64_def max_int64_def)
    show ?thesis
      using cb by (auto simp: RecordFailure_def Let_def c1 breaker_ok_def)
  qed
  ultimately show False using st(2) by (cases st) (auto simp: breaker_number_def)
qed

theorem breaker_gauge_never_half_open_witness:
  "SetTo httpCircuitBreakerState [] 2 \<notin> set (run_ops_of http_demo_client (\<lambda>_. 0)
     (snd (snd (http_Do 0 1 (http_demo_env 503) http_demo_req http_demo_client))))"
proof -
  have "breaker_ok (hl_circuitBreaker http_demo_client)" "cb_failureCount (hl_circuitBreaker http_demo_client) < max_int64"
    by (simp_all add: http_demo_client_def breaker_ok_new) (simp add: NewCircuitBreaker_def max_int64_def)
  then show ?thesis by (rule breaker_gauge_never_half_open)
qed

text \<open>What a run of changes does to the gauge of requests in flight.\<close>

fun gauge_change :: "metric_op \<Rightarrow> int" where
  "gauge_change (Inc s ls) = (if sr_Name s = sr_Name httpInFlight then 1 else 0)"
| "gauge_change (Dec s ls) = (if sr_Name s = sr_Name httpInFlight then -1 else 0)"
| "gauge_change (SetTo s ls v) = 0"
| "gauge_change (Observe s ls v) = 0"

text \<open>The gauge of requests in flight returns to its value whenever the handler returns or panics, a finished request
  other than a scrape is counted exactly once, and a panicking one not at all.\<close>

theorem server_metrics_balanced:
  assumes "handler \<noteq> Block"
  shows "sum_list (map gauge_change (Metrics_ops took service r handler)) = 0
    \<and> ups httpRequests (Metrics_ops took service r handler) = of_bool (wq_Path r \<noteq> MetricsPath \<and> (\<exists>ops. handler = Ret ops))"
  using assms
  by (cases handler) (simp_all add: Metrics_ops_def Metrics_def TrackInFlight_def ObserveRequest_def server_series_defs)

text \<open>Every request that meets a limit is counted once as allowed or blocked, and one whose check fails, which is let
  through, is counted as an error only.\<close>

theorem rate_checks_counted_once:
  assumes "ClassifyEndpoint (wq_Path r) (wq_Method r) \<noteq> EpHealthy"
  shows "let t = ClassifyEndpoint (wq_Path r) (wq_Method r); ops = RateLimit_ops apply net service now r s;
             res = fst (IsAllowed apply net service now (ClientIdentifier r) t s)
    in ups rateLimitChecks ops = (case res of Ret (Inr x) \<Rightarrow> 1 | _ \<Rightarrow> 0)
     \<and> ups rateLimitErrors ops = (case res of Ret (Inl e) \<Rightarrow> 1 | _ \<Rightarrow> 0)"
proof -
  have "rl_RequestsPerMinute (RateLimitConfigs t) \<noteq> 0" if "t \<noteq> EpHealthy" for t
    using that by (cases t) (simp_all add: RateLimitConfigs_def)
  from this [OF assms] show ?thesis
    by (simp add: RateLimit_ops_def IsAllowed_ops_def RecordRateLimitCheck_def RecordRateLimitExceeded_def
        RecordRateLimitError_def server_series_defs Let_def split: outcome.split sum.split bool.split)
qed

definition demo_data_request :: web_request where
  "demo_data_request = \<lparr>wq_Method = ''GET'', wq_Path = ''/orders'', wq_Headers = Map.empty, wq_Query = (\<lambda>_. []),
     wq_RemoteAddr = ''10.0.0.1:5'', wq_Context = Background\<rparr>"

theorem rate_checks_counted_once_witness:
  "ups rateLimitErrors (RateLimit_ops toy_apply toy_net ''api'' 5 demo_data_request (toy_store ''hash'' [0, 1]))
     = (case fst (IsAllowed toy_apply toy_net ''api'' 5 (ClientIdentifier demo_data_request) EpData (toy_store ''hash'' [0, 1]))
        of Ret (Inl e) \<Rightarrow> 1 | _ \<Rightarrow> 0)"
proof -
  have t: "ClassifyEndpoint (wq_Path demo_data_request) (wq_Method demo_data_request) = EpData" by code_simp
  then have "ClassifyEndpoint (wq_Path demo_data_request) (wq_Method demo_data_request) \<noteq> EpHealthy" by simp
  from rate_checks_counted_once [OF this, of toy_apply toy_net "''api''" 5 "toy_store ''hash'' [0, 1]"]
  show ?thesis by (simp add: t Let_def)
qed

theorem server_metrics_balanced_witness:
  "sum_list (map gauge_change (Metrics_ops 0 ''api'' demo_data_request (Panic ''boom''))) = 0"
  using server_metrics_balanced [of "Panic ''boom''" 0 "''api''" demo_data_request] by simp

text \<open>The label of a bucket in \<^verbatim>\<open>rate_limit_exceeded_total\<close> is never unknown: every bucket has a kind.\<close>

lemma client_type_known: "client_type (ClientIdentifier r) \<in> {''user'', ''service'', ''ip''}"
  by (auto simp: client_type_def ClientIdentifier_def split: option.split)

end
