(* ===== verification/Gin_Adapter.thy ===== *)
theory Gin_Adapter
  imports Service_Metrics Service_Health
begin

text \<open>
  The Gin and chi forms of the middleware (\<^verbatim>\<open>ginx\<close>, \<^verbatim>\<open>chix\<close>). A Gin context carries the request, the keys set on it,
  the pattern of the matched route, what was written, and whether the chain was aborted. \<open>nxt\<close> is what Gin runs at
  \<^verbatim>\<open>c.Next()\<close>, the handlers registered after the one at hand; Gin runs them too when a handler returns without
  aborting. What the routers do themselves is an argument.
\<close>

section \<open>Contexts\<close>

text \<open>The trace under \<^verbatim>\<open>trace_context\<close> is the pointer the request context holds, so its fields are those found there.\<close>

datatype gin_value = GString string | GStrings "string list" | GService service_key | GTrace

record gin_context =
  gx_Request :: web_request
  gx_Keys :: "string \<rightharpoonup> gin_value"
  gx_FullPath :: string
  gx_Headers :: headers
  gx_Status :: int
  gx_Body :: "json_body option"
  gx_Aborted :: bool

type_synonym gin_next = "gin_context \<Rightarrow> gin_context"
type_synonym gin_handler = "gin_next \<Rightarrow> gin_context \<Rightarrow> gin_context"

definition gin_Set :: "string \<Rightarrow> gin_value \<Rightarrow> gin_context \<Rightarrow> gin_context" where
  "gin_Set k v c = c\<lparr>gx_Keys := (gx_Keys c)(k \<mapsto> v)\<rparr>"

definition set_headers :: "(string \<times> string) list \<Rightarrow> gin_context \<Rightarrow> gin_context" where
  "set_headers hs c = c\<lparr>gx_Headers := header_set_all hs (gx_Headers c)\<rparr>"

text \<open>A \<^verbatim>\<open>net/http\<close> handler's response through Gin's writer.\<close>

definition respond :: "web_response \<Rightarrow> gin_context \<Rightarrow> gin_context" where
  "respond resp c = c\<lparr>gx_Headers := gx_Headers c ++ wp_Headers resp, gx_Status := wp_Status resp, gx_Body := Some (wp_Body resp)\<rparr>"

definition WrapH :: "web_handler \<Rightarrow> gin_handler" where
  "WrapH h nxt c = nxt (respond (h (gx_Request c)) c)"

section \<open>Adapting middleware\<close>

text \<open>\<^verbatim>\<open>Use\<close>: a middleware that calls its next handler resumes the chain with the request it passed; one that answers aborts it.\<close>

definition gin_verdict :: "verdict \<Rightarrow> gin_handler" where
  "gin_verdict v nxt c = (case v of
     Next r hs \<Rightarrow> nxt (set_headers hs c\<lparr>gx_Request := r\<rparr>)
   | Reply resp \<Rightarrow> (respond resp c)\<lparr>gx_Aborted := True\<rparr>)"

definition gin_Use :: "middleware \<Rightarrow> gin_handler" where
  "gin_Use mw nxt c = gin_verdict (mw (gx_Request c)) nxt c"

text \<open>\<^verbatim>\<open>UseThen\<close>: \<open>sync\<close> runs with the request the middleware passed, which the chain then resumes with.\<close>

definition UseThen :: "middleware \<Rightarrow> (gin_context \<Rightarrow> gin_context) \<Rightarrow> gin_handler" where
  "UseThen mw sync nxt c = (case mw (gx_Request c) of
     Next r hs \<Rightarrow> nxt ((sync (set_headers hs c\<lparr>gx_Request := r\<rparr>))\<lparr>gx_Request := r\<rparr>)
   | Reply resp \<Rightarrow> (respond resp c)\<lparr>gx_Aborted := True\<rparr>)"

definition EnablePprofIfDebug :: "environ \<Rightarrow> string option" where
  "EnablePprofIfDebug e = (if debug_Enabled e then Some (debug_Prefix @ ''*any'') else None)"

section \<open>Responses\<close>

text \<open>\<^verbatim>\<open>c.JSON\<close>.\<close>

definition gin_JSON :: "int \<Rightarrow> json_body \<Rightarrow> gin_context \<Rightarrow> gin_context" where
  "gin_JSON status v c = respond (WriteJSON status v) c"

definition gin_OK :: "goany \<Rightarrow> gin_context \<Rightarrow> gin_context" where
  "gin_OK v = gin_JSON 200 (JsonBody v)"

definition gin_Created :: "goany \<Rightarrow> gin_context \<Rightarrow> gin_context" where
  "gin_Created v = gin_JSON 201 (JsonBody v)"

definition gin_Error :: "int \<Rightarrow> string \<Rightarrow> gin_context \<Rightarrow> gin_context" where
  "gin_Error status message = gin_JSON status (ErrorBody message [])"

definition gin_ErrorCode :: "int \<Rightarrow> string \<Rightarrow> string \<Rightarrow> gin_context \<Rightarrow> gin_context" where
  "gin_ErrorCode status message code = gin_JSON status (ErrorBody message code)"

definition gin_BadRequest :: "string \<Rightarrow> gin_context \<Rightarrow> gin_context" where
  "gin_BadRequest message = gin_Error 400 message"

definition gin_NotFound :: "string \<Rightarrow> gin_context \<Rightarrow> gin_context" where
  "gin_NotFound message = gin_Error 404 message"

text \<open>The text it logs, and the response.\<close>

definition gin_InternalError :: "string \<Rightarrow> gin_context \<Rightarrow> string \<times> gin_context" where
  "gin_InternalError err c = (''internal error handling '' @ wq_Method (gx_Request c) @ '' '' @ wq_Path (gx_Request c) @ '': '' @ err,
     gin_Error 500 ''Internal server error'' c)"

text \<open>\<open>bound\<close> is what \<^verbatim>\<open>ShouldBindJSON\<close> makes of the body.\<close>

definition gin_Bind :: "(string, 'a) result \<Rightarrow> gin_context \<Rightarrow> 'a option \<times> gin_context" where
  "gin_Bind bound c = (case bound of Inl err \<Rightarrow> (None, gin_BadRequest ''Invalid request body'' c) | Inr v \<Rightarrow> (Some v, c))"

definition gin_PaginationWith :: "gin_context \<Rightarrow> int \<Rightarrow> int \<Rightarrow> page" where
  "gin_PaginationWith c = PaginationWith (gx_Request c)"

definition gin_Pagination :: "gin_context \<Rightarrow> page" where
  "gin_Pagination c = Pagination (gx_Request c)"

section \<open>Routes, traces and users\<close>

definition gin_Route :: gin_handler where
  "gin_Route nxt c = nxt (if gx_FullPath c \<noteq> []
     then c\<lparr>gx_Request := WithContext (WithRoute (gx_FullPath c) (wq_Context (gx_Request c))) (gx_Request c)\<rparr> else c)"

definition gin_CORSWithOrigins :: "string list \<Rightarrow> gin_handler" where
  "gin_CORSWithOrigins allowedOrigins = gin_Use (CORSWithOrigins allowedOrigins)"

definition mirror_trace :: "gin_context \<Rightarrow> gin_context" where
  "mirror_trace c = (if cx_trace (wq_Context (gx_Request c)) \<noteq> None then gin_Set ''trace_context'' GTrace c else c)"

definition TracingMiddleware :: "instant \<Rightarrow> (nat \<Rightarrow> string option) \<Rightarrow> gin_handler" where
  "TracingMiddleware now draw = UseThen (Tracing now draw) mirror_trace"

definition GetTraceContext :: "gin_context \<Rightarrow> trace_context option" where
  "GetTraceContext c = cx_trace (wq_Context (gx_Request c))"

definition gin_SetUserID :: "string \<Rightarrow> gin_context \<Rightarrow> gin_context" where
  "gin_SetUserID userID c =
     (let cx = (wq_Context (gx_Request c))\<lparr>cx_trace := map_option (\<lambda>t. t\<lparr>tc_UserID := userID\<rparr>) (GetTraceContext c)\<rparr>
      in c\<lparr>gx_Request := WithContext (WithUserID userID cx) (gx_Request c)\<rparr>)"

section \<open>Metrics, logging, health\<close>

definition gin_route_label :: "gin_context \<Rightarrow> string" where
  "gin_route_label c = (if gx_FullPath c = [] then wq_Path (gx_Request c) else gx_FullPath c)"

text \<open>\<open>after\<close> is the context when the rest of the chain has returned, or its panic.\<close>

definition PrometheusMiddleware :: "string \<Rightarrow> gin_context \<Rightarrow> gin_context outcome \<Rightarrow> metric list" where
  "PrometheusMiddleware serviceName c after =
     (if wq_Path (gx_Request c) = MetricsPath then []
      else let (up, done') = TrackInFlight serviceName
           in up @ (case after of
                Ret c' \<Rightarrow> ObserveRequest serviceName (wq_Method (gx_Request c')) (gin_route_label c') (gx_Status c') @ done'
              | Panic _ \<Rightarrow> done'
              | Block \<Rightarrow> []))"

definition routeOf :: "gin_context \<Rightarrow> string" where
  "routeOf c = (if gx_FullPath c \<noteq> [] then gx_FullPath c else Route (gx_Request c))"

text \<open>\<open>sz\<close>, \<open>clientIP\<close> and \<open>errors\<close> are what Gin's writer and context answer.\<close>

definition gin_attrs :: "string \<Rightarrow> string \<Rightarrow> int \<Rightarrow> string \<Rightarrow> string option \<Rightarrow> gin_context \<Rightarrow> attrs" where
  "gin_attrs serviceName took sz clientIP errors c =
     (if serviceName \<noteq> [] then [(''service'', serviceName)] else [])
     @ [(''method'', wq_Method (gx_Request c)), (''route'', routeOf c), (''path'', wq_Path (gx_Request c)),
        (''status'', itoa (gx_Status c)), (''bytes'', itoa (max sz 0)), (''duration'', took), (''client_ip'', clientIP)]
     @ (case errors of None \<Rightarrow> [] | Some text \<Rightarrow> [(''errors'', text)])"

definition logRequest :: "log_handler \<Rightarrow> string \<Rightarrow> (string \<times> int) option \<Rightarrow> string \<Rightarrow> string \<Rightarrow> int \<Rightarrow> string \<Rightarrow>
    string option \<Rightarrow> gin_context \<Rightarrow> string option" where
  "logRequest logger now src serviceName took sz clientIP errors c =
     (let level = (if QuietSuccessfulProbes (gx_Request c) (gx_Status c) then LevelDebug else LevelInfo)
      in if \<not> log_enabled logger level then None
         else Some (Handle logger \<lparr>lr_Level = level, lr_Time = now, lr_Source = src, lr_Message = ''http request'',
                lr_Attrs = gin_attrs serviceName took sz clientIP errors c\<rparr>))"

definition LoggingMiddleware :: "log_handler \<Rightarrow> string \<Rightarrow> (string \<times> int) option \<Rightarrow> string \<Rightarrow> int \<Rightarrow> string \<Rightarrow>
    string option \<Rightarrow> gin_context \<Rightarrow> string option" where
  "LoggingMiddleware logger now src = logRequest logger now src []"

definition RequestLoggingMiddleware :: "log_handler \<Rightarrow> string \<Rightarrow> (string \<times> int) option \<Rightarrow> string \<Rightarrow> string \<Rightarrow> int \<Rightarrow>
    string \<Rightarrow> string option \<Rightarrow> gin_context \<Rightarrow> string option" where
  "RequestLoggingMiddleware logger now src serviceName = logRequest logger now src serviceName"

text \<open>What serves the registry's figures, and the probes, wrapped.\<close>

definition gin_MetricsHandler :: "web_handler \<Rightarrow> gin_handler" where
  "gin_MetricsHandler exposition = WrapH exposition"


definition gin_HealthCheck :: "string \<Rightarrow> instant \<Rightarrow> instant \<Rightarrow> (check \<times> string) list \<Rightarrow> gin_handler" where
  "gin_HealthCheck serviceName startTime now checks = WrapH (\<lambda>r. HealthHandler serviceName startTime now checks)"

definition gin_ReadinessCheck :: "string \<Rightarrow> instant \<Rightarrow> (check \<times> string) list \<Rightarrow> gin_handler" where
  "gin_ReadinessCheck serviceName now checks = WrapH (\<lambda>r. ReadinessHandler serviceName now checks)"

section \<open>Services\<close>

definition mirror_service :: "gin_context \<Rightarrow> gin_context" where
  "mirror_service c = (case ServiceIdentity (wq_Context (gx_Request c)) of
     None \<Rightarrow> c
   | Some info \<Rightarrow> gin_Set ''auth_type'' (GString ''service'') (gin_Set ''service_info'' (GService info)
       (gin_Set ''service_scopes'' (GStrings (sk_Scopes info)) (gin_Set ''service_name'' (GString (sk_ServiceName info)) c))))"

definition gin_serviceAuth :: "middleware \<Rightarrow> gin_handler" where
  "gin_serviceAuth mw = UseThen mw mirror_service"

definition gin_ServiceAuthRequired :: "key_validator \<Rightarrow> gin_handler" where
  "gin_ServiceAuthRequired validate = gin_serviceAuth (ServiceAuthRequired validate)"

definition gin_OptionalServiceAuth :: "key_validator \<Rightarrow> gin_handler" where
  "gin_OptionalServiceAuth validate = gin_serviceAuth (OptionalServiceAuth validate)"

definition gin_RequireServiceScope :: "string \<Rightarrow> gin_handler" where
  "gin_RequireServiceScope scope = gin_Use (RequireServiceScope scope)"

definition gin_ServiceAuthOrUserAuth :: "key_validator \<Rightarrow> gin_handler \<Rightarrow> gin_handler" where
  "gin_ServiceAuthOrUserAuth validate userAuth nxt c =
     (if ServiceKeyFromRequest (gx_Request c) = [] then userAuth nxt (gin_Set ''auth_type'' (GString ''user'') c)
      else gin_serviceAuth (ServiceAuthRequired validate) nxt c)"

definition GetAuthenticatedService :: "gin_context \<Rightarrow> string \<times> bool" where
  "GetAuthenticatedService c = (case ServiceName (wq_Context (gx_Request c)) of
     Some name \<Rightarrow> (name, True)
   | None \<Rightarrow> (case gx_Keys c ''service_name'' of
       Some (GString s) \<Rightarrow> (s, s \<noteq> [])
     | _ \<Rightarrow> ([], False)))"

definition HasServiceScope :: "gin_context \<Rightarrow> string \<Rightarrow> bool" where
  "HasServiceScope c scope = (HasScope (wq_Context (gx_Request c)) scope \<or>
     (case gx_Keys c ''service_scopes'' of
        Some (GStrings scopes) \<Rightarrow> scope \<in> set scopes \<or> ScopeAll \<in> set scopes
      | _ \<Rightarrow> False))"

definition gin_IsServiceAuthenticated :: "gin_context \<Rightarrow> bool" where
  "gin_IsServiceAuthenticated c = (IsServiceAuthenticated (wq_Context (gx_Request c)) \<or>
     (case gx_Keys c ''auth_type'' of
        Some authType \<Rightarrow> authType = GString ''service''
      | None \<Rightarrow> gx_Keys c ''service_name'' \<noteq> None))"

definition GetClientIdentifier :: "gin_context \<Rightarrow> string" where
  "GetClientIdentifier c = ClientIdentifier (gx_Request c)"

definition RateLimitMiddleware :: "'s redis_server \<Rightarrow> kv_net \<Rightarrow> string \<Rightarrow> instant \<Rightarrow> gin_next \<Rightarrow> gin_context \<Rightarrow>
    's kv_state \<Rightarrow> gin_context outcome \<times> 's kv_state" where
  "RateLimitMiddleware apply net service now nxt c s =
     kv_bind (RateLimit apply net service now (gx_Request c) s) (\<lambda>v s'. (Ret (gin_verdict v nxt c), s'))"

section \<open>chi\<close>

text \<open>\<open>pattern\<close> is the answer of chi's route context when it is asked, \<open>None\<close> when chi did not route the request.\<close>

definition chi_Route :: "string option \<Rightarrow> middleware" where
  "chi_Route pattern r = (case pattern of
     None \<Rightarrow> Next r []
   | Some p \<Rightarrow> Next (WithContext (WithRouteFunc p (wq_Context r)) r) [])"

section \<open>Facts\<close>

lemma set_headers_fields [simp]:
  "gx_Request (set_headers hs c) = gx_Request c" "gx_Keys (set_headers hs c) = gx_Keys c"
  "gx_FullPath (set_headers hs c) = gx_FullPath c" "gx_Aborted (set_headers hs c) = gx_Aborted c"
  by (simp_all add: set_headers_def)

lemma gin_Set_fields [simp]:
  "gx_Request (gin_Set k v c) = gx_Request c" "gx_Keys (gin_Set k v c) = (gx_Keys c)(k \<mapsto> v)"
  "gx_FullPath (gin_Set k v c) = gx_FullPath c"
  by (simp_all add: gin_Set_def)

lemma UseThen_request_lost: "UseThen mw (\<lambda>c. (sync c)\<lparr>gx_Request := f c\<rparr>) = UseThen mw sync"
  by (intro ext) (simp add: UseThen_def split: verdict.split)

lemma UseThen_id: "UseThen mw (\<lambda>c. c) = gin_Use mw"
  by (intro ext) (simp add: UseThen_def gin_Use_def gin_verdict_def split: verdict.split)

end
