(* ===== verification/Gin_Theorems.thy ===== *)
theory Gin_Theorems
  imports Gin_Adapter
begin

text \<open>
  The Gin forms agree with the \<^verbatim>\<open>net/http\<close> forms they adapt: responses, identities and labels.
\<close>

section \<open>Responses\<close>

text \<open>A chain of adapted middlewares in front of a handler, and the response Gin's writer holds at its end.\<close>

fun gin_chain :: "middleware list \<Rightarrow> web_handler \<Rightarrow> gin_context \<Rightarrow> gin_context" where
  "gin_chain [] h c = WrapH h (\<lambda>c'. c') c"
| "gin_chain (mw # mws) h c = gin_Use mw (gin_chain mws h) c"

definition gin_response :: "gin_context \<Rightarrow> web_response option" where
  "gin_response c = map_option (\<lambda>b. \<lparr>wp_Status = gx_Status c, wp_Headers = gx_Headers c, wp_Body = b\<rparr>) (gx_Body c)"

lemma gin_chain_response:
  "gin_response (gin_chain mws h c) =
     (let resp = foldr serve mws h (gx_Request c) in Some (resp\<lparr>wp_Headers := gx_Headers c ++ wp_Headers resp\<rparr>))"
proof (induction mws arbitrary: c)
  case Nil
  show ?case by (simp add: WrapH_def gin_response_def respond_def Let_def)
next
  case (Cons mw mws)
  show ?case
  proof (cases "mw (gx_Request c)")
    case (Next r hs)
    let ?c = "set_headers hs c\<lparr>gx_Request := r\<rparr>"
    have "gx_Headers ?c = gx_Headers c ++ header_set_all hs Map.empty"
      by (simp add: set_headers_def header_set_all_over [symmetric])
    with Next Cons [of ?c] show ?thesis
      by (simp add: gin_Use_def gin_verdict_def serve_def Let_def)
  next
    case (Reply resp)
    then show ?thesis by (simp add: gin_Use_def gin_verdict_def serve_def gin_response_def respond_def Let_def)
  qed
qed


definition gin_demo :: "web_request \<Rightarrow> gin_context" where
  "gin_demo r = \<lparr>gx_Request = r, gx_Keys = Map.empty, gx_FullPath = [], gx_Headers = Map.empty, gx_Status = 200,
     gx_Body = None, gx_Aborted = False\<rparr>"

definition gin_demo_request :: web_request where
  "gin_demo_request = \<lparr>wq_Method = ''GET'', wq_Path = ''/orders'', wq_Headers = [''Authorization'' \<mapsto> ''Bearer jwt''],
     wq_Query = (\<lambda>_. []), wq_RemoteAddr = ''10.0.0.1:5'', wq_Context = Background\<rparr>"


section \<open>Identities\<close>

text \<open>Behind the Gin form of \<^verbatim>\<open>ServiceAuthRequired\<close> every later handler finds the service the validator described, by
  name and by scope, and a request whose key is missing or rejected is aborted with 401.\<close>

theorem gin_service_gate:
  "case (if ServiceKeyFromRequest (gx_Request c) = [] then Inl [] else validate (ServiceKeyFromRequest (gx_Request c))) of
     Inl e \<Rightarrow> gx_Aborted (gin_ServiceAuthRequired validate nxt c) \<and> gx_Status (gin_ServiceAuthRequired validate nxt c) = 401
   | Inr None \<Rightarrow> True
   | Inr (Some info) \<Rightarrow> \<exists>c'. gin_ServiceAuthRequired validate nxt c = nxt c'
       \<and> GetAuthenticatedService c' = (sk_ServiceName info, sk_ServiceName info \<noteq> [])
       \<and> (\<forall>scope. HasServiceScope c' scope \<longleftrightarrow> scope \<in> set (sk_Scopes info) \<or> ''all'' \<in> set (sk_Scopes info))
       \<and> gin_IsServiceAuthenticated c' \<and> gx_Keys c' ''service_info'' = Some (GService info)"
proof (cases "ServiceKeyFromRequest (gx_Request c) = []")
  case True
  then show ?thesis
    by (simp add: gin_ServiceAuthRequired_def gin_serviceAuth_def UseThen_def ServiceAuthRequired_def respond_def
        WriteErrorCode_def WriteJSON_def)
next
  case False
  show ?thesis
  proof (cases "validate (ServiceKeyFromRequest (gx_Request c))")
    case (Inl e)
    with False show ?thesis
      by (simp add: gin_ServiceAuthRequired_def gin_serviceAuth_def UseThen_def ServiceAuthRequired_def admit_service_def
          respond_def WriteErrorCode_def WriteJSON_def Let_def)
  next
    case (Inr o1)
    show ?thesis
    proof (cases o1)
      case None
      with False Inr show ?thesis by simp
    next
      case (Some info)
      let ?r = "WithContext (WithServiceIdentity (Some info) (wq_Context (gx_Request c))) (gx_Request c)"
      let ?c = "(mirror_service (set_headers [] c\<lparr>gx_Request := ?r\<rparr>))\<lparr>gx_Request := ?r\<rparr>"
      have "gin_ServiceAuthRequired validate nxt c = nxt ?c"
        using False Inr Some by (simp add: gin_ServiceAuthRequired_def gin_serviceAuth_def UseThen_def
            ServiceAuthRequired_def admit_service_def Let_def)
      moreover have "ServiceIdentity (wq_Context ?r) = Some info"
        by (simp add: WithContext_def WithServiceIdentity_def ServiceIdentity_def)
      then have "GetAuthenticatedService ?c = (sk_ServiceName info, sk_ServiceName info \<noteq> [])
          \<and> (\<forall>scope. HasServiceScope ?c scope \<longleftrightarrow> scope \<in> set (sk_Scopes info) \<or> ''all'' \<in> set (sk_Scopes info))
          \<and> gin_IsServiceAuthenticated ?c \<and> gx_Keys ?c ''service_info'' = Some (GService info)"
        by (auto simp: GetAuthenticatedService_def HasServiceScope_def gin_IsServiceAuthenticated_def ServiceName_def
            HasScope_def mirror_service_def ScopeAll_def)
      ultimately have "\<exists>c'. gin_ServiceAuthRequired validate nxt c = nxt c'
          \<and> GetAuthenticatedService c' = (sk_ServiceName info, sk_ServiceName info \<noteq> [])
          \<and> (\<forall>scope. HasServiceScope c' scope \<longleftrightarrow> scope \<in> set (sk_Scopes info) \<or> ''all'' \<in> set (sk_Scopes info))
          \<and> gin_IsServiceAuthenticated c' \<and> gx_Keys c' ''service_info'' = Some (GService info)" by blast
      with False Inr Some show ?thesis by simp
    qed
  qed
qed

text \<open>The Gin form of \<^verbatim>\<open>ServiceAuthOrUserAuth\<close> in front of the library's own \<^verbatim>\<open>Authenticate\<close> admits no user either: a
  request that is not aborted carries a key the service validator accepts.\<close>

theorem gin_user_tokens_never_accepted:
  assumes "\<And>cx. \<exists>err. identify cx [] = Inl err" and "\<not> gx_Aborted c"
    and "\<not> gx_Aborted (gin_ServiceAuthOrUserAuth validate (gin_Use (Authenticate identify)) (\<lambda>c'. c') c)"
  shows "\<exists>info. validate (ServiceKeyFromRequest (gx_Request c)) = Inr info"
proof (cases "ServiceKeyFromRequest (gx_Request c) = []")
  case True
  obtain r hs where "Authenticate identify (gx_Request c) = Next r hs"
    using assms(3) True by (cases "Authenticate identify (gx_Request c)")
      (auto simp: gin_ServiceAuthOrUserAuth_def gin_Use_def gin_verdict_def)
  then obtain token i where "BearerToken (gx_Request c) = Some token" "identify (wq_Context (gx_Request c)) token = Inr i"
    by (auto simp: Authenticate_def split: option.split_asm sum.split_asm if_split_asm)
  moreover from this(1) True have "token = []"
    by (auto simp: BearerToken_def ServiceKeyFromRequest_def Let_def split: if_split_asm)
  ultimately show ?thesis using assms(1) [of "wq_Context (gx_Request c)"] by auto
next
  case False
  then show ?thesis
    using assms(2,3) by (auto simp: gin_ServiceAuthOrUserAuth_def gin_serviceAuth_def UseThen_def ServiceAuthRequired_def
        admit_service_def Let_def split: sum.split_asm)
qed

theorem gin_user_tokens_never_accepted_witness:
  "gx_Aborted (gin_ServiceAuthOrUserAuth (\<lambda>k. Inl ''unknown'') (gin_Use (Authenticate
     (\<lambda>_ token. if token = ''jwt'' then Inr \<lparr>id_UserID = ''u'', id_Roles = []\<rparr> else Inl ''bad''))) (\<lambda>c'. c') (gin_demo gin_demo_request))"
proof -
  have "\<not> gx_Aborted (gin_demo gin_demo_request)" by (simp add: gin_demo_def)
  from gin_user_tokens_never_accepted [OF _ this, of "\<lambda>_ token. if token = ''jwt'' then Inr \<lparr>id_UserID = ''u'', id_Roles = []\<rparr> else Inl ''bad''"
      "\<lambda>k. Inl ''unknown''"] show ?thesis by auto
qed

section \<open>Labels\<close>

text \<open>Behind \<^verbatim>\<open>Route\<close>, metrics and logs label a matched request by its pattern, as the \<^verbatim>\<open>net/http\<close> forms do, and an
  unmatched one by its path.\<close>

lemma gin_labels_agree:
  assumes "cx_route (wq_Context (gx_Request c)) = None"
  shows "gin_route_label (gin_Route (\<lambda>c'. c') c) = Route (gx_Request (gin_Route (\<lambda>c'. c') c))
    \<and> routeOf (gin_Route (\<lambda>c'. c') c) = Route (gx_Request (gin_Route (\<lambda>c'. c') c))
    \<and> gin_route_label (gin_Route (\<lambda>c'. c') c) = (if gx_FullPath c = [] then wq_Path (gx_Request c) else gx_FullPath c)"
  using assms by (simp add: gin_Route_def gin_route_label_def routeOf_def Route_def WithRoute_def WithContext_def)

lemma chi_labels:
  "chi_Route (Some p) r = Next r' hs \<Longrightarrow> p \<noteq> [] \<Longrightarrow> Route r' = p"
  by (auto simp: chi_Route_def Route_def WithRouteFunc_def WithContext_def)

text \<open>The metrics of a request are those of the \<^verbatim>\<open>net/http\<close> middleware when the handlers keep method and path.\<close>

lemma gin_metrics_agree:
  assumes "wq_Path (gx_Request c') = wq_Path (gx_Request c)" and "wq_Method (gx_Request c') = wq_Method (gx_Request c)"
    and "gin_route_label c' = Route (gx_Request c)"
  shows "PrometheusMiddleware sv c (Ret c') = Metrics sv (gx_Request c) (Ret [WriteHeader (gx_Status c')])"
  using assms by (simp add: PrometheusMiddleware_def Metrics_def rec_run_def)

text \<open>A user authenticated on the trace and on the context: rate limiting and outbound calls see the same.\<close>

lemma gin_SetUserID_seen:
  "uid \<noteq> [] \<Longrightarrow> GetClientIdentifier (gin_SetUserID uid c) = ''user:'' @ uid
    \<and> map_option tc_UserID (GetTraceContext (gin_SetUserID uid c)) = map_option (\<lambda>_. uid) (GetTraceContext c)"
  by (simp add: GetClientIdentifier_def gin_SetUserID_def ClientIdentifier_def UserID_def WithUserID_def WithContext_def
      GetTraceContext_def Let_def option.map_comp comp_def)

text \<open>An empty service name set on the Gin context makes a request one of a service without a name.\<close>

lemma nameless_service_authenticated:
  "let c = gin_Set ''service_name'' (GString []) (gin_demo gin_demo_request)
   in gin_IsServiceAuthenticated c \<and> GetAuthenticatedService c = ([], False)"
  by (simp add: gin_IsServiceAuthenticated_def GetAuthenticatedService_def gin_demo_def gin_demo_request_def Background_def
      IsServiceAuthenticated_def ServiceName_def ServiceIdentity_def)

end
