(* ===== verification/Service_Lifecycle.thy ===== *)
theory Service_Lifecycle
  imports Serving_Theorems Audit_Client Secrets_Remote
begin

text \<open>
  What a service hands to its lifecycle manager (\<^verbatim>\<open>lifecycle/manager.go\<close>) and when a shutdown then returns; the profiling
  routes (\<^verbatim>\<open>debug/pprof.go\<close>), the printf facade of \<^verbatim>\<open>logging/logging.go\<close>, the constructors of \<^verbatim>\<open>audit/client.go\<close>, and
  the signature details of \<^verbatim>\<open>eventbus/signing.go\<close>.
\<close>

section \<open>Goroutines of the manager\<close>

text \<open>\<open>dying\<close>: the tomb dies at some point. A goroutine that waits for it otherwise never returns.\<close>

definition await_dying :: "bool \<Rightarrow> unit outcome" where
  "await_dying dying = (if dying then Ret () else Block)"

definition subscriber_task :: "bool \<Rightarrow> string option outcome \<Rightarrow> string option outcome" where
  "subscriber_task dying subscriberFunc = bind_outcome subscriberFunc (\<lambda>err. case err of
     Some e \<Rightarrow> Ret (Some e)
   | None \<Rightarrow> bind_outcome (await_dying dying) (\<lambda>_. Ret None))"

definition StartEventSubscriber :: "'t tomb_lib \<Rightarrow> bool \<Rightarrow> string option outcome \<Rightarrow> 't manager \<Rightarrow> 't manager" where
  "StartEventSubscriber lib dying subscriberFunc = manager_Go lib (subscriber_task dying subscriberFunc)"

definition periodic_task :: "task_event list \<Rightarrow> string option outcome" where
  "periodic_task evs = (case snd (runPeriodicTask evs 0) of None \<Rightarrow> Block | Some r \<Rightarrow> Ret r)"

definition StartPeriodicTask :: "'t tomb_lib \<Rightarrow> task_event list \<Rightarrow> 't manager \<Rightarrow> 't manager" where
  "StartPeriodicTask lib evs = manager_Go lib (periodic_task evs)"

definition bot_task :: "bool \<Rightarrow> unit outcome \<Rightarrow> unit outcome \<Rightarrow> string option outcome" where
  "bot_task dying startFunc stopFunc = bind_outcome startFunc (\<lambda>_. bind_outcome (await_dying dying) (\<lambda>_.
     bind_outcome stopFunc (\<lambda>_. Ret None)))"

definition StartBotWithTomb :: "'t tomb_lib \<Rightarrow> bool \<Rightarrow> unit outcome \<Rightarrow> unit outcome \<Rightarrow> 't manager \<Rightarrow> 't manager" where
  "StartBotWithTomb lib dying startFunc stopFunc = manager_Go lib (bot_task dying startFunc stopFunc)"

text \<open>The line \<^verbatim>\<open>logClose\<close> of \<^verbatim>\<open>app/app.go\<close> logs.\<close>

definition logClose :: "string \<Rightarrow> string option \<Rightarrow> string option" where
  "logClose what err = map_option (\<lambda>e. ''Failed to close '' @ what @ '' cleanly: '' @ e) err"

section \<open>Profiling routes\<close>

text \<open>The patterns of the private mux, with the handler of \<^verbatim>\<open>net/http/pprof\<close> each has.\<close>

definition debug_routes :: "(string \<times> string) list" where
  "debug_routes = [(debug_Prefix, ''Index''), (debug_Prefix @ ''cmdline'', ''Cmdline''), (debug_Prefix @ ''profile'', ''Profile''),
     (debug_Prefix @ ''symbol'', ''Symbol''), (debug_Prefix @ ''trace'', ''Trace'')]"

definition debug_Handler :: "environ \<Rightarrow> (string \<times> string) list option" where
  "debug_Handler e = (if \<not> debug_Enabled e then None else Some debug_routes)"

text \<open>What it mounts on the mux, and whether it did.\<close>

definition debug_Register :: "environ \<Rightarrow> string list \<Rightarrow> bool \<times> string list" where
  "debug_Register e patterns = (case debug_Handler e of
     None \<Rightarrow> (False, patterns) | Some h \<Rightarrow> (True, patterns @ [debug_Prefix]))"

section \<open>The printf facade\<close>

record handler_options =
  ho_Service :: string
  ho_Level :: "int option"
  ho_Colors :: bool

definition NewHandler :: "handler_options \<Rightarrow> log_handler" where
  "NewHandler opts = \<lparr>lh_Service = ho_Service opts, lh_Level = (case ho_Level opts of None \<Rightarrow> LevelInfo | Some l \<Rightarrow> l),
     lh_Colors = ho_Colors opts, lh_attrs = []\<rparr>"

definition log_Debug :: "log_handler \<Rightarrow> string \<Rightarrow> (string \<times> int) option \<Rightarrow> string \<Rightarrow> string option" where
  "log_Debug h t src msg = logAt h t src LevelDebug msg"

definition log_Info :: "log_handler \<Rightarrow> string \<Rightarrow> (string \<times> int) option \<Rightarrow> string \<Rightarrow> string option" where
  "log_Info h t src msg = logAt h t src LevelInfo msg"

definition log_Warn :: "log_handler \<Rightarrow> string \<Rightarrow> (string \<times> int) option \<Rightarrow> string \<Rightarrow> string option" where
  "log_Warn h t src msg = logAt h t src LevelWarn msg"

definition log_Error :: "log_handler \<Rightarrow> string \<Rightarrow> (string \<times> int) option \<Rightarrow> string \<Rightarrow> string option" where
  "log_Error h t src msg = logAt h t src LevelError msg"

text \<open>The line, and the code the process exits with.\<close>

definition log_Fatal :: "log_handler \<Rightarrow> string \<Rightarrow> (string \<times> int) option \<Rightarrow> string \<Rightarrow> string option \<times> int" where
  "log_Fatal h t src msg = (logAt h t src LevelError msg, 1)"

definition RequestLoggingTo :: "log_handler \<Rightarrow> string \<Rightarrow> string \<Rightarrow> (string \<times> int) option \<Rightarrow> string \<Rightarrow> web_request \<Rightarrow>
    write_op list \<Rightarrow> string option" where
  "RequestLoggingTo logger serviceName = RequestLoggingWith \<lparr>lg_ServiceName = serviceName, lg_Logger = logger, lg_Quiet = None\<rparr>"

section \<open>Making and closing an audit client\<close>

text \<open>\<open>created\<close> is what the constructor of the publisher returns: an error, or how it publishes.\<close>

type_synonym 'p publish = "base_event \<Rightarrow> 'p \<Rightarrow> string option \<times> 'p"

definition NewAuditClientWithPublisher :: "'p publish \<Rightarrow> string \<Rightarrow> 'p audit_client" where
  "NewAuditClientWithPublisher publisher serviceName = \<lparr>au_publish = publisher, au_serviceName = serviceName\<rparr>"

definition audit_client_over :: "string \<Rightarrow> (string, 'p publish) result \<Rightarrow> string \<Rightarrow> (string, 'p audit_client) result" where
  "audit_client_over what created serviceName = (case created of
     Inl err \<Rightarrow> Inl (''failed to create '' @ what @ '': '' @ err)
   | Inr publisher \<Rightarrow> Inr \<lparr>au_publish = publisher, au_serviceName = serviceName\<rparr>)"

definition NewAuditClient :: "(string, 'p publish) result \<Rightarrow> string \<Rightarrow> (string, 'p audit_client) result" where
  "NewAuditClient = audit_client_over ''signed event publisher''"

definition NewAuditClientUnsigned :: "(string, 'p publish) result \<Rightarrow> string \<Rightarrow> (string, 'p audit_client) result" where
  "NewAuditClientUnsigned = audit_client_over ''event publisher''"

text \<open>\<open>close\<close> is what closing the publisher answers.\<close>

definition audit_Close :: "'p audit_client option \<Rightarrow> string option \<Rightarrow> string option" where
  "audit_Close client close = (case client of None \<Rightarrow> None | Some c \<Rightarrow> close)"

section \<open>Signature details\<close>

definition signer_Sign :: "(string \<Rightarrow> string \<Rightarrow> string) \<Rightarrow> instant \<Rightarrow> signature_config \<Rightarrow> base_event \<Rightarrow> (string, signed_event) result" where
  "signer_Sign mac now s event = SignEvent mac now s event"

definition signer_Verify :: "(string \<Rightarrow> string \<Rightarrow> string) \<Rightarrow> instant \<Rightarrow> signature_config \<Rightarrow> signed_event \<Rightarrow> string option outcome" where
  "signer_Verify mac now s signedEvent = VerifyEvent mac now s signedEvent"

definition verifier_Verify :: "(string \<Rightarrow> string \<Rightarrow> string) \<Rightarrow> instant \<Rightarrow> signature_config \<Rightarrow> signed_event \<Rightarrow> string option outcome" where
  "verifier_Verify mac now v signedEvent = VerifyEvent mac now v signedEvent"

record signature_info =
  si_has_signature :: bool
  si_signed_at :: instant
  si_expires_at :: instant
  si_is_expired :: bool
  si_signature_hash :: string

text \<open>The first eight characters of the base64 text of the signature: slicing a shorter text panics.\<close>

definition GetEventSignatureInfo :: "instant \<Rightarrow> signed_event \<Rightarrow> signature_info outcome" where
  "GetEventSignatureInfo now s =
     (let encoded = b64_encode (se_Signature s)
      in if length encoded < 8 then Panic ''slice bounds out of range''
         else Ret \<lparr>si_has_signature = (length (se_Signature s) > 0), si_signed_at = se_SignedAt s, si_expires_at = se_ExpiresAt s,
                   si_is_expired = (now > se_ExpiresAt s), si_signature_hash = take 8 encoded @ ''...''\<rparr>)"

section \<open>Properties\<close>

lemma returns_bind: "returns (bind_outcome m f) \<longleftrightarrow> (\<exists>x. m = Ret x \<and> returns (f x))"
  by (cases m) auto

text \<open>When the goroutines return, once the tomb dies.\<close>

lemma tasks_return:
  "returns (subscriber_task True sub) \<longleftrightarrow> returns sub"
  "returns (bot_task True startFunc stopFunc) \<longleftrightarrow> returns startFunc \<and> returns stopFunc"
  "returns (periodic_task evs) \<longleftrightarrow> Dying \<in> set evs"
proof -
  show "returns (subscriber_task True sub) \<longleftrightarrow> returns sub"
    by (cases sub) (auto simp: subscriber_task_def await_dying_def split: option.split)
  show "returns (bot_task True startFunc stopFunc) \<longleftrightarrow> returns startFunc \<and> returns stopFunc"
    by (cases startFunc; cases stopFunc) (auto simp: bot_task_def await_dying_def)
  have "(\<exists>r. snd (runPeriodicTask evs n) = Some r) \<longleftrightarrow> Dying \<in> set evs" for n
    by (induction evs n rule: runPeriodicTask.induct) auto
  from this [of 0] show "returns (periodic_task evs) \<longleftrightarrow> Dying \<in> set evs"
    by (auto simp: periodic_task_def split: option.split)
qed

definition with_goroutines :: "'t tomb_lib \<Rightarrow> string option outcome list \<Rightarrow> 't \<Rightarrow> 't manager" where
  "with_goroutines lib fs t = fold (manager_Go lib) fs (NewManager t)"

lemma with_goroutines_fields:
  "mg_tomb (fold (manager_Go lib) fs m) = fold (tb_Go lib) fs (mg_tomb m)"
  "mg_started (fold (manager_Go lib) fs m) \<longleftrightarrow> mg_started m \<or> fs \<noteq> []"
  by (induction fs arbitrary: m) (auto simp: manager_Go_def)


definition demo_tomb :: "string option outcome list tomb_lib" where
  "demo_tomb = \<lparr>tb_Go = (\<lambda>f t. t @ [f]), tb_Kill = (\<lambda>_ t. t),
     tb_Wait = (\<lambda>t. if list_all returns t then Ret None else Block)\<rparr>"

lemma demo_tomb_waits: "returns (tb_Wait demo_tomb (tb_Kill demo_tomb None (fold (tb_Go demo_tomb) fs []))) \<longleftrightarrow> list_all returns fs"
proof -
  have "fold (tb_Go demo_tomb) fs t = t @ fs" for t by (induction fs arbitrary: t) (auto simp: demo_tomb_def)
  then show ?thesis by (simp add: demo_tomb_def)
qed


lemma b64_length: "length (b64_encode bs) = 4 * ((length bs + 2) div 3)"
proof (induction bs rule: b64_encode.induct)
  case (4 a b c r)
  have "(5 + length r) div 3 = Suc ((2 + length r) div 3)" by presburger
  then show ?case using 4 by (simp add: Let_def)
qed (simp_all add: Let_def)

text \<open>\<^verbatim>\<open>GetEventSignatureInfo\<close> panics exactly on signatures of fewer than four characters, on the missing one in
  particular: it never reports that an event has no signature.\<close>

theorem signature_info_panics_iff:
  "case GetEventSignatureInfo now s of
     Ret i \<Rightarrow> 4 \<le> length (se_Signature s) \<and> si_has_signature i
   | Panic m \<Rightarrow> length (se_Signature s) < 4
   | Block \<Rightarrow> False"
  by (auto simp: GetEventSignatureInfo_def Let_def b64_length)

text \<open>\<^verbatim>\<open>Fatal\<close> exits with 1 also when its line is below the level.\<close>

lemma fatal_exits: "snd (log_Fatal h t src msg) = 1"
  "LevelError < lh_Level h \<Longrightarrow> fst (log_Fatal h t src msg) = None"
  by (simp_all add: log_Fatal_def logAt_def log_enabled_def)

lemma NewHandler_options: "logging_New e service = Some h \<Longrightarrow>
    h = NewHandler \<lparr>ho_Service = service, ho_Level = Some (LevelFromEnv e), ho_Colors = lh_Colors h\<rparr>"
  by (auto simp: logging_New_def NewHandler_def split: if_splits)

lemma register_iff_enabled:
  "debug_Register e ps = (if debug_Enabled e then (True, ps @ [debug_Prefix]) else (False, ps))"
  by (simp add: debug_Register_def debug_Handler_def)

end
