(* ===== verification/Testkit_Core.thy ===== *)
theory Testkit_Core
  imports Http_Client Metric_Series Json_Canonical
begin

text \<open>
  The generic test kit (\<^verbatim>\<open>testkit\<close>): assertions, the wait for a condition, the light suite, the HTTP mock and the
  small helpers. An assertion answers whether it holds; one that does not has marked the test failed.
\<close>

section \<open>Assertions\<close>

definition AssertStatusCode :: "int \<Rightarrow> int \<Rightarrow> bool" where
  "AssertStatusCode actual expected = (expected = actual)"

text \<open>\<open>decoded\<close> is the body read as a JSON object. A nil expectation asks for the key only.\<close>

definition AssertJSONResponse :: "(string, (string \<times> goany) list) result \<Rightarrow> (string \<times> goany) list \<Rightarrow> bool" where
  "AssertJSONResponse decoded expectedFields = (case decoded of
     Inl err \<Rightarrow> False
   | Inr response \<Rightarrow> list_all (\<lambda>(key, expectedValue). case map_of response key of
         None \<Rightarrow> False
       | Some actualValue \<Rightarrow> expectedValue = ANil \<or> expectedValue = actualValue) expectedFields)"

definition AssertContainsHeaders :: "(string \<rightharpoonup> string) \<Rightarrow> (string \<times> string) list \<Rightarrow> bool" where
  "AssertContainsHeaders headers expectedHeaders = list_all (\<lambda>(k, v). headers k = Some v) expectedHeaders"

definition AssertExecutionTime :: "duration \<Rightarrow> duration \<Rightarrow> bool" where
  "AssertExecutionTime d maxDuration = (d \<le> maxDuration)"

text \<open>The quotient of two \<^verbatim>\<open>float64\<close>: over no time it is infinite, or no number when there were no operations.\<close>

definition AssertMinimumThroughput :: "int \<Rightarrow> duration \<Rightarrow> real \<Rightarrow> bool" where
  "AssertMinimumThroughput operations d minimumOpsPerSecond =
     (if d = 0 then operations > 0 else of_int operations / Seconds d \<ge> minimumOpsPerSecond)"

definition AssertNoRaceConditions :: "int \<Rightarrow> int \<Rightarrow> bool" where
  "AssertNoRaceConditions expectedCount actualCount = (expectedCount = actualCount)"

definition AssertGoroutineCleanup :: "int \<Rightarrow> int \<Rightarrow> int \<Rightarrow> bool" where
  "AssertGoroutineCleanup initialCount finalCount tolerance = (finalCount - initialCount \<le> tolerance)"

text \<open>The first of the message arguments is asserted to be a string.\<close>

definition AssertDeepEqual :: "goany \<Rightarrow> goany \<Rightarrow> goany list \<Rightarrow> bool outcome" where
  "AssertDeepEqual expected actual msgAndArgs =
     (if expected = actual then Ret True
      else case msgAndArgs of
          [] \<Rightarrow> Ret False
        | AStr fmt # as \<Rightarrow> Ret False
        | v # as \<Rightarrow> Panic ''interface conversion'')"

section \<open>Waiting for a condition\<close>

text \<open>
  What the \<^verbatim>\<open>select\<close> of \<^verbatim>\<open>RequireEventually\<close> takes, one after the other: the timer, or a tick with what the condition
  answers then. \<open>None\<close>: it is still waiting.
\<close>

datatype wake = TimerFired | Ticked bool

fun RequireEventually :: "wake list \<Rightarrow> bool option" where
  "RequireEventually [] = None"
| "RequireEventually (TimerFired # ws) = Some False"
| "RequireEventually (Ticked ok # ws) = (if ok then Some True else RequireEventually ws)"

text \<open>The wakes when the condition takes no time: the ticks before the deadline, then the timer.\<close>

definition wakes :: "duration \<Rightarrow> duration \<Rightarrow> (duration \<Rightarrow> bool) \<Rightarrow> wake list" where
  "wakes waitFor tick cond =
     map (\<lambda>k. Ticked (cond (int k * tick))) (filter (\<lambda>k. int k * tick < waitFor) [1..<nat (waitFor div tick) + 2]) @ [TimerFired]"

section \<open>The light suite\<close>

record lite_suite =
  ls_HTTPClient :: "http_client option"
  ls_TestTimeout :: duration
  ls_CleanupFuncs :: "unit outcome list"

definition setupHTTPClient :: "runtime_info \<Rightarrow> build_info \<Rightarrow> lite_suite \<Rightarrow> lite_suite" where
  "setupHTTPClient rt b s = s\<lparr>ls_HTTPClient := Some (NewClient rt b \<lparr>hc_BaseURL = ''http://localhost'',
     hc_ServiceName = ''test-client'', hc_TargetServiceName = [], hc_AuthToken = [], hc_APIKeyPrefix = [],
     hc_Timeout = 10 * second, hc_Headers = [(''Content-Type'', ''application/json'')], hc_RetryConfig = None,
     hc_CircuitBreaker = None\<rparr>)\<rparr>"

definition SetupSuite :: "runtime_info \<Rightarrow> build_info \<Rightarrow> lite_suite \<Rightarrow> lite_suite" where
  "SetupSuite rt b s = setupHTTPClient rt b (s\<lparr>ls_TestTimeout := 30 * second, ls_CleanupFuncs := []\<rparr>)"

text \<open>The cleanup functions, each with how it ends; the positions of those run.\<close>

fun run_cleanups :: "unit outcome list \<Rightarrow> nat \<Rightarrow> unit outcome \<times> nat list" where
  "run_cleanups fs 0 = (Ret (), [])"
| "run_cleanups fs (Suc i) = (case fs ! i of
     Ret _ \<Rightarrow> (let (r, ran) = run_cleanups fs i in (r, i # ran))
   | Panic m \<Rightarrow> (Panic m, [i])
   | Block \<Rightarrow> (Block, [i]))"

definition TearDownSuite :: "lite_suite \<Rightarrow> unit outcome \<times> nat list" where
  "TearDownSuite s = run_cleanups (ls_CleanupFuncs s) (length (ls_CleanupFuncs s))"

text \<open>\<open>finished\<close>: the function's end is seen before the timeout. The result are the failures reported.\<close>

definition WithTimeout :: "bool \<Rightarrow> string list" where
  "WithTimeout finished = (if finished then [] else [''Test timed out after %v''])"

section \<open>The HTTP mock\<close>

record mock_response =
  mr_StatusCode :: int
  mr_Body :: string
  mr_Headers :: "(string \<times> string) list"
  mr_Error :: "string option"

type_synonym multi_headers = "string \<rightharpoonup> string list"

definition ConvertToHTTPHeaders :: "(string \<times> string) list \<Rightarrow> multi_headers" where
  "ConvertToHTTPHeaders kvs = map_option (\<lambda>v. [v]) \<circ> header_set_all kvs Map.empty"

definition ConvertFromHTTPHeaders :: "multi_headers \<Rightarrow> (string \<rightharpoonup> string)" where
  "ConvertFromHTTPHeaders h = (\<lambda>k. case h k of Some (v # vs) \<Rightarrow> Some v | _ \<Rightarrow> None)"

record mocked_reply =
  my_StatusCode :: int
  my_Body :: string
  my_Headers :: multi_headers

type_synonym mock_responses = "string \<rightharpoonup> mock_response"

text \<open>
  \<open>answer\<close> is what the expectation set up for the call returns: a response, or something that is not one, and an error;
  or the panic of a call that was not expected.
\<close>

type_synonym mock_answer = "(mocked_reply option \<times> string option) outcome"

definition answered :: "mocked_reply option \<times> string option \<Rightarrow> (string, mocked_reply) result outcome" where
  "answered args = (case args of
     (_, Some err) \<Rightarrow> Ret (Inl err)
   | (Some resp, None) \<Rightarrow> Ret (Inr resp)
   | (None, None) \<Rightarrow> Panic ''interface conversion'')"

definition mock_Get :: "mock_answer \<Rightarrow> string \<Rightarrow> mock_responses \<Rightarrow> (string, mocked_reply) result outcome" where
  "mock_Get answer path responses = bind_outcome answer (\<lambda>args. case responses path of
     Some r \<Rightarrow> (case mr_Error r of
         Some err \<Rightarrow> Ret (Inl err)
       | None \<Rightarrow> Ret (Inr \<lparr>my_StatusCode = mr_StatusCode r, my_Body = mr_Body r, my_Headers = ConvertToHTTPHeaders (mr_Headers r)\<rparr>))
   | None \<Rightarrow> answered args)"

definition mock_Post :: "mock_answer \<Rightarrow> (string, mocked_reply) result outcome" where
  "mock_Post answer = bind_outcome answer answered"

definition mock_Put :: "mock_answer \<Rightarrow> (string, mocked_reply) result outcome" where
  "mock_Put answer = bind_outcome answer answered"

definition mock_Delete :: "mock_answer \<Rightarrow> (string, mocked_reply) result outcome" where
  "mock_Delete answer = bind_outcome answer answered"

definition NewMockHTTPClient :: mock_responses where
  "NewMockHTTPClient = Map.empty"

definition SetMockResponse :: "string \<Rightarrow> mock_response \<Rightarrow> mock_responses \<Rightarrow> mock_responses" where
  "SetMockResponse path r m = m(path \<mapsto> r)"

definition ClearMockResponses :: "mock_responses \<Rightarrow> mock_responses" where
  "ClearMockResponses m = Map.empty"

section \<open>Small helpers\<close>

record mock_time =
  mt_FrozenTime :: instant

definition NewMockTime :: "instant \<Rightarrow> mock_time" where
  "NewMockTime now = \<lparr>mt_FrozenTime = now\<rparr>"

definition mock_Now :: "mock_time \<Rightarrow> instant" where
  "mock_Now m = mt_FrozenTime m"

definition mock_SetTime :: "instant \<Rightarrow> mock_time \<Rightarrow> mock_time" where
  "mock_SetTime t m = m\<lparr>mt_FrozenTime := t\<rparr>"

definition mock_AddTime :: "duration \<Rightarrow> mock_time \<Rightarrow> mock_time" where
  "mock_AddTime d m = m\<lparr>mt_FrozenTime := mt_FrozenTime m + d\<rparr>"

record test_database =
  td_ConnectionString :: string
  td_CleanupQueries :: "string list"

definition NewTestDatabase :: "string \<Rightarrow> test_database" where
  "NewTestDatabase connString = \<lparr>td_ConnectionString = connString, td_CleanupQueries = []\<rparr>"

definition AddCleanupQuery :: "string \<Rightarrow> test_database \<Rightarrow> test_database" where
  "AddCleanupQuery query db = db\<lparr>td_CleanupQueries := td_CleanupQueries db @ [query]\<rparr>"

record perf_helper =
  pf_StartTime :: instant
  pf_Metrics :: "string \<rightharpoonup> duration"

definition NewPerformanceTestHelper :: perf_helper where
  "NewPerformanceTestHelper = \<lparr>pf_StartTime = zero_time, pf_Metrics = Map.empty\<rparr>"

definition StartTimer :: "instant \<Rightarrow> perf_helper \<Rightarrow> perf_helper" where
  "StartTimer now h = h\<lparr>pf_StartTime := now\<rparr>"

definition StopTimer :: "instant \<Rightarrow> string \<Rightarrow> perf_helper \<Rightarrow> duration \<times> perf_helper" where
  "StopTimer now metricName h =
     (let d = now - pf_StartTime h in (d, h\<lparr>pf_Metrics := (pf_Metrics h)(metricName \<mapsto> d)\<rparr>))"

definition GetMetric :: "string \<Rightarrow> perf_helper \<Rightarrow> duration" where
  "GetMetric metricName h = (case pf_Metrics h metricName of None \<Rightarrow> 0 | Some d \<Rightarrow> d)"

definition AssertPerformance :: "string \<Rightarrow> duration \<Rightarrow> perf_helper \<Rightarrow> bool" where
  "AssertPerformance metricName maxDuration h = (GetMetric metricName h \<le> maxDuration)"

definition ShouldRunIntegrationTests :: "bool \<Rightarrow> environ \<Rightarrow> bool" where
  "ShouldRunIntegrationTests short e = (if short then False else getenv e ''INTEGRATION_TESTS'' = ''true'')"

section \<open>Properties\<close>

lemma eventually_ticks:
  "RequireEventually (map (\<lambda>k. Ticked (f k)) ks @ [TimerFired]) = Some (\<exists>k \<in> set ks. f k)"
  by (induction ks) auto

text \<open>When evaluating the condition takes no time, \<^verbatim>\<open>RequireEventually\<close> returns, and succeeds exactly when the condition
  holds at a tick before the deadline: a condition that holds all along fails when the tick is not shorter than the wait.\<close>

theorem require_eventually_iff:
  assumes "0 < tick" and "0 \<le> waitFor"
  shows "RequireEventually (wakes waitFor tick cond) = Some (\<exists>k\<ge>1. int k * tick < waitFor \<and> cond (int k * tick))"
proof -
  have "k < nat (waitFor div tick) + 2" if "int k * tick < waitFor" for k
  proof -
    have "int k * tick div tick \<le> waitFor div tick" using that assms(1) by (intro zdiv_mono1) simp_all
    then have "int k \<le> waitFor div tick" using assms(1) by simp
    then show ?thesis by linarith
  qed
  moreover define N where "N = nat (waitFor div tick) + 2"
  ultimately have N: "k < N" if "int k * tick < waitFor" for k using that by blast
  have "(\<exists>k \<in> set (filter (\<lambda>k. int k * tick < waitFor) [1..<N]). cond (int k * tick))
      \<longleftrightarrow> (\<exists>k\<ge>1. int k * tick < waitFor \<and> cond (int k * tick))" using N by auto
  then show ?thesis unfolding wakes_def eventually_ticks N_def [symmetric] by simp
qed

theorem require_eventually_iff_witness:
  "RequireEventually (wakes second second (\<lambda>t. True)) = Some (\<exists>k\<ge>1. int k * second < second \<and> True)
   \<and> \<not> (\<exists>k\<ge>1. int k * second < second)"
  using require_eventually_iff [of second second "\<lambda>t. True"] by auto

lemma run_cleanups_reverse:
  "snd (run_cleanups fs n) = rev [n - length (snd (run_cleanups fs n))..<n] \<and> length (snd (run_cleanups fs n)) \<le> n"
proof (induction n)
  case (Suc n)
  show ?case
  proof (cases "fs ! n")
    case (Ret u)
    obtain r ran where r: "run_cleanups fs n = (r, ran)" by fastforce
    have "rev [n - length ran..<Suc n] = n # rev [n - length ran..<n]" by simp
    then show ?thesis using Suc Ret by (simp add: r del: upt_Suc)
  qed simp_all
qed simp

lemma run_cleanups_all:
  "fst (run_cleanups fs n) = Ret () \<longleftrightarrow> (\<forall>i<n. returns (fs ! i))"
  "fst (run_cleanups fs n) = Ret () \<Longrightarrow> length (snd (run_cleanups fs n)) = n"
  by (induction n) (auto simp: less_Suc_eq Let_def split: outcome.splits prod.splits)

text \<open>Tearing a suite down runs the cleanup functions in the reverse of the order they were added, all of them when none
  panics, and none before one that does.\<close>

theorem teardown_reverse:
  "snd (TearDownSuite s) = rev [length (ls_CleanupFuncs s) - length (snd (TearDownSuite s))..<length (ls_CleanupFuncs s)]"
  "fst (TearDownSuite s) = Ret () \<longleftrightarrow> list_all returns (ls_CleanupFuncs s)"
  "list_all returns (ls_CleanupFuncs s) \<Longrightarrow> length (snd (TearDownSuite s)) = length (ls_CleanupFuncs s)"
  by (simp_all add: TearDownSuite_def run_cleanups_reverse [THEN conjunct1, symmetric] run_cleanups_all list_all_length)

lemma header_set_all_map_of:
  assumes "distinct (map (canonicalKey \<circ> fst) kvs)"
  shows "header_set_all kvs h = h ++ map_of (map (\<lambda>(k, v). (canonicalKey k, v)) kvs)"
  using assms
proof (induction kvs arbitrary: h)
  case (Cons x kvs)
  obtain k v where x: "x = (k, v)" by fastforce
  let ?m = "map_of (map (\<lambda>(k, v). (canonicalKey k, v)) kvs)"
  have "?m (canonicalKey k) = None"
    using Cons.prems by (auto simp: x map_of_eq_None_iff image_image case_prod_unfold)
  then have "h(canonicalKey k \<mapsto> v) ++ ?m = h ++ ?m(canonicalKey k \<mapsto> v)"
    by (simp add: map_add_def fun_eq_iff split: option.split)
  moreover have "header_set_all kvs (h(canonicalKey k \<mapsto> v)) = h(canonicalKey k \<mapsto> v) ++ ?m"
    using Cons by simp
  moreover have "header_set_all (x # kvs) h = header_set_all kvs (h(canonicalKey k \<mapsto> v))"
    by (simp add: x header_set_all_def header_set_def)
  moreover have "map_of (map (\<lambda>(k, v). (canonicalKey k, v)) (x # kvs)) = ?m(canonicalKey k \<mapsto> v)"
    by (simp add: x)
  ultimately show ?case by (simp only:)
qed (simp add: header_set_all_def)

text \<open>Headers put through the two conversions come back under their canonical names, with their values, as long as no
  two of them have one canonical name.\<close>

theorem headers_roundtrip:
  assumes "distinct (map (canonicalKey \<circ> fst) kvs)"
  shows "ConvertFromHTTPHeaders (ConvertToHTTPHeaders kvs) = map_of (map (\<lambda>(k, v). (canonicalKey k, v)) kvs)"
  by (simp add: ConvertFromHTTPHeaders_def ConvertToHTTPHeaders_def header_set_all_map_of [OF assms] fun_eq_iff
      split: option.split)

theorem headers_roundtrip_witness:
  "ConvertFromHTTPHeaders (ConvertToHTTPHeaders [(''accept'', ''a''), (''Host'', ''h'')]) =
     [''Accept'' \<mapsto> ''a'', ''Host'' \<mapsto> ''h'']"
proof -
  have "canonicalKey ''accept'' = ''Accept''" "canonicalKey ''Host'' = ''Host''" by code_simp+
  then show ?thesis using headers_roundtrip [of "[(''accept'', ''a''), (''Host'', ''h'')]"]
    by (simp add: fun_upd_twist)
qed

text \<open>Assertions that hold of nothing: an unrecorded metric is within any bound, and a throughput over no time above any.\<close>

lemma vacuous_assertions:
  "0 \<le> maxDuration \<Longrightarrow> AssertPerformance name maxDuration NewPerformanceTestHelper"
  "0 < ops \<Longrightarrow> AssertMinimumThroughput ops 0 minimum"
  by (simp_all add: AssertPerformance_def GetMetric_def NewPerformanceTestHelper_def AssertMinimumThroughput_def)

lemma deep_equal_panics: "a \<noteq> b \<Longrightarrow> AssertDeepEqual a b [ANum ''1''] = Panic ''interface conversion''"
  by (simp add: AssertDeepEqual_def)

text \<open>A predefined response is given only to a call that was expected.\<close>

lemma mock_response_needs_expectation:
  "mock_Get (Panic p) path (SetMockResponse path r m) = Panic p"
  "mr_Error r = None \<Longrightarrow> mock_Get (Ret args) path (SetMockResponse path r m) =
     Ret (Inr \<lparr>my_StatusCode = mr_StatusCode r, my_Body = mr_Body r, my_Headers = ConvertToHTTPHeaders (mr_Headers r)\<rparr>)"
  by (simp_all add: mock_Get_def SetMockResponse_def)

end
