(* ===== verification/Testkit_Events.thy ===== *)
theory Testkit_Events
  imports Event_Theorems
begin

text \<open>
  The event-bus test doubles and assertions (\<^verbatim>\<open>testkit/eventtest\<close>). What a mock was told to answer is an argument, a
  panic when it was told nothing. An assertion answers whether it holds; one that does not has marked the test failed.
\<close>

section \<open>Mocks\<close>

record mock_publisher =
  mk_PublishedEvents :: "base_event list"

definition NewMockEventPublisher :: mock_publisher where
  "NewMockEventPublisher = \<lparr>mk_PublishedEvents = []\<rparr>"

text \<open>\<open>answer\<close> is the error the expectation set up returns.\<close>

definition mock_Publish :: "string option outcome \<Rightarrow> base_event \<Rightarrow> mock_publisher \<Rightarrow> string option outcome \<times> mock_publisher" where
  "mock_Publish answer event m = (case answer of
     Ret err \<Rightarrow> (Ret err, m\<lparr>mk_PublishedEvents := mk_PublishedEvents m @ [event]\<rparr>)
   | Panic p \<Rightarrow> (Panic p, m)
   | Block \<Rightarrow> (Block, m))"

definition mock_TestConnection :: "string option outcome \<Rightarrow> string option outcome" where
  "mock_TestConnection answer = answer"

definition mock_Close :: "string option outcome \<Rightarrow> string option outcome" where
  "mock_Close answer = answer"

definition GetPublishedEvents :: "mock_publisher \<Rightarrow> base_event list" where
  "GetPublishedEvents m = mk_PublishedEvents m"

definition GetPublishedEventsOfType :: "string \<Rightarrow> mock_publisher \<Rightarrow> base_event list" where
  "GetPublishedEventsOfType eventType m = filter (\<lambda>event. ev_Type event = eventType) (mk_PublishedEvents m)"

definition ClearPublishedEvents :: "mock_publisher \<Rightarrow> mock_publisher" where
  "ClearPublishedEvents m = m\<lparr>mk_PublishedEvents := []\<rparr>"

record mock_subscriber =
  mk_subscriptions :: "string \<rightharpoonup> event_handler"

definition NewMockEventSubscriber :: mock_subscriber where
  "NewMockEventSubscriber = \<lparr>mk_subscriptions = Map.empty\<rparr>"

definition mock_Subscribe :: "string option outcome \<Rightarrow> string \<Rightarrow> string \<Rightarrow> event_handler \<Rightarrow> mock_subscriber \<Rightarrow>
    string option outcome \<times> mock_subscriber" where
  "mock_Subscribe answer eventType queueName handler m = (case answer of
     Ret err \<Rightarrow> (Ret err, m\<lparr>mk_subscriptions := (mk_subscriptions m)(eventType \<mapsto> handler)\<rparr>)
   | Panic p \<Rightarrow> (Panic p, m)
   | Block \<Rightarrow> (Block, m))"

definition SimulateEvent :: "base_event \<Rightarrow> mock_subscriber \<Rightarrow> string option outcome" where
  "SimulateEvent event m = (case mk_subscriptions m (ev_Type event) of
     None \<Rightarrow> Ret (Some ''no handler subscribed for event type'')
   | Some handler \<Rightarrow> handler event)"

section \<open>The collecting handler\<close>

text \<open>\<open>th_EventChan\<close> are the events in the channel and its capacity; \<open>None\<close> is a nil channel.\<close>

record test_handler =
  th_Events :: "base_event list"
  th_EventChan :: "(base_event list \<times> nat) option"
  th_EventType :: string

definition NewTestEventHandler :: test_handler where
  "NewTestEventHandler = \<lparr>th_Events = [], th_EventChan = None, th_EventType = []\<rparr>"

text \<open>
  \<open>ctxErr\<close> is the context's error, if it is done; with room in the channel and a context that is done, \<open>pick\<close> says
  which of the two ready cases \<^verbatim>\<open>select\<close> takes.
\<close>

definition th_Handle :: "string option \<Rightarrow> bool \<Rightarrow> base_event \<Rightarrow> test_handler \<Rightarrow> string option \<times> test_handler" where
  "th_Handle ctxErr pick event h0 =
     (let h = h0\<lparr>th_Events := th_Events h0 @ [event]\<rparr>;
          room = (case th_EventChan h of None \<Rightarrow> False | Some (es, cap) \<Rightarrow> length es < cap);
          sent = h\<lparr>th_EventChan := map_option (\<lambda>(es, cap). (es @ [event], cap)) (th_EventChan h)\<rparr>
      in if ev_Type event \<noteq> th_EventType h then (None, h)
         else if room \<and> (ctxErr = None \<or> pick) then (None, sent)
         else case ctxErr of Some err \<Rightarrow> (Some err, h) | None \<Rightarrow> (Some ''event channel full'', h))"

definition th_GetEvents :: "test_handler \<Rightarrow> base_event list" where
  "th_GetEvents h = th_Events h"

definition th_GetEventsOfType :: "string \<Rightarrow> test_handler \<Rightarrow> base_event list" where
  "th_GetEventsOfType eventType h = filter (\<lambda>event. ev_Type event = eventType) (th_Events h)"

definition th_Clear :: "test_handler \<Rightarrow> test_handler" where
  "th_Clear h = h\<lparr>th_Events := []\<rparr>"

section \<open>Security helpers\<close>

record security_helper =
  sh_ValidSigningKey :: string
  sh_InvalidSigningKey :: string
  sh_ExpiredEvent :: "base_event option"

definition NewSecurityTestHelper :: security_helper where
  "NewSecurityTestHelper = \<lparr>sh_ValidSigningKey = ''valid-32-character-signing-key!!'', sh_InvalidSigningKey = ''invalid-key'',
     sh_ExpiredEvent = None\<rparr>"

definition CreateExpiredEvent :: "instant \<Rightarrow> base_event" where
  "CreateExpiredEvent now = \<lparr>ev_ID = ''expired-event'', ev_Type = ''test.expired'', ev_Timestamp = now - 120 * minute,
     ev_Source = ''test-service'', ev_UserID = ''test-user'', ev_Data = Some [(''test'', AStr ''expired'')]\<rparr>"

definition CreateTamperedEvent :: "base_event \<Rightarrow> base_event" where
  "CreateTamperedEvent event = event\<lparr>ev_Data := Some [(''tampered'', ABool True), (''malicious'', AStr ''data'')]\<rparr>"

section \<open>Assertions\<close>

definition AssertEventPublished :: "mock_publisher \<Rightarrow> string \<Rightarrow> bool" where
  "AssertEventPublished m eventType = (GetPublishedEventsOfType eventType m \<noteq> [])"

definition AssertEventNotPublished :: "mock_publisher \<Rightarrow> string \<Rightarrow> bool" where
  "AssertEventNotPublished m eventType = (GetPublishedEventsOfType eventType m = [])"

definition AssertEventData :: "base_event \<Rightarrow> (string \<times> goany) list \<Rightarrow> bool" where
  "AssertEventData event expected =
     list_all (\<lambda>(k, v). map_of (case ev_Data event of None \<Rightarrow> [] | Some kvs \<Rightarrow> kvs) k = Some v) expected"

definition AssertEventStructure :: "base_event \<Rightarrow> bool" where
  "AssertEventStructure event \<longleftrightarrow> ev_ID event \<noteq> [] \<and> ev_Type event \<noteq> [] \<and> ev_Source event \<noteq> [] \<and> ev_Timestamp event \<noteq> zero_time"

fun types_match :: "string list \<Rightarrow> base_event list \<Rightarrow> bool" where
  "types_match [] events = True"
| "types_match (t # ts) [] = False"
| "types_match (t # ts) (e # es) = (t = ev_Type e \<and> types_match ts es)"

definition AssertEventOrder :: "mock_publisher \<Rightarrow> string list \<Rightarrow> bool" where
  "AssertEventOrder m expectedOrder =
     (length (GetPublishedEvents m) \<ge> length expectedOrder \<and> types_match expectedOrder (GetPublishedEvents m))"

fun AssertEventTimestamps :: "base_event list \<Rightarrow> bool" where
  "AssertEventTimestamps (a # b # es) = (ev_Timestamp b \<ge> ev_Timestamp a \<and> AssertEventTimestamps (b # es))"
| "AssertEventTimestamps es = True"

text \<open>\<^verbatim>\<open>VerifyEvent\<close> may panic, and the assertion with it.\<close>

definition AssertSignatureValid :: "(string \<Rightarrow> string \<Rightarrow> string) \<Rightarrow> instant \<Rightarrow> signature_config \<Rightarrow> signed_event \<Rightarrow> bool outcome" where
  "AssertSignatureValid mac now config s = bind_outcome (VerifyEvent mac now config s) (\<lambda>err. Ret (err = None))"

definition AssertSignatureInvalid :: "(string \<Rightarrow> string \<Rightarrow> string) \<Rightarrow> instant \<Rightarrow> signature_config \<Rightarrow> signed_event \<Rightarrow> bool outcome" where
  "AssertSignatureInvalid mac now config s = bind_outcome (VerifyEvent mac now config s) (\<lambda>err. Ret (err \<noteq> None))"

definition AssertEventNotExpired :: "instant \<Rightarrow> base_event \<Rightarrow> duration \<Rightarrow> bool" where
  "AssertEventNotExpired now event expiryWindow = (now < ev_Timestamp event + expiryWindow)"

definition AssertEventExpired :: "instant \<Rightarrow> base_event \<Rightarrow> duration \<Rightarrow> bool" where
  "AssertEventExpired now event expiryWindow = (now > ev_Timestamp event + expiryWindow)"

definition claim_present :: "base_event \<Rightarrow> string \<Rightarrow> bool" where
  "claim_present event claim =
     (if claim = ''id'' then ev_ID event \<noteq> []
      else if claim = ''type'' then ev_Type event \<noteq> []
      else if claim = ''timestamp'' then ev_Timestamp event \<noteq> zero_time
      else if claim = ''source'' then ev_Source event \<noteq> []
      else True)"

definition AssertRequiredClaims :: "base_event \<Rightarrow> string list \<Rightarrow> bool" where
  "AssertRequiredClaims event requiredClaims = list_all (claim_present event) requiredClaims"

section \<open>What the helpers say of the bus\<close>

lemma types_match_prefix: "types_match ts es \<longleftrightarrow> (\<exists>rest. map ev_Type es = ts @ rest)"
  by (induction ts es rule: types_match.induct) auto

text \<open>The order assertion asks for a prefix, and the timestamp assertion for a sorted list.\<close>

lemma AssertEventOrder_prefix: "AssertEventOrder m ts \<longleftrightarrow> (\<exists>rest. map ev_Type (mk_PublishedEvents m) = ts @ rest)"
proof -
  have "length ts \<le> length (mk_PublishedEvents m)" if "map ev_Type (mk_PublishedEvents m) = ts @ rest" for rest
    using arg_cong [OF that, of length] by simp
  then show ?thesis by (auto simp: AssertEventOrder_def GetPublishedEvents_def types_match_prefix)
qed

lemma AssertEventTimestamps_sorted: "AssertEventTimestamps es \<longleftrightarrow> sorted (map ev_Timestamp es)"
  by (induction es rule: AssertEventTimestamps.induct) (auto intro: order_trans)

lemma claim_present_sound: "claim_error event claim = None \<Longrightarrow> claim_present event claim"
  by (auto simp: claim_error_def claim_present_def trimSpace_def split: if_split_asm)

text \<open>An event with the claims signing requires passes the claims assertion. The converse fails: the assertion accepts
  claims the signer rejects, blank ones and those it does not know.\<close>

theorem claims_assertion_weaker:
  "(validateRequiredClaims event cs = None \<longrightarrow> AssertRequiredClaims event cs)
   \<and> AssertRequiredClaims (event\<lparr>ev_ID := '' ''\<rparr>) [''id'', ''user_id'']
   \<and> validateRequiredClaims (event\<lparr>ev_ID := '' ''\<rparr>) [''id''] \<noteq> None
   \<and> validateRequiredClaims event [''user_id''] \<noteq> None"
proof -
  have "validateRequiredClaims event cs = None \<Longrightarrow> AssertRequiredClaims event cs"
    by (induction cs) (auto simp: AssertRequiredClaims_def claim_present_sound split: option.split_asm)
  moreover have "trimSpace '' '' = []" by code_simp
  ultimately show ?thesis by (simp add: AssertRequiredClaims_def claim_present_def claim_error_def)
qed

lemma expired_wf: "data_wf (CreateExpiredEvent now)"
  by (simp add: CreateExpiredEvent_def data_wf_def data_value_def)

lemma expired_claims: "now \<noteq> zero_time + 120 * minute \<Longrightarrow> validateRequiredClaims (CreateExpiredEvent now) standardClaims = None"
proof -
  assume n: "now \<noteq> zero_time + 120 * minute"
  have "trimSpace ''expired-event'' \<noteq> []" "trimSpace ''test.expired'' \<noteq> []" "trimSpace ''test-service'' \<noteq> []" by code_simp+
  then show ?thesis using n by (simp add: CreateExpiredEvent_def standardClaims_def claim_error_def)
qed

text \<open>The helper's expired event is expired for the assertions only: signed when it is made, it verifies for the
  whole window, because verification looks at the time of signing and not at the event's timestamp.\<close>

theorem expired_event_verifies:
  assumes "now \<noteq> zero_time + 120 * minute" and "sc_RequiredClaims cfg = standardClaims" and "16 \<le> length (sc_SigningKey cfg)"
    and "t \<le> now + sc_ExpiryWindow cfg"
  shows "\<exists>s. SignEvent mac now cfg (CreateExpiredEvent now) = Inr s \<and> AssertSignatureValid mac t cfg s = Ret True
    \<and> (sc_ExpiryWindow cfg < 120 * minute \<longrightarrow> AssertEventExpired now (CreateExpiredEvent now) (sc_ExpiryWindow cfg))"
proof -
  let ?e = "CreateExpiredEvent now"
  have c: "createCanonicalEventData ?e now (now + sc_ExpiryWindow cfg) =
      Inr (marshalCanonicalJSON (canonical_value ?e now (now + sc_ExpiryWindow cfg)))"
    by (rule createCanonical_wf [OF expired_wf])
  let ?s = "\<lparr>se_Event = Some ?e, se_Signature = mac (sc_SigningKey cfg)
      (marshalCanonicalJSON (canonical_value ?e now (now + sc_ExpiryWindow cfg))), se_SignedAt = now, se_ExpiresAt = now + sc_ExpiryWindow cfg\<rparr>"
  have "SignEvent mac now cfg ?e = Inr ?s"
    using expired_claims [OF assms(1)] assms(2,3) c by (simp add: SignEvent_def Let_def generateSignature_def)
  moreover have "VerifyEvent mac t cfg ?s = Ret None"
    using expired_claims [OF assms(1)] assms(2-4) c by (simp add: VerifyEvent_def generateSignature_def)
  moreover have "sc_ExpiryWindow cfg < 120 * minute \<longrightarrow> AssertEventExpired now ?e (sc_ExpiryWindow cfg)"
    by (simp add: AssertEventExpired_def CreateExpiredEvent_def)
  ultimately show ?thesis by (simp add: AssertSignatureValid_def)
qed

theorem expired_event_verifies_witness:
  "\<exists>s. SignEvent demo_mac (300 * minute) demo_signing (CreateExpiredEvent (300 * minute)) = Inr s
     \<and> AssertSignatureValid demo_mac (310 * minute) demo_signing s = Ret True"
proof -
  have "300 * minute \<noteq> zero_time + 120 * minute" "sc_RequiredClaims demo_signing = standardClaims"
    "16 \<le> length (sc_SigningKey demo_signing)" "310 * minute \<le> 300 * minute + sc_ExpiryWindow demo_signing"
    by (simp_all add: demo_signing_def zero_time_def)
  from expired_event_verifies [OF this, of demo_mac] show ?thesis by blast
qed

text \<open>The helper's tampered event is caught: in the envelope of an accepted event with other data it is rejected, if the
  keyed hash has no collisions.\<close>

theorem tampered_event_rejected:
  assumes "VerifyEvent mac t cfg s = Ret None" and "se_Event s = Some e" and "data_wf e"
    and "sort_maps (data_value (ev_Data e)) \<noteq> sort_maps (data_value (ev_Data (CreateTamperedEvent e)))"
    and no_collision: "\<forall>x y. mac (sc_SigningKey cfg) x = mac (sc_SigningKey cfg) y \<longrightarrow> x = y"
  shows "AssertSignatureInvalid mac t cfg (s\<lparr>se_Event := Some (CreateTamperedEvent e)\<rparr>) = Ret True"
proof -
  let ?e' = "CreateTamperedEvent e"
  have wf: "data_wf ?e'" by (simp add: CreateTamperedEvent_def data_wf_def data_value_def)
  have claims: "validateRequiredClaims ?e' cs = validateRequiredClaims e cs" for cs
    by (induction cs) (simp_all add: claim_error_def CreateTamperedEvent_def cong: if_cong)
  from verified_signature [OF assms(1)] assms(2) obtain canonical where v:
    "validateRequiredClaims e (sc_RequiredClaims cfg) = None" "createCanonicalEventData e (se_SignedAt s) (se_ExpiresAt s) = Inr canonical"
    "se_Signature s = mac (sc_SigningKey cfg) canonical" "t \<le> se_ExpiresAt s" "16 \<le> length (sc_SigningKey cfg)"
    by (metis option.inject)
  have ne: "marshalCanonicalJSON (canonical_value e (se_SignedAt s) (se_ExpiresAt s))
      \<noteq> marshalCanonicalJSON (canonical_value ?e' (se_SignedAt s) (se_ExpiresAt s))"
    using canonical_covers [OF assms(3) wf] assms(4) by blast
  have "se_Signature s \<noteq> mac (sc_SigningKey cfg) (marshalCanonicalJSON (canonical_value ?e' (se_SignedAt s) (se_ExpiresAt s)))"
    using v(2,3) ne no_collision createCanonical_wf [OF assms(3)] by auto
  then have "\<exists>err. VerifyEvent mac t cfg (s\<lparr>se_Event := Some ?e'\<rparr>) = Ret (Some err)"
    using v claims createCanonical_wf [OF wf] by (simp add: VerifyEvent_def generateSignature_def)
  then show ?thesis by (auto simp: AssertSignatureInvalid_def)
qed

theorem tampered_event_rejected_witness:
  "AssertSignatureInvalid demo_mac 0 demo_signing (demo_signed\<lparr>se_Event := Some (CreateTamperedEvent demo_event)\<rparr>) = Ret True"
proof -
  have v: "VerifyEvent demo_mac 0 demo_signing demo_signed = Ret None"
    using demo_claims createCanonical_wf [OF demo_data, of 0 "30 * minute"]
    by (simp add: VerifyEvent_def demo_signed_def demo_signing_def generateSignature_def)
  have d: "sort_maps (data_value (ev_Data demo_event)) \<noteq> sort_maps (data_value (ev_Data (CreateTamperedEvent demo_event)))"
    by code_simp
  show ?thesis
    by (rule tampered_event_rejected [OF v _ demo_data d]) (simp_all add: demo_signed_def demo_mac_def)
qed

text \<open>A mock records an event it was told to refuse, and a handler of a subscription it was told to refuse.\<close>

lemma mock_records_failures:
  "AssertEventPublished (snd (mock_Publish (Ret (Some err)) event m)) (ev_Type event)"
  "SimulateEvent event (snd (mock_Subscribe (Ret (Some err)) (ev_Type event) q handler sub)) = handler event"
  by (simp_all add: AssertEventPublished_def GetPublishedEventsOfType_def mock_Publish_def SimulateEvent_def mock_Subscribe_def)

text \<open>A handler given a type and no channel reports a full channel for every event of it.\<close>

lemma nil_channel_full:
  "th_EventChan h = None \<Longrightarrow> ev_Type event = th_EventType h \<Longrightarrow>
     fst (th_Handle None pick event h) = Some ''event channel full'' \<and> th_Events (snd (th_Handle None pick event h)) = th_Events h @ [event]"
  by (simp add: th_Handle_def Let_def)

text \<open>At the very end of the window an event is neither expired nor not.\<close>

lemma expiry_boundary:
  "\<not> AssertEventNotExpired (ev_Timestamp e + w) e w \<and> \<not> AssertEventExpired (ev_Timestamp e + w) e w"
  by (simp add: AssertEventNotExpired_def AssertEventExpired_def)

end
