(* ===== verification/Testkit_Containers.thy ===== *)
theory Testkit_Containers
  imports Go_Std
begin

text \<open>
  The container fixtures (\<^verbatim>\<open>testkit/containers/docker.go\<close>): starting Postgres, Redis and RabbitMQ, their connection
  strings, waiting, fixtures, truncation, and closing. A container is a number; what Docker, the database and the
  file system answer is an argument.
\<close>

section \<open>Containers\<close>

record container_config =
  ct_PostgresImage :: string
  ct_RedisImage :: string
  ct_RabbitMQImage :: string
  ct_StartTimeout :: duration

definition DefaultTestContainerConfig :: container_config where
  "DefaultTestContainerConfig = \<lparr>ct_PostgresImage = ''postgres:15-alpine'', ct_RedisImage = ''redis:7-alpine'',
     ct_RabbitMQImage = ''rabbitmq:3-management-alpine'', ct_StartTimeout = 60 * second\<rparr>"

definition withDefaults :: "container_config option \<Rightarrow> container_config" where
  "withDefaults config = (case config of
     None \<Rightarrow> DefaultTestContainerConfig
   | Some c \<Rightarrow> \<lparr>ct_PostgresImage = orElse (ct_PostgresImage c) (ct_PostgresImage DefaultTestContainerConfig),
       ct_RedisImage = orElse (ct_RedisImage c) (ct_RedisImage DefaultTestContainerConfig),
       ct_RabbitMQImage = orElse (ct_RabbitMQImage c) (ct_RabbitMQImage DefaultTestContainerConfig),
       ct_StartTimeout = (if ct_StartTimeout c = 0 then ct_StartTimeout DefaultTestContainerConfig else ct_StartTimeout c)\<rparr>)"

record container_request =
  cq_Image :: string
  cq_ExposedPorts :: "string list"
  cq_Env :: "(string \<times> string) list"
  cq_WaitingFor :: string
  cq_StartupTimeout :: duration

record test_containers =
  tc_Postgres :: "nat option"
  tc_Redis :: "nat option"
  tc_RabbitMQ :: "nat option"

type_synonym starter = "container_request \<Rightarrow> (string, nat) result"

definition postgres_request :: "container_config \<Rightarrow> container_request" where
  "postgres_request config = \<lparr>cq_Image = ct_PostgresImage config, cq_ExposedPorts = [''5432/tcp''],
     cq_Env = [(''POSTGRES_DB'', ''test_db''), (''POSTGRES_USER'', ''test_user''), (''POSTGRES_PASSWORD'', ''test_password'')],
     cq_WaitingFor = ''5432/tcp'', cq_StartupTimeout = ct_StartTimeout config\<rparr>"

definition redis_request :: "container_config \<Rightarrow> container_request" where
  "redis_request config = \<lparr>cq_Image = ct_RedisImage config, cq_ExposedPorts = [''6379/tcp''], cq_Env = [],
     cq_WaitingFor = ''6379/tcp'', cq_StartupTimeout = ct_StartTimeout config\<rparr>"

definition rabbitmq_request :: "container_config \<Rightarrow> container_request" where
  "rabbitmq_request config = \<lparr>cq_Image = ct_RabbitMQImage config, cq_ExposedPorts = [''5672/tcp'', ''15672/tcp''],
     cq_Env = [(''RABBITMQ_DEFAULT_USER'', ''test_user''), (''RABBITMQ_DEFAULT_PASS'', ''test_password'')],
     cq_WaitingFor = ''5672/tcp'', cq_StartupTimeout = ct_StartTimeout config\<rparr>"

definition startPostgres :: "starter \<Rightarrow> container_config \<Rightarrow> test_containers \<Rightarrow> string option \<times> test_containers" where
  "startPostgres start config tc = (case start (postgres_request config) of
     Inl err \<Rightarrow> (Some (''failed to start postgres container: '' @ err), tc)
   | Inr k \<Rightarrow> (None, tc\<lparr>tc_Postgres := Some k\<rparr>))"

definition startRedis :: "starter \<Rightarrow> container_config \<Rightarrow> test_containers \<Rightarrow> string option \<times> test_containers" where
  "startRedis start config tc = (case start (redis_request config) of
     Inl err \<Rightarrow> (Some (''failed to start redis container: '' @ err), tc)
   | Inr k \<Rightarrow> (None, tc\<lparr>tc_Redis := Some k\<rparr>))"

definition startRabbitMQ :: "starter \<Rightarrow> container_config \<Rightarrow> test_containers \<Rightarrow> string option \<times> test_containers" where
  "startRabbitMQ start config tc = (case start (rabbitmq_request config) of
     Inl err \<Rightarrow> (Some (''failed to start rabbitmq container: '' @ err), tc)
   | Inr k \<Rightarrow> (None, tc\<lparr>tc_RabbitMQ := Some k\<rparr>))"

text \<open>The result, and the containers as they are when the function returns, which its caller is given on success only.\<close>

definition NewTestContainersWithConfig :: "starter \<Rightarrow> container_config option \<Rightarrow>
    (string, test_containers) result \<times> test_containers" where
  "NewTestContainersWithConfig start config0 =
     (let config = withDefaults config0;
          (e1, tc1) = startPostgres start config \<lparr>tc_Postgres = None, tc_Redis = None, tc_RabbitMQ = None\<rparr>
      in case e1 of Some err \<Rightarrow> (Inl (''failed to start postgres container: '' @ err), tc1)
       | None \<Rightarrow> (let (e2, tc2) = startRedis start config tc1 in case e2 of
           Some err \<Rightarrow> (Inl (''failed to start redis container: '' @ err), tc2)
         | None \<Rightarrow> (let (e3, tc3) = startRabbitMQ start config tc2 in case e3 of
             Some err \<Rightarrow> (Inl (''failed to start rabbitmq container: '' @ err), tc3)
           | None \<Rightarrow> (Inr tc3, tc3))))"

definition NewTestContainers :: "starter \<Rightarrow> (string, test_containers) result \<times> test_containers" where
  "NewTestContainers start = NewTestContainersWithConfig start None"

definition running :: "test_containers \<Rightarrow> nat list" where
  "running tc = concat (map (\<lambda>c. case c of None \<Rightarrow> [] | Some k \<Rightarrow> [k]) [tc_Postgres tc, tc_Redis tc, tc_RabbitMQ tc])"

text \<open>\<^verbatim>\<open>Close\<close>: the containers asked to terminate, and the error.\<close>

fun close_loop :: "(nat \<Rightarrow> string option) \<Rightarrow> (string \<times> nat option) list \<Rightarrow> nat list \<times> string list" where
  "close_loop terminate [] = ([], [])"
| "close_loop terminate ((name, c) # cs) =
     (let (ks, errs) = close_loop terminate cs
      in case c of
           None \<Rightarrow> (ks, errs)
         | Some k \<Rightarrow> (k # ks, (case terminate k of
               None \<Rightarrow> errs
             | Some err \<Rightarrow> (''failed to terminate '' @ name @ '' container: '' @ err) # errs)))"

definition containers_Close :: "(nat \<Rightarrow> string option) \<Rightarrow> test_containers \<Rightarrow> string option \<times> nat list" where
  "containers_Close terminate tc =
     (let (ks, errs) = close_loop terminate [(''postgres'', tc_Postgres tc), (''redis'', tc_Redis tc), (''rabbitmq'', tc_RabbitMQ tc)]
      in (if errs = [] then None else Some (''errors during container cleanup: ['' @ strJoin errs '' '' @ '']''), ks))"

section \<open>Connection strings\<close>

text \<open>\<open>host\<close> and \<open>port\<close> are what a container answers.\<close>

record docker =
  dk_host :: "nat \<Rightarrow> (string, string) result"
  dk_port :: "nat \<Rightarrow> string \<Rightarrow> (string, string) result"
  dk_logs :: "nat \<Rightarrow> (string, (string, string) result) result"
  dk_exec :: "nat \<Rightarrow> string list \<Rightarrow> (string, int \<times> (string, string) result) result"

definition endpoint :: "docker \<Rightarrow> string \<Rightarrow> string \<Rightarrow> nat option \<Rightarrow> (string, string \<times> string) result" where
  "endpoint dk name inner c = (case c of
     None \<Rightarrow> Inl (name @ '' container not started'')
   | Some k \<Rightarrow> (case dk_host dk k of
       Inl err \<Rightarrow> Inl (''failed to get '' @ name @ '' host: '' @ err)
     | Inr host \<Rightarrow> (case dk_port dk k inner of
         Inl err \<Rightarrow> Inl (''failed to get '' @ name @ '' port: '' @ err)
       | Inr port \<Rightarrow> Inr (host, port))))"

definition GetPostgresConnectionString :: "docker \<Rightarrow> test_containers \<Rightarrow> (string, string) result" where
  "GetPostgresConnectionString dk tc = (case endpoint dk ''postgres'' ''5432'' (tc_Postgres tc) of
     Inl err \<Rightarrow> Inl err
   | Inr (host, port) \<Rightarrow> Inr (''host='' @ host @ '' port='' @ port
       @ '' user=test_user password=test_password dbname=test_db sslmode=disable''))"

definition GetRedisConnectionString :: "docker \<Rightarrow> test_containers \<Rightarrow> (string, string) result" where
  "GetRedisConnectionString dk tc = (case endpoint dk ''redis'' ''6379'' (tc_Redis tc) of
     Inl err \<Rightarrow> Inl err
   | Inr (host, port) \<Rightarrow> Inr (''redis://'' @ host @ '':'' @ port))"

definition GetRabbitMQConnectionString :: "docker \<Rightarrow> test_containers \<Rightarrow> (string, string) result" where
  "GetRabbitMQConnectionString dk tc = (case endpoint dk ''rabbitmq'' ''5672'' (tc_RabbitMQ tc) of
     Inl err \<Rightarrow> Inl err
   | Inr (host, port) \<Rightarrow> Inr (''amqp://test_user:test_password@'' @ host @ '':'' @ port @ ''/''))"

text \<open>Opening a pool and pinging it. A pool that cannot be reached is closed; the second result are the pools closed.\<close>

record database_driver =
  dv_open :: "string \<Rightarrow> (string, nat) result"
  dv_ping :: "nat \<Rightarrow> string option"

definition OpenPostgres :: "docker \<Rightarrow> database_driver \<Rightarrow> test_containers \<Rightarrow> (string, nat) result \<times> nat list" where
  "OpenPostgres dk dv tc = (case GetPostgresConnectionString dk tc of
     Inl err \<Rightarrow> (Inl err, [])
   | Inr dsn \<Rightarrow> (case dv_open dv dsn of
       Inl err \<Rightarrow> (Inl (''failed to connect to test database: '' @ err), [])
     | Inr db \<Rightarrow> (case dv_ping dv db of
         Some err \<Rightarrow> (Inl (''failed to reach test database: '' @ err), [db])
       | None \<Rightarrow> (Inr db, []))))"

section \<open>Waiting\<close>

text \<open>
  \<open>attempt i\<close> is whether the \<open>i\<close>-th attempt opens a pool that answers. The result, and how often it slept a second.
\<close>

fun wait_loop :: "(nat \<Rightarrow> bool) \<Rightarrow> nat \<Rightarrow> nat \<Rightarrow> string option \<times> nat" where
  "wait_loop attempt i 0 = (Some ''timeout waiting for postgres to be ready'', 0)"
| "wait_loop attempt i (Suc n) =
     (if attempt i then (None, 0) else (let (r, slept) = wait_loop attempt (Suc i) n in (r, Suc slept)))"

definition WaitForPostgres :: "docker \<Rightarrow> (nat \<Rightarrow> bool) \<Rightarrow> test_containers \<Rightarrow> string option \<times> nat" where
  "WaitForPostgres dk attempt tc =
     (if tc_Postgres tc = None then (Some ''postgres container not started'', 0)
      else case GetPostgresConnectionString dk tc of
          Inl err \<Rightarrow> (Some err, 0)
        | Inr connStr \<Rightarrow> wait_loop attempt 0 30)"

definition WaitForRedis :: "test_containers \<Rightarrow> string option" where
  "WaitForRedis tc = (if tc_Redis tc = None then Some ''redis container not started'' else None)"

definition WaitForRabbitMQ :: "test_containers \<Rightarrow> string option" where
  "WaitForRabbitMQ tc = (if tc_RabbitMQ tc = None then Some ''rabbitmq container not started'' else None)"

record health_check =
  hk_ServiceName :: string
  hk_CheckFunc :: "test_containers \<Rightarrow> string option"
  hk_Timeout :: duration
  hk_Interval :: duration

definition container_checks :: "docker \<Rightarrow> (nat \<Rightarrow> bool) \<Rightarrow> health_check list" where
  "container_checks dk attempt =
     [\<lparr>hk_ServiceName = ''postgres'', hk_CheckFunc = (\<lambda>tc. fst (WaitForPostgres dk attempt tc)), hk_Timeout = 30 * second, hk_Interval = 1 * second\<rparr>,
      \<lparr>hk_ServiceName = ''redis'', hk_CheckFunc = WaitForRedis, hk_Timeout = 15 * second, hk_Interval = 1 * second\<rparr>,
      \<lparr>hk_ServiceName = ''rabbitmq'', hk_CheckFunc = WaitForRabbitMQ, hk_Timeout = 30 * second, hk_Interval = 1 * second\<rparr>]"

fun first_failure :: "test_containers \<Rightarrow> health_check list \<Rightarrow> string option" where
  "first_failure tc [] = None"
| "first_failure tc (k # ks) = (case hk_CheckFunc k tc of
     Some err \<Rightarrow> Some (''health check failed for '' @ hk_ServiceName k @ '': '' @ err)
   | None \<Rightarrow> first_failure tc ks)"

definition RunHealthChecks :: "docker \<Rightarrow> (nat \<Rightarrow> bool) \<Rightarrow> test_containers \<Rightarrow> string option" where
  "RunHealthChecks dk attempt tc = first_failure tc (container_checks dk attempt)"

section \<open>Logs and commands\<close>

definition named_container :: "test_containers \<Rightarrow> string \<Rightarrow> (string, nat) result" where
  "named_container tc name =
     (let started = (\<lambda>c. case c of None \<Rightarrow> Inl (''container '' @ name @ '' not started'') | Some k \<Rightarrow> Inr k)
      in if name = ''postgres'' then started (tc_Postgres tc)
         else if name = ''redis'' then started (tc_Redis tc)
         else if name = ''rabbitmq'' then started (tc_RabbitMQ tc)
         else Inl (''unknown container: '' @ name))"

definition GetContainerLogs :: "docker \<Rightarrow> test_containers \<Rightarrow> string \<Rightarrow> (string, string) result" where
  "GetContainerLogs dk tc name = (case named_container tc name of
     Inl err \<Rightarrow> Inl err
   | Inr k \<Rightarrow> (case dk_logs dk k of
       Inl err \<Rightarrow> Inl (''failed to get logs for '' @ name @ '': '' @ err)
     | Inr (Inl err) \<Rightarrow> Inl (''failed to read logs for '' @ name @ '': '' @ err)
     | Inr (Inr text) \<Rightarrow> Inr text))"

definition ExecInContainer :: "docker \<Rightarrow> test_containers \<Rightarrow> string \<Rightarrow> string list \<Rightarrow> (string, string) result" where
  "ExecInContainer dk tc name cmd = (case named_container tc name of
     Inl err \<Rightarrow> Inl err
   | Inr k \<Rightarrow> (case dk_exec dk k cmd of
       Inl err \<Rightarrow> Inl (''failed to execute command in '' @ name @ '': '' @ err)
     | Inr (exitCode, out) \<Rightarrow>
         if exitCode \<noteq> 0 then Inl (''command failed with exit code '' @ itoa exitCode)
         else (case out of Inl err \<Rightarrow> Inl (''failed to read command output: '' @ err) | Inr text \<Rightarrow> Inr text)))"

section \<open>Fixtures and truncation\<close>

text \<open>\<open>exec\<close> is the database's answer to a statement. The results carry the statements run.\<close>

definition LoadSQLFixture :: "(string, nat) result \<Rightarrow> (string \<Rightarrow> (string, string) result) \<Rightarrow> (string \<Rightarrow> string option) \<Rightarrow>
    string \<Rightarrow> string option \<times> string list" where
  "LoadSQLFixture opened readFile exec path = (case opened of
     Inl err \<Rightarrow> (Some (''failed to get database connection: '' @ err), [])
   | Inr db \<Rightarrow> (case readFile path of
       Inl err \<Rightarrow> (Some (''failed to read fixture file '' @ path @ '': '' @ err), [])
     | Inr text \<Rightarrow> (case exec text of
         Some err \<Rightarrow> (Some (''failed to execute fixture SQL: '' @ err), [text])
       | None \<Rightarrow> (None, [text]))))"

text \<open>\<^verbatim>\<open>filepath.Ext\<close>: from the last dot of the last element.\<close>

fun ext_back :: "string \<Rightarrow> string \<Rightarrow> string" where
  "ext_back [] acc = []"
| "ext_back (c # cs) acc = (if c = CHR ''/'' then [] else if c = CHR ''.'' then c # acc else ext_back cs (c # acc))"

definition path_Ext :: "string \<Rightarrow> string" where
  "path_Ext p = ext_back (rev p) []"

text \<open>The walk: its visits, in order, each a path, whether it is a directory, and the error of visiting it.\<close>

fun LoadFixturesFromDirectory :: "(string \<Rightarrow> string option \<times> string list) \<Rightarrow> (string \<times> bool \<times> string option) list \<Rightarrow>
    string option \<times> string list" where
  "LoadFixturesFromDirectory load [] = (None, [])"
| "LoadFixturesFromDirectory load ((path, isDir, werr) # vs) = (case werr of
     Some err \<Rightarrow> (Some err, [])
   | None \<Rightarrow>
       if \<not> isDir \<and> path_Ext path = ''.sql'' then
         (let (e, ran) = load path
          in case e of
               Some err \<Rightarrow> (Some (''failed to load fixture '' @ path @ '': '' @ err), ran)
             | None \<Rightarrow> (let (e', ran') = LoadFixturesFromDirectory load vs in (e', ran @ ran')))
       else LoadFixturesFromDirectory load vs)"

text \<open>The rows of a query: each a name or the error of scanning it, and the error that ended them.\<close>

fun scan_rows :: "(string, string) result list \<Rightarrow> (string, string list) result" where
  "scan_rows [] = Inr []"
| "scan_rows (r # rs) = (case r of
     Inl err \<Rightarrow> Inl (''failed to scan table name: '' @ err)
   | Inr n \<Rightarrow> (case scan_rows rs of Inl err \<Rightarrow> Inl err | Inr ns \<Rightarrow> Inr (n # ns)))"

definition truncate_statement :: "string \<Rightarrow> string" where
  "truncate_statement table = ''TRUNCATE TABLE '' @ table @ '' CASCADE''"

fun truncate_all :: "(string \<Rightarrow> string option) \<Rightarrow> string list \<Rightarrow> string option \<times> string list" where
  "truncate_all exec [] = (None, [])"
| "truncate_all exec (t # ts) = (case exec (truncate_statement t) of
     Some err \<Rightarrow> (Some (''failed to truncate table '' @ t @ '': '' @ err), [truncate_statement t])
   | None \<Rightarrow> (let (r, ran) = truncate_all exec ts in (r, truncate_statement t # ran)))"

definition CleanupDatabase :: "(string, nat) result \<Rightarrow> (string, (string, string) result list \<times> string option) result \<Rightarrow>
    (string \<Rightarrow> string option) \<Rightarrow> string option \<times> string list" where
  "CleanupDatabase opened query exec = (case opened of
     Inl err \<Rightarrow> (Some (''failed to get database connection: '' @ err), [])
   | Inr db \<Rightarrow> (case query of
       Inl err \<Rightarrow> (Some (''failed to query table names: '' @ err), [])
     | Inr (rows, rerr) \<Rightarrow> (case scan_rows rows of
         Inl err \<Rightarrow> (Some err, [])
       | Inr tables \<Rightarrow> (case rerr of
           Some err \<Rightarrow> (Some (''failed to read table names: '' @ err), [])
         | None \<Rightarrow> truncate_all exec tables))))"

section \<open>Properties\<close>

lemma close_loop_all: "fst (close_loop terminate cs) = concat (map (\<lambda>(n, c). case c of None \<Rightarrow> [] | Some k \<Rightarrow> [k]) cs)"
  by (induction cs) (auto simp: Let_def split_beta split: option.split)

lemma close_loop_errors: "snd (close_loop terminate cs) = [] \<longleftrightarrow> (\<forall>k \<in> set (fst (close_loop terminate cs)). terminate k = None)"
proof (induction cs)
  case (Cons x cs)
  obtain name c where x: "x = (name, c)" by fastforce
  obtain ks errs where r: "close_loop terminate cs = (ks, errs)" by fastforce
  show ?case using Cons by (cases c) (auto simp: x r split: option.split)
qed simp

text \<open>Closing terminates every running container once, also after one fails to terminate, and reports an error exactly
  when one did.\<close>

theorem containers_Close_all:
  "snd (containers_Close terminate tc) = running tc
   \<and> (fst (containers_Close terminate tc) = None \<longleftrightarrow> (\<forall>k \<in> set (running tc). terminate k = None))"
proof -
  let ?cs = "[(''postgres'', tc_Postgres tc), (''redis'', tc_Redis tc), (''rabbitmq'', tc_RabbitMQ tc)]"
  have "fst (close_loop terminate ?cs) = running tc" unfolding close_loop_all by (simp add: running_def)
  then show ?thesis using close_loop_errors [of terminate ?cs] by (simp add: containers_Close_def Let_def split_beta)
qed

text \<open>\<^verbatim>\<open>NewTestContainers\<close> returns all three containers or an error; when a later one fails to start, those started
  before it run on, and the caller is given nothing to close them with.\<close>

theorem new_containers_leak:
  "case NewTestContainersWithConfig start config of
     (Inr tc, left) \<Rightarrow> left = tc \<and> length (running tc) = 3
   | (Inl err, left) \<Rightarrow> running left =
       (case start (postgres_request (withDefaults config)) of
          Inl _ \<Rightarrow> []
        | Inr p \<Rightarrow> p # (case start (redis_request (withDefaults config)) of Inl _ \<Rightarrow> [] | Inr r \<Rightarrow> [r]))"
  by (simp add: NewTestContainersWithConfig_def startPostgres_def startRedis_def startRabbitMQ_def running_def Let_def
      split: sum.split option.split)

lemma wait_loop_result:
  "fst (wait_loop attempt i n) = None \<longleftrightarrow> (\<exists>j. i \<le> j \<and> j < i + n \<and> attempt j)"
proof (induction n arbitrary: i)
  case (Suc n)
  have "(\<exists>j. i \<le> j \<and> j < i + Suc n \<and> attempt j) \<longleftrightarrow> attempt i \<or> (\<exists>j. Suc i \<le> j \<and> j < Suc i + n \<and> attempt j)"
    by (metis Suc_le_eq add_Suc add_Suc_right le_add1 le_imp_less_Suc order_le_less not_less_eq_eq le_refl)
  then show ?case using Suc by (simp add: split_beta)
qed simp

lemma wait_loop_slept: "snd (wait_loop attempt i n) \<le> n
    \<and> (fst (wait_loop attempt i n) = None \<longrightarrow> attempt (i + snd (wait_loop attempt i n)))
    \<and> (\<forall>j < snd (wait_loop attempt i n). \<not> attempt (i + j))"
proof (induction n arbitrary: i)
  case (Suc n)
  show ?case
  proof (cases "attempt i")
    case False
    then show ?thesis using Suc [of "Suc i"]
      by (auto simp: split_beta less_Suc_eq_0_disj)
  qed simp
qed simp

text \<open>Waiting for Postgres succeeds exactly when one of the first thirty attempts does, after a second's sleep for each
  failed attempt before it.\<close>

theorem wait_for_postgres:
  assumes "GetPostgresConnectionString dk tc = Inr connStr"
  shows "(fst (WaitForPostgres dk attempt tc) = None \<longleftrightarrow> (\<exists>j<30. attempt j))
    \<and> snd (WaitForPostgres dk attempt tc) \<le> 30 \<and> (\<forall>j < snd (WaitForPostgres dk attempt tc). \<not> attempt j)"
proof -
  have "tc_Postgres tc \<noteq> None"
    using assms by (auto simp: GetPostgresConnectionString_def endpoint_def split: option.split_asm)
  then have w: "WaitForPostgres dk attempt tc = wait_loop attempt 0 30" using assms by (auto simp: WaitForPostgres_def)
  show ?thesis
    unfolding w wait_loop_result using wait_loop_slept [of attempt 0 30] by simp
qed

definition demo_docker :: docker where
  "demo_docker = \<lparr>dk_host = \<lambda>_. Inr ''localhost'', dk_port = \<lambda>_ _. Inr ''32768'', dk_logs = \<lambda>_. Inl ''none'',
     dk_exec = \<lambda>_ _. Inl ''none''\<rparr>"

theorem wait_for_postgres_witness:
  "fst (WaitForPostgres demo_docker (\<lambda>i. i = 7) \<lparr>tc_Postgres = Some 1, tc_Redis = None, tc_RabbitMQ = None\<rparr>) = None"
proof -
  let ?tc = "\<lparr>tc_Postgres = Some 1, tc_Redis = None, tc_RabbitMQ = None\<rparr>"
  obtain s where "GetPostgresConnectionString demo_docker ?tc = Inr s"
    by (simp add: GetPostgresConnectionString_def endpoint_def demo_docker_def)
  from wait_for_postgres [OF this, of "\<lambda>i. i = 7"] show ?thesis by simp
qed

lemma truncate_all_stops:
  "fst (truncate_all exec ts) = None \<longleftrightarrow> (\<forall>t \<in> set ts. exec (truncate_statement t) = None)"
  "fst (truncate_all exec ts) = None \<Longrightarrow> snd (truncate_all exec ts) = map truncate_statement ts"
  by (induction ts) (auto simp: split_beta split: option.split_asm option.split)

lemma scan_rows_ok: "scan_rows rows = Inr ns \<longleftrightarrow> rows = map Inr ns"
proof (induction rows arbitrary: ns)
  case (Cons r rows)
  show ?case
  proof (cases r)
    case (Inr n)
    show ?thesis
    proof (cases "scan_rows rows")
      case (Inl e)
      then have "rows \<noteq> map Inr ms" for ms using Cons [of ms] by auto
      then show ?thesis using Inl Inr by auto
    next
      case 2: (Inr ms)
      then have "rows = map Inr ms" using Cons [of ms] by simp
      then show ?thesis using 2 Inr inj_map_eq_map [of "Inr :: string \<Rightarrow> string + string"] by auto
    qed
  qed auto
qed auto

text \<open>Cleaning up without an error has truncated every table the catalogue named, in order; an incomplete list of
  tables truncates none.\<close>

theorem cleanup_truncates_all:
  assumes "CleanupDatabase opened query exec = (None, sent)"
  shows "\<exists>tables. query = Inr (map Inr tables, None) \<and> sent = map truncate_statement tables"
proof -
  from assms obtain tables where "query = Inr (map Inr tables, None)" "truncate_all exec tables = (None, sent)"
    by (auto simp: CleanupDatabase_def scan_rows_ok split: sum.split_asm option.split_asm)
  with truncate_all_stops(2) [of exec tables] show ?thesis by auto
qed

theorem cleanup_truncates_all_witness:
  "CleanupDatabase (Inr 1) (Inr ([Inr ''users'', Inr ''orders''], None)) (\<lambda>s. None)
     = (None, [''TRUNCATE TABLE users CASCADE'', ''TRUNCATE TABLE orders CASCADE''])"
proof -
  obtain sent where r: "CleanupDatabase (Inr 1) (Inr ([Inr ''users'', Inr ''orders''], None)) (\<lambda>s. None) = (None, sent)"
    by (simp add: CleanupDatabase_def)
  from cleanup_truncates_all [OF r] show ?thesis unfolding r by (auto simp: truncate_statement_def Cons_eq_map_conv)
qed

text \<open>The limits written down for a health check are not consulted.\<close>

lemma check_limits_ignored:
  "first_failure tc (map (\<lambda>k. k\<lparr>hk_Timeout := t, hk_Interval := i\<rparr>) ks) = first_failure tc ks"
  by (induction ks) (auto split: option.split)

end
