(* ===== verification/Http_Concurrent.thy ===== *)
theory Http_Concurrent
  imports Http_Client
begin

text \<open>
  One HTTP client used by several goroutines (\<^verbatim>\<open>CanExecute\<close>, \<^verbatim>\<open>RecordSuccess\<close> and \<^verbatim>\<open>RecordFailure\<close> of
  \<^verbatim>\<open>httpclient/client.go\<close>): \<^verbatim>\<open>Do\<close> asks the breaker before its attempts and records after them, so other calls come in
  between. A method of the breaker is one move; it has no lock, and a race within one is not modelled.
\<close>

section \<open>Calls in flight\<close>

record breaker_run =
  br_now :: instant
  br_breaker :: http_breaker
  br_inflight :: nat
  br_failures :: nat

definition breaker_start :: "instant \<Rightarrow> int \<Rightarrow> duration \<Rightarrow> breaker_run" where
  "breaker_start now n d = \<lparr>br_now = now, br_breaker = NewCircuitBreaker n d, br_inflight = 0, br_failures = 0\<rparr>"

text \<open>A call ends with a success or a failure recorded, or, when it was cancelled or answered with another status, with
  neither.\<close>

inductive breaker_step :: "breaker_run \<Rightarrow> breaker_run \<Rightarrow> bool" where
  passes: "0 \<le> d \<Longrightarrow> breaker_step s (s\<lparr>br_now := br_now s + d\<rparr>)"
| admitted: "CanExecute (br_now s) (br_breaker s) = (True, cb) \<Longrightarrow>
    breaker_step s (s\<lparr>br_breaker := cb, br_inflight := Suc (br_inflight s)\<rparr>)"
| refused: "CanExecute (br_now s) (br_breaker s) = (False, cb) \<Longrightarrow> breaker_step s (s\<lparr>br_breaker := cb\<rparr>)"
| succeeded: "0 < br_inflight s \<Longrightarrow>
    breaker_step s (s\<lparr>br_breaker := RecordSuccess (br_breaker s), br_inflight := br_inflight s - 1\<rparr>)"
| failed: "0 < br_inflight s \<Longrightarrow>
    breaker_step s (s\<lparr>br_breaker := RecordFailure (br_now s) (br_breaker s), br_inflight := br_inflight s - 1,
      br_failures := Suc (br_failures s)\<rparr>)"
| unrecorded: "0 < br_inflight s \<Longrightarrow> breaker_step s (s\<lparr>br_inflight := br_inflight s - 1\<rparr>)"

section \<open>Properties\<close>

text \<open>While the failures are few enough to be counted.\<close>

definition breaker_run_ok :: "int \<Rightarrow> breaker_run \<Rightarrow> bool" where
  "breaker_run_ok n r \<longleftrightarrow> (int (br_failures r) < max_int64 \<longrightarrow>
     breaker_ok (br_breaker r) \<and> cb_failureCount (br_breaker r) \<le> int (br_failures r) \<and> cb_maxFailures (br_breaker r) = n)"

lemma CanExecute_counts:
  "CanExecute t cb = (b, cb') \<Longrightarrow> breaker_ok cb \<Longrightarrow>
     breaker_ok cb' \<and> cb_failureCount cb' = cb_failureCount cb \<and> cb_maxFailures cb' = cb_maxFailures cb"
  using breaker_ok_admit [of cb t] by (auto simp: CanExecute_def split: CircuitBreakerState.split_asm if_split_asm)

interpretation breaker_runs: preserved breaker_step "breaker_run_ok n" for n
proof
  fix r r' assume step: "breaker_step r r'" and r: "breaker_run_ok n r"
  show "breaker_run_ok n r'" using step
  proof cases
    case (admitted cb)
    then show ?thesis using r CanExecute_counts [OF admitted(2)] by (simp add: breaker_run_ok_def)
  next
    case (refused cb)
    then show ?thesis using r CanExecute_counts [OF refused(2)] by (simp add: breaker_run_ok_def)
  next
    case failed
    show ?thesis unfolding breaker_run_ok_def
    proof
      assume few: "int (br_failures r') < max_int64"
      then have ok: "breaker_ok (br_breaker r)" "cb_failureCount (br_breaker r) \<le> int (br_failures r)"
        "cb_maxFailures (br_breaker r) = n"
        using r failed(1) by (simp_all add: breaker_run_ok_def)
      then have c: "0 \<le> cb_failureCount (br_breaker r)" "cb_failureCount (br_breaker r) < max_int64"
        using few failed(1) by (auto simp: breaker_ok_def)
      then have "cb_failureCount (RecordFailure t (br_breaker r)) = cb_failureCount (br_breaker r) + 1"
        "cb_maxFailures (RecordFailure t (br_breaker r)) = cb_maxFailures (br_breaker r)" for t
        by (simp_all add: RecordFailure_def Let_def wrap64_id in_int64_def max_int64_def)
      then show "breaker_ok (br_breaker r') \<and> cb_failureCount (br_breaker r') \<le> int (br_failures r') \<and> cb_maxFailures (br_breaker r') = n"
        using ok failed(1) c(2) breaker_ok_failure [of "br_breaker r" "br_now r"] by simp
    qed
  next
    case succeeded
    then show ?thesis using r breaker_ok_success [of "br_breaker r"] by (auto simp add: breaker_run_ok_def RecordSuccess_def breaker_ok_def)
  qed (use r in \<open>simp_all add: breaker_run_ok_def\<close>)
qed



text \<open>A half-open breaker does not probe, it admits everyone: once the reset timeout has passed, any number of calls
  go out before one of them ends.\<close>

theorem half_open_admits_all:
  assumes "cb_state (br_breaker s) = CircuitOpen" and "br_now s - cb_lastFailureTime (br_breaker s) > cb_resetTimeout (br_breaker s)"
  shows "\<exists>s'. breaker_step\<^sup>*\<^sup>* s s' \<and> br_now s' = br_now s \<and> br_inflight s' = br_inflight s + Suc k
    \<and> cb_state (br_breaker s') = CircuitHalfOpen"
proof (induction k)
  case 0
  let ?s = "s\<lparr>br_breaker := (br_breaker s)\<lparr>cb_state := CircuitHalfOpen\<rparr>, br_inflight := Suc (br_inflight s)\<rparr>"
  have "breaker_step s ?s" by (rule breaker_step.admitted) (use assms in \<open>simp add: CanExecute_def\<close>)
  then show ?case by (intro exI [of _ ?s]) auto
next
  case (Suc k)
  then obtain r where r: "breaker_step\<^sup>*\<^sup>* s r" "br_now r = br_now s" "br_inflight r = br_inflight s + Suc k"
    "cb_state (br_breaker r) = CircuitHalfOpen" by blast
  let ?r = "r\<lparr>br_breaker := br_breaker r, br_inflight := Suc (br_inflight r)\<rparr>"
  have "breaker_step r ?r" by (rule breaker_step.admitted) (simp add: CanExecute_def r(4))
  then have "breaker_step\<^sup>*\<^sup>* s ?r" using r(1) by simp
  then show ?case using r(2-4) by (intro exI [of _ ?r]) simp
qed

definition open_run :: breaker_run where
  "open_run = \<lparr>br_now = 100, br_breaker = (NewCircuitBreaker 1 60)\<lparr>cb_failureCount := 1, cb_lastFailureTime := 0, cb_state := CircuitOpen\<rparr>,
     br_inflight = 0, br_failures = 1\<rparr>"

theorem half_open_admits_all_witness:
  "\<exists>s'. breaker_step\<^sup>*\<^sup>* open_run s' \<and> br_inflight s' = 1000 \<and> cb_state (br_breaker s') = CircuitHalfOpen"
proof -
  have "cb_state (br_breaker open_run) = CircuitOpen"
    "br_now open_run - cb_lastFailureTime (br_breaker open_run) > cb_resetTimeout (br_breaker open_run)"
    by (simp_all add: open_run_def NewCircuitBreaker_def)
  from half_open_admits_all [OF this, of 999] show ?thesis by (auto simp: open_run_def)
qed

lemma admit_many:
  "cb_state (br_breaker s) = CircuitClosed \<Longrightarrow> breaker_step\<^sup>*\<^sup>* s (s\<lparr>br_inflight := br_inflight s + k\<rparr>)"
proof (induction k)
  case (Suc k)
  let ?s = "s\<lparr>br_inflight := br_inflight s + k\<rparr>"
  have "breaker_step ?s (?s\<lparr>br_breaker := br_breaker ?s, br_inflight := Suc (br_inflight ?s)\<rparr>)"
    by (rule breaker_step.admitted) (simp add: CanExecute_def Suc.prems)
  then show ?case using Suc by (simp add: rtranclp.rtrancl_into_rtrancl)
qed simp

text \<open>The breaker after \<open>k\<close> failures at one instant.\<close>

lemma fail_many:
  "k \<le> br_inflight s \<Longrightarrow> breaker_step\<^sup>*\<^sup>* s (s\<lparr>br_breaker := (RecordFailure (br_now s) ^^ k) (br_breaker s),
     br_inflight := br_inflight s - k, br_failures := br_failures s + k\<rparr>)"
proof (induction k)
  case (Suc k)
  let ?s = "s\<lparr>br_breaker := (RecordFailure (br_now s) ^^ k) (br_breaker s), br_inflight := br_inflight s - k,
    br_failures := br_failures s + k\<rparr>"
  have "0 < br_inflight ?s" using Suc.prems by simp
  from breaker_step.failed [OF this] Suc show ?case by (simp add: rtranclp.rtrancl_into_rtrancl)
qed simp

lemma fail_many_state:
  "int k < max_int64 \<Longrightarrow> cb_failureCount ((RecordFailure t ^^ k) (NewCircuitBreaker n d)) = int k
   \<and> cb_maxFailures ((RecordFailure t ^^ k) (NewCircuitBreaker n d)) = n
   \<and> cb_resetTimeout ((RecordFailure t ^^ k) (NewCircuitBreaker n d)) = d
   \<and> (0 < k \<longrightarrow> cb_lastFailureTime ((RecordFailure t ^^ k) (NewCircuitBreaker n d)) = t)
   \<and> (0 < k \<and> n \<le> int k \<longrightarrow> cb_state ((RecordFailure t ^^ k) (NewCircuitBreaker n d)) = CircuitOpen)"
proof (induction k)
  case (Suc k)
  have "wrap64 (int k + 1) = int k + 1" using Suc.prems by (intro wrap64_id) (simp add: in_int64_def max_int64_def)
  then show ?case using Suc by (simp add: RecordFailure_def Let_def)
qed (simp add: NewCircuitBreaker_def)

text \<open>C16: An open breaker is closed by a call that was admitted before it opened: with one more call in flight than the
  threshold, it can open, refuse every call, and close again before its reset timeout, without any time passing.\<close>

theorem late_success_closes_open_breaker:
  assumes "0 < n" and "n < max_int64" and "0 \<le> d"
  shows "\<exists>s s'. breaker_step\<^sup>*\<^sup>* (breaker_start now n d) s \<and> \<not> fst (CanExecute (br_now s) (br_breaker s))
    \<and> breaker_step s s' \<and> br_now s' = br_now s \<and> fst (CanExecute (br_now s') (br_breaker s'))
    \<and> cb_failureCount (br_breaker s') = 0"
proof -
  let ?s0 = "breaker_start now n d" let ?k = "nat n"
  let ?s1 = "?s0\<lparr>br_inflight := Suc ?k\<rparr>"
  let ?cb = "(RecordFailure now ^^ ?k) (NewCircuitBreaker n d)"
  let ?s2 = "?s1\<lparr>br_breaker := ?cb, br_inflight := 1, br_failures := ?k\<rparr>"
  let ?s3 = "?s2\<lparr>br_breaker := RecordSuccess ?cb, br_inflight := 0\<rparr>"
  have "breaker_step\<^sup>*\<^sup>* ?s0 ?s1" using admit_many [of ?s0 "Suc ?k"] by (simp add: breaker_start_def NewCircuitBreaker_def)
  moreover have "breaker_step\<^sup>*\<^sup>* ?s1 ?s2" using fail_many [of ?k ?s1] by (simp add: breaker_start_def)
  ultimately have "breaker_step\<^sup>*\<^sup>* ?s0 ?s2" by (rule rtranclp_trans)
  moreover have "\<not> fst (CanExecute (br_now ?s2) (br_breaker ?s2))"
    using fail_many_state [of ?k now n d] assms by (simp add: CanExecute_def breaker_start_def)
  moreover have "breaker_step ?s2 ?s3" using breaker_step.succeeded [of ?s2] by simp
  moreover have "fst (CanExecute (br_now ?s3) (br_breaker ?s3))" by (simp add: CanExecute_def RecordSuccess_def)
  ultimately show ?thesis by (intro exI [of _ ?s2] exI [of _ ?s3]) (simp add: RecordSuccess_def)
qed

theorem late_success_closes_open_breaker_witness:
  "\<exists>s s'. breaker_step\<^sup>*\<^sup>* (breaker_start 0 5 (60 * second)) s \<and> \<not> fst (CanExecute (br_now s) (br_breaker s))
    \<and> breaker_step s s' \<and> br_now s' = br_now s \<and> fst (CanExecute (br_now s') (br_breaker s'))
    \<and> cb_failureCount (br_breaker s') = 0"
  by (rule late_success_closes_open_breaker) (simp_all add: max_int64_def)

end
