(* ===== verification/Secrets_Concurrent.thy ===== *)
theory Secrets_Concurrent
  imports Secrets_Theorems Step_Systems
begin

text \<open>
  One cached store used by several goroutines (\<^verbatim>\<open>secrets/cached.go\<close>). The lock covers the map only, so a \<^verbatim>\<open>Get\<close> that misses
  is three moves, the lookup, the read of the inner store and the update of the map, and a \<^verbatim>\<open>Set\<close> is two.
\<close>

section \<open>Calls in progress\<close>

datatype call = Resting | Missing string | Fetched string string instant | Wrote string string instant

text \<open>
  The clock, the inner store's world, the map, where each goroutine is. Two histories: the values obtained from the
  inner store or written to it, with the instant, and the values \<^verbatim>\<open>Get\<close> returned, with the instant.
\<close>

record 'w racing =
  rs_now :: instant
  rs_world :: 'w
  rs_cache :: cache
  rs_calls :: "nat \<Rightarrow> call"
  rs_log :: "(instant \<times> string \<times> string) list"
  rs_returned :: "(instant \<times> string \<times> string) list"

definition racing_start :: "instant \<Rightarrow> 'w \<Rightarrow> 'w racing" where
  "racing_start now w = \<lparr>rs_now = now, rs_world = w, rs_cache = Map.empty, rs_calls = (\<lambda>_. Resting), rs_log = [], rs_returned = []\<rparr>"

definition set_call :: "nat \<Rightarrow> call \<Rightarrow> 'w racing \<Rightarrow> 'w racing" where
  "set_call i c s = s\<lparr>rs_calls := (rs_calls s)(i := c)\<rparr>"

definition store_value :: "duration \<Rightarrow> nat \<Rightarrow> string \<Rightarrow> string \<Rightarrow> 'w racing \<Rightarrow> 'w racing" where
  "store_value ttl i path v s = set_call i Resting (s\<lparr>rs_cache := cache_store ttl (rs_now s) path v (rs_cache s)\<rparr>)"

definition observe :: "string \<Rightarrow> string \<Rightarrow> 'w racing \<Rightarrow> 'w racing" where
  "observe path v s = s\<lparr>rs_log := (rs_now s, path, v) # rs_log s\<rparr>"

definition return_value :: "string \<Rightarrow> string \<Rightarrow> 'w racing \<Rightarrow> 'w racing" where
  "return_value path v s = s\<lparr>rs_returned := (rs_now s, path, v) # rs_returned s\<rparr>"

text \<open>A step: time passes, the world changes elsewhere, or a goroutine moves. It updates the map at most \<open>delay\<close> after
  the inner store answered it.\<close>

inductive racing_step :: "'w store \<Rightarrow> duration \<Rightarrow> duration \<Rightarrow> 'w racing \<Rightarrow> 'w racing \<Rightarrow> bool"
  for inner ttl delay where
  passes: "0 \<le> d \<Longrightarrow> racing_step inner ttl delay s (s\<lparr>rs_now := rs_now s + d\<rparr>)"
| elsewhere: "racing_step inner ttl delay s (s\<lparr>rs_world := w\<rparr>)"
| get_hit: "rs_calls s i = Resting \<Longrightarrow> cache_lookup (rs_now s) (rs_cache s) path = Some v \<Longrightarrow>
    racing_step inner ttl delay s (return_value path v s)"
| get_miss: "rs_calls s i = Resting \<Longrightarrow> cache_lookup (rs_now s) (rs_cache s) path = None \<Longrightarrow>
    racing_step inner ttl delay s (set_call i (Missing path) s)"
| fetch: "rs_calls s i = Missing path \<Longrightarrow> st_Get inner (rs_world s) path = Inr v \<Longrightarrow>
    racing_step inner ttl delay s (set_call i (Fetched path v (rs_now s)) (observe path v s))"
| fetch_failed: "rs_calls s i = Missing path \<Longrightarrow> st_Get inner (rs_world s) path = Inl err \<Longrightarrow>
    racing_step inner ttl delay s (set_call i Resting s)"
| got: "rs_calls s i = Fetched path v t \<Longrightarrow> rs_now s - t \<le> delay \<Longrightarrow>
    racing_step inner ttl delay s (return_value path v (store_value ttl i path v s))"
| set_inner: "rs_calls s i = Resting \<Longrightarrow> st_Set inner (rs_world s) path v = (None, w) \<Longrightarrow>
    racing_step inner ttl delay s (set_call i (Wrote path v (rs_now s)) (observe path v (s\<lparr>rs_world := w\<rparr>)))"
| set_failed: "rs_calls s i = Resting \<Longrightarrow> st_Set inner (rs_world s) path v = (Some err, w) \<Longrightarrow>
    racing_step inner ttl delay s (s\<lparr>rs_world := w\<rparr>)"
| set_done: "rs_calls s i = Wrote path v t \<Longrightarrow> rs_now s - t \<le> delay \<Longrightarrow>
    racing_step inner ttl delay s (store_value ttl i path v s)"

definition racing_reachable :: "'w store \<Rightarrow> duration \<Rightarrow> duration \<Rightarrow> 'w racing \<Rightarrow> bool" where
  "racing_reachable inner ttl delay s \<longleftrightarrow> (\<exists>now w. (racing_step inner ttl delay)\<^sup>*\<^sup>* (racing_start now w) s)"

text \<open>Alone, a goroutine's moves are the sequential operations.\<close>

lemma alone_get:
  assumes "rs_calls s i = Resting" and "cache_lookup (rs_now s) (rs_cache s) path = None" and "st_Get inner (rs_world s) path = Inr v"
    and "0 \<le> delay"
  shows "(racing_step inner ttl delay)\<^sup>*\<^sup>* s (return_value path v (store_value ttl i path v (observe path v s)))
    \<and> cached_Get inner ttl (rs_now s) (rs_now s) (rs_world s) path (rs_cache s) =
        (Inr v, rs_cache (store_value ttl i path v (observe path v s)))"
proof -
  let ?m = "set_call i (Missing path) s" let ?f = "set_call i (Fetched path v (rs_now s)) (observe path v s)"
  have eq: "set_call i (Fetched path v (rs_now ?m)) (observe path v ?m) = ?f"
    by (simp add: set_call_def observe_def)
  have 1: "racing_step inner ttl delay s ?m" by (rule racing_step.get_miss [OF assms(1,2)])
  have "racing_step inner ttl delay ?m (set_call i (Fetched path v (rs_now ?m)) (observe path v ?m))"
    by (rule racing_step.fetch) (simp_all add: set_call_def assms(3))
  then have 2: "racing_step inner ttl delay ?m ?f" unfolding eq .
  have "racing_step inner ttl delay ?f (return_value path v (store_value ttl i path v ?f))"
    by (rule racing_step.got [where t = "rs_now s"]) (simp_all add: set_call_def observe_def assms(4))
  moreover have "return_value path v (store_value ttl i path v ?f) = return_value path v (store_value ttl i path v (observe path v s))"
    by (simp add: return_value_def store_value_def set_call_def observe_def)
  ultimately have "(racing_step inner ttl delay)\<^sup>*\<^sup>* s (return_value path v (store_value ttl i path v (observe path v s)))"
    using 1 2 by (metis (no_types) converse_rtranclp_into_rtranclp rtranclp.rtrancl_refl)
  then show ?thesis using assms(2,3) by (simp add: cached_Get_def store_value_def set_call_def observe_def)
qed

section \<open>How old a value may be\<close>

definition observed :: "'w racing \<Rightarrow> string \<Rightarrow> string \<Rightarrow> instant \<Rightarrow> bool" where
  "observed s path v t \<longleftrightarrow> (t, path, v) \<in> set (rs_log s) \<and> t \<le> rs_now s"

definition call_ok :: "'w racing \<Rightarrow> call \<Rightarrow> bool" where
  "call_ok s c \<longleftrightarrow> (case c of Fetched p v t \<Rightarrow> observed s p v t | Wrote p v t \<Rightarrow> observed s p v t | _ \<Rightarrow> True)"

definition entry_ok :: "duration \<Rightarrow> duration \<Rightarrow> 'w racing \<Rightarrow> string \<Rightarrow> string \<times> instant \<Rightarrow> bool" where
  "entry_ok ttl delay s p e \<longleftrightarrow> (\<exists>t. observed s p (fst e) t \<and> snd e - ttl - t \<le> delay)"

definition return_ok :: "duration \<Rightarrow> duration \<Rightarrow> 'w racing \<Rightarrow> instant \<times> string \<times> string \<Rightarrow> bool" where
  "return_ok ttl delay s r \<longleftrightarrow> (case r of (t, p, v) \<Rightarrow> \<exists>u. (u, p, v) \<in> set (rs_log s) \<and> u \<le> t \<and> t - u < ttl + delay)"

definition racing_ok :: "duration \<Rightarrow> duration \<Rightarrow> 'w racing \<Rightarrow> bool" where
  "racing_ok ttl delay s \<longleftrightarrow> (\<forall>i. call_ok s (rs_calls s i)) \<and> (\<forall>p e. rs_cache s p = Some e \<longrightarrow> entry_ok ttl delay s p e)
     \<and> (\<forall>r \<in> set (rs_returned s). return_ok ttl delay s r)"

text \<open>What is known stays known as the history and the clock go on.\<close>

lemma ok_later:
  assumes "set (rs_log s) \<subseteq> set (rs_log s')" and "rs_now s \<le> rs_now s'"
  shows "observed s p v t \<Longrightarrow> observed s' p v t" "call_ok s c \<Longrightarrow> call_ok s' c"
    "entry_ok ttl delay s p e \<Longrightarrow> entry_ok ttl delay s' p e" "return_ok ttl delay s r \<Longrightarrow> return_ok ttl delay s' r"
proof -
  show o: "observed s p v t \<Longrightarrow> observed s' p v t" for p v t using assms by (auto simp: observed_def)
  then show "call_ok s c \<Longrightarrow> call_ok s' c" by (cases c) (auto simp: call_ok_def)
  show "entry_ok ttl delay s p e \<Longrightarrow> entry_ok ttl delay s' p e" using o by (auto simp: entry_ok_def)
  show "return_ok ttl delay s r \<Longrightarrow> return_ok ttl delay s' r" using assms by (auto simp: return_ok_def)
qed

lemma racing_ok_later:
  assumes "racing_ok ttl delay s" and "set (rs_log s) \<subseteq> set (rs_log s')" and "rs_now s \<le> rs_now s'"
    and "\<And>i. rs_calls s' i = rs_calls s i \<or> call_ok s' (rs_calls s' i)"
    and "\<And>p e. rs_cache s' p = Some e \<Longrightarrow> rs_cache s p = Some e \<or> entry_ok ttl delay s' p e"
    and "\<And>r. r \<in> set (rs_returned s') \<Longrightarrow> r \<in> set (rs_returned s) \<or> return_ok ttl delay s' r"
  shows "racing_ok ttl delay s'"
  using assms(1,4-6) ok_later [OF assms(2,3)] unfolding racing_ok_def by metis

lemma racing_call_observed:
  assumes "racing_ok ttl delay s"
  shows "rs_calls s i = Fetched p v t \<Longrightarrow> observed s p v t" "rs_calls s i = Wrote p v t \<Longrightarrow> observed s p v t"
proof -
  have "call_ok s (rs_calls s i)" using assms by (simp add: racing_ok_def)
  then show "rs_calls s i = Fetched p v t \<Longrightarrow> observed s p v t" "rs_calls s i = Wrote p v t \<Longrightarrow> observed s p v t"
    by (simp_all add: call_ok_def)
qed

text \<open>Updating the map keeps the invariant when the value was observed at most \<open>delay\<close> ago.\<close>

lemma racing_ok_store:
  assumes "racing_ok ttl delay s" and "observed s path v t" and "rs_now s - t \<le> delay"
  shows "racing_ok ttl delay (store_value ttl i path v s)"
proof -
  let ?s = "store_value ttl i path v s"
  have f: "rs_log ?s = rs_log s" "rs_now ?s = rs_now s" "rs_returned ?s = rs_returned s"
    "rs_calls ?s = (rs_calls s)(i := Resting)" "rs_cache ?s = (rs_cache s)(path \<mapsto> (v, rs_now s + ttl))"
    by (simp_all add: store_value_def set_call_def cache_store_def)
  have "entry_ok ttl delay ?s path (v, rs_now s + ttl)"
    using assms(2,3) by (auto simp: entry_ok_def observed_def f)
  then show ?thesis by (intro racing_ok_later [OF assms(1)]) (auto simp: f call_ok_def split: if_split_asm)
qed

lemma racing_ok_return:
  assumes "racing_ok ttl delay s" and "return_ok ttl delay s (rs_now s, path, v)"
  shows "racing_ok ttl delay (return_value path v s)"
  using assms by (intro racing_ok_later [OF assms(1)]) (auto simp: return_value_def return_ok_def)

lemma racing_step_ok:
  assumes "racing_step inner ttl delay s s'" and "0 < ttl" and "0 \<le> delay" and "racing_ok ttl delay s"
  shows "racing_ok ttl delay s'"
  using assms(1)
proof cases
  case (get_hit i path v)
  obtain e where e: "rs_cache s path = Some (v, e)" "rs_now s < e"
    using get_hit(3) by (auto simp: cache_lookup_def split: option.splits if_splits)
  then obtain t where "observed s path v t" "e - ttl - t \<le> delay"
    using assms(4) by (fastforce simp: racing_ok_def entry_ok_def)
  then have "return_ok ttl delay s (rs_now s, path, v)"
    using e(2) by (auto simp: return_ok_def observed_def intro!: exI [of _ t])
  then show ?thesis unfolding get_hit(1) by (rule racing_ok_return [OF assms(4)])
next
  case (got i path v t)
  have o: "observed s path v t" by (rule racing_call_observed(1) [OF assms(4) got(2)])
  let ?s = "store_value ttl i path v s"
  have "rs_log ?s = rs_log s" "rs_now ?s = rs_now s" by (simp_all add: store_value_def set_call_def)
  then have "return_ok ttl delay ?s (rs_now ?s, path, v)"
    using o got(3) assms(2) by (auto simp: return_ok_def observed_def intro!: exI [of _ t])
  then show ?thesis unfolding got(1) by (rule racing_ok_return [OF racing_ok_store [OF assms(4) o got(3)]])
next
  case (set_done i path v t)
  show ?thesis unfolding set_done(1)
    by (rule racing_ok_store [OF assms(4) racing_call_observed(2) [OF assms(4) set_done(2)] set_done(3)])
next
  case (passes d)
  then show ?thesis by (intro racing_ok_later [OF assms(4)]) simp_all
next
  case (elsewhere w)
  then show ?thesis by (intro racing_ok_later [OF assms(4)]) simp_all
next
  case (get_miss i path)
  then show ?thesis by (intro racing_ok_later [OF assms(4)]) (simp_all add: set_call_def call_ok_def)
next
  case (fetch i path v)
  then show ?thesis
    by (intro racing_ok_later [OF assms(4)]) (auto simp: set_call_def observe_def call_ok_def observed_def)
next
  case (fetch_failed i path err)
  then show ?thesis by (intro racing_ok_later [OF assms(4)]) (simp_all add: set_call_def call_ok_def)
next
  case (set_inner i path v w)
  then show ?thesis
    by (intro racing_ok_later [OF assms(4)]) (auto simp: set_call_def observe_def call_ok_def observed_def)
next
  case (set_failed i path v err w)
  then show ?thesis by (intro racing_ok_later [OF assms(4)]) simp_all
qed

interpretation race: preserved "racing_step inner ttl delay" "\<lambda>s. 0 < ttl \<and> 0 \<le> delay \<and> racing_ok ttl delay s"
  for inner :: "'w store" and ttl delay
  by unfold_locales (blast intro: racing_step_ok)

lemma racing_reachable_ok:
  assumes "racing_reachable inner ttl delay s" and "0 < ttl" and "0 \<le> delay"
  shows "racing_ok ttl delay s"
proof -
  obtain now w where "(racing_step inner ttl delay)\<^sup>*\<^sup>* (racing_start now w) s"
    using assms(1) by (auto simp: racing_reachable_def)
  moreover have "racing_ok ttl delay (racing_start now w)" by (simp add: racing_ok_def racing_start_def call_ok_def)
  ultimately show ?thesis using race.good_steps assms(2,3) by blast
qed

section \<open>Properties\<close>

text \<open>C14: However the goroutines interleave, a value \<^verbatim>\<open>Get\<close> returns was in the inner store, or written to it, less than the
  time-to-live and one update's delay ago.\<close>

theorem racing_reads_are_fresh:
  assumes "racing_reachable inner ttl delay s" and "0 < ttl" and "0 \<le> delay" and "(t, path, v) \<in> set (rs_returned s)"
  shows "\<exists>u. (u, path, v) \<in> set (rs_log s) \<and> u \<le> t \<and> t - u < ttl + delay"
  using racing_reachable_ok [OF assms(1-3)] assms(4) by (auto simp: racing_ok_def return_ok_def)

theorem racing_reads_are_fresh_witness:
  "\<exists>s :: (string \<rightharpoonup> string) racing. rs_returned s = [(5, ''k'', ''v'')] \<and> (\<exists>u. (u, ''k'', ''v'') \<in> set (rs_log s) \<and> 5 - u < (60 :: int))"
proof -
  let ?w = "[''k'' \<mapsto> ''v''] :: string \<rightharpoonup> string" let ?s = "racing_start 5 ?w"
  let ?t = "return_value ''k'' ''v'' (store_value 60 0 ''k'' ''v'' (observe ''k'' ''v'' ?s))"
  have "(racing_step map_store 60 0)\<^sup>*\<^sup>* ?s ?t"
    using alone_get [of ?s 0 "''k''" map_store "''v''" 0 60] by (simp add: racing_start_def cache_lookup_def map_store_def)
  then have r: "racing_reachable map_store 60 0 ?t" unfolding racing_reachable_def by blast
  have m: "rs_returned ?t = [(5, ''k'', ''v'')]"
    by (simp add: return_value_def store_value_def set_call_def observe_def racing_start_def)
  then show ?thesis using racing_reads_are_fresh [OF r, of 5 "''k''" "''v''"] by (intro exI [of _ ?t]) auto
qed

text \<open>A \<^verbatim>\<open>Set\<close> can be undone in the cache by a \<^verbatim>\<open>Get\<close> that read the inner store before it: after the \<^verbatim>\<open>Set\<close> has returned,
  the goroutine that wrote reads the old value, while the inner store has the new one.\<close>

theorem racing_set_lost:
  assumes "st_Get inner w path = Inr old" and "st_Set inner w path new = (None, w')" and "st_Get inner w' path = Inr new"
    and "0 < ttl" and "0 \<le> delay"
  shows "\<exists>s s'. racing_reachable inner ttl delay s \<and> rs_world s = w' \<and> rs_calls s = (\<lambda>_. Resting)
    \<and> (now, path, new) \<in> set (rs_log s)
    \<and> racing_step inner ttl delay s s' \<and> rs_returned s' = (now, path, old) # rs_returned s"
proof -
  let ?s0 = "racing_start now w"
  let ?s1 = "set_call 1 (Missing path) ?s0"
  let ?s2 = "set_call 1 (Fetched path old now) (observe path old ?s1)"
  let ?s3 = "set_call 0 (Wrote path new now) (observe path new (?s2\<lparr>rs_world := w'\<rparr>))"
  let ?s4 = "store_value ttl 0 path new ?s3"
  let ?s5 = "return_value path old (store_value ttl 1 path old ?s4)"
  note d = racing_start_def set_call_def observe_def store_value_def return_value_def cache_store_def
  let ?r = "racing_step inner ttl delay"
  have "?r ?s0 ?s1" by (rule racing_step.get_miss) (simp_all add: d cache_lookup_def)
  moreover have "?r ?s1 ?s2" using racing_step.fetch [of ?s1 1 path inner old ttl delay] assms(1) by (simp add: d)
  moreover have "?r ?s2 ?s3" using racing_step.set_inner [of ?s2 0 inner path new w' ttl delay] assms(2) by (simp add: d)
  moreover have "?r ?s3 ?s4" by (rule racing_step.set_done [where t = now]) (simp_all add: d assms(5))
  moreover have "?r ?s4 ?s5" by (rule racing_step.got [where t = now]) (simp_all add: d assms(5))
  ultimately have "?r\<^sup>*\<^sup>* ?s0 ?s5" by (meson converse_rtranclp_into_rtranclp rtranclp.rtrancl_refl)
  moreover have "?r ?s5 (return_value path old ?s5)"
    by (rule racing_step.get_hit [where i = 0]) (simp_all add: d cache_lookup_def assms(4))
  moreover have "rs_calls ?s5 = (\<lambda>_. Resting)" by (simp add: d fun_eq_iff)
  ultimately show ?thesis unfolding racing_reachable_def
    by (intro exI [of _ ?s5] exI [of _ "return_value path old ?s5"]) (auto simp: d)
qed

theorem racing_set_lost_witness:
  "\<exists>s s'. racing_reachable map_store 60 0 s \<and> rs_world s = [''k'' \<mapsto> ''new''] \<and> rs_calls s = (\<lambda>_. Resting)
    \<and> (7, ''k'', ''new'') \<in> set (rs_log s)
    \<and> racing_step map_store 60 0 s s' \<and> rs_returned s' = (7, ''k'', ''old'') # rs_returned s"
  by (rule racing_set_lost [of _ "[''k'' \<mapsto> ''old'']"]) (simp_all add: map_store_def)

end
