(* ===== verification/Rate_Concurrent.thy ===== *)
theory Rate_Concurrent
  imports Rate_Theorems
begin

text \<open>
  The rate limiter under concurrent requests (\<^verbatim>\<open>IsAllowed\<close> of \<^verbatim>\<open>middleware/rate_limiting.go\<close>): one client and one kind of
  endpoint within one window on one Redis server. Each Redis command of a check is one move, so other checks come
  between reading the counter and incrementing it.
\<close>

section \<open>Checks in progress\<close>

text \<open>A check: before \<^verbatim>\<open>EXISTS\<close>, before \<^verbatim>\<open>GET\<close>, with the count it read, or decided.\<close>

datatype check_state = Arriving | Unblocked | Counted int | Admitted | Refused

record limiter_window =
  lw_count :: int
  lw_blocked :: bool
  lw_checks :: "check_state list"

definition window_start :: limiter_window where
  "window_start = \<lparr>lw_count = 0, lw_blocked = False, lw_checks = []\<rparr>"

definition decided :: "check_state \<Rightarrow> bool" where
  "decided c \<longleftrightarrow> c = Admitted \<or> c = Refused"

definition undecided :: "limiter_window \<Rightarrow> nat" where
  "undecided s = length (filter (\<lambda>c. \<not> decided c) (lw_checks s))"

definition to_state :: "nat \<Rightarrow> check_state \<Rightarrow> limiter_window \<Rightarrow> limiter_window" where
  "to_state i c s = s\<lparr>lw_checks := (lw_checks s)[i := c]\<rparr>"

text \<open>At most \<open>m\<close> checks are under way at once; a block may expire within the window.\<close>

inductive window_step :: "endpoint_type \<Rightarrow> nat \<Rightarrow> limiter_window \<Rightarrow> limiter_window \<Rightarrow> bool" for t m where
  arrives: "undecided s < m \<Longrightarrow> window_step t m s (s\<lparr>lw_checks := lw_checks s @ [Arriving]\<rparr>)"
| not_blocked: "i < length (lw_checks s) \<Longrightarrow> lw_checks s ! i = Arriving \<Longrightarrow> \<not> lw_blocked s \<Longrightarrow>
    window_step t m s (to_state i Unblocked s)"
| is_blocked: "i < length (lw_checks s) \<Longrightarrow> lw_checks s ! i = Arriving \<Longrightarrow> lw_blocked s \<Longrightarrow>
    window_step t m s (to_state i Refused s)"
| reads: "i < length (lw_checks s) \<Longrightarrow> lw_checks s ! i = Unblocked \<Longrightarrow>
    window_step t m s (to_state i (Counted (lw_count s)) s)"
| blocks: "i < length (lw_checks s) \<Longrightarrow> lw_checks s ! i = Counted n \<Longrightarrow> n \<ge> limit_of t \<Longrightarrow>
    window_step t m s (to_state i Refused (s\<lparr>lw_blocked := True\<rparr>))"
| counts: "i < length (lw_checks s) \<Longrightarrow> lw_checks s ! i = Counted n \<Longrightarrow> n < limit_of t \<Longrightarrow>
    window_step t m s (to_state i Admitted (s\<lparr>lw_count := lw_count s + 1\<rparr>))"
| expires: "window_step t m s (s\<lparr>lw_blocked := False\<rparr>)"

definition lw_admitted :: "limiter_window \<Rightarrow> nat" where
  "lw_admitted s = length (filter (\<lambda>c. c = Admitted) (lw_checks s))"

section \<open>The bound\<close>

text \<open>Checks that read a count below the limit and have not incremented it yet.\<close>

definition passing :: "endpoint_type \<Rightarrow> check_state \<Rightarrow> bool" where
  "passing t c \<longleftrightarrow> (case c of Counted n \<Rightarrow> n < limit_of t | _ \<Rightarrow> False)"

definition lw_passing :: "endpoint_type \<Rightarrow> limiter_window \<Rightarrow> nat" where
  "lw_passing t s = length (filter (passing t) (lw_checks s))"

definition window_ok :: "endpoint_type \<Rightarrow> nat \<Rightarrow> limiter_window \<Rightarrow> bool" where
  "window_ok t m s \<longleftrightarrow> int (lw_admitted s) = lw_count s \<and> undecided s \<le> m
     \<and> (lw_count s < limit_of t \<or> lw_count s + int (lw_passing t s) \<le> limit_of t + int m - 1)"

lemma filter_set:
  assumes "i < length xs"
  shows "length (filter P (xs[i := y])) + (if P (xs ! i) then 1 else 0) = length (filter P xs) + (if P y then 1 else 0)"
  using assms
proof (induction xs arbitrary: i)
  case (Cons x xs)
  then show ?case by (cases i) auto
qed simp

lemma state_simps [simp]:
  "passing t Arriving = False" "passing t Unblocked = False" "passing t (Counted n) \<longleftrightarrow> n < limit_of t"
  "passing t Admitted = False" "passing t Refused = False"
  "decided Arriving = False" "decided Unblocked = False" "decided (Counted n) = False" "decided Admitted" "decided Refused"
  by (simp_all add: passing_def decided_def)

lemma to_state_fields [simp]:
  "lw_count (to_state i c s) = lw_count s" "lw_blocked (to_state i c s) = lw_blocked s"
  "lw_checks (to_state i c s) = (lw_checks s)[i := c]"
  by (simp_all add: to_state_def)

text \<open>The three numbers after one check has moved.\<close>

lemma to_state_counts:
  assumes "i < length (lw_checks s)" and "lw_checks s ! i = a"
  shows "lw_admitted (to_state i c s) + (if a = Admitted then 1 else 0) = lw_admitted s + (if c = Admitted then 1 else 0)"
    "undecided (to_state i c s) + (if \<not> decided a then 1 else 0) = undecided s + (if \<not> decided c then 1 else 0)"
  using filter_set [OF assms(1), of "\<lambda>c. c = Admitted" c] filter_set [OF assms(1), of "\<lambda>c. \<not> decided c" c]
  by (simp_all add: lw_admitted_def undecided_def assms(2))

lemma to_state_passing:
  assumes "i < length (lw_checks s)" and "lw_checks s ! i = a"
  shows "lw_passing t (to_state i c s) + (if passing t a then 1 else 0) = lw_passing t s + (if passing t c then 1 else 0)"
  using filter_set [OF assms(1), of "passing t" c] by (simp add: lw_passing_def assms(2))

lemma same_checks:
  "lw_checks s = lw_checks s' \<Longrightarrow> lw_admitted s = lw_admitted s'" "lw_checks s = lw_checks s' \<Longrightarrow> undecided s = undecided s'"
  "lw_checks s = lw_checks s' \<Longrightarrow> lw_passing t s = lw_passing t s'"
  by (simp_all add: lw_admitted_def undecided_def lw_passing_def)

lemma passing_undecided: "lw_passing t s \<le> undecided s"
proof -
  have "length (filter (passing t) xs) \<le> length (filter (\<lambda>c. \<not> decided c) xs)" for xs
    by (induction xs) (auto simp: passing_def decided_def split: check_state.splits)
  then show ?thesis by (simp add: lw_passing_def undecided_def)
qed

lemma window_step_ok: "window_step t m s s' \<Longrightarrow> window_ok t m s \<Longrightarrow> window_ok t m s'"
proof (induction rule: window_step.induct)
  case (arrives s)
  then show ?case by (simp add: window_ok_def lw_admitted_def undecided_def lw_passing_def)
next
  case (not_blocked i s)
  then show ?case using to_state_counts [OF not_blocked(1,2), where c = Unblocked] to_state_passing [OF not_blocked(1,2), where c = Unblocked and t = t] by (simp add: window_ok_def)
next
  case (is_blocked i s)
  then show ?case using to_state_counts [OF is_blocked(1,2), where c = Refused] to_state_passing [OF is_blocked(1,2), where c = Refused and t = t] by (simp add: window_ok_def)
next
  case (reads i s)
  then show ?case using to_state_counts [OF reads(1,2), where c = "Counted (lw_count s)"] to_state_passing [OF reads(1,2), where c = "Counted (lw_count s)" and t = t]
    by (auto simp: window_ok_def split: if_splits)
next
  case (blocks i s n)
  let ?s = "s\<lparr>lw_blocked := True\<rparr>"
  have "i < length (lw_checks ?s)" "lw_checks ?s ! i = Counted n" using blocks by simp_all
  from to_state_counts [OF this, where c = Refused] to_state_passing [OF this, where c = Refused and t = t] show ?case
    using blocks same_checks [of ?s s] by (simp add: window_ok_def)
next
  case (counts i s n)
  let ?s = "s\<lparr>lw_count := lw_count s + 1\<rparr>"
  have "i < length (lw_checks ?s)" "lw_checks ?s ! i = Counted n" using counts by simp_all
  from to_state_counts [OF this, where c = Admitted] to_state_passing [OF this, where c = Admitted and t = t] show ?case
    using counts same_checks [of ?s s] passing_undecided [of t s] by (auto simp: window_ok_def)
next
  case (expires s)
  then show ?case using same_checks [of "s\<lparr>lw_blocked := False\<rparr>" s] by (simp add: window_ok_def)
qed

interpretation window: preserved "window_step t m" "window_ok t m" for t m
  by unfold_locales (rule window_step_ok)

text \<open>C9: With at most \<open>m\<close> checks under way at once, the limiter admits at most \<open>m - 1\<close> requests more than its limit in a
  window, however the checks interleave and whenever its block expires: one check at a time never exceeds it.\<close>

theorem concurrent_limit_bound:
  assumes "(window_step t m)\<^sup>*\<^sup>* window_start s" and "t \<noteq> EpHealthy" and "0 < m"
  shows "int (lw_admitted s) \<le> limit_of t + int m - 1"
proof -
  have "window_ok t m window_start" using assms(2,3) limits_positive(2) [of t]
    by (simp add: window_ok_def window_start_def lw_admitted_def undecided_def lw_passing_def limit_of_def)
  then have "window_ok t m s" by (rule window.good_steps [OF assms(1)])
  then show ?thesis using assms(3) by (auto simp: window_ok_def)
qed

section \<open>The bound is reached\<close>

definition win :: "int \<Rightarrow> check_state list \<Rightarrow> limiter_window" where
  "win n cs = \<lparr>lw_count = n, lw_blocked = False, lw_checks = cs\<rparr>"

lemma win_to_state: "to_state (length pre) c (win n (pre @ a # post)) = win n (pre @ c # post)"
  by (simp add: to_state_def win_def)

lemma win_moves:
  "window_step t m (win n (pre @ Arriving # post)) (win n (pre @ Unblocked # post))"
  "window_step t m (win n (pre @ Unblocked # post)) (win n (pre @ Counted n # post))"
  "k < limit_of t \<Longrightarrow> window_step t m (win n (pre @ Counted k # post)) (win (n + 1) (pre @ Admitted # post))"
proof -
  have nth: "length pre < length (lw_checks (win n (pre @ a # post)))" "lw_checks (win n (pre @ a # post)) ! length pre = a" for a
    by (simp_all add: win_def)
  show "window_step t m (win n (pre @ Arriving # post)) (win n (pre @ Unblocked # post))"
    using window_step.not_blocked [OF nth, of t m] by (simp add: win_to_state) (simp add: win_def)
  show "window_step t m (win n (pre @ Unblocked # post)) (win n (pre @ Counted n # post))"
    using window_step.reads [OF nth, of t m] by (simp add: win_to_state) (simp add: win_def)
  assume "k < limit_of t"
  then have "window_step t m (win n (pre @ Counted k # post))
      (to_state (length pre) Admitted ((win n (pre @ Counted k # post))\<lparr>lw_count := lw_count (win n (pre @ Counted k # post)) + 1\<rparr>))"
    by (rule window_step.counts [OF nth])
  then show "window_step t m (win n (pre @ Counted k # post)) (win (n + 1) (pre @ Admitted # post))"
    by (simp add: to_state_def win_def)
qed

text \<open>All of a row of checks make the same move.\<close>

lemma move_all:
  assumes "\<And>n pre post. window_step t m (win n (pre @ a # post)) (win (n + d) (pre @ b # post))"
  shows "(window_step t m)\<^sup>*\<^sup>* (win n (pre @ replicate k a)) (win (n + int k * d) (pre @ replicate k b))"
proof (induction k arbitrary: n pre)
  case (Suc k)
  have "window_step t m (win n (pre @ a # replicate k a)) (win (n + d) ((pre @ [b]) @ replicate k a))"
    using assms [of n pre "replicate k a"] by simp
  moreover have "(window_step t m)\<^sup>*\<^sup>* (win (n + d) ((pre @ [b]) @ replicate k a)) (win (n + d + int k * d) ((pre @ [b]) @ replicate k b))"
    by (rule Suc)
  ultimately show ?case by (simp add: algebra_simps converse_rtranclp_into_rtranclp)
qed simp

lemma arrive_all:
  "length (filter (\<lambda>c. \<not> decided c) pre) + k \<le> m \<Longrightarrow> (window_step t m)\<^sup>*\<^sup>* (win n pre) (win n (pre @ replicate k Arriving))"
proof (induction k arbitrary: pre)
  case (Suc k)
  have "window_step t m (win n pre) (win n (pre @ [Arriving]))"
    using window_step.arrives [of "win n pre" m t] Suc.prems by (simp add: win_def undecided_def)
  moreover have "(window_step t m)\<^sup>*\<^sup>* (win n (pre @ [Arriving])) (win n ((pre @ [Arriving]) @ replicate k Arriving))"
    using Suc.prems by (intro Suc.IH) simp
  ultimately show ?case by (simp add: converse_rtranclp_into_rtranclp)
qed simp

text \<open>\<open>k\<close> checks that all read the count before one increments it.\<close>

lemma batch_admitted:
  assumes "list_all decided pre" and "k \<le> m" and "n < limit_of t"
  shows "(window_step t m)\<^sup>*\<^sup>* (win n pre) (win (n + int k) (pre @ replicate k Admitted))"
proof -
  have "filter (\<lambda>c. \<not> decided c) pre = []" using assms(1) by (simp add: list_all_iff filter_empty_conv)
  then have "(window_step t m)\<^sup>*\<^sup>* (win n pre) (win n (pre @ replicate k Arriving))"
    using assms(2) by (intro arrive_all) simp
  also have "(window_step t m)\<^sup>*\<^sup>* (win n (pre @ replicate k Arriving)) (win n (pre @ replicate k Unblocked))"
    using move_all [where a = Arriving and b = Unblocked and d = 0] win_moves(1) by simp
  also have "(window_step t m)\<^sup>*\<^sup>* (win n (pre @ replicate k Unblocked)) (win n (pre @ replicate k (Counted n)))"
  proof (induction k arbitrary: pre)
    case (Suc k)
    have "(window_step t m)\<^sup>*\<^sup>* (win n ((pre @ [Counted n]) @ replicate k Unblocked)) (win n ((pre @ [Counted n]) @ replicate k (Counted n)))"
      by (rule Suc)
    then show ?case using win_moves(2) [of t m n pre "replicate k Unblocked"] by (simp add: converse_rtranclp_into_rtranclp)
  qed simp
  also have "(window_step t m)\<^sup>*\<^sup>* (win n (pre @ replicate k (Counted n))) (win (n + int k) (pre @ replicate k Admitted))"
    using move_all [where a = "Counted n" and b = Admitted and d = 1] win_moves(3) [OF assms(3)] by simp
  finally show ?thesis .
qed

lemma one_by_one:
  "int k \<le> limit_of t \<Longrightarrow> 0 < m \<Longrightarrow> (window_step t m)\<^sup>*\<^sup>* window_start (win (int k) (replicate k Admitted))"
proof (induction k)
  case (Suc k)
  have "(window_step t m)\<^sup>*\<^sup>* (win (int k) (replicate k Admitted)) (win (int k + int 1) (replicate k Admitted @ replicate 1 Admitted))"
    using Suc.prems by (intro batch_admitted) (simp_all add: list_all_iff)
  then show ?case using Suc by (simp add: replicate_append_same algebra_simps rtranclp_trans)
qed (simp add: window_start_def win_def)

text \<open>The excess happens: when the last admissible request is checked by \<open>m\<close> at once, all of them are admitted.\<close>

theorem concurrent_limit_exceeded:
  assumes "t \<noteq> EpHealthy" and "0 < m"
  shows "\<exists>s. (window_step t m)\<^sup>*\<^sup>* window_start s \<and> int (lw_admitted s) = limit_of t + int m - 1"
proof -
  let ?k = "nat (limit_of t - 1)"
  have L: "0 < limit_of t" using limits_positive(2) [OF assms(1)] by (simp add: limit_of_def)
  have "(window_step t m)\<^sup>*\<^sup>* window_start (win (int ?k) (replicate ?k Admitted))"
    using L assms(2) by (intro one_by_one) simp_all
  also have "(window_step t m)\<^sup>*\<^sup>* (win (int ?k) (replicate ?k Admitted)) (win (int ?k + int m) (replicate ?k Admitted @ replicate m Admitted))"
    using L by (intro batch_admitted) (simp_all add: list_all_iff)
  finally show ?thesis
    using L by (intro exI [of _ "win (int ?k + int m) (replicate ?k Admitted @ replicate m Admitted)"])
      (simp add: lw_admitted_def win_def)
qed

theorem concurrent_limit_exceeded_witness:
  "\<exists>s. (window_step EpAuth 50)\<^sup>*\<^sup>* window_start s \<and> lw_admitted s = 62"
  using concurrent_limit_exceeded [of EpAuth 50] by (simp add: limit_of_def RateLimitConfigs_def)

theorem concurrent_limit_bound_witness:
  "lw_admitted (win 13 (replicate 13 Admitted)) \<le> 13"
proof -
  have "(window_step EpAuth 1)\<^sup>*\<^sup>* window_start (win (int 13) (replicate 13 Admitted))"
    by (rule one_by_one) (simp_all add: limit_of_def RateLimitConfigs_def)
  from concurrent_limit_bound [OF this] show ?thesis by (simp add: limit_of_def RateLimitConfigs_def)
qed

end
