(* ===== verification/Service_Events.thy ===== *)
theory Service_Events
  imports Service_Theorems Amqp_Delivery
begin

text \<open>
  Two services and the broker between them: what the runtime wires (\<^verbatim>\<open>app/app.go\<close>), what a publisher puts on the wire
  and what the subscription pipeline of the other service hands its handler, put together.
\<close>

section \<open>The key every component gets\<close>

text \<open>The publishers and the subscriber of an app sign and verify with the key that was loaded once, before them.\<close>

definition signed_wiring :: "signature_config \<Rightarrow> string \<Rightarrow> 'w app \<Rightarrow> bool" where
  "signed_wiring sg name a \<longleftrightarrow> ap_Signing a = Some sg
     \<and> (\<forall>cp. ap_EventPub a = Some cp \<or> ap_Audit a = Some cp \<longrightarrow> cp_signer cp = Some sg \<and> cp_serviceName cp = name)
     \<and> (\<forall>cs. ap_EventSub a = Some cs \<longrightarrow> cs_verifier cs = Some sg \<and> cs_serviceName cs = name)"

lemma new_publisher_fields:
  "NewClusterPublisher now ds decl ex nodes name signing = Ret (Inr cp) \<Longrightarrow>
     cp_signer cp = signing \<and> cp_serviceName cp = name \<and> cp_exchange cp = ex"
  by (clarsimp simp: NewClusterPublisher_def bind_outcome_Ret_iff)
     (auto simp: bind_outcome_Ret_iff split: sum.split_asm option.split_asm)

lemma new_subscriber_fields:
  "NewClusterSubscriber now ds ex nodes name signing = Ret (Inr cs) \<Longrightarrow>
     cs_verifier cs = signing \<and> cs_serviceName cs = name \<and> cs_exchange cs = ex"
  by (clarsimp simp: NewClusterSubscriber_def bind_outcome_Ret_iff) (auto split: sum.split_asm)

lemma setup_publisher_signed:
  "setup_publisher b name nodes os a = Ret (err, a') \<Longrightarrow> signed_wiring sg name a \<Longrightarrow> signed_wiring sg name a'"
  using new_publisher_fields [of "bo_now b" "bo_pub b" "bo_pub_declare b" "bo_exchange b" nodes name "ap_Signing a"]
  by (cases "op_wantPub os"; clarsimp simp: setup_publisher_def bind_outcome_Ret_iff)
     (auto simp: signed_wiring_def split: if_split_asm sum.split_asm)

lemma setup_subscriber_signed:
  "setup_subscriber b name nodes os a = Ret (err, a') \<Longrightarrow> signed_wiring sg name a \<Longrightarrow> signed_wiring sg name a'"
  using new_subscriber_fields [of "bo_now b" "bo_sub b" "bo_exchange b" nodes name "ap_Signing a"]
  by (cases "op_wantSub os"; clarsimp simp: setup_subscriber_def bind_outcome_Ret_iff)
     (auto simp: signed_wiring_def split: if_split_asm sum.split_asm)

lemma setup_audit_signed:
  "setup_audit b name nodes os a = Ret (err, a') \<Longrightarrow> signed_wiring sg name a \<Longrightarrow> signed_wiring sg name a'"
  using new_publisher_fields [of "bo_now b" "bo_audit b" "bo_audit_declare b" "bo_exchange b" nodes name "ap_Signing a"]
  by (cases "op_wantAudit os"; clarsimp simp: setup_audit_def NewClusterAuditClient_def bind_outcome_Ret_iff)
     (auto simp: signed_wiring_def split: if_split_asm sum.split_asm)

lemma setupDatabase_signed:
  "setupDatabase b name migrate a = Ret (err, a') \<Longrightarrow> signed_wiring sg name a \<Longrightarrow> signed_wiring sg name a'"
  using setupDatabase_cases [of b name migrate a err a'] by (auto simp: signed_wiring_def)

lemma and_then_signed:
  assumes "and_then x f = Ret (err, a')"
    and "\<And>e a. x = Ret (e, a) \<Longrightarrow> signed_wiring sg name a"
    and "\<And>e a a'. f a = Ret (e, a') \<Longrightarrow> signed_wiring sg name a \<Longrightarrow> signed_wiring sg name a'"
  shows "signed_wiring sg name a'"
  using assms(1) by (auto simp: and_then_Ret split: option.split_asm intro: assms(2,3))

lemma setupMessaging_signed:
  assumes "setupMessaging b name os a = Ret (err, a')" and "signed_wiring sg name a"
  shows "signed_wiring sg name a'"
proof (cases "amqp_LoadConfigFromEnv (bo_env b) name")
  case (Inl e)
  then show ?thesis using assms by (simp add: setupMessaging_def)
next
  case (Inr cfg)
  have s: "signed_wiring sg name (a\<lparr>ap_RabbitNodes := ac_Nodes cfg\<rparr>)"
    using assms(2) by (simp add: signed_wiring_def)
  have m: "and_then (and_then (setup_publisher b name (ac_Nodes cfg) os (a\<lparr>ap_RabbitNodes := ac_Nodes cfg\<rparr>))
      (setup_subscriber b name (ac_Nodes cfg) os)) (setup_audit b name (ac_Nodes cfg) os) = Ret (err, a')"
    using assms(1) Inr by (simp add: setupMessaging_def Let_def)
  show ?thesis
    by (rule and_then_signed [OF m and_then_signed setup_audit_signed])
       (auto intro: setup_publisher_signed [OF _ s] setup_subscriber_signed)
qed

lemma app_New_signed:
  assumes "app_New b name opts = Ret (None, a)" and "LoadSignatureConfig (bo_env b) (bo_secret b) = Inr sg"
  shows "signed_wiring sg name a"
proof -
  let ?os = "app_options_of opts" and ?a0 = "(app_start b name (app_options_of opts))\<lparr>ap_Signing := Some sg\<rparr>"
  have a0: "signed_wiring sg name ?a0" by (simp add: signed_wiring_def app_start_def)
  have close: "signed_wiring sg name a'" if "close_on_error x = Ret (err, a')"
    "\<And>e a. x = Ret (e, a) \<Longrightarrow> signed_wiring sg name a" for x :: "(string option \<times> 'b app) outcome" and err a'
    using that by (auto simp: close_on_error_Ret signed_wiring_def app_Close_def split: if_split_asm)
  have "and_then
      (if op_wantDB ?os then close_on_error (setupDatabase b name (op_migrate ?os) ?a0) else Ret (None, ?a0))
      (\<lambda>a1. if op_wantPub ?os \<or> op_wantSub ?os \<or> op_wantAudit ?os
         then close_on_error (setupMessaging b name ?os a1) else Ret (None, a1)) = Ret (None, a)"
    using assms by (simp add: app_New_def Let_def)
  then show ?thesis
    by (rule and_then_signed)
       (auto split: if_split_asm intro: a0 close setupDatabase_signed [OF _ a0] setupMessaging_signed)
qed

section \<open>From one service to the other\<close>

lemma message_from_accepted:
  assumes "cp_message mac now cp ev = Inr msg" and "signed_wiring sg n1 a1" and "ap_EventPub a1 = Some cp \<or> ap_Audit a1 = Some cp"
    and "signed_wiring sg n2 a2" and "ap_EventSub a2 = Some cs" and "later \<le> now + sc_ExpiryWindow sg"
    and "handler (if ev_UserID ev \<noteq> [] then Some (ev_UserID ev) else None) ev = Ret None"
  shows "handleMessage mac later cs handler False msg = ([Acked], Some ev)"
proof -
  have c: "cp_signer cp = Some sg" "cs_verifier cs = Some sg"
    using assms(2-5) by (auto simp: signed_wiring_def)
  show ?thesis by (rule message_accepted [where handler = handler, OF assms(1) c assms(6)]) (rule assms(7))
qed

lemma messages_accepted:
  assumes "list_all2 (\<lambda>(t, ev) msg. cp_message mac t cp ev = Inr msg) evs msgs"
    and "signed_wiring sg n1 a1" and "ap_EventPub a1 = Some cp \<or> ap_Audit a1 = Some cp"
    and "signed_wiring sg n2 a2" and "ap_EventSub a2 = Some cs"
    and "\<forall>(t, ev)\<in>set evs. later \<le> t + sc_ExpiryWindow sg
      \<and> handler (if ev_UserID ev \<noteq> [] then Some (ev_UserID ev) else None) ev = Ret None"
  shows "map (handleMessage mac later cs handler False) msgs = map (\<lambda>(t, ev). ([Acked], Some ev)) evs"
  using assms(1,6)
  by (induction rule: list_all2_induct) (auto intro: message_from_accepted [OF _ assms(2-5)])

text \<open>A service that publishes to itself, one event in the pipeline, and that event handled.\<close>

lemma demo_load: "LoadSignatureConfig Map.empty None = Inr \<lparr>sc_SigningKey = ''dev-signing-key-change-in-production'',
    sc_ExpiryWindow = 30 * minute, sc_RequiredClaims = standardClaims\<rparr>"
  by (simp add: LoadSignatureConfig_def Let_def getenv_def orElse_def standardClaims_def)

lemma demo_subscriber: "\<exists>sub. NewClusterSubscriber 0 [broker_up] ex [u] nm sg = Ret (Inr sub)"
  by (simp add: NewClusterSubscriber_def amqp_NewClusterAdapter_def amqp_connectToNode_def amqp_new_node_def cp_config_def
      amqp_setDefaults_def broker_up_def Let_def)

lemma demo_messaging_app:
  "\<exists>a :: unit app. app_New (demo_boot broker_up broker_up) ''orders'' [WithEventPublisher, WithEventSubscriber] = Ret (None, a)
     \<and> ap_EventPub a \<noteq> None \<and> ap_EventSub a \<noteq> None"
proof -
  obtain cfg where cfg: "amqp_LoadConfigFromEnv Map.empty ''orders'' = Inr cfg" "ac_Nodes cfg = [localhost_url]"
    using demo_nodes by blast
  obtain sg where sg: "LoadSignatureConfig Map.empty None = Inr sg" using demo_load by blast
  obtain pub where pub: "NewClusterPublisher 0 [broker_up] (\<lambda>_. None) (bo_exchange (demo_boot broker_up broker_up))
      [localhost_url] ''orders'' (Some sg) = Ret (Inr pub)"
    using demo_publisher by blast
  obtain sub where sub: "NewClusterSubscriber 0 [broker_up] (bo_exchange (demo_boot broker_up broker_up))
      [localhost_url] ''orders'' (Some sg) = Ret (Inr sub)"
    using demo_subscriber by blast
  show ?thesis
    by (simp add: app_New_def app_options_of_def zero_options_def app_start_def sg setupMessaging_def cfg
        setup_publisher_def setup_subscriber_def setup_audit_def pub sub and_then_def close_on_error_def Let_def)
qed

lemma demo_message:
  assumes "cp_signer cp = Some \<lparr>sc_SigningKey = ''dev-signing-key-change-in-production'',
    sc_ExpiryWindow = 30 * minute, sc_RequiredClaims = standardClaims\<rparr>"
  shows "\<exists>msg. cp_message demo_mac 0 cp demo_event = Inr msg"
  using demo_claims createCanonical_wf [OF demo_data] assms
  by (simp add: cp_message_def SignEvent_def generateSignature_def)

definition handled_one :: "'m \<Rightarrow> 'm pipeline" where
  "handled_one m = (filled 0 [] [m] [] Receiving)\<lparr>pl_handled := [(0, m)]\<rparr>"

lemma handled_one_reachable: "pipe_reachable (Suc 0) (handled_one m)"
proof -
  let ?p = "filled 0 [m] [m] [] Receiving"
  let ?q = "?p\<lparr>pl_buffer := [], pl_worker := Handling (0, m)\<rparr>"
  let ?r = "?q\<lparr>pl_worker := Idle, pl_handled := pl_handled ?q @ [(0, m)]\<rparr>"
  have "pipe_step\<^sup>*\<^sup>* (subscribed (Suc 0)) ?p"
    using filled_reachable [of "[m]" 0] by (simp add: pipe_reachable_def multiplexed_cap_def)
  moreover have "pipe_step ?p ?q" by (rule pipe_step.take_one) simp_all
  moreover have "pipe_step ?q ?r" by (rule pipe_step.finish) simp
  moreover have "?r = handled_one m" by (simp add: handled_one_def filled_def)
  ultimately show ?thesis
    unfolding pipe_reachable_def by (metis rtranclp.rtrancl_into_rtrancl)
qed

end
