(* ===== verification/Service_Calls.thy ===== *)
theory Service_Calls
  imports Serving_Theorems Http_Theorems Web_Auth
begin

text \<open>
  A call from one service to another: the client (\<^verbatim>\<open>httpclient/client.go\<close>), the runtime's handler (\<^verbatim>\<open>app/app.go\<close>) with its
  tracing middleware (\<^verbatim>\<open>middleware/tracing.go\<close>), and routes behind service keys (\<^verbatim>\<open>middleware/serviceauth.go\<close>), put
  together: what the called service knows of its caller.
\<close>

section \<open>Headers on the wire\<close>

text \<open>The keys, in canonical form, under which a client sends its trace and its key.\<close>

definition trace_header_keys :: "string set" where
  "trace_header_keys = {''X-Trace-Id'', ''X-Span-Id'', ''X-Request-Id'', ''X-Correlation-Id'', ''Traceparent'',
     ''X-Parent-Span-Id'', ''X-User-Id'', ''X-Service-Chain''}"

definition no_clash :: "string set \<Rightarrow> (string \<times> string) list \<Rightarrow> bool" where
  "no_clash keys kvs \<longleftrightarrow> (\<forall>(k, v)\<in>set kvs. canonicalKey k \<notin> keys)"

lemma header_set_all_other:
  "no_clash keys kvs \<Longrightarrow> k \<in> keys \<Longrightarrow> header_set_all kvs h k = h k"
proof (induction kvs arbitrary: h)
  case (Cons kv kvs)
  then show ?case by (cases kv) (auto simp: no_clash_def header_set_all_def header_set_def)
qed (simp add: header_set_all_def)

text \<open>What is set before and after, under other keys, does not show.\<close>

lemma header_set_all_middle:
  assumes "no_clash keys pre" and "no_clash keys post" and "k \<in> keys"
  shows "header_set_all (pre @ mid @ post) Map.empty k = header_set_all mid Map.empty k"
proof -
  have "header_set_all (pre @ mid @ post) Map.empty k = header_set_all mid (header_set_all pre Map.empty) k"
    by (simp add: header_set_all_append header_set_all_other [OF assms(2,3)])
  also have "\<dots> = (header_set_all pre Map.empty ++ header_set_all mid Map.empty) k"
    by (subst header_set_all_over) simp
  also have "\<dots> = header_set_all mid Map.empty k"
    using header_set_all_other [OF assms(1,3), of Map.empty] by (simp add: map_add_def split: option.split)
  finally show ?thesis .
qed

lemma trace_from_headers_cong:
  assumes "\<And>k. k \<in> trace_header_keys \<Longrightarrow> h k = h' k"
  shows "TraceContextFromHeaders now draw h = TraceContextFromHeaders now draw h'"
proof -
  have g: "header_get h ''X-Trace-ID'' = header_get h' ''X-Trace-ID''" "header_get h ''X-Span-ID'' = header_get h' ''X-Span-ID''"
    "header_get h ''X-Request-ID'' = header_get h' ''X-Request-ID''" "header_get h ''X-Correlation-ID'' = header_get h' ''X-Correlation-ID''"
    "header_get h ''X-User-ID'' = header_get h' ''X-User-ID''" "header_get h ''traceparent'' = header_get h' ''traceparent''"
    "header_get h ''X-Service-Chain'' = header_get h' ''X-Service-Chain''"
    "header_get h ''X-Parent-Span-ID'' = header_get h' ''X-Parent-Span-ID''"
    using assms by (simp_all add: header_get_def trace_keys trace_header_keys_def)
  show ?thesis unfolding TraceContextFromHeaders_def g ..
qed

text \<open>The trace a receiver reads, also when the identifiers do not fit the W3C form.\<close>

definition received_trace :: "trace_context \<Rightarrow> trace_context" where
  "received_trace tc = (if Traceparent (Some tc) = [] then tc else tc\<lparr>tc_ParentSpanID := tc_SpanID tc\<rparr>)"

lemma trace_headers_roundtrip:
  assumes "\<forall>s\<in>set (tc_ServiceChain tc). chain_name s"
  shows "TraceContextFromHeaders now draw (header_set_all (ToHeaders (Some tc)) Map.empty) = received_trace tc"
proof -
  let ?h = "header_set_all (ToHeaders (Some tc)) Map.empty"
  have g: "header_get ?h ''X-Trace-ID'' = tc_TraceID tc" "header_get ?h ''X-Span-ID'' = tc_SpanID tc"
    "header_get ?h ''X-Request-ID'' = tc_RequestID tc" "header_get ?h ''X-Correlation-ID'' = tc_CorrelationID tc"
    "header_get ?h ''X-User-ID'' = tc_UserID tc" "header_get ?h ''traceparent'' = Traceparent (Some tc)"
    "header_get ?h ''X-Parent-Span-ID'' = tc_ParentSpanID tc"
    "header_get ?h ''X-Service-Chain'' = strJoin (tc_ServiceChain tc) ''->''"
    by (simp_all add: header_get_def header_set_all_def header_set_def ToHeaders_def trace_keys)
  have "strJoin [] ''->'' = []" by simp
  then have c: "strJoin (tc_ServiceChain tc) ''->'' = [] \<longleftrightarrow> tc_ServiceChain tc = []"
    "tc_ServiceChain tc \<noteq> [] \<Longrightarrow> strSplit (strJoin (tc_ServiceChain tc) ''->'') ''->'' = tc_ServiceChain tc"
    using chain_roundtrip [OF _ assms] by auto
  show ?thesis
  proof (cases "isHex (tc_TraceID tc) 32 \<and> isHex (tc_SpanID tc) 16")
    case True
    then have "tc_SpanID tc \<noteq> []" by (auto simp: isHex_def)
    then show ?thesis using traceparent_roundtrip [of tc] True c
      unfolding TraceContextFromHeaders_def g Let_def received_trace_def by simp
  next
    case False
    then have t: "Traceparent (Some tc) = []" by (auto simp: Traceparent_def)
    moreover have "parseTraceparent [] = None" by code_simp
    ultimately show ?thesis using c unfolding TraceContextFromHeaders_def g Let_def received_trace_def by simp
  qed
qed

lemma no_clash_append [simp]: "no_clash keys (xs @ ys) \<longleftrightarrow> no_clash keys xs \<and> no_clash keys ys"
  by (auto simp: no_clash_def)

lemma no_clash_simps [simp]: "no_clash keys []" "no_clash keys ((k, v) # kvs) \<longleftrightarrow> canonicalKey k \<notin> keys \<and> no_clash keys kvs"
  by (auto simp: no_clash_def)

lemma client_keys:
  "canonicalKey ''User-Agent'' = ''User-Agent''" "canonicalKey ''Content-Type'' = ''Content-Type''"
  "canonicalKey ''X-API-Key'' = ''X-Api-Key''" "canonicalKey ''Authorization'' = ''Authorization''"
  by code_simp+

definition reserved_keys :: "string set" where
  "reserved_keys = insert ''X-Api-Key'' trace_header_keys"

text \<open>A request whose own headers leave these alone, from a client whose default headers do.\<close>

definition own_headers_free :: "http_client \<Rightarrow> http_request \<Rightarrow> bool" where
  "own_headers_free c req \<longleftrightarrow> no_clash reserved_keys (hl_defaultHeaders c @ rq_Headers req)"

lemma own_headers_free_parts:
  "own_headers_free c req \<Longrightarrow> no_clash trace_header_keys (hl_defaultHeaders c @ rq_Headers req)
     \<and> no_clash {''X-Api-Key''} (hl_defaultHeaders c @ rq_Headers req)"
  by (auto simp: own_headers_free_def reserved_keys_def no_clash_def)

lemma request_trace:
  assumes "own_headers_free c req" and "\<forall>s\<in>set (tc_ServiceChain tc). chain_name s"
  shows "TraceContextFromHeaders now draw (requestHeaders c tc req) = received_trace tc"
proof -
  let ?pre = "[(''User-Agent'', hl_userAgent c)] @ (if rq_Body req \<noteq> None then [(''Content-Type'', ''application/json'')] else [])
      @ authHeader c"
  have "no_clash trace_header_keys ?pre" by (simp add: authHeader_def client_keys trace_header_keys_def)
  then have "requestHeaders c tc req k = header_set_all (ToHeaders (Some tc)) Map.empty k" if "k \<in> trace_header_keys" for k
    using header_set_all_middle [of trace_header_keys ?pre "hl_defaultHeaders c @ rq_Headers req" k "ToHeaders (Some tc)"]
      own_headers_free_parts [OF assms(1)] that unfolding requestHeaders_def by simp
  from trace_from_headers_cong [OF this] show ?thesis using trace_headers_roundtrip [OF assms(2)] by simp
qed

lemma request_key:
  assumes "own_headers_free c req" and "hl_authToken c \<noteq> []" and "hasPrefix (hl_authToken c) (hl_apiKeyPrefix c)"
  shows "header_get (requestHeaders c tc req) ''X-API-Key'' = hl_authToken c"
proof -
  let ?pre = "[(''User-Agent'', hl_userAgent c)] @ (if rq_Body req \<noteq> None then [(''Content-Type'', ''application/json'')] else [])"
  have "no_clash {''X-Api-Key''} ?pre" by (simp add: client_keys)
  moreover have "no_clash {''X-Api-Key''} (ToHeaders (Some tc))" by (simp add: ToHeaders_def trace_keys)
  ultimately have "requestHeaders c tc req ''X-Api-Key'' = header_set_all (authHeader c) Map.empty ''X-Api-Key''"
    using header_set_all_middle [of "{''X-Api-Key''}" ?pre "ToHeaders (Some tc) @ hl_defaultHeaders c @ rq_Headers req" _ "authHeader c"]
      own_headers_free_parts [OF assms(1)] unfolding requestHeaders_def by simp
  then show ?thesis using assms(2,3)
    by (simp add: header_get_def client_keys authHeader_def header_set_all_def header_set_def)
qed

section \<open>The requests of a call\<close>

text \<open>The trace the request of an attempt carries.\<close>

definition sent_trace :: "http_env \<Rightarrow> http_client \<Rightarrow> nat \<Rightarrow> trace_context" where
  "sent_trace env c attempt =
     AddToServiceChain (hl_serviceName c) (NewTraceContext (he_clock env) (he_draw env attempt) (he_trace env))"

text \<open>A request of the call, with the attempt it was sent in.\<close>

definition request_of :: "http_env \<Rightarrow> http_client \<Rightarrow> http_request \<Rightarrow> nat \<Rightarrow> wire_request \<Rightarrow> bool" where
  "request_of env c req k w \<longleftrightarrow> wr_Method w = rq_Method req \<and> wr_URL w = buildURL c req
     \<and> wr_Headers w = requestHeaders c (sent_trace env c k) req"

lemma doSingle_request:
  "doSingleRequest env c req k = (r, ws) \<Longrightarrow> w \<in> set ws \<Longrightarrow> request_of env c req k w"
  by (auto simp: doSingleRequest_def request_of_def sent_trace_def Let_def split: option.split_asm sum.split_asm)

lemma doSingle_response:
  "doSingleRequest env c req k = (Inr resp, ws) \<Longrightarrow>
     \<exists>w. ws = [w] \<and> he_transport env k w = Inr (rs_StatusCode resp, Inr (rs_Body resp), rs_Headers resp)"
  by (auto simp: doSingleRequest_def Let_def split: option.split_asm sum.split_asm)

definition call_ok :: "http_env \<Rightarrow> http_client \<Rightarrow> http_request \<Rightarrow> loop_end \<times> http_event list \<Rightarrow> bool" where
  "call_ok env c req = (\<lambda>(e, evs). (\<forall>w\<in>set (sent_of evs). \<exists>k. request_of env c req k w)
     \<and> (\<forall>resp b. e = Returned resp b \<longrightarrow> (\<exists>k w. w \<in> set (sent_of evs) \<and> request_of env c req k w
          \<and> he_transport env k w = Inr (rs_StatusCode resp, Inr (rs_Body resp), rs_Headers resp))))"

lemma call_ok_later:
  "call_ok env c req x \<Longrightarrow> \<forall>w\<in>set (sent_of pre). \<exists>k. request_of env c req k w \<Longrightarrow>
     call_ok env c req (case x of (e, evs) \<Rightarrow> (e, pre @ evs))"
  by (cases x) (fastforce simp: call_ok_def)

lemma http_loop_calls: "call_ok env c req (http_loop env c req attempt wait lastErr k)"
proof (induction k arbitrary: attempt wait lastErr)
  case 0
  then show ?case by (simp add: call_ok_def)
next
  case (Suc k)
  let ?wait' = "if attempt > 0 then nextWait (hl_retryConfig c) wait else wait"
  let ?retry = "if attempt > 0 then [RetryAttempt (if lastErr \<noteq> None then ''network_error'' else ''server_error'')] else []"
  let ?pre = "\<lambda>ws. ?retry @ (if attempt > 0 then [Waited wait] else []) @ map Sent ws"
  obtain r ws where s: "doSingleRequest env c req attempt = (r, ws)" by fastforce
  have ws: "\<forall>w\<in>set ws. \<exists>k. request_of env c req k w" using doSingle_request [OF s] by blast
  have later: "call_ok env c req (case http_loop env c req (Suc attempt) ?wait' m k of (e, evs) \<Rightarrow> (e, ?pre ws @ evs))" for m
    by (rule call_ok_later [OF Suc.IH]) (use ws in simp)
  have later': "call_ok env c req (case http_loop env c req (Suc attempt) ?wait' m k of
      (e, evs) \<Rightarrow> (e, (?pre ws @ [RequestMetric x n]) @ evs))" for m x n
    by (rule call_ok_later [OF Suc.IH]) (use ws in simp)
  show ?case
  proof (cases "if attempt > 0 then he_cancel env attempt else None")
    case (Some err)
    then show ?thesis unfolding http_loop.simps Let_def by (simp add: call_ok_def)
  next
    case None
    show ?thesis
    proof (cases r)
      case (Inl err)
      show ?thesis using later [of "Some err"] unfolding http_loop.simps Let_def None s Inl by simp
    next
      case (Inr resp)
      from doSingle_response [OF s [unfolded Inr]] obtain w where
        w: "ws = [w]" "he_transport env attempt w = Inr (rs_StatusCode resp, Inr (rs_Body resp), rs_Headers resp)" by blast
      have stop: "call_ok env c req (Returned resp b, ?pre ws @ [RequestMetric x n])" for b x n
        using doSingle_request [OF s] w by (auto simp: call_ok_def)
      consider "IsSuccess resp \<or> 400 \<le> rs_StatusCode resp \<and> rs_StatusCode resp < 500"
        | "\<not> IsSuccess resp" "rs_StatusCode resp \<ge> 500" | "\<not> IsSuccess resp" "rs_StatusCode resp < 400" by linarith
      then show ?thesis
      proof cases
        case 1
        then show ?thesis using stop unfolding http_loop.simps Let_def None s Inr by (auto simp: IsSuccess_def)
      next
        case 2
        then show ?thesis using later' [where m = "Some (''server error: '' @ itoa (rs_StatusCode resp))" and x = "rq_Method req"
              and n = "rs_StatusCode resp"]
          unfolding http_loop.simps Let_def None s Inr by simp
      next
        case 3
        then show ?thesis using stop unfolding http_loop.simps Let_def None s Inr by simp
      qed
    qed
  qed
qed

lemma request_of_breaker [simp]: "request_of env (c\<lparr>hl_circuitBreaker := cb\<rparr>) req k w \<longleftrightarrow> request_of env c req k w"
  by (simp add: request_of_def buildURL_def requestHeaders_def authHeader_def sent_trace_def)

text \<open>Every request of a call is one of its attempts, and its response was the answer to one of them.\<close>

lemma http_Do_calls:
  assumes "http_Do start finish env req c = (r, c', evs)"
  shows "(\<forall>w\<in>set (sent_of evs). \<exists>k. request_of env c req k w)
    \<and> (\<forall>resp. r = Inr resp \<longrightarrow> (\<exists>k w. w \<in> set (sent_of evs) \<and> request_of env c req k w
         \<and> he_transport env k w = Inr (rs_StatusCode resp, Inr (rs_Body resp), rs_Headers resp)))"
proof -
  obtain b cb where cb: "CanExecute start (hl_circuitBreaker c) = (b, cb)" by fastforce
  let ?c = "c\<lparr>hl_circuitBreaker := cb\<rparr>"
  obtain e es where l: "http_loop env ?c req 0 (rt_InitialWait (hl_retryConfig c)) None
      (nat (rt_MaxRetries (hl_retryConfig c) + 1)) = (e, es)" by fastforce
  have ok: "call_ok env ?c req (e, es)" unfolding l [symmetric] by (rule http_loop_calls)
  show ?thesis
  proof (cases b)
    case False
    then show ?thesis using assms cb by (auto simp: http_Do_def)
  next
    case True
    then show ?thesis using assms ok
      by (auto simp: http_Do_def cb l call_ok_def Let_def split: loop_end.split_asm bool.split_asm; blast)
  qed
qed

section \<open>The called service\<close>

text \<open>What \<^verbatim>\<open>net/http\<close> makes of a request that arrives: \<open>parse\<close> gives the path and the query of its URL.\<close>

definition arrives :: "(string \<Rightarrow> string \<times> (string \<Rightarrow> string)) \<Rightarrow> string \<Rightarrow> wire_request \<Rightarrow> web_request" where
  "arrives parse peer w = \<lparr>wq_Method = wr_Method w, wq_Path = fst (parse (wr_URL w)), wq_Headers = wr_Headers w,
     wq_Query = snd (parse (wr_URL w)), wq_RemoteAddr = peer, wq_Context = Background\<rparr>"

text \<open>What the caller's transport sees of an answer; a handler that does not return breaks the connection.\<close>

definition answer :: "(json_body \<Rightarrow> string) \<Rightarrow> served outcome \<Rightarrow> (string, int \<times> (string, string) result \<times> headers) result" where
  "answer enc x = (case x of
     Ret sv \<Rightarrow> Inr (wp_Status (se_response sv), Inr (enc (wp_Body (se_response sv))), wp_Headers (se_response sv))
   | _ \<Rightarrow> Inl ''EOF'')"

text \<open>A context that continues the trace of a caller.\<close>

definition continues :: "trace_context \<Rightarrow> string list \<Rightarrow> trace_context \<Rightarrow> bool" where
  "continues t0 names t \<longleftrightarrow> tc_TraceID t = tc_TraceID t0 \<and> tc_RequestID t = tc_RequestID t0
     \<and> tc_CorrelationID t = tc_CorrelationID t0 \<and> tc_UserID t = tc_UserID t0
     \<and> tc_ServiceChain t = tc_ServiceChain t0 @ names"

lemma received_continues:
  "he_trace env = Some t0 \<Longrightarrow> continues t0 [hl_serviceName c] (received_trace (sent_trace env c k))"
  by (simp add: continues_def received_trace_def sent_trace_def AddToServiceChain_def NewTraceContext_def)

lemma continues_trans: "continues t0 xs t \<Longrightarrow> continues t ys u \<Longrightarrow> continues t0 (xs @ ys) u"
  by (simp add: continues_def)

text \<open>A context that names the caller.\<close>

definition knows_caller :: "trace_context \<Rightarrow> string \<Rightarrow> service_key \<Rightarrow> go_context \<Rightarrow> bool" where
  "knows_caller t0 name info cx \<longleftrightarrow> ServiceIdentity cx = Some info \<and> (\<exists>t. cx_trace cx = Some t \<and> continues t0 [name] t)"

text \<open>A request of a call, at the handler behind tracing and service keys.\<close>

lemma served_call:
  assumes "request_of env c req k w" and "he_trace env = Some t0" and "tc_TraceID t0 \<noteq> []"
    and "\<forall>s\<in>set (tc_ServiceChain t0 @ [hl_serviceName c]). chain_name s" and "own_headers_free c req"
    and "hl_authToken c \<noteq> []" and "hasPrefix (hl_authToken c) (hl_apiKeyPrefix c)"
    and "validate (hl_authToken c) = Inr (Some info)"
    and "mux_route profiling (rq_Method req) (fst (parse (buildURL c req))) = ToRoutes"
  shows "\<exists>cx sv. knows_caller t0 (hl_serviceName c) info cx
    \<and> app_Handler s profiling a (serve (ServiceAuthRequired validate) h) (arrives parse peer w) = Ret sv
    \<and> wp_Status (se_response sv) = wp_Status (h (WithContext cx (arrives parse peer w)))
    \<and> wp_Body (se_response sv) = wp_Body (h (WithContext cx (arrives parse peer w)))"
proof -
  let ?t = "received_trace (sent_trace env c k)" and ?r = "arrives parse peer w"
  have hs: "wq_Headers ?r = requestHeaders c (sent_trace env c k) req" "wq_Method ?r = rq_Method req"
    "wq_Path ?r = fst (parse (buildURL c req))" "wq_Context ?r = Background"
    using assms(1) by (simp_all add: arrives_def request_of_def)
  have con: "continues t0 [hl_serviceName c] ?t" by (rule received_continues [OF assms(2)])
  have "tc_ServiceChain (sent_trace env c k) = tc_ServiceChain t0 @ [hl_serviceName c]"
    by (simp add: sent_trace_def AddToServiceChain_def NewTraceContext_def assms(2))
  then have t: "TraceContextFromHeaders n d (wq_Headers ?r) = ?t" for n d
    unfolding hs using request_trace [OF assms(5)] assms(4) by simp
  have ne: "tc_TraceID ?t \<noteq> []" using con assms(3) by (simp add: continues_def)
  obtain hs1 where tr: "Tracing (sv_now s) (sv_draw s) ?r = Next (WithContext (ContextWithTrace ?t Background) ?r) hs1"
    using ne unfolding Tracing_def t hs(4) Let_def by simp
  have key: "ServiceKeyFromRequest (WithContext cx ?r) = hl_authToken c" for cx
    using request_key [OF assms(5,6,7)] assms(6) by (simp add: ServiceKeyFromRequest_def WithContext_def hs)
  let ?cx = "WithServiceIdentity (Some info) (ContextWithTrace ?t Background)"
  have auth: "ServiceAuthRequired validate (WithContext (ContextWithTrace ?t Background) ?r) = Next (WithContext ?cx ?r) []"
    using assms(6,8) by (simp add: ServiceAuthRequired_def admit_service_def key) (simp add: WithContext_def)
  from app_Handler_dispatch [of profiling ?r s a "serve (ServiceAuthRequired validate) h"] obtain sv where
    sv: "app_Handler s profiling a (serve (ServiceAuthRequired validate) h) ?r = Ret sv"
      "se_response sv = serve (Tracing (sv_now s) (sv_draw s)) (serve (ServiceAuthRequired validate) h) ?r"
    unfolding hs assms(9) by auto
  have "wp_Status (se_response sv) = wp_Status (h (WithContext ?cx ?r)) \<and> wp_Body (se_response sv) = wp_Body (h (WithContext ?cx ?r))"
    unfolding sv(2) serve_def tr by (simp add: Let_def auth)
  moreover have "knows_caller t0 (hl_serviceName c) info ?cx"
    using con by (simp add: knows_caller_def WithServiceIdentity_def ServiceIdentity_def ContextWithTrace_def)
  ultimately show ?thesis using sv(1) by blast
qed

section \<open>Calls of calls\<close>

text \<open>
  A service that calls another while it serves a request: its environment carries the trace of that request, and the
  service it calls reads the trace that arrives, or starts one.
\<close>

definition called_trace :: "http_env \<times> http_client \<times> http_request \<times> nat \<Rightarrow> trace_context \<Rightarrow> trace_context" where
  "called_trace = (\<lambda>(env, c, req, k) t.
     let r = arrives (\<lambda>u. (u, \<lambda>_. [])) [] \<lparr>wr_Method = rq_Method req, wr_URL = buildURL c req, wr_Body = None,
         wr_Headers = requestHeaders c (sent_trace (env\<lparr>he_trace := Some t\<rparr>) c k) req\<rparr>
     in case Tracing (he_clock env) (he_draw env k) r of
          Next r' hs \<Rightarrow> (case cx_trace (wq_Context r') of Some t' \<Rightarrow> t' | None \<Rightarrow> t)
        | Reply resp \<Rightarrow> t)"

lemma called_trace_continues:
  assumes "tc_TraceID t \<noteq> []" and "\<forall>s\<in>set (tc_ServiceChain t @ [hl_serviceName c]). chain_name s"
    and "own_headers_free c req"
  shows "continues t [hl_serviceName c] (called_trace (env, c, req, k) t)"
proof -
  let ?env = "env\<lparr>he_trace := Some t\<rparr>"
  have "tc_ServiceChain (sent_trace ?env c k) = tc_ServiceChain t @ [hl_serviceName c]"
    by (simp add: sent_trace_def AddToServiceChain_def NewTraceContext_def)
  then have r: "TraceContextFromHeaders n d (requestHeaders c (sent_trace ?env c k) req) = received_trace (sent_trace ?env c k)" for n d
    using request_trace [OF assms(3)] assms(2) by simp
  have con: "continues t [hl_serviceName c] (received_trace (sent_trace ?env c k))" by (rule received_continues) simp
  then have "tc_TraceID (received_trace (sent_trace ?env c k)) \<noteq> []" using assms(1) by (simp add: continues_def)
  then show ?thesis using con
    by (simp add: called_trace_def arrives_def Tracing_def r Let_def WithContext_def ContextWithTrace_def)
qed

text \<open>C37: However long a chain of services calling each other is, whatever each draws and whenever it sends, the last one
  works under the trace, request, correlation and user identifiers of the first caller, and its service chain names
  all of them in order.\<close>

theorem trace_follows_calls:
  assumes "tc_TraceID t \<noteq> []" and "\<forall>s\<in>set (tc_ServiceChain t). chain_name s"
    and "\<forall>(env, c, req, k)\<in>set calls. chain_name (hl_serviceName c) \<and> own_headers_free c req"
  shows "continues t (map (hl_serviceName \<circ> fst \<circ> snd) calls) (fold called_trace calls t)"
  using assms
proof (induction calls arbitrary: t)
  case Nil
  then show ?case by (simp add: continues_def)
next
  case (Cons x calls)
  obtain env c req k where x: "x = (env, c, req, k)" by (cases x) auto
  have con: "continues t [hl_serviceName c] (called_trace x t)"
    unfolding x using Cons.prems x by (intro called_trace_continues) auto
  have "continues (called_trace x t) (map (hl_serviceName \<circ> fst \<circ> snd) calls) (fold called_trace calls (called_trace x t))"
    using Cons.prems con x by (intro Cons.IH) (auto simp: continues_def)
  from continues_trans [OF con this] show ?case by (simp add: x comp_def)
qed

theorem trace_follows_calls_witness:
  "tc_ServiceChain (fold called_trace [(http_demo_env 200, http_demo_client, http_demo_req, 0),
     (http_demo_env 200, http_demo_client\<lparr>hl_serviceName := ''billing''\<rparr>, http_demo_req, 1)] http_demo_trace)
   = [''gateway'', ''orders'', hl_serviceName http_demo_client, ''billing'']"
proof -
  let ?calls = "[(http_demo_env 200, http_demo_client, http_demo_req, 0 :: nat),
     (http_demo_env 200, http_demo_client\<lparr>hl_serviceName := ''billing''\<rparr>, http_demo_req, 1)]"
  have n: "chain_name (hl_serviceName http_demo_client)" "chain_name ''billing''"
    "\<forall>s\<in>set (tc_ServiceChain http_demo_trace). chain_name s" by code_simp+
  have f: "own_headers_free http_demo_client http_demo_req"
    "own_headers_free (http_demo_client\<lparr>hl_serviceName := ''billing''\<rparr>) http_demo_req"
    by (simp_all add: own_headers_free_def http_demo_client_def http_demo_req_def)
  have "tc_TraceID http_demo_trace \<noteq> []" by (simp add: http_demo_trace_def)
  from trace_follows_calls [OF this n(3), of ?calls] n(1,2) f
  have "continues http_demo_trace (map (hl_serviceName \<circ> fst \<circ> snd) ?calls) (fold called_trace ?calls http_demo_trace)"
    by simp
  then show ?thesis by (simp add: continues_def http_demo_trace_def)
qed

section \<open>An example\<close>

text \<open>A service that answers with the chain of callers it sees.\<close>

definition demo_routes :: web_handler where
  "demo_routes r = WriteJSON 200 (RawBody (case cx_trace (wq_Context r) of
     Some t \<Rightarrow> strJoin (tc_ServiceChain t) '' '' | None \<Rightarrow> []))"

definition demo_validate :: key_validator where
  "demo_validate k = (if k = ''sk_orders'' then Inr (Some \<lparr>sk_ServiceName = ''orders'', sk_Scopes = [], sk_ExpiresAt = None\<rparr>)
     else Inl ''unknown key'')"

definition demo_caller :: http_client where
  "demo_caller = http_demo_client\<lparr>hl_serviceName := ''orders'', hl_authToken := ''sk_orders'', hl_apiKeyPrefix := ''sk_''\<rparr>"

definition demo_parse :: "string \<Rightarrow> string \<times> (string \<Rightarrow> string)" where
  "demo_parse url = (''/u/1'', \<lambda>_. [])"

definition demo_call_env :: "unit app \<Rightarrow> http_env" where
  "demo_call_env a = (http_demo_env 200)\<lparr>he_trace := Some (http_demo_trace\<lparr>tc_ServiceChain := [''gateway'']\<rparr>),
     he_transport := \<lambda>k w. answer (\<lambda>b. case b of RawBody t \<Rightarrow> t | _ \<Rightarrow> [])
       (app_Handler demo_serving False a (serve (ServiceAuthRequired demo_validate) demo_routes) (arrives demo_parse ''10.0.0.7:1'' w))\<rparr>"

lemma demo_call_env_fields:
  "he_transport (demo_call_env a) k w = answer (\<lambda>b. case b of RawBody t \<Rightarrow> t | _ \<Rightarrow> [])
     (app_Handler demo_serving False a (serve (ServiceAuthRequired demo_validate) demo_routes) (arrives demo_parse ''10.0.0.7:1'' w))"
  "he_newRequest (demo_call_env a) m u = None"
  "he_trace (demo_call_env a) = Some (http_demo_trace\<lparr>tc_ServiceChain := [''gateway'']\<rparr>)"
  by (simp_all add: demo_call_env_def http_demo_env_def)

lemma demo_call_ready:
  "\<forall>s\<in>set ([''gateway''] @ [hl_serviceName demo_caller]). chain_name s" "own_headers_free demo_caller http_demo_req"
  "hl_authToken demo_caller \<noteq> []" "hasPrefix (hl_authToken demo_caller) (hl_apiKeyPrefix demo_caller)"
  "demo_validate (hl_authToken demo_caller) = Inr (Some \<lparr>sk_ServiceName = ''orders'', sk_Scopes = [], sk_ExpiresAt = None\<rparr>)"
  "mux_route False (rq_Method http_demo_req) (fst (demo_parse (buildURL demo_caller http_demo_req))) = ToRoutes"
proof -
  have "chain_name ''gateway''" "chain_name ''orders''" "cleanPath ''/u/1'' = ''/u/1''" by code_simp+
  then show "\<forall>s\<in>set ([''gateway''] @ [hl_serviceName demo_caller]). chain_name s"
    "mux_route False (rq_Method http_demo_req) (fst (demo_parse (buildURL demo_caller http_demo_req))) = ToRoutes"
    by (simp_all add: demo_caller_def demo_parse_def mux_route_def http_demo_req_def MetricsPath_def)
qed (simp_all add: own_headers_free_def demo_caller_def http_demo_client_def http_demo_req_def demo_validate_def)

end
