(* ===== verification/Spec2Isabelle.thy ===== *)
theory Spec2Isabelle
  imports Env_Reader Pg_Theorems Amqp_Theorems Event_Theorems Redis_Theorems Http_Theorems Secrets_Theorems
    Rate_Theorems Web_Theorems Audit_Client Service_Theorems Serving_Theorems Cluster_Shutdown Amqp_Delivery Event_Broadcast Metrics_Theorems
    Gin_Theorems Service_Lifecycle Testkit_Core Testkit_Events Testkit_Containers
    Http_Concurrent Secrets_Concurrent Rate_Concurrent Service_Events Service_Calls
begin

text \<open>
  svckit, a Go toolkit for services: clients of clustered Postgres, RabbitMQ and Redis, signed events, an HTTP
  client, secret stores, HTTP middleware, auditing, health reports, logging, and the runtime that wires them.
  This development models the toolkit's own logic. Databases, brokers, servers, clocks, random numbers, hash
  functions and third-party libraries are arguments of the definitions that use them.

  \<^bold>\<open>Shared.\<close> \<^verbatim>\<open>Go_Prelude\<close>: results of Go functions (\<open>outcome\<close>: a value, a panic, or waiting for a mutex for ever),
  errors as sums, 64-bit integers, time, positions in lists. \<^verbatim>\<open>Go_Strings\<close>, \<^verbatim>\<open>Go_Std\<close>: what the code uses of
  \<^verbatim>\<open>strings\<close>, \<^verbatim>\<open>strconv\<close>, \<^verbatim>\<open>os\<close> and \<^verbatim>\<open>time\<close>. \<^verbatim>\<open>Contracts\<close>: the counter step of the balancers, the two pool and
  breaker interfaces as locales, each interpreted on the components that implement it. \<^verbatim>\<open>Step_Systems\<close>: three locales
  over a step relation, each interpreted on the relations of the components: what every step keeps (\<open>preserved\<close>), what
  no step changes (\<open>frozen\<close>), and work that every step lessens, so that there is no endless run (\<open>draining\<close>).

  \<^bold>\<open>Configuration.\<close> \<^verbatim>\<open>Env_Reader\<close> (\<^verbatim>\<open>env/env.go\<close>), \<^verbatim>\<open>Pg_Config\<close>, \<^verbatim>\<open>Amqp_Config\<close>, \<^verbatim>\<open>Redis_Config\<close> (the \<^verbatim>\<open>config.go\<close> of the
  three clusters): reading, defaulting, validating and masking.

  \<^bold>\<open>Clusters.\<close> \<^verbatim>\<open>Pg_Cluster\<close> (\<^verbatim>\<open>pgcluster/manager.go\<close>), \<^verbatim>\<open>Pg_Monitor\<close> (\<^verbatim>\<open>health.go\<close>, \<^verbatim>\<open>writer_detection.go\<close>, and the manager
  as a step relation), \<^verbatim>\<open>Pg_Theorems\<close>; \<^verbatim>\<open>Amqp_Cluster\<close> (\<^verbatim>\<open>amqpcluster/adapter.go\<close>), \<^verbatim>\<open>Amqp_Events\<close> (\<^verbatim>\<open>publisher.go\<close>,
  \<^verbatim>\<open>subscriber.go\<close>, the retry loop of \<^verbatim>\<open>tomb.go\<close>), \<^verbatim>\<open>Amqp_Theorems\<close>; \<^verbatim>\<open>Redis_Cluster\<close> (\<^verbatim>\<open>rediscluster/adapter.go\<close>, \<^verbatim>\<open>health.go\<close>),
  \<^verbatim>\<open>Redis_Client\<close> (\<^verbatim>\<open>client.go\<close>), \<^verbatim>\<open>Redis_Theorems\<close>. Nodes are records in a list, each connection a number; a step is
  an operation of a caller or of a background goroutine. The lemmas give well-formedness of reachable states, which
  node an operation takes, how often it is sent, how state moves after failures, and where goroutines block.
  \<^verbatim>\<open>Cluster_Tasks\<close> (the three \<^verbatim>\<open>tomb.go\<close>, health monitoring) runs the background tasks as a step relation; \<^verbatim>\<open>Cluster_Shutdown\<close>
  shows when a shutdown returns and what a node locked for ever blocks, once for the three clusters (\<open>guarded_nodes\<close>).

  \<^bold>\<open>Events.\<close> \<^verbatim>\<open>Json_Canonical\<close>, \<^verbatim>\<open>Event_Signing\<close> (\<^verbatim>\<open>eventbus/events.go\<close>, \<^verbatim>\<open>signing.go\<close>), \<^verbatim>\<open>Event_Bus\<close> (\<^verbatim>\<open>publisher.go\<close>,
  \<^verbatim>\<open>dispatcher.go\<close>), \<^verbatim>\<open>Event_Broadcast\<close> (\<^verbatim>\<open>broadcast.go\<close>), \<^verbatim>\<open>Event_Theorems\<close>: signing and verifying agree, what a signature
  covers, and that each delivery is settled once. \<^verbatim>\<open>Amqp_Delivery\<close> is what runs behind a cluster subscription, goroutines
  and a channel of a hundred: it keeps the order of a node, refines handling its deliveries one after the other, and left to run comes to rest with
  every delivery handled.
  \<^verbatim>\<open>Service_Events\<close> shows which key the runtime gives publishers and subscribers; with it the first property below
  follows an event from one service to the handler of another.

  \<^bold>\<open>HTTP client and secrets.\<close> \<^verbatim>\<open>Http_Trace\<close> (\<^verbatim>\<open>buildinfo\<close>, trace contexts), \<^verbatim>\<open>Http_Client\<close> (\<^verbatim>\<open>httpclient/client.go\<close>: breaker,
  retries, one request), \<^verbatim>\<open>Http_Theorems\<close>; \<^verbatim>\<open>Secrets_Store\<close> (environment store, chain), \<^verbatim>\<open>Secrets_Cache\<close> (\<^verbatim>\<open>cached.go\<close>,
  \<^verbatim>\<open>retry.go\<close>), \<^verbatim>\<open>Secrets_Remote\<close> (Vault, Kubernetes, the factory, \<^verbatim>\<open>eventbus/signing_key.go\<close>), \<^verbatim>\<open>Secrets_Theorems\<close>: the
  cache refines its backend, values written are read back, retrying ends. \<^verbatim>\<open>Service_Calls\<close> sends the requests of a call to
  the handler of another service: the second property below, and the trace along a chain of calls.

  \<^bold>\<open>Shared use.\<close> \<^verbatim>\<open>Http_Concurrent\<close>, \<^verbatim>\<open>Secrets_Concurrent\<close> and \<^verbatim>\<open>Rate_Concurrent\<close> interleave the callers of one breaker, one
  cache and one rate limit; a step is a locked section, a call of a backend or a Redis command. They show what holds in
  every interleaving (well-formedness, how old a cached value can be, how far a limit is exceeded) and which
  interleavings break what a single caller is promised.

  \<^bold>\<open>Metrics.\<close> \<^verbatim>\<open>Metric_Series\<close> describes what is handed to the Prometheus library, \<^verbatim>\<open>Event_Metrics\<close> and \<^verbatim>\<open>Service_Metrics\<close> the
  series of \<^verbatim>\<open>eventbus/metrics.go\<close>, the HTTP client, the rate limiter and the server with what each run records,
  \<^verbatim>\<open>Metrics_Theorems\<close> that the library gets no reason to panic and what the figures say.

  \<^bold>\<open>HTTP server.\<close> \<^verbatim>\<open>Web_Request\<close> (\<^verbatim>\<open>middleware/context.go\<close>, \<^verbatim>\<open>cors.go\<close>, \<^verbatim>\<open>tracing.go\<close>, \<^verbatim>\<open>httpx\<close>), \<^verbatim>\<open>Web_Auth\<close>
  (\<^verbatim>\<open>serviceauth.go\<close>, \<^verbatim>\<open>auth\<close>), \<^verbatim>\<open>Rate_Limit\<close> (\<^verbatim>\<open>rate_limiting.go\<close> over the Redis client), with \<^verbatim>\<open>Web_Theorems\<close> and
  \<^verbatim>\<open>Rate_Theorems\<close>: who passes the gates, and how many requests a window admits. A middleware is a function from a
  request to a reply or the request passed on. \<^verbatim>\<open>Gin_Adapter\<close> (\<^verbatim>\<open>ginx\<close>, \<^verbatim>\<open>chix\<close>) and \<^verbatim>\<open>Gin_Theorems\<close>: the Gin forms answer as
  the \<^verbatim>\<open>net/http\<close> forms they adapt.

  \<^bold>\<open>Runtime.\<close> \<^verbatim>\<open>Audit_Client\<close> (\<^verbatim>\<open>audit/client.go\<close>), \<^verbatim>\<open>Service_Health\<close> (\<^verbatim>\<open>middleware/health.go\<close>, \<^verbatim>\<open>health/health.go\<close>),
  \<^verbatim>\<open>Service_Logging\<close> (\<^verbatim>\<open>logging\<close>, \<^verbatim>\<open>debug\<close>, \<^verbatim>\<open>middleware/logging.go\<close>, \<^verbatim>\<open>metrics.go\<close>, \<^verbatim>\<open>recorder.go\<close>), \<^verbatim>\<open>Service_App\<close>
  (\<^verbatim>\<open>app/app.go\<close>), \<^verbatim>\<open>Service_Lifecycle\<close> (the tasks of \<^verbatim>\<open>lifecycle/manager.go\<close>, profiling routes, small constructors);
  the app composes the configuration, cluster, signing, health and middleware models as the code does. \<^verbatim>\<open>Service_Theorems\<close> and \<^verbatim>\<open>Serving_Theorems\<close>: what starting and closing release, when a service
  is ready, what its report says, which requests its routes see, and what its logs can be made to say.

  \<^bold>\<open>Test kit.\<close> \<^verbatim>\<open>Testkit_Core\<close> (\<^verbatim>\<open>testkit\<close>: assertions, waiting for a condition, mocks), \<^verbatim>\<open>Testkit_Events\<close> (\<^verbatim>\<open>testkit/eventtest\<close>),
  \<^verbatim>\<open>Testkit_Containers\<close> (\<^verbatim>\<open>testkit/containers\<close>): what an assertion accepts, what fixtures release.

  \<^bold>\<open>Bounds and fuel.\<close> Three loops take fuel. \<^verbatim>\<open>subscriber_calls\<close> makes at most one call per iteration and stops at
  the first error. \<^verbatim>\<open>retrying_Get\<close> and \<^verbatim>\<open>redis_WaitForHealthy\<close> answer \<open>None\<close> when the fuel runs out; the theorems
  show that more fuel than the number of rounds before the context ends gives an answer, which is then the same for
  every larger fuel. Counters are wrapped at 64 bits. Strings are byte strings, with ASCII case. The concurrent
  properties are parametric: in the number of nodes, the largest delay between reading a backend and storing what
  it gave, and the number of checks of a client under way.

  \<^bold>\<open>Not modelled.\<close> The Prometheus registry, the JSON handler and the lock of \<^verbatim>\<open>slog\<close>, the profiling handlers of Go, and the
  insides of Gin, chi, testify, testcontainers, tomb, the drivers and the broker: arguments, or conditions on what is
  handed to them. The writers behind \<^verbatim>\<open>Flush\<close> and \<^verbatim>\<open>Hijack\<close>, and log lines of the clusters, which change no state.
  Data races inside an operation of a component that takes no lock: outside the theories of shared use, the delivery
  pipeline and the task managers, an operation is one step.
\<close>

section \<open>Properties that span components\<close>



text \<open>C2: A call from one service to another. The client has a service key and works under the trace of the request it
  is serving; the service it calls is the runtime's handler with routes behind \<^verbatim>\<open>ServiceAuthRequired\<close>, whose validator
  accepts the key; the network, where it delivers, delivers unchanged. Then every request the call sends, retries
  included, is answered by the routes, which see the calling service's identity and its trace, with the caller added
  to the service chain; and a response the call returns is such an answer.\<close>

theorem services_call_each_other:
  assumes "http_Do start finish env req c = (r, c', evs)"
    and "he_trace env = Some t0" and "tc_TraceID t0 \<noteq> []"
    and "\<forall>s\<in>set (tc_ServiceChain t0 @ [hl_serviceName c]). chain_name s" and "own_headers_free c req"
    and "hl_authToken c \<noteq> []" and "hasPrefix (hl_authToken c) (hl_apiKeyPrefix c)"
    and "validate (hl_authToken c) = Inr (Some info)"
    and "mux_route profiling (rq_Method req) (fst (parse (buildURL c req))) = ToRoutes"
    and "\<forall>k w. (\<exists>err. he_transport env k w = Inl err) \<or> he_transport env k w =
      answer enc (app_Handler (s k) profiling a (serve (ServiceAuthRequired validate) h) (arrives parse peer w))"
  shows "(\<forall>w\<in>set (sent_of evs). \<forall>k. \<exists>cx sv. knows_caller t0 (hl_serviceName c) info cx
       \<and> app_Handler (s k) profiling a (serve (ServiceAuthRequired validate) h) (arrives parse peer w) = Ret sv
       \<and> wp_Status (se_response sv) = wp_Status (h (WithContext cx (arrives parse peer w)))
       \<and> wp_Body (se_response sv) = wp_Body (h (WithContext cx (arrives parse peer w))))
    \<and> (\<forall>resp. r = Inr resp \<longrightarrow> (\<exists>w\<in>set (sent_of evs). \<exists>cx. knows_caller t0 (hl_serviceName c) info cx
         \<and> rs_StatusCode resp = wp_Status (h (WithContext cx (arrives parse peer w)))
         \<and> rs_Body resp = enc (wp_Body (h (WithContext cx (arrives parse peer w))))))"
proof -
  let ?app = "\<lambda>k w. app_Handler (s k) profiling a (serve (ServiceAuthRequired validate) h) (arrives parse peer w)"
  note calls = http_Do_calls [OF assms(1)]
  have served: "\<exists>cx sv. knows_caller t0 (hl_serviceName c) info cx \<and> ?app j w = Ret sv
      \<and> wp_Status (se_response sv) = wp_Status (h (WithContext cx (arrives parse peer w)))
      \<and> wp_Body (se_response sv) = wp_Body (h (WithContext cx (arrives parse peer w)))" if "request_of env c req k w" for j k w
    by (rule served_call [where validate = validate and parse = parse, OF that assms(2-9)])
  show ?thesis
  proof (intro conjI ballI allI impI)
    fix resp assume "r = Inr resp"
    then obtain k w where w: "w \<in> set (sent_of evs)" "request_of env c req k w"
      "he_transport env k w = Inr (rs_StatusCode resp, Inr (rs_Body resp), rs_Headers resp)"
      using calls by blast
    obtain cx sv where sv: "knows_caller t0 (hl_serviceName c) info cx" "?app k w = Ret sv"
      "wp_Status (se_response sv) = wp_Status (h (WithContext cx (arrives parse peer w)))"
      "wp_Body (se_response sv) = wp_Body (h (WithContext cx (arrives parse peer w)))"
      using served [OF w(2)] by blast
    have "he_transport env k w = answer enc (Ret sv)" using assms(10) w(3) sv(2) by (metis sum.distinct(1))
    then have "rs_StatusCode resp = wp_Status (se_response sv)" "rs_Body resp = enc (wp_Body (se_response sv))"
      using w(3) by (simp_all add: answer_def)
    then show "\<exists>w\<in>set (sent_of evs). \<exists>cx. knows_caller t0 (hl_serviceName c) info cx
         \<and> rs_StatusCode resp = wp_Status (h (WithContext cx (arrives parse peer w)))
         \<and> rs_Body resp = enc (wp_Body (h (WithContext cx (arrives parse peer w))))"
      using w(1) sv(1,3,4) by auto
  qed (use calls served in blast)
qed

theorem services_call_each_other_witness:
  "\<forall>a :: unit app. \<exists>resp c' evs. http_Do 0 1 (demo_call_env a) http_demo_req demo_caller = (Inr resp, c', evs)
     \<and> rs_StatusCode resp = 200 \<and> rs_Body resp = ''gateway orders''"
proof
  fix a :: "unit app"
  let ?env = "demo_call_env a"
  let ?w = "\<lparr>wr_Method = rq_Method http_demo_req, wr_URL = buildURL demo_caller http_demo_req, wr_Body = None,
      wr_Headers = requestHeaders demo_caller (sent_trace ?env demo_caller 0) http_demo_req\<rparr>"
  let ?t0 = "http_demo_trace\<lparr>tc_ServiceChain := [''gateway'']\<rparr>"
  note ready = demo_call_ready [unfolded append_Cons append_Nil]
  have env: "he_trace ?env = Some ?t0" "tc_TraceID ?t0 \<noteq> []" "\<forall>s\<in>set (tc_ServiceChain ?t0 @ [hl_serviceName demo_caller]). chain_name s"
    using ready(1) by (simp_all add: demo_call_env_fields http_demo_trace_def)
  have "request_of ?env demo_caller http_demo_req 0 ?w" by (simp add: request_of_def)
  from served_call [where validate = demo_validate and parse = demo_parse, OF this env ready(2-6), of demo_serving a demo_routes "''10.0.0.7:1''"] obtain sv where
    sv: "app_Handler demo_serving False a (serve (ServiceAuthRequired demo_validate) demo_routes) (arrives demo_parse ''10.0.0.7:1'' ?w) = Ret sv"
      "wp_Status (se_response sv) = 200"
    by (auto simp: demo_routes_def WriteJSON_def)
  have tr: "\<exists>b hs. he_transport ?env 0 ?w = Inr (200, Inr b, hs)"
    unfolding demo_call_env_fields(1) sv(1) by (simp add: answer_def sv(2))
  have body: "rq_Body http_demo_req = None" by (simp add: http_demo_req_def)
  have "\<exists>resp. doSingleRequest ?env demo_caller http_demo_req 0 = (Inr resp, [?w]) \<and> rs_StatusCode resp = 200"
    using tr by (auto simp: doSingleRequest_def sent_trace_def Let_def demo_call_env_fields(2) body)
  then obtain resp where d: "doSingleRequest ?env demo_caller http_demo_req 0 = (Inr resp, [?w])" "rs_StatusCode resp = 200" by blast
  have closed: "CanExecute 0 (hl_circuitBreaker demo_caller) = (True, hl_circuitBreaker demo_caller)"
    "rt_MaxRetries (hl_retryConfig demo_caller) = 1"
    by (simp_all add: CanExecute_def NewCircuitBreaker_def demo_caller_def http_demo_client_def)
  have "\<exists>c' evs. http_Do 0 1 ?env http_demo_req demo_caller = (Inr resp, c', evs)"
    using d by (simp add: http_Do_def closed numeral_2_eq_2 IsSuccess_def)
  then obtain c' evs where o: "http_Do 0 1 ?env http_demo_req demo_caller = (Inr resp, c', evs)" by blast
  let ?enc = "\<lambda>b. case b of RawBody t \<Rightarrow> t | _ \<Rightarrow> []"
  have "\<forall>k w. (\<exists>err. he_transport ?env k w = Inl err) \<or> he_transport ?env k w = answer ?enc
      (app_Handler demo_serving False a (serve (ServiceAuthRequired demo_validate) demo_routes) (arrives demo_parse ''10.0.0.7:1'' w))"
    by (simp add: demo_call_env_fields(1))
  from services_call_each_other [where validate = demo_validate and parse = demo_parse, OF o env ready(2-6) this] obtain w cx where
    "knows_caller ?t0 (hl_serviceName demo_caller) \<lparr>sk_ServiceName = ''orders'', sk_Scopes = [], sk_ExpiresAt = None\<rparr> cx"
    "rs_Body resp = ?enc (wp_Body (demo_routes (WithContext cx (arrives demo_parse ''10.0.0.7:1'' w))))"
    by auto
  then have "rs_Body resp = ''gateway orders''"
    by (auto simp: knows_caller_def continues_def demo_routes_def WriteJSON_def WithContext_def demo_caller_def)
  with o d(2) show "\<exists>resp c' evs. http_Do 0 1 ?env http_demo_req demo_caller = (Inr resp, c', evs)
     \<and> rs_StatusCode resp = 200 \<and> rs_Body resp = ''gateway orders''" by blast
qed

end
